(* ===== verification/Prelude.thy ===== *)
theory Prelude
  imports Complex_Main
begin

text \<open>
  Shared vocabulary of the cloudmosh development: the Python exceptions the modelled code
  can raise, results as a sum type, the sequencing of fallible steps, and the row-major
  enumeration of index pairs that every list comprehension over an image uses.
\<close>

named_theorems res_simps "evaluation rules for fallible (res-valued) operations"
named_theorems eval_simps "unfolding rules that evaluate the model on concrete inputs"

datatype py_error =
    IndexError
  | ValueError
  | TypeError
  | SyntaxError
  | IOError
  | FileNotFoundError
  | AttributeError

type_synonym 'a res = "py_error + 'a"

definition bind_res :: "'a res \<Rightarrow> ('a \<Rightarrow> 'b res) \<Rightarrow> 'b res" where
  "bind_res m f = (case m of Inl e \<Rightarrow> Inl e | Inr x \<Rightarrow> f x)"

fun map_res :: "('a \<Rightarrow> 'b res) \<Rightarrow> 'a list \<Rightarrow> 'b list res" where
  "map_res f [] = Inr []"
| "map_res f (x # xs) = bind_res (f x) (\<lambda>y. bind_res (map_res f xs) (\<lambda>ys. Inr (y # ys)))"

definition grid :: "nat \<Rightarrow> nat \<Rightarrow> (nat \<times> nat) list" where
  "grid w h = concat (map (\<lambda>r. map (\<lambda>c. (r, c)) [0..<h]) [0..<w])"

lemma bind_res_Inl [simp, res_simps]: "bind_res (Inl e) f = Inl e"
  by (simp add: bind_res_def)

lemma bind_res_Inr [simp, res_simps]: "bind_res (Inr x) f = f x"
  by (simp add: bind_res_def)

lemma bind_res_eq_Inr [simp]:
  "bind_res m f = Inr y \<longleftrightarrow> (\<exists>x. m = Inr x \<and> f x = Inr y)"
  by (cases m) simp_all

lemma bind_res_return [simp]: "bind_res m Inr = m"
  by (cases m) simp_all

lemma bind_res_assoc: "bind_res (bind_res m f) g = bind_res m (\<lambda>x. bind_res (f x) g)"
  by (cases m) simp_all

lemma map_res_map: "map_res f (map h xs) = map_res (\<lambda>x. f (h x)) xs"
  by (induction xs) simp_all

lemma map_res_bind_Inr:
  "map_res (\<lambda>x. bind_res (f x) (\<lambda>y. Inr (h y))) xs = bind_res (map_res f xs) (\<lambda>ys. Inr (map h ys))"
  by (induction xs) (simp_all add: bind_res_def split: sum.splits)

lemma map_res_Inr_eq:
  "(\<And>x. x \<in> set xs \<Longrightarrow> f x = Inr (g x)) \<Longrightarrow> map_res f xs = Inr (map g xs)"
  by (induction xs) simp_all

lemma map_res_Inr_length:
  "map_res f xs = Inr ys \<Longrightarrow> length ys = length xs"
  by (induction xs arbitrary: ys) auto

lemma map_res_Inr_nth:
  "map_res f xs = Inr ys \<Longrightarrow> i < length xs \<Longrightarrow> f (xs ! i) = Inr (ys ! i)"
proof (induction xs arbitrary: ys i)
  case Nil
  then show ?case by simp
next
  case (Cons x xs)
  then show ?case by (cases i) auto
qed

lemma map_res_Inl:
  "x \<in> set xs \<Longrightarrow> (\<And>x. f x = Inl e) \<Longrightarrow> map_res f xs = Inl e"
  by (induction xs) auto

lemma map_res_map_Inr:
  "(\<And>x. x \<in> set xs \<Longrightarrow> f (h x) = Inr (g x)) \<Longrightarrow> map_res f (map h xs) = Inr (map g xs)"
  by (induction xs) simp_all

lemma map_upt_nth: "map (\<lambda>k. f (xs ! k)) [0..<length xs] = map f xs"
  by (rule nth_equalityI) simp_all

lemma map2_left [simp]: "length xs = length ys \<Longrightarrow> map2 (\<lambda>x y. x) xs ys = xs"
  by (induction xs ys rule: list_induct2) simp_all

lemma map2_right [simp]: "length xs = length ys \<Longrightarrow> map2 (\<lambda>x y. y) xs ys = ys"
  by (induction xs ys rule: list_induct2) simp_all

lemma length_grid [simp]: "length (grid w h) = w * h"
  by (induction w) (simp_all add: grid_def)

lemma grid_Suc: "grid (Suc w) h = grid w h @ map (\<lambda>c. (w, c)) [0..<h]"
  by (simp add: grid_def)

lemma grid_nth: "k < w * h \<Longrightarrow> grid w h ! k = (k div h, k mod h)"
proof (induction w arbitrary: k)
  case 0
  then show ?case by simp
next
  case (Suc w)
  show ?case
  proof (cases "k < w * h")
    case True
    with Suc.IH show ?thesis by (simp add: grid_Suc nth_append)
  next
    case False
    with Suc.prems have "k - w * h < h" by simp
    moreover have kdiv: "k div h = w"
      using False Suc.prems by (intro div_nat_eqI) (simp_all add: mult.commute)
    moreover have "k mod h = k - w * h"
      using kdiv by (simp add: minus_div_mult_eq_mod [symmetric] mult.commute)
    ultimately show ?thesis using False by (simp add: grid_Suc nth_append)
  qed
qed

lemma row_major_bound: "r < w \<Longrightarrow> c < h \<Longrightarrow> r * h + c < w * (h::nat)"
proof -
  assume r: "r < w" and c: "c < h"
  have "r * h + c < r * h + h" using c by simp
  also have "\<dots> = Suc r * h" by simp
  also have "\<dots> \<le> w * h" using r by (intro mult_le_mono1) simp
  finally show ?thesis .
qed

lemma grid_nth_pair: "r < w \<Longrightarrow> c < h \<Longrightarrow> grid w h ! (r * h + c) = (r, c)"
  by (simp add: grid_nth row_major_bound)

lemma grid_eq_Nil_iff [simp]: "grid w h = [] \<longleftrightarrow> w * h = 0"
  by (metis length_0_conv length_grid)

lemma length4_cases: "length xs = 4 \<Longrightarrow> \<exists>a b c d. xs = [a, b, c, d]"
  by (auto simp: numeral_eq_Suc length_Suc_conv)

lemma set_grid [simp]: "set (grid w h) = {..<w} \<times> {..<h}"
  by (auto simp: grid_def)

lemma concat_blocks_nth:
  assumes "\<And>b. b < n \<Longrightarrow> length (f b) = L" and "b < n" and "k < L"
  shows "concat (map f [0..<n]) ! (b * L + k) = f b ! k"
  using assms
proof (induction n)
  case 0
  then show ?case by simp
next
  case (Suc n)
  have len: "length (concat (map f [0..<n])) = n * L"
    using Suc.prems(1) by (induction n) auto
  show ?case
  proof (cases "b < n")
    case True
    have "b * L + k < n * L" using True Suc.prems(3) by (rule row_major_bound)
    with True Suc show ?thesis by (simp add: nth_append len)
  next
    case False
    with Suc.prems have "b = n" by simp
    with Suc.prems len show ?thesis by (simp add: nth_append)
  qed
qed

end
