(* ===== verification/NDArray.thy ===== *)
theory NDArray
  imports Prelude
begin

text \<open>
  numpy arrays as the code uses them: a shape and the elements in row-major (C) order.
  Indexing, fancy column selection, broadcasting arithmetic and the construction of an
  array from a list of tuples are modelled with the errors numpy raises.
\<close>

record 'a ndarray =
  shape :: "nat list"
  elems :: "'a list"

definition nd_wf :: "'a ndarray \<Rightarrow> bool" where
  "nd_wf a \<longleftrightarrow> length (elems a) = prod_list (shape a)"

text \<open>\<open>a.shape[i]\<close>: indexing the shape tuple.\<close>

definition shape_at :: "nat list \<Rightarrow> nat \<Rightarrow> nat res" where
  "shape_at s i = (if i < length s then Inr (s ! i) else Inl IndexError)"

text \<open>\<open>a[i]\<close> for a non-negative integer \<open>i\<close>: a sub-array along the first axis.\<close>

definition nd_index :: "'a ndarray \<Rightarrow> nat \<Rightarrow> 'a ndarray res" where
  "nd_index a i =
     (case shape a of
        [] \<Rightarrow> Inl IndexError
      | n # rest \<Rightarrow>
          if i < n
          then Inr \<lparr>shape = rest,
                    elems = take (prod_list rest) (drop (i * prod_list rest) (elems a))\<rparr>
          else Inl IndexError)"

text \<open>
  The scalar of a 0-d array, as it lands in a tuple of a list comprehension; a sub-array of
  higher rank in that position makes \<open>np.array\<close> fail with a \<open>ValueError\<close>.
\<close>

definition nd_item :: "'a ndarray \<Rightarrow> 'a res" where
  "nd_item a = (case (shape a, elems a) of ([], x # _) \<Rightarrow> Inr x | _ \<Rightarrow> Inl ValueError)"

fun nd_at :: "'a ndarray \<Rightarrow> nat list \<Rightarrow> 'a res" where
  "nd_at a [] = nd_item a"
| "nd_at a (i # is) = bind_res (nd_index a i) (\<lambda>b. nd_at b is)"

fun flat_offset :: "nat list \<Rightarrow> nat list \<Rightarrow> nat" where
  "flat_offset (n # ns) (i # is) = i * prod_list ns + flat_offset ns is"
| "flat_offset _ _ = 0"

fun in_bounds :: "nat list \<Rightarrow> nat list \<Rightarrow> bool" where
  "in_bounds [] [] = True"
| "in_bounds (n # ns) (i # is) = (i < n \<and> in_bounds ns is)"
| "in_bounds _ _ = False"

text \<open>
  \<open>np.array([(x, y, z), ...])\<close>: an \<open>(N, 3)\<close> array; the empty list gives numpy's
  empty array of shape \<open>(0,)\<close>.
\<close>

definition row3 :: "'a \<times> 'a \<times> 'a \<Rightarrow> 'a list" where
  "row3 t = (case t of (x, y, z) \<Rightarrow> [x, y, z])"

definition nd_of_triples :: "('a \<times> 'a \<times> 'a) list \<Rightarrow> 'a ndarray" where
  "nd_of_triples ts =
     (if ts = [] then \<lparr>shape = [0], elems = []\<rparr>
      else \<lparr>shape = [length ts, 3], elems = concat (map row3 ts)\<rparr>)"

definition nd_map :: "('a \<Rightarrow> 'b) \<Rightarrow> 'a ndarray \<Rightarrow> 'b ndarray" where
  "nd_map f a = \<lparr>shape = shape a, elems = map f (elems a)\<rparr>"

text \<open>\<open>a.astype(int)\<close> on a float: truncation toward zero.\<close>

definition astype_int :: "real \<Rightarrow> int" where
  "astype_int x = (if 0 \<le> x then \<lfloor>x\<rfloor> else \<lceil>x\<rceil>)"

text \<open>
  Fancy indexing \<open>a[:, js]\<close> along the second axis, and \<open>np.hstack\<close> of two arrays
  (concatenation along the second axis, or the first for 1-d arrays).
\<close>

definition nd_take_cols :: "'a ndarray \<Rightarrow> nat list \<Rightarrow> 'a ndarray res" where
  "nd_take_cols a js =
     (case shape a of
        n # m # rest \<Rightarrow>
          if list_all (\<lambda>j. j < m) js
          then Inr \<lparr>shape = n # length js # rest,
                    elems = concat (map (\<lambda>r. concat (map (\<lambda>j.
                              take (prod_list rest) (drop ((r * m + j) * prod_list rest) (elems a))) js))
                            [0..<n])\<rparr>
          else Inl IndexError
      | _ \<Rightarrow> Inl IndexError)"

definition nd_hstack :: "'a ndarray \<Rightarrow> 'a ndarray \<Rightarrow> 'a ndarray res" where
  "nd_hstack a b =
     (case (shape a, shape b) of
        ([na], [nb]) \<Rightarrow> Inr \<lparr>shape = [na + nb], elems = elems a @ elems b\<rparr>
      | (na # ma # ra, nb # mb # rb) \<Rightarrow>
          if na = nb \<and> ra = rb
          then Inr \<lparr>shape = na # (ma + mb) # ra,
                    elems = concat (map (\<lambda>r.
                              take (ma * prod_list ra) (drop (r * (ma * prod_list ra)) (elems a)) @
                              take (mb * prod_list rb) (drop (r * (mb * prod_list rb)) (elems b)))
                            [0..<na])\<rparr>
          else Inl ValueError
      | _ \<Rightarrow> Inl ValueError)"

text \<open>
  \<open>a[:, j]\<close> (the column \<open>j\<close> of a 2-d or higher array) and the assignment
  \<open>a[:, j] = v\<close> of a 1-d value to a column of a 2-d array (a single value is broadcast).
\<close>

definition nd_column :: "'a ndarray \<Rightarrow> nat \<Rightarrow> 'a ndarray res" where
  "nd_column a j =
     (case shape a of
        n # m # rest \<Rightarrow>
          if j < m
          then Inr \<lparr>shape = n # rest,
                    elems = concat (map (\<lambda>r. take (prod_list rest) (drop ((r * m + j) * prod_list rest) (elems a)))
                              [0..<n])\<rparr>
          else Inl IndexError
      | _ \<Rightarrow> Inl IndexError)"

definition nd_set_column :: "'a ndarray \<Rightarrow> nat \<Rightarrow> 'a list \<Rightarrow> 'a ndarray res" where
  "nd_set_column a j vs =
     (case shape a of
        [n, m] \<Rightarrow>
          if j < m \<and> (length vs = n \<or> length vs = 1)
          then Inr (a\<lparr>elems := map (\<lambda>k. if k mod m = j then vs ! (if length vs = 1 then 0 else k div m)
                                        else elems a ! k) [0..<length (elems a)]\<rparr>)
          else if j < m then Inl ValueError else Inl IndexError
      | _ \<Rightarrow> Inl IndexError)"

text \<open>\<open>a.reshape(s)\<close>: the same row-major data under a new shape of the same size.\<close>

definition nd_reshape :: "'a ndarray \<Rightarrow> nat list \<Rightarrow> 'a ndarray res" where
  "nd_reshape a s = (if prod_list s = prod_list (shape a) then Inr (a\<lparr>shape := s\<rparr>) else Inl ValueError)"

subsection \<open>Broadcasting\<close>

text \<open>
  numpy's broadcasting rule on the shapes aligned at their last axis (here on the reversed
  shapes): two lengths agree if they are equal or one of them is 1.
\<close>

fun bcast_rev :: "nat list \<Rightarrow> nat list \<Rightarrow> nat list option" where
  "bcast_rev [] ys = Some ys"
| "bcast_rev xs [] = Some xs"
| "bcast_rev (x # xs) (y # ys) =
     (if x = y \<or> y = 1 then map_option (Cons x) (bcast_rev xs ys)
      else if x = 1 then map_option (Cons y) (bcast_rev xs ys)
      else None)"

definition bcast_shape :: "nat list \<Rightarrow> nat list \<Rightarrow> nat list option" where
  "bcast_shape s t = map_option rev (bcast_rev (rev s) (rev t))"

fun indices :: "nat list \<Rightarrow> nat list list" where
  "indices [] = [[]]"
| "indices (n # ns) = concat (map (\<lambda>i. map (Cons i) (indices ns)) [0..<n])"

definition bsrc :: "nat list \<Rightarrow> nat list \<Rightarrow> nat list" where
  "bsrc s idx = map2 (\<lambda>n i. if n = 1 then 0 else i) s (drop (length idx - length s) idx)"

definition nd_binop :: "('a \<Rightarrow> 'b \<Rightarrow> 'c) \<Rightarrow> 'a ndarray \<Rightarrow> 'b ndarray \<Rightarrow> 'c ndarray res" where
  "nd_binop f a b =
     (case bcast_shape (shape a) (shape b) of
        None \<Rightarrow> Inl ValueError
      | Some s \<Rightarrow>
          Inr \<lparr>shape = s,
               elems = map (\<lambda>idx. f (elems a ! flat_offset (shape a) (bsrc (shape a) idx))
                                   (elems b ! flat_offset (shape b) (bsrc (shape b) idx)))
                           (indices s)\<rparr>)"

declare nd_at.simps [simp del, eval_simps] nd_index_def [eval_simps] nd_item_def [eval_simps]
  nd_of_triples_def [eval_simps] row3_def [eval_simps] nd_map_def [eval_simps]
  shape_at_def [eval_simps] nd_wf_def [eval_simps]

subsection \<open>Lemmas\<close>

lemma nd_eqI: "shape a = shape b \<Longrightarrow> elems a = elems b \<Longrightarrow> a = (b :: 'a ndarray)"
  by (cases a, cases b) simp

lemma flat_offset_bound:
  "in_bounds s is \<Longrightarrow> flat_offset s is < prod_list s"
proof (induction s "is" rule: in_bounds.induct)
  case (2 n ns i "is")
  then have "i * prod_list ns + flat_offset ns is < Suc i * prod_list ns"
    by simp
  also have "\<dots> \<le> n * prod_list ns"
    using "2.prems" by (intro mult_le_mono1) simp
  finally show ?case by simp
qed simp_all

lemma nd_index_wf:
  assumes "nd_wf a" and "shape a = n # rest" and "i < n"
  shows "nd_index a i = Inr \<lparr>shape = rest, elems = take (prod_list rest) (drop (i * prod_list rest) (elems a))\<rparr>"
    and "length (take (prod_list rest) (drop (i * prod_list rest) (elems a))) = prod_list rest"
proof -
  show "nd_index a i = Inr \<lparr>shape = rest, elems = take (prod_list rest) (drop (i * prod_list rest) (elems a))\<rparr>"
    using assms by (simp add: nd_index_def)
  have "Suc i * prod_list rest \<le> n * prod_list rest"
    using assms(3) by (intro mult_le_mono1) simp
  then show "length (take (prod_list rest) (drop (i * prod_list rest) (elems a))) = prod_list rest"
    using assms(1,2) by (simp add: nd_wf_def)
qed

lemma nd_at_offset:
  "nd_wf a \<Longrightarrow> in_bounds (shape a) is \<Longrightarrow> nd_at a is = Inr (elems a ! flat_offset (shape a) is)"
proof (induction "is" arbitrary: a)
  case Nil
  then show ?case
    by (cases "shape a"; cases "elems a") (auto simp: nd_wf_def nd_item_def nd_at.simps)
next
  case (Cons i "is")
  then obtain n rest where s: "shape a = n # rest" and i: "i < n" and b: "in_bounds rest is"
    by (cases "shape a") auto
  let ?b = "\<lparr>shape = rest, elems = take (prod_list rest) (drop (i * prod_list rest) (elems a))\<rparr>"
  have idx: "nd_index a i = Inr ?b" and len: "length (elems ?b) = prod_list rest"
    using nd_index_wf [OF Cons.prems(1) s i] by simp_all
  have wfb: "nd_wf ?b" using len by (simp add: nd_wf_def)
  have off: "flat_offset rest is < prod_list rest"
    using b by (rule flat_offset_bound)
  have "Suc i * prod_list rest \<le> length (elems a)"
    using Cons.prems(1) s i by (simp add: nd_wf_def mult_le_mono1 del: mult_Suc)
  then show ?case
    using Cons.IH [OF wfb] b idx off s by (simp add: add.commute nd_at.simps)
qed

lemma nd_wf_map [simp]: "nd_wf (nd_map f a) = nd_wf a"
  by (simp add: nd_wf_def nd_map_def)

lemma shape_nd_map [simp]: "shape (nd_map f a) = shape a"
  by (simp add: nd_map_def)

lemma astype_int_of_int [simp]: "astype_int (real_of_int x) = x"
  by (simp add: astype_int_def)

lemma take1_drop: "k < length xs \<Longrightarrow> take 1 (drop k xs) = [xs ! k]"
  by (simp add: take_Suc_conv_app_nth)

lemma row_major_div_mod:
  assumes "j < (m::nat)"
  shows "(r * m + j) mod m = j" and "(r * m + j) div m = r"
  using assms by simp_all

lemma nd_column_2d:
  assumes "nd_wf a" and "shape a = [n, m]" and "j < m"
  shows "nd_column a j = Inr \<lparr>shape = [n], elems = map (\<lambda>r. elems a ! (r * m + j)) [0..<n]\<rparr>"
proof -
  have len: "length (elems a) = n * m" using assms(1,2) by (simp add: nd_wf_def)
  have "\<And>r. r < n \<Longrightarrow> take 1 (drop (r * m + j) (elems a)) = [elems a ! (r * m + j)]"
  proof -
    fix r assume "r < n"
    then have "r * m + j < n * m" using assms(3) by (rule row_major_bound)
    then show "take 1 (drop (r * m + j) (elems a)) = [elems a ! (r * m + j)]"
      using len by (intro take1_drop) simp
  qed
  then have "concat (map (\<lambda>r. take 1 (drop (r * m + j) (elems a))) [0..<n])
      = concat (map (\<lambda>r. [elems a ! (r * m + j)]) [0..<n])"
    by (intro arg_cong [where f = concat] map_cong) auto
  then show ?thesis using assms by (simp add: nd_column_def map_concat)
qed

lemma nd_set_column_2d:
  assumes "nd_wf a" and "shape a = [n, m]" and "j < m" and "length vs = n"
  shows "\<exists>a'. nd_set_column a j vs = Inr a' \<and> nd_wf a' \<and> shape a' = [n, m] \<and>
           nd_column a' j = Inr \<lparr>shape = [n], elems = vs\<rparr> \<and>
           (\<forall>k < n * m. k mod m \<noteq> j \<longrightarrow> elems a' ! k = elems a ! k)"
proof -
  have len: "length (elems a) = n * m" using assms(1,2) by (simp add: nd_wf_def)
  let ?sel = "\<lambda>k. if length vs = 1 then 0 else k div m"
  let ?a' = "a\<lparr>elems := map (\<lambda>k. if k mod m = j then vs ! ?sel k else elems a ! k) [0..<length (elems a)]\<rparr>"
  have set: "nd_set_column a j vs = Inr ?a'" using assms by (auto simp: nd_set_column_def)
  have wf': "nd_wf ?a'" using assms by (simp add: nd_wf_def)
  have "\<And>r. r < n \<Longrightarrow> elems ?a' ! (r * m + j) = vs ! r"
  proof -
    fix r assume r: "r < n"
    then have "r * m + j < n * m" using assms(3) by (rule row_major_bound)
    moreover have "length vs = 1 \<Longrightarrow> r = 0" using r assms(4) by simp
    ultimately show "elems ?a' ! (r * m + j) = vs ! r"
      using len row_major_div_mod [OF assms(3), of r] by auto
  qed
  then have "map (\<lambda>r. elems ?a' ! (r * m + j)) [0..<n] = vs"
    using assms(4) by (auto intro!: nth_equalityI)
  with nd_column_2d [OF wf' _ assms(3), of n] set wf' assms len show ?thesis
    by auto
qed

lemma bcast_rev_same: "bcast_rev xs xs = Some xs"
  by (induction xs) simp_all

lemma bcast_shape_same [simp]: "bcast_shape s s = Some s"
  by (simp add: bcast_shape_def bcast_rev_same)

lemma indices_in_bounds: "idx \<in> set (indices s) \<Longrightarrow> in_bounds s idx"
  by (induction s arbitrary: idx) auto

lemma in_bounds_length: "in_bounds s idx \<Longrightarrow> length idx = length s"
  by (induction s idx rule: in_bounds.induct) simp_all

lemma bsrc_in_bounds: "in_bounds s idx \<Longrightarrow> bsrc s idx = idx"
proof -
  assume b: "in_bounds s idx"
  have "map2 (\<lambda>n i. if n = 1 then 0 else i) s idx = idx"
    using b by (induction s idx rule: in_bounds.induct) auto
  with in_bounds_length [OF b] show ?thesis by (simp add: bsrc_def)
qed

lemma map_plus_upt: "map (\<lambda>j. k + j) [0..<p] = [k..<k + p]"
  by (induction p) simp_all

lemma concat_blocks_upt:
  "concat (map (\<lambda>i. map (\<lambda>j. i * p + j) [0..<p]) [0..<n]) = [0..<n * p]"
proof (induction n)
  case 0
  then show ?case by simp
next
  case (Suc n)
  have split: "[0..<n * p + p] = [0..<n * p] @ [n * p..<n * p + p]"
    by (rule upt_add_eq_append) simp
  have block: "map (\<lambda>j. n * p + j) [0..<p] = [n * p..<n * p + p]"
    by (rule map_plus_upt)
  have eq1: "concat (map (\<lambda>i. map (\<lambda>j. i * p + j) [0..<p]) [0..<Suc n])
      = [0..<n * p] @ map (\<lambda>j. n * p + j) [0..<p]"
    using Suc.IH by simp
  have "Suc n * p = n * p + p"
    by simp
  then have eq2: "[0..<n * p] @ map (\<lambda>j. n * p + j) [0..<p] = [0..<Suc n * p]"
    by (simp only: block split [symmetric])
  from eq1 eq2 show ?case by (rule trans)
qed

lemma map_flat_offset_indices: "map (flat_offset s) (indices s) = [0..<prod_list s]"
proof (induction s)
  case Nil
  then show ?case by simp
next
  case (Cons n ns)
  have "map (flat_offset (n # ns)) (indices (n # ns))
      = concat (map (\<lambda>i. map (\<lambda>j. i * prod_list ns + j) (map (flat_offset ns) (indices ns))) [0..<n])"
    by (simp add: map_concat comp_def)
  also have "\<dots> = [0..<n * prod_list ns]"
    by (simp only: Cons.IH concat_blocks_upt)
  finally show ?case by simp
qed

lemma length_indices [simp]: "length (indices s) = prod_list s"
  using arg_cong [OF map_flat_offset_indices, of length s] by simp

text \<open>Broadcasting two arrays of the same shape is the elementwise operation.\<close>

lemma nd_binop_same_shape:
  assumes "nd_wf a" and "nd_wf b" and "shape a = shape b"
  shows "nd_binop f a b = Inr \<lparr>shape = shape a, elems = map2 f (elems a) (elems b)\<rparr>"
proof -
  let ?s = "shape a"
  have "map (\<lambda>idx. f (elems a ! flat_offset ?s (bsrc ?s idx)) (elems b ! flat_offset ?s (bsrc ?s idx))) (indices ?s)
      = map (\<lambda>k. f (elems a ! k) (elems b ! k)) (map (flat_offset ?s) (indices ?s))"
    by (simp add: bsrc_in_bounds indices_in_bounds)
  also have "\<dots> = map2 f (elems a) (elems b)"
    using assms by (auto simp: map_flat_offset_indices nd_wf_def intro!: nth_equalityI)
  finally show ?thesis using assms(3) by (simp add: nd_binop_def)
qed

lemma length_row3 [simp]: "length (row3 t) = 3"
  by (cases t) (simp add: row3_def)

lemma concat_row3_nth:
  "k < length ts \<Longrightarrow> j < 3 \<Longrightarrow> concat (map row3 ts) ! (k * 3 + j) = row3 (ts ! k) ! j"
proof (induction ts arbitrary: k)
  case Nil
  then show ?case by simp
next
  case (Cons t ts)
  then show ?case by (cases k) (simp_all add: nth_append)
qed

lemma length_concat_row3 [simp]: "length (concat (map row3 ts)) = length ts * 3"
  by (induction ts) simp_all

lemma nd_of_triples_wf: "nd_wf (nd_of_triples ts)"
  by (simp add: nd_of_triples_def nd_wf_def)

lemma shape_nd_of_triples:
  "ts \<noteq> [] \<Longrightarrow> shape (nd_of_triples ts) = [length ts, 3]"
  by (simp add: nd_of_triples_def)

lemma nd_at_triples:
  assumes "k < length ts" and "j < 3"
  shows "nd_at (nd_of_triples ts) [k, j] = Inr (row3 (ts ! k) ! j)"
proof -
  from assms(1) have ne: "ts \<noteq> []" by auto
  have "in_bounds (shape (nd_of_triples ts)) [k, j]"
    using assms ne by (simp add: nd_of_triples_def)
  then have "nd_at (nd_of_triples ts) [k, j]
      = Inr (elems (nd_of_triples ts) ! flat_offset (shape (nd_of_triples ts)) [k, j])"
    by (rule nd_at_offset [OF nd_of_triples_wf])
  also have "\<dots> = Inr (row3 (ts ! k) ! j)"
    using assms ne by (simp add: nd_of_triples_def concat_row3_nth)
  finally show ?thesis .
qed

end
