(* ===== verification/MediaIO.thy ===== *)
theory MediaIO
  imports NDArray
begin

text \<open>
  The media sources and sinks of \<^verbatim>\<open>cloudmosh/components/io.py\<close>. A source object is
  an iterator over its path tuple with a cursor \<open>_index\<close>; \<open>nutsflow.Collect\<close> drains an
  iterator into a list. The files are a store from paths to what the codec decodes there:
  one image for \<open>imageio.imread\<close>, a list of frames for \<open>imageio.get_reader\<close>. Writing goes
  through a codec parameter \<open>enc\<close>: \<open>enc p img\<close> is what a later read of \<open>p\<close> returns
  (the identity for a lossless format such as PNG, not for JPEG).
\<close>

type_synonym 'f file_store = "string \<rightharpoonup> 'f"

record reader =
  paths :: "string list"
  index :: nat

datatype (discs_sels) 'a next_result = Yield 'a | StopIteration

text \<open>
  \<open>__next__\<close> of \<open>ReadImage\<close> and \<open>ReadVideoOrGIF\<close> (the two are written alike): past the
  last path the cursor is reset to 0 and \<open>StopIteration\<close> raised; otherwise the path at the
  cursor is decoded and the cursor advanced. An exception of the decoder leaves the cursor
  where it was.
\<close>

definition reader_next :: "(string \<Rightarrow> 'a res) \<Rightarrow> reader \<Rightarrow> ('a next_result \<times> reader) res" where
  "reader_next decode r =
     (if length (paths r) \<le> index r then Inr (StopIteration, r\<lparr>index := 0\<rparr>)
      else bind_res (decode (paths r ! index r)) (\<lambda>output. Inr (Yield output, r\<lparr>index := Suc (index r)\<rparr>)))"

definition reader_iter :: "reader \<Rightarrow> reader" where
  "reader_iter r = r\<lparr>index := 0\<rparr>"

text \<open>
  Draining an iterator (\<open>list(it)\<close>, what \<open>nutsflow.Collect\<close> does): \<open>next\<close> until
  \<open>StopIteration\<close>; the first exception propagates. It may run forever, so it is a
  \<open>partial_function\<close> in the option monad: \<open>None\<close> is a drain that never returns.
\<close>

partial_function (option) drain :: "('s \<Rightarrow> ('a next_result \<times> 's) res) \<Rightarrow> 's \<Rightarrow> ('a list res \<times> 's) option" where
  "drain nxt s =
     (case nxt s of
        Inl e \<Rightarrow> Some (Inl e, s)
      | Inr (StopIteration, s') \<Rightarrow> Some (Inr [], s')
      | Inr (Yield x, s') \<Rightarrow>
          Option.bind (drain nxt s') (\<lambda>(res, s''). Some (bind_res res (\<lambda>xs. Inr (x # xs)), s'')))"

definition Collect_nut :: "(string \<Rightarrow> 'a res) \<Rightarrow> reader \<Rightarrow> ('a list res \<times> reader) option" where
  "Collect_nut decode r = drain (reader_next decode) (reader_iter r)"

subsection \<open>Decoding\<close>

definition imread :: "'f file_store \<Rightarrow> string \<Rightarrow> 'f res" where
  "imread fs p = (case fs p of None \<Rightarrow> Inl FileNotFoundError | Some f \<Rightarrow> Inr f)"

text \<open>
  The batching reshape of \<open>__next__\<close>: a rank-3 array \<open>(w, h, c)\<close> becomes \<open>(1, w, h, c)\<close>,
  any other \<open>(w, h, \<dots>)\<close> is reshaped to \<open>(1, w, h, 1)\<close>.
\<close>

definition batch_image :: "'a ndarray \<Rightarrow> 'a ndarray res" where
  "batch_image arr =
     (if length (shape arr) = 3
      then nd_reshape arr [1, shape arr ! 0, shape arr ! 1, shape arr ! 2]
      else bind_res (shape_at (shape arr) 0) (\<lambda>w. bind_res (shape_at (shape arr) 1) (\<lambda>h.
             nd_reshape arr [1, w, h, 1])))"

definition read_image :: "int ndarray file_store \<Rightarrow> string \<Rightarrow> int ndarray res" where
  "read_image fs imagePath = bind_res (imread fs imagePath) batch_image"

definition read_video :: "int ndarray list file_store \<Rightarrow> string \<Rightarrow> int ndarray list res" where
  "read_video fs fPath = bind_res (imread fs fPath) (map_res batch_image)"

definition ReadImage_next :: "int ndarray file_store \<Rightarrow> reader \<Rightarrow> (int ndarray next_result \<times> reader) res" where
  "ReadImage_next fs = reader_next (read_image fs)"

definition ReadVideoOrGIF_next :: "int ndarray list file_store \<Rightarrow> reader \<Rightarrow> (int ndarray list next_result \<times> reader) res" where
  "ReadVideoOrGIF_next fs = reader_next (read_video fs)"

text \<open>
  \<open>ReadImageAsBinary\<close>: \<open>__iter__\<close> returns the object unchanged and \<open>__next__\<close> is an
  unfinished stub (\<open>pass\<close>) that returns \<open>None\<close> on every call.
\<close>

definition ReadImageAsBinary_next :: "reader \<Rightarrow> (string option next_result \<times> reader) res" where
  "ReadImageAsBinary_next r = Inr (Yield None, r)"

subsection \<open>Sinks\<close>

text \<open>The reshape of \<open>SaveImage\<close> and \<open>SaveGIF\<close>: a rank-4 batch \<open>(b, w, h, c)\<close> to \<open>(w, h, c)\<close>.\<close>

definition unbatch :: "'a ndarray \<Rightarrow> 'a ndarray res" where
  "unbatch img =
     (if length (shape img) = 4 then nd_reshape img [shape img ! 1, shape img ! 2, shape img ! 3]
      else Inr img)"

text \<open>
  The write loop \<open>for i in range(len(paths))\<close>: prepare item i, write it to path i; an
  exception stops the loop with the earlier files already written.
\<close>

fun sink_loop :: "('a \<Rightarrow> 'b res) \<Rightarrow> (string \<Rightarrow> 'b \<Rightarrow> 'f) \<Rightarrow> 'f file_store \<Rightarrow> (string \<times> 'a) list \<Rightarrow> unit res \<times> 'f file_store" where
  "sink_loop prep enc fs [] = (Inr (), fs)"
| "sink_loop prep enc fs ((path, item) # rest) =
     (case prep item of
        Inl e \<Rightarrow> (Inl e, fs)
      | Inr item' \<Rightarrow> sink_loop prep enc (fs(path \<mapsto> enc path item')) rest)"

definition sink_rrshift :: "('a \<Rightarrow> 'b res) \<Rightarrow> (string \<Rightarrow> 'b \<Rightarrow> 'f) \<Rightarrow> string list \<Rightarrow> 'a list \<Rightarrow> 'f file_store \<Rightarrow> unit res \<times> 'f file_store" where
  "sink_rrshift prep enc ps items fs =
     (if length items \<noteq> length ps then (Inl IOError, fs) else sink_loop prep enc fs (zip ps items))"

definition SaveImage :: "(string \<Rightarrow> int ndarray \<Rightarrow> int ndarray) \<Rightarrow> string list \<Rightarrow> int ndarray list \<Rightarrow> int ndarray file_store \<Rightarrow> unit res \<times> int ndarray file_store" where
  "SaveImage enc ps images fs = sink_rrshift unbatch enc ps images fs"

definition SaveGIF :: "(string \<Rightarrow> int ndarray list \<Rightarrow> int ndarray list) \<Rightarrow> string list \<Rightarrow> int ndarray list list \<Rightarrow> int ndarray list file_store \<Rightarrow> unit res \<times> int ndarray list file_store" where
  "SaveGIF enc ps sequences fs = sink_rrshift (map_res unbatch) enc ps sequences fs"

text \<open>
  \<open>ReadImage(ps) >> SaveImage(qs)\<close>: the sink drains a fresh reader, then writes. The image
  store is the same for reading and writing.
\<close>

definition read_then_save :: "(string \<Rightarrow> int ndarray \<Rightarrow> int ndarray) \<Rightarrow> string list \<Rightarrow> string list \<Rightarrow> int ndarray file_store \<Rightarrow> (unit res \<times> int ndarray file_store) option" where
  "read_then_save enc ps qs fs =
     Option.bind (Collect_nut (read_image fs) \<lparr>paths = ps, index = 0\<rparr>) (\<lambda>(images, _).
       case images of
         Inl e \<Rightarrow> Some (Inl e, fs)
       | Inr imgs \<Rightarrow> Some (SaveImage enc qs imgs fs))"

text \<open>The shape \<open>__next__\<close> gives a decoded image of rank 2 or 3.\<close>

definition batch_shape :: "nat list \<Rightarrow> nat list" where
  "batch_shape s = (if length s = 3 then 1 # s else [1, s ! 0, s ! 1, 1])"

text \<open>One write of the sink loop, as a function of the (path, item) pair.\<close>

definition put_file :: "'f file_store \<Rightarrow> string \<times> 'f \<Rightarrow> 'f file_store" where
  "put_file m pv = m(fst pv \<mapsto> snd pv)"

definition image_files :: "int ndarray file_store \<Rightarrow> string list \<Rightarrow> bool" where
  "image_files fs ps \<longleftrightarrow> (\<forall>p \<in> set ps. \<exists>img. fs p = Some img \<and> length (shape img) \<in> {2, 3})"

subsection \<open>The reader's cursor\<close>

lemma reader_next_stop: "length (paths r) \<le> index r \<Longrightarrow> reader_next d r = Inr (StopIteration, r\<lparr>index := 0\<rparr>)"
  by (simp add: reader_next_def)

lemma reader_next_at:
  "index r < length (paths r) \<Longrightarrow>
   reader_next d r = bind_res (d (paths r ! index r)) (\<lambda>v. Inr (Yield v, r\<lparr>index := Suc (index r)\<rparr>))"
  by (simp add: reader_next_def)

lemma drain_step:
  "index r < length (paths r) \<Longrightarrow> d (paths r ! index r) = Inr v \<Longrightarrow>
   drain (reader_next d) r =
     Option.bind (drain (reader_next d) (r\<lparr>index := Suc (index r)\<rparr>))
       (\<lambda>(res, s''). Some (bind_res res (\<lambda>xs. Inr (v # xs)), s''))"
  by (simp add: drain.simps [of "reader_next d" r] reader_next_at)

lemma drain_stop: "length (paths r) \<le> index r \<Longrightarrow> drain (reader_next d) r = Some (Inr [], r\<lparr>index := 0\<rparr>)"
  by (simp add: drain.simps [of "reader_next d" r] reader_next_stop)

lemma drain_fail:
  "index r < length (paths r) \<Longrightarrow> d (paths r ! index r) = Inl e \<Longrightarrow> drain (reader_next d) r = Some (Inl e, r)"
  by (simp add: drain.simps [of "reader_next d" r] reader_next_at)

lemma drain_reader_ok:
  "(\<And>k. index r \<le> k \<Longrightarrow> k < length (paths r) \<Longrightarrow> d (paths r ! k) = Inr (g k)) \<Longrightarrow>
   drain (reader_next d) r = Some (Inr (map g [index r..<length (paths r)]), r\<lparr>index := 0\<rparr>)"
proof (induction "length (paths r) - index r" arbitrary: r rule: less_induct)
  case less
  show ?case
  proof (cases "index r < length (paths r)")
    case True
    let ?r' = "r\<lparr>index := Suc (index r)\<rparr>"
    have "drain (reader_next d) ?r' = Some (Inr (map g [Suc (index r)..<length (paths r)]), r\<lparr>index := 0\<rparr>)"
      using less.hyps [of ?r'] less.prems True by simp
    then show ?thesis
      using drain_step [where d = d and r = r, OF True less.prems [OF order.refl True]] True by (simp add: upt_conv_Cons)
  next
    case False
    then show ?thesis by (simp add: drain_stop)
  qed
qed

lemma drain_reader_err:
  "index r \<le> k \<Longrightarrow> k < length (paths r) \<Longrightarrow>
   (\<And>j. index r \<le> j \<Longrightarrow> j < k \<Longrightarrow> \<exists>v. d (paths r ! j) = Inr v) \<Longrightarrow> d (paths r ! k) = Inl e \<Longrightarrow>
   drain (reader_next d) r = Some (Inl e, r\<lparr>index := k\<rparr>)"
proof (induction "k - index r" arbitrary: r)
  case 0
  then have "index r = k" by simp
  with 0 show ?case by (simp add: drain_fail)
next
  case (Suc n)
  then have lt: "index r < k" by simp
  obtain v where v: "d (paths r ! index r) = Inr v" using Suc.prems(3) [OF order.refl lt] by blast
  have "drain (reader_next d) (r\<lparr>index := Suc (index r)\<rparr>) = Some (Inl e, r\<lparr>index := k\<rparr>)"
    using Suc.hyps(1) [of "r\<lparr>index := Suc (index r)\<rparr>"] Suc.hyps(2) Suc.prems lt by simp
  then show ?case using drain_step [where d = d and r = r, OF _ v] lt Suc.prems(2) by simp
qed

lemma drain_reader_terminates: "\<exists>y. drain (reader_next d) r = Some y"
proof (induction "length (paths r) - index r" arbitrary: r rule: less_induct)
  case less
  show ?case
  proof (cases "index r < length (paths r)")
    case True
    show ?thesis
    proof (cases "d (paths r ! index r)")
      case (Inl e)
      then show ?thesis using drain_fail [where d = d and r = r, OF True] by simp
    next
      case (Inr v)
      have "length (paths r) - Suc (index r) < length (paths r) - index r" using True by simp
      then obtain y where "drain (reader_next d) (r\<lparr>index := Suc (index r)\<rparr>) = Some y"
        using less [of "r\<lparr>index := Suc (index r)\<rparr>"] by auto
      then show ?thesis using drain_step [where d = d and r = r, OF True Inr] by (auto split: prod.splits)
    qed
  qed (simp add: drain_stop)
qed

lemma drain_reader_Inr_state:
  "drain (reader_next d) r = Some (Inr xs, r') \<Longrightarrow> r' = r\<lparr>index := 0\<rparr>"
proof (induction "length (paths r) - index r" arbitrary: r xs rule: less_induct)
  case less
  show ?case
  proof (cases "index r < length (paths r)")
    case True
    show ?thesis
    proof (cases "d (paths r ! index r)")
      case (Inl e)
      then show ?thesis using drain_fail [where d = d and r = r, OF True] less.prems by simp
    next
      case (Inr v)
      from less.prems drain_step [where d = d and r = r, OF True Inr] obtain res where
        "drain (reader_next d) (r\<lparr>index := Suc (index r)\<rparr>) = Some (res, r')" and "bind_res res (\<lambda>xs. Inr (v # xs)) = Inr xs"
        by (auto simp: bind_eq_Some_conv split: prod.splits)
      then obtain xs' where "drain (reader_next d) (r\<lparr>index := Suc (index r)\<rparr>) = Some (Inr xs', r')"
        by auto
      from less.hyps [OF _ this] True show ?thesis by simp
    qed
  qed (use less.prems in \<open>simp add: drain_stop\<close>)
qed

lemma drain_reader_Inl_state:
  assumes "drain (reader_next d) r = Some (Inl e, r')"
  shows "paths r' = paths r"
  using assms
proof (induction "length (paths r) - index r" arbitrary: r rule: less_induct)
  case less
  show ?case
  proof (cases "index r < length (paths r)")
    case True
    show ?thesis
    proof (cases "d (paths r ! index r)")
      case (Inl e)
      then show ?thesis using drain_fail [where d = d and r = r, OF True] less.prems by simp
    next
      case (Inr v)
      from less.prems drain_step [where d = d and r = r, OF True Inr] obtain res where
        "drain (reader_next d) (r\<lparr>index := Suc (index r)\<rparr>) = Some (res, r')" and "bind_res res (\<lambda>xs. Inr (v # xs)) = Inl e"
        by (auto simp: bind_eq_Some_conv split: prod.splits)
      then have "drain (reader_next d) (r\<lparr>index := Suc (index r)\<rparr>) = Some (Inl e, r')"
        by (cases res) auto
      from less.hyps [OF _ this] True show ?thesis by simp
    qed
  qed (use less.prems in \<open>simp add: drain_stop\<close>)
qed

subsection \<open>Batching reshapes\<close>

lemma batch_image_rank3:
  "shape arr = [w, h, c] \<Longrightarrow> batch_image arr = Inr (arr\<lparr>shape := [1, w, h, c]\<rparr>)"
  by (simp add: batch_image_def nd_reshape_def)

lemma batch_image_rank2:
  "shape arr = [w, h] \<Longrightarrow> batch_image arr = Inr (arr\<lparr>shape := [1, w, h, 1]\<rparr>)"
  by (simp add: batch_image_def nd_reshape_def shape_at_def)

lemma length23_cases:
  assumes "length s \<in> {2, 3}"
  obtains w h where "s = [w, h]" | w h c where "s = [w, h, c]"
proof -
  have "length s = Suc (Suc 0) \<or> length s = Suc (Suc (Suc 0))" using assms by auto
  then show ?thesis using that by (auto simp: length_Suc_conv)
qed

lemma batch_image_ok:
  "length (shape arr) \<in> {2, 3} \<Longrightarrow> batch_image arr = Inr (arr\<lparr>shape := batch_shape (shape arr)\<rparr>)"
  by (erule length23_cases) (simp_all add: batch_shape_def batch_image_rank2 batch_image_rank3)

lemma unbatch_batched:
  "length s \<in> {2, 3} \<Longrightarrow>
   unbatch (img\<lparr>shape := batch_shape s\<rparr>) = Inr (img\<lparr>shape := if length s = 3 then s else s @ [1]\<rparr>)"
  by (erule length23_cases) (simp_all add: batch_shape_def unbatch_def nd_reshape_def)


lemma put_file_pair: "put_file m (p, v) = m(p \<mapsto> v)"
  by (simp add: put_file_def)

lemma sink_loop_ok:
  "map_res prep items = Inr items' \<Longrightarrow> length ps = length items \<Longrightarrow>
   sink_loop prep enc fs (zip ps items) = (Inr (), foldl put_file fs (zip ps (map2 enc ps items')))"
proof (induction items arbitrary: ps items' fs)
  case Nil
  then show ?case by simp
next
  case (Cons x xs)
  then obtain p ps' where "ps = p # ps'" by (cases ps) auto
  with Cons show ?case by (auto simp: put_file_pair fun_upd_def)
qed

lemma sink_loop_err:
  "map_res prep (take k items) = Inr items' \<Longrightarrow> k < length items \<Longrightarrow> prep (items ! k) = Inl e \<Longrightarrow>
   length ps = length items \<Longrightarrow>
   sink_loop prep enc fs (zip ps items) = (Inl e, foldl put_file fs (zip (take k ps) (map2 enc (take k ps) items')))"
proof (induction items arbitrary: ps items' fs k)
  case Nil
  then show ?case by simp
next
  case (Cons x xs)
  then obtain p ps' where ps: "ps = p # ps'" by (cases ps) auto
  show ?case
  proof (cases k)
    case 0
    with Cons.prems ps show ?thesis by simp
  next
    case (Suc k')
    with Cons.prems ps show ?thesis by (auto simp: put_file_pair fun_upd_def intro: Cons.IH)
  qed
qed

lemma foldl_upd_other:
  "q \<notin> set ps \<Longrightarrow> foldl put_file fs (zip ps vs) q = fs q"
  by (induction ps arbitrary: vs fs) (auto simp: zip_Cons1 put_file_pair split: list.splits)

lemma foldl_upd_nth:
  "distinct ps \<Longrightarrow> length vs = length ps \<Longrightarrow> i < length ps \<Longrightarrow>
   foldl put_file fs (zip ps vs) (ps ! i) = Some (vs ! i)"
proof (induction ps arbitrary: vs fs i)
  case Nil
  then show ?case by simp
next
  case (Cons p ps)
  then obtain v vs' where vs: "vs = v # vs'" by (cases vs) auto
  show ?case
  proof (cases i)
    case 0
    with Cons.prems vs foldl_upd_other [of p ps "fs(p \<mapsto> v)" vs'] show ?thesis by (simp add: put_file_pair)
  next
    case (Suc j)
    with Cons.prems vs Cons.IH [where vs = vs' and i = j] show ?thesis by (simp add: put_file_pair)
  qed
qed


lemma batch_shape_unbatched:
  "length s \<in> {2, 3} \<Longrightarrow> batch_shape (if length s = 3 then s else s @ [1]) = batch_shape s"
  by (erule length23_cases) (simp_all add: batch_shape_def)

subsection \<open>Reading whole path lists\<close>


lemma read_image_ok:
  "fs p = Some img \<Longrightarrow> length (shape img) \<in> {2, 3} \<Longrightarrow>
   read_image fs p = Inr (img\<lparr>shape := batch_shape (shape img)\<rparr>)"
  by (simp add: read_image_def imread_def batch_image_ok)

lemma Collect_read_image:
  assumes "image_files fs (paths r)"
  shows "Collect_nut (read_image fs) r =
           Some (Inr (map (\<lambda>p. the (fs p)\<lparr>shape := batch_shape (shape (the (fs p)))\<rparr>) (paths r)), reader_iter r)"
proof -
  let ?f = "\<lambda>p. the (fs p)\<lparr>shape := batch_shape (shape (the (fs p)))\<rparr>"
  have "read_image fs (paths r ! k) = Inr (?f (paths r ! k))" if "k < length (paths r)" for k
  proof -
    have "paths r ! k \<in> set (paths r)" using that by (rule nth_mem)
    with assms obtain img where "fs (paths r ! k) = Some img" and "length (shape img) \<in> {2, 3}"
      unfolding image_files_def by blast
    then show ?thesis by (simp add: read_image_ok)
  qed
  then have "drain (reader_next (read_image fs)) (reader_iter r) =
      Some (Inr (map (\<lambda>k. ?f (paths r ! k)) [0..<length (paths r)]), reader_iter r)"
    using drain_reader_ok [of "reader_iter r" "read_image fs" "\<lambda>k. ?f (paths r ! k)"]
    by (simp add: reader_iter_def)
  moreover have "map (\<lambda>k. ?f (paths r ! k)) [0..<length (paths r)] = map ?f (paths r)"
    by (rule map_upt_nth)
  ultimately show ?thesis by (simp add: Collect_nut_def)
qed

text \<open>
  C20. Reading existing images of rank 2 or 3 yields one array per path, in order, each of
  shape \<open>(1, w, h, c)\<close> (or \<open>(1, w, h, 1)\<close> for a rank-2 image) with the file's data,
  and leaves the cursor at 0.
\<close>

theorem ReadImage_Collect:
  assumes "image_files fs (paths r)"
  shows "\<exists>outs. Collect_nut (read_image fs) r = Some (Inr outs, r\<lparr>index := 0\<rparr>) \<and>
           length outs = length (paths r) \<and>
           (\<forall>i < length outs. \<exists>img. fs (paths r ! i) = Some img \<and>
              elems (outs ! i) = elems img \<and> shape (outs ! i) = batch_shape (shape img) \<and>
              length (shape (outs ! i)) = 4 \<and> hd (shape (outs ! i)) = 1 \<and>
              prod_list (shape (outs ! i)) = prod_list (shape img))"
proof -
  have ok: "\<forall>i < length (paths r). \<exists>img. fs (paths r ! i) = Some img \<and> length (shape img) \<in> {2, 3}"
    using assms by (auto simp: image_files_def)
  have sh: "length (batch_shape s) = 4 \<and> hd (batch_shape s) = 1 \<and> prod_list (batch_shape s) = prod_list s"
    if "length s \<in> {2, 3}" for s :: "nat list"
    using that by (rule length23_cases) (simp_all add: batch_shape_def)
  show ?thesis
    using Collect_read_image [OF assms] ok sh by (auto simp: reader_iter_def)
qed

text \<open>
  Collecting a \<open>ReadImage\<close> or \<open>ReadVideoOrGIF\<close> source always returns, whatever the
  decoder does: the cursor moves towards the end of the path tuple at every element.
\<close>

theorem Collect_terminates: "\<exists>y. Collect_nut decode r = Some y"
  unfolding Collect_nut_def by (rule drain_reader_terminates)

text \<open>
  A source is restartable: after one complete drain, without calling \<open>__iter__\<close>
  again, draining the same object yields what a fresh \<open>Collect\<close> yields.
\<close>

theorem reader_restart:
  assumes "drain (reader_next decode) r = Some (Inr xs, r')"
  shows "drain (reader_next decode) r' = Collect_nut decode r"
  using drain_reader_Inr_state [OF assms] by (simp add: Collect_nut_def reader_iter_def)

text \<open>
  C21. A missing file raises \<open>FileNotFoundError\<close> at the first missing path; the cursor
  stays on that path.
\<close>

theorem ReadImage_missing:
  assumes "k < length (paths r)" and "fs (paths r ! k) = None"
    and "image_files fs (take k (paths r))"
  shows "Collect_nut (read_image fs) r = Some (Inl FileNotFoundError, r\<lparr>index := k\<rparr>)"
proof -
  have "\<exists>v. read_image fs (paths r ! j) = Inr v" if "j < k" for j
  proof -
    have "take k (paths r) ! j \<in> set (take k (paths r))" using that assms(1) by (intro nth_mem) simp
    with assms(3) that obtain img where "fs (paths r ! j) = Some img" and "length (shape img) \<in> {2, 3}"
      unfolding image_files_def by auto
    then show ?thesis by (simp add: read_image_ok)
  qed
  then have "drain (reader_next (read_image fs)) (reader_iter r) = Some (Inl FileNotFoundError, (reader_iter r)\<lparr>index := k\<rparr>)"
    using assms(1,2) by (intro drain_reader_err) (simp_all add: reader_iter_def read_image_def imread_def)
  then show ?thesis by (simp add: Collect_nut_def reader_iter_def)
qed

lemma drain_returns_not_binary:
  assumes ret: "drain nxt s = Some y"
  shows "nxt \<noteq> ReadImageAsBinary_next"
proof (rule drain.raw_induct [where P = "\<lambda>nxt s y. nxt \<noteq> ReadImageAsBinary_next", OF _ ret])
  fix F nxt s y
  assume IH: "\<And>nxt s y. F nxt s = Some y \<Longrightarrow> nxt \<noteq> ReadImageAsBinary_next"
    and body: "(case nxt s of
        Inl e \<Rightarrow> Some (Inl e, s)
      | Inr (StopIteration, s') \<Rightarrow> Some (Inr [], s')
      | Inr (Yield x, s') \<Rightarrow>
          Option.bind (F nxt s') (\<lambda>(res, s''). Some (bind_res res (\<lambda>xs. Inr (x # xs)), s''))) = Some y"
  show "nxt \<noteq> ReadImageAsBinary_next"
  proof
    assume nxt: "nxt = ReadImageAsBinary_next"
    with body obtain y' where "F nxt s = Some y'"
      by (auto simp: ReadImageAsBinary_next_def bind_eq_Some_conv)
    from IH [OF this] nxt show False by simp
  qed
qed

text \<open>
  \<open>ReadImageAsBinary\<close> never ends: its stub \<open>__next__\<close> returns \<open>None\<close> instead of
  raising \<open>StopIteration\<close>, so collecting it (its \<open>__iter__\<close> returns the object itself)
  never returns.
\<close>

theorem ReadImageAsBinary_diverges: "drain ReadImageAsBinary_next r = None"
proof (cases "drain ReadImageAsBinary_next r")
  case (Some y)
  from drain_returns_not_binary [OF Some] show ?thesis by simp
qed

subsection \<open>Writing\<close>

text \<open>
  C22. \<open>ReadImage(ps) >> SaveImage(qs)\<close> with readable files and a different number of
  paths raises \<open>IOError\<close> and writes nothing.
\<close>

theorem ReadImage_SaveImage_mismatch:
  assumes "image_files fs ps" and "length qs \<noteq> length ps"
  shows "read_then_save enc ps qs fs = Some (Inl IOError, fs)"
  using Collect_read_image [of fs "\<lparr>paths = ps, index = 0\<rparr>"] assms
  by (simp add: read_then_save_def SaveImage_def sink_rrshift_def)

text \<open>
  When every image can be unbatched and the counts agree, \<open>SaveImage\<close> writes the
  unbatched image i, through the codec, to path i, and touches no other path.
\<close>

theorem SaveImage_writes:
  assumes "length images = length ps" and "distinct ps"
    and "map_res unbatch images = Inr imgs"
  shows "\<exists>fs'. SaveImage enc ps images fs = (Inr (), fs') \<and>
           (\<forall>i < length ps. fs' (ps ! i) = Some (enc (ps ! i) (imgs ! i))) \<and>
           (\<forall>q. q \<notin> set ps \<longrightarrow> fs' q = fs q)"
proof -
  have li: "length imgs = length ps" using map_res_Inr_length [OF assms(3)] assms(1) by simp
  have "SaveImage enc ps images fs = (Inr (), foldl put_file fs (zip ps (map2 enc ps imgs)))"
    using sink_loop_ok [OF assms(3), of ps enc fs] assms(1) by (simp add: SaveImage_def sink_rrshift_def)
  moreover have "\<forall>i < length ps. foldl put_file fs (zip ps (map2 enc ps imgs)) (ps ! i) = Some (enc (ps ! i) (imgs ! i))"
    using foldl_upd_nth [OF assms(2), of "map2 enc ps imgs"] li by simp
  moreover have "\<forall>q. q \<notin> set ps \<longrightarrow> foldl put_file fs (zip ps (map2 enc ps imgs)) q = fs q"
    by (simp add: foldl_upd_other)
  ultimately show ?thesis by blast
qed

text \<open>
  C23. \<open>SaveImage\<close> is not atomic: when image k cannot be unbatched (a batch of more than
  one image), the exception leaves images 0 to k-1 written and no later path touched.
\<close>

theorem SaveImage_partial:
  assumes "length images = length ps" and "distinct ps" and "k < length images"
    and "map_res unbatch (take k images) = Inr imgs" and "unbatch (images ! k) = Inl e"
  shows "\<exists>fs'. SaveImage enc ps images fs = (Inl e, fs') \<and>
           (\<forall>i < k. fs' (ps ! i) = Some (enc (ps ! i) (imgs ! i))) \<and>
           (\<forall>q. q \<notin> set (take k ps) \<longrightarrow> fs' q = fs q)"
proof -
  have li: "length imgs = k" using map_res_Inr_length [OF assms(4)] assms(3) by simp
  have "SaveImage enc ps images fs = (Inl e, foldl put_file fs (zip (take k ps) (map2 enc (take k ps) imgs)))"
    using sink_loop_err [OF assms(4,3,5), of ps enc fs] assms(1) by (simp add: SaveImage_def sink_rrshift_def)
  moreover have "foldl put_file fs (zip (take k ps) (map2 enc (take k ps) imgs)) (ps ! i) = Some (enc (ps ! i) (imgs ! i))"
    if "i < k" for i
    using foldl_upd_nth [of "take k ps" "map2 enc (take k ps) imgs" i fs] assms(1,2,3) li that by simp
  moreover have "\<forall>q. q \<notin> set (take k ps) \<longrightarrow> foldl put_file fs (zip (take k ps) (map2 enc (take k ps) imgs)) q = fs q"
    by (simp add: foldl_upd_other)
  ultimately show ?thesis by blast
qed

lemma unbatch_read:
  "length (shape img) \<in> {2, 3} \<Longrightarrow>
   unbatch (img\<lparr>shape := batch_shape (shape img)\<rparr>) =
     Inr (img\<lparr>shape := if length (shape img) = 3 then shape img else shape img @ [1]\<rparr>)"
  by (rule unbatch_batched)

text \<open>
  C24. Round trip: with a lossless codec, \<open>ReadImage(ps) >> SaveImage(qs)\<close> on distinct
  paths \<open>qs\<close> stores the images so that \<open>ReadImage(qs)\<close> reads back exactly the arrays
  \<open>ReadImage(ps)\<close> read (the property \<^verbatim>\<open>test_SaveImage_then_ReadImage_PNG\<close> tests).
\<close>

theorem ReadImage_SaveImage_roundtrip:
  assumes lossless: "\<And>p x. enc p x = x" and files: "image_files fs ps"
    and dq: "distinct qs" and len: "length qs = length ps"
  shows "\<exists>fs'. read_then_save enc ps qs fs = Some (Inr (), fs') \<and>
           map_option fst (Collect_nut (read_image fs') \<lparr>paths = qs, index = 0\<rparr>) =
           map_option fst (Collect_nut (read_image fs) \<lparr>paths = ps, index = 0\<rparr>)"
proof -
  let ?B = "\<lambda>p. the (fs p)\<lparr>shape := batch_shape (shape (the (fs p)))\<rparr>"
  let ?U = "\<lambda>p. the (fs p)\<lparr>shape := if length (shape (the (fs p))) = 3 then shape (the (fs p))
                                     else shape (the (fs p)) @ [1]\<rparr>"
  let ?fs' = "foldl put_file fs (zip qs (map ?U ps))"
  have rank: "length (shape (the (fs p))) \<in> {2, 3}" if "p \<in> set ps" for p
    using files that by (auto simp: image_files_def)
  have c1: "Collect_nut (read_image fs) \<lparr>paths = ps, index = 0\<rparr> = Some (Inr (map ?B ps), \<lparr>paths = ps, index = 0\<rparr>)"
    using Collect_read_image [of fs "\<lparr>paths = ps, index = 0\<rparr>"] files by (simp add: reader_iter_def)
  have u: "map_res unbatch (map ?B ps) = Inr (map ?U ps)"
    by (rule map_res_map_Inr) (rule unbatch_read, erule rank)
  have m2: "map2 enc qs (map ?U ps) = map ?U ps"
    using len by (intro nth_equalityI) (simp_all add: lossless)
  have save: "SaveImage enc qs (map ?B ps) fs = (Inr (), ?fs')"
    using sink_loop_ok [OF u, of qs enc fs] len m2 by (simp add: SaveImage_def sink_rrshift_def)
  have at: "?fs' (qs ! i) = Some (?U (ps ! i))" if "i < length qs" for i
    using foldl_upd_nth [OF dq, of "map ?U ps" i fs] len that by simp
  have files': "image_files ?fs' qs"
    unfolding image_files_def
  proof
    fix q assume "q \<in> set qs"
    then obtain i where i: "i < length qs" and q: "q = qs ! i" by (auto simp: in_set_conv_nth)
    have "ps ! i \<in> set ps" using i len by simp
    then show "\<exists>img. ?fs' q = Some img \<and> length (shape img) \<in> {2, 3}"
      using at [OF i] q rank by auto
  qed
  have reread: "map (\<lambda>q. the (?fs' q)\<lparr>shape := batch_shape (shape (the (?fs' q)))\<rparr>) qs = map ?B ps"
  proof (rule nth_equalityI)
    show "length (map (\<lambda>q. the (?fs' q)\<lparr>shape := batch_shape (shape (the (?fs' q)))\<rparr>) qs) = length (map ?B ps)"
      using len by simp
  next
    fix i assume "i < length (map (\<lambda>q. the (?fs' q)\<lparr>shape := batch_shape (shape (the (?fs' q)))\<rparr>) qs)"
    then have i: "i < length qs" by simp
    have "ps ! i \<in> set ps" using i len by simp
    then show "map (\<lambda>q. the (?fs' q)\<lparr>shape := batch_shape (shape (the (?fs' q)))\<rparr>) qs ! i = map ?B ps ! i"
      using at [OF i] i len batch_shape_unbatched [OF rank] by simp
  qed
  have "Collect_nut (read_image ?fs') \<lparr>paths = qs, index = 0\<rparr> = Some (Inr (map ?B ps), \<lparr>paths = qs, index = 0\<rparr>)"
    using Collect_read_image [of "?fs'" "\<lparr>paths = qs, index = 0\<rparr>"] files' reread by (simp add: reader_iter_def)
  with c1 save show ?thesis by (simp add: read_then_save_def)
qed

subsection \<open>Concrete runs\<close>

theorem ReadImage_Collect_witness:
  "\<exists>outs. Collect_nut (read_image [''a.png'' \<mapsto> \<lparr>shape = [1, 2, 3], elems = [1, 2, 3, 4, 5, 6]\<rparr>])
            \<lparr>paths = [''a.png''], index = 0\<rparr> = Some (Inr outs, \<lparr>paths = [''a.png''], index = 0\<rparr>) \<and>
          length outs = 1"
  using ReadImage_Collect [of "[''a.png'' \<mapsto> \<lparr>shape = [1, 2, 3], elems = [1, 2, 3, 4, 5, 6]\<rparr>]"
      "\<lparr>paths = [''a.png''], index = 0\<rparr>"]
  by (auto simp: image_files_def)

theorem reader_restart_witness:
  "drain (reader_next (read_image [''a.png'' \<mapsto> \<lparr>shape = [2, 2], elems = [1, 2, 3, 4]\<rparr>])) \<lparr>paths = [''a.png''], index = 1\<rparr>
     = Some (Inr [], \<lparr>paths = [''a.png''], index = 0\<rparr>) \<and>
   drain (reader_next (read_image [''a.png'' \<mapsto> \<lparr>shape = [2, 2], elems = [1, 2, 3, 4]\<rparr>])) \<lparr>paths = [''a.png''], index = 0\<rparr>
     = Collect_nut (read_image [''a.png'' \<mapsto> \<lparr>shape = [2, 2], elems = [1, 2, 3, 4]\<rparr>]) \<lparr>paths = [''a.png''], index = 1\<rparr>"
proof -
  have h: "drain (reader_next (read_image [''a.png'' \<mapsto> \<lparr>shape = [2, 2], elems = [1, 2, 3, 4::int]\<rparr>])) \<lparr>paths = [''a.png''], index = 1\<rparr>
     = Some (Inr [], \<lparr>paths = [''a.png''], index = 0\<rparr>)"
    by (simp add: drain_stop)
  show ?thesis using h reader_restart [OF h] by simp
qed

theorem ReadImage_missing_witness:
  "Collect_nut (read_image [''a.png'' \<mapsto> \<lparr>shape = [2, 2], elems = [1, 2, 3, 4]\<rparr>]) \<lparr>paths = [''a.png'', ''b.png''], index = 0\<rparr>
     = Some (Inl FileNotFoundError, \<lparr>paths = [''a.png'', ''b.png''], index = 1\<rparr>)"
  using ReadImage_missing [of 1 "\<lparr>paths = [''a.png'', ''b.png''], index = 0\<rparr>"
      "[''a.png'' \<mapsto> \<lparr>shape = [2, 2], elems = [1, 2, 3, 4]\<rparr>]"]
  by (simp add: image_files_def)

theorem ReadImage_SaveImage_mismatch_witness:
  "read_then_save (\<lambda>p x. x) [''a.png'', ''b.png''] [''x.png'']
     [''a.png'' \<mapsto> \<lparr>shape = [2, 2], elems = [1, 2, 3, 4]\<rparr>, ''b.png'' \<mapsto> \<lparr>shape = [1, 1], elems = [7]\<rparr>]
   = Some (Inl IOError, [''a.png'' \<mapsto> \<lparr>shape = [2, 2], elems = [1, 2, 3, 4]\<rparr>, ''b.png'' \<mapsto> \<lparr>shape = [1, 1], elems = [7]\<rparr>])"
  by (rule ReadImage_SaveImage_mismatch) (simp_all add: image_files_def)

theorem SaveImage_writes_witness:
  "\<exists>fs'. SaveImage (\<lambda>p x. x) [''x.png''] [\<lparr>shape = [1, 1, 2, 1], elems = [5, 6]\<rparr>] Map.empty = (Inr (), fs') \<and>
     fs' ''x.png'' = Some \<lparr>shape = [1, 2, 1], elems = [5, 6]\<rparr>"
proof -
  have u: "map_res unbatch [\<lparr>shape = [1, 1, 2, 1], elems = [5, 6::int]\<rparr>] = Inr [\<lparr>shape = [1, 2, 1], elems = [5, 6]\<rparr>]"
    by (simp add: unbatch_def nd_reshape_def)
  show ?thesis using SaveImage_writes [OF _ _ u, of "[''x.png'']" "\<lambda>p x. x" Map.empty] by auto
qed

theorem SaveImage_partial_witness:
  "\<exists>fs'. SaveImage (\<lambda>p x. x) [''x.png'', ''y.png'']
          [\<lparr>shape = [1, 1, 2, 1], elems = [5, 6]\<rparr>, \<lparr>shape = [2, 1, 1, 1], elems = [8, 9]\<rparr>] Map.empty
        = (Inl ValueError, fs') \<and>
     fs' ''x.png'' = Some \<lparr>shape = [1, 2, 1], elems = [5, 6]\<rparr> \<and> fs' ''y.png'' = None"
proof -
  have u: "map_res unbatch (take 1 [\<lparr>shape = [1, 1, 2, 1], elems = [5, 6::int]\<rparr>, \<lparr>shape = [2, 1, 1, 1], elems = [8, 9]\<rparr>])
      = Inr [\<lparr>shape = [1, 2, 1], elems = [5, 6]\<rparr>]"
    by (simp add: unbatch_def nd_reshape_def)
  have e: "unbatch ([\<lparr>shape = [1, 1, 2, 1], elems = [5, 6::int]\<rparr>, \<lparr>shape = [2, 1, 1, 1], elems = [8, 9]\<rparr>] ! 1) = Inl ValueError"
    by (simp add: unbatch_def nd_reshape_def)
  show ?thesis
    using SaveImage_partial [OF _ _ _ u e, of "[''x.png'', ''y.png'']" "\<lambda>p x. x" Map.empty] by auto
qed

theorem ReadImage_SaveImage_roundtrip_witness:
  "\<exists>fs'. read_then_save (\<lambda>p x. x) [''a.png''] [''x.png''] [''a.png'' \<mapsto> \<lparr>shape = [2, 2], elems = [1, 2, 3, 4]\<rparr>]
          = Some (Inr (), fs') \<and>
     map_option fst (Collect_nut (read_image fs') \<lparr>paths = [''x.png''], index = 0\<rparr>) =
     map_option fst (Collect_nut (read_image [''a.png'' \<mapsto> \<lparr>shape = [2, 2], elems = [1, 2, 3, 4]\<rparr>]) \<lparr>paths = [''a.png''], index = 0\<rparr>)"
  by (rule ReadImage_SaveImage_roundtrip) (simp_all add: image_files_def)

end
