(* ===== verification/Lazy.thy ===== *)
theory Lazy
  imports MediaIO
begin

text \<open>
  Python generators and iterators, as the stages of the repository produce and consume
  them. A generator is the codatatype \<open>gen\<close> of its steps (yield, stop, raise, or a step
  of its body that yields nothing), so an endless generator is an infinite value;
  \<open>unfold_gen\<close> is the generator of an iterator object's \<open>__next__\<close>; \<open>gen_trace\<close> drains
  a generator (\<open>list(it)\<close>) to its finite run, a \<open>trace\<close> of the items and the exception
  that ended it, or \<open>None\<close> when it never ends; \<open>collect_gen\<close> is \<open>nutsflow.Collect\<close>. A
  generator function \<open>for x in it: <body yielding>\<close> is \<open>for_gen\<close>: the body runs on an item
  when the item is pulled, so an exception of the body on an early item comes before an
  exception the input raises later, and a body that raises stops even an endless input.
  The lemmas relate these to the list-level \<open>drain\<close> of \<open>MediaIO\<close> and give the
  exception order of a lazy stage.
\<close>

type_synonym 'a trace = "'a list \<times> py_error option"

text \<open>\<open>list(gen)\<close>: the items, unless the generator ended with an exception.\<close>

definition trace_res :: "'a trace \<Rightarrow> 'a list res" where
  "trace_res t = (case snd t of None \<Rightarrow> Inr (fst t) | Some e \<Rightarrow> Inl e)"

text \<open>A statement that may raise, inside a generator body: nothing yielded on an exception.\<close>

definition bind_trace :: "'a res \<Rightarrow> ('a \<Rightarrow> 'b trace) \<Rightarrow> 'b trace" where
  "bind_trace r k = (case r of Inl e \<Rightarrow> ([], Some e) | Inr x \<Rightarrow> k x)"

text \<open>\<open>yield v\<close> where computing \<open>v\<close> may raise.\<close>

definition yield_one :: "'b res \<Rightarrow> 'b trace" where
  "yield_one r = bind_trace r (\<lambda>y. ([y], None))"

text \<open>\<open>for x in it: body(x)\<close>, where \<open>it\<close> drains to the trace \<open>(xs, eo)\<close>.\<close>

fun trace_bind :: "'a trace \<Rightarrow> ('a \<Rightarrow> 'b trace) \<Rightarrow> 'b trace" where
  "trace_bind ([], eo) k = ([], eo)"
| "trace_bind (x # xs, eo) k =
     (case k x of
        (ys, Some e) \<Rightarrow> (ys, Some e)
      | (ys, None) \<Rightarrow> (case trace_bind (xs, eo) k of (zs, eo') \<Rightarrow> (ys @ zs, eo')))"

text \<open>
  A generator, as the sequence of its steps: each call of \<open>__next__\<close> either yields, ends
  it (\<open>StopIteration\<close>) or raises; \<open>GSkip\<close> is a step of its body that yields nothing
  (an iteration of a loop with no \<open>yield\<close>). A generator may run forever.
\<close>

codatatype 'a gen = GStop | GRaise py_error | GYield 'a "'a gen" | GSkip "'a gen"

text \<open>The generator of an iterator object: its \<open>__next__\<close> called until it stops or raises.\<close>

primcorec unfold_gen :: "('s \<Rightarrow> ('a next_result \<times> 's) res) \<Rightarrow> 's \<Rightarrow> 'a gen" where
  "unfold_gen nxt s =
     (case nxt s of
        Inl e \<Rightarrow> GRaise e
      | Inr (StopIteration, _) \<Rightarrow> GStop
      | Inr (Yield x, s') \<Rightarrow> GYield x (unfold_gen nxt s'))"

text \<open>A list as a generator (\<open>iter(xs)\<close>), and a finite run as the generator that replays it.\<close>

fun gen_of_trace :: "'a list \<Rightarrow> py_error option \<Rightarrow> 'a gen" where
  "gen_of_trace [] None = GStop"
| "gen_of_trace [] (Some e) = GRaise e"
| "gen_of_trace (x # xs) eo = GYield x (gen_of_trace xs eo)"

text \<open>Draining a generator: the run it makes, or \<open>None\<close> when it never ends.\<close>

partial_function (option) gen_trace :: "'a gen \<Rightarrow> 'a trace option" where
  "gen_trace g =
     (case g of
        GStop \<Rightarrow> Some ([], None)
      | GRaise e \<Rightarrow> Some ([], Some e)
      | GYield x g' \<Rightarrow> Option.bind (gen_trace g') (\<lambda>(xs, eo). Some (x # xs, eo))
      | GSkip g' \<Rightarrow> gen_trace g')"

text \<open>\<open>list(gen)\<close>, what \<open>nutsflow.Collect\<close> returns.\<close>

definition collect_gen :: "'a gen \<Rightarrow> 'a list res option" where
  "collect_gen g = map_option trace_res (gen_trace g)"

text \<open>
  The generator \<open>for x in g: body(x)\<close>: the body runs on an item when the item is pulled,
  and its yields (the finite run \<open>k x\<close>) are passed on before the next item is pulled;
  \<open>buf\<close> holds what the body has yielded and not yet been passed on.
\<close>

primcorec gen_for :: "'b list \<Rightarrow> 'a gen \<Rightarrow> ('a \<Rightarrow> 'b trace) \<Rightarrow> 'b gen" where
  "gen_for buf g k =
     (case buf of
        y # ys \<Rightarrow> GYield y (gen_for ys g k)
      | [] \<Rightarrow> (case g of
          GStop \<Rightarrow> GStop
        | GRaise e \<Rightarrow> GRaise e
        | GSkip g' \<Rightarrow> GSkip (gen_for [] g' k)
        | GYield x g' \<Rightarrow>
            GSkip (gen_for (fst (k x)) (case snd (k x) of None \<Rightarrow> g' | Some e \<Rightarrow> GRaise e) k)))"

definition for_gen :: "'a gen \<Rightarrow> ('a \<Rightarrow> 'b trace) \<Rightarrow> 'b gen" where
  "for_gen g k = gen_for [] g k"

text \<open>
  A loop \<open>for x in g\<close> that threads an accumulator and yields nothing (a sink's loop):
  the accumulator at the end, the first exception, or \<open>None\<close> when \<open>g\<close> never ends.
\<close>

partial_function (option) fold_gen :: "('b \<Rightarrow> 'a \<Rightarrow> 'b res) \<Rightarrow> 'b \<Rightarrow> 'a gen \<Rightarrow> 'b res option" where
  "fold_gen f acc g =
     (case g of
        GStop \<Rightarrow> Some (Inr acc)
      | GRaise e \<Rightarrow> Some (Inl e)
      | GYield x g' \<Rightarrow> (case f acc x of Inl e \<Rightarrow> Some (Inl e) | Inr acc' \<Rightarrow> fold_gen f acc' g')
      | GSkip g' \<Rightarrow> fold_gen f acc g')"

text \<open>
  A generator whose first step never returns, and a statement of a generator body that
  may raise or not return (\<open>None\<close>), followed by the rest of the body.
\<close>

primcorec gen_diverge :: "'a gen" where
  "gen_diverge = GSkip gen_diverge"

definition gen_after :: "'a res option \<Rightarrow> ('a \<Rightarrow> 'b gen) \<Rightarrow> 'b gen" where
  "gen_after r k = (case r of None \<Rightarrow> gen_diverge | Some (Inl e) \<Rightarrow> GRaise e | Some (Inr x) \<Rightarrow> k x)"

text \<open>The same loop over a list.\<close>

fun fold_res :: "('b \<Rightarrow> 'a \<Rightarrow> 'b res) \<Rightarrow> 'b \<Rightarrow> 'a list \<Rightarrow> 'b res" where
  "fold_res f acc [] = Inr acc"
| "fold_res f acc (x # xs) = bind_res (f acc x) (\<lambda>acc'. fold_res f acc' xs)"

subsection \<open>Lemmas\<close>

lemma trace_res_simps [simp]:
  "trace_res (xs, None) = Inr xs"
  "trace_res (xs, Some e) = Inl e"
  by (simp_all add: trace_res_def)

lemma bind_trace_simps [simp]:
  "bind_trace (Inl e) k = ([], Some e)"
  "bind_trace (Inr x) k = k x"
  by (simp_all add: bind_trace_def)

lemma yield_one_simps [simp]:
  "yield_one (Inl e) = ([], Some e)"
  "yield_one (Inr y) = ([y], None)"
  by (simp_all add: yield_one_def)

lemma trace_res_eq_Inr: "trace_res t = Inr xs \<longleftrightarrow> t = (xs, None)"
  by (cases t; cases "snd t") (auto simp: trace_res_def)

lemma trace_res_cons: "trace_res (x # xs, eo) = bind_res (trace_res (xs, eo)) (\<lambda>ys. Inr (x # ys))"
  by (cases eo) simp_all

lemma trace_res_append: "trace_res (ys @ zs, eo) = bind_res (trace_res (zs, eo)) (\<lambda>zs'. Inr (ys @ zs'))"
  by (cases eo) simp_all

lemma trace_res_bind_trace: "trace_res (bind_trace r k) = bind_res r (\<lambda>x. trace_res (k x))"
  by (cases r) simp_all

theorem trace_bind_res:
  "trace_res (trace_bind (xs, eo) k) =
     bind_res (map_res (\<lambda>x. trace_res (k x)) xs) (\<lambda>yss. case eo of None \<Rightarrow> Inr (concat yss) | Some e \<Rightarrow> Inl e)"
proof (induction xs)
  case Nil
  then show ?case by (cases eo) simp_all
next
  case (Cons x xs)
  obtain ys eo1 where kx: "k x = (ys, eo1)" by fastforce
  show ?case
  proof (cases eo1)
    case None
    obtain zs eo' where tb: "trace_bind (xs, eo) k = (zs, eo')" by fastforce
    show ?thesis using Cons.IH kx None tb
      by (cases "map_res (\<lambda>x. trace_res (k x)) xs"; cases eo; cases eo') (simp_all add: trace_res_append)
  qed (simp add: kx)
qed

lemma trace_map_res: "trace_res (trace_bind (xs, None) (\<lambda>x. yield_one (f x))) = map_res f xs"
proof (induction xs)
  case (Cons x xs)
  obtain zs eo' where tb: "trace_bind (xs, None) (\<lambda>x. yield_one (f x)) = (zs, eo')" by fastforce
  show ?case by (cases "f x"; cases eo') (simp_all add: tb flip: Cons.IH)
qed simp


subsection \<open>Generators step by step\<close>

lemma gen_trace_simps [simp]:
  "gen_trace GStop = Some ([], None)"
  "gen_trace (GRaise e) = Some ([], Some e)"
  "gen_trace (GYield x g) = Option.bind (gen_trace g) (\<lambda>(xs, eo). Some (x # xs, eo))"
  "gen_trace (GSkip g) = gen_trace g"
  by (subst gen_trace.simps; simp)+

lemma fold_gen_simps [simp]:
  "fold_gen f acc GStop = Some (Inr acc)"
  "fold_gen f acc (GRaise e) = Some (Inl e)"
  "fold_gen f acc (GYield x g) = (case f acc x of Inl e \<Rightarrow> Some (Inl e) | Inr acc' \<Rightarrow> fold_gen f acc' g)"
  "fold_gen f acc (GSkip g) = fold_gen f acc g"
  by (subst fold_gen.simps; simp)+

lemma gen_for_simps [simp]:
  "gen_for (y # ys) g k = GYield y (gen_for ys g k)"
  "gen_for [] GStop k = GStop"
  "gen_for [] (GRaise e) k = GRaise e"
  "gen_for [] (GSkip g) k = GSkip (gen_for [] g k)"
  "gen_for [] (GYield x g) k = GSkip (gen_for (fst (k x)) (case snd (k x) of None \<Rightarrow> g | Some e \<Rightarrow> GRaise e) k)"
  by (subst gen_for.code; simp)+

lemma unfold_gen_step:
  "nxt s = Inl e \<Longrightarrow> unfold_gen nxt s = GRaise e"
  "nxt s = Inr (StopIteration, s') \<Longrightarrow> unfold_gen nxt s = GStop"
  "nxt s = Inr (Yield x, s') \<Longrightarrow> unfold_gen nxt s = GYield x (unfold_gen nxt s')"
  by (subst unfold_gen.code; simp)+

lemma gen_trace_of_trace [simp]: "gen_trace (gen_of_trace xs eo) = Some (xs, eo)"
  by (induction xs eo rule: gen_of_trace.induct) simp_all

lemma gen_trace_buffer:
  "gen_trace (gen_for ys g k) = map_option (\<lambda>(zs, eo). (ys @ zs, eo)) (gen_trace (gen_for [] g k))"
proof (induction ys)
  case Nil
  show ?case by (cases "gen_trace (gen_for [] g k)") auto
next
  case (Cons y ys)
  then show ?case by (cases "gen_trace (gen_for [] g k)") auto
qed

lemma gen_trace_unfold_of_drain:
  assumes "drain nxt s = Some y"
  shows "collect_gen (unfold_gen nxt s) = Some (fst y)"
proof (rule drain.raw_induct [where P = "\<lambda>nxt s y. collect_gen (unfold_gen nxt s) = Some (fst y)", OF _ assms])
  fix F nxt s y
  assume IH: "\<And>nxt s y. F nxt s = Some y \<Longrightarrow> collect_gen (unfold_gen nxt s) = Some (fst y)"
    and body: "(case nxt s of
        Inl e \<Rightarrow> Some (Inl e, s)
      | Inr (StopIteration, s') \<Rightarrow> Some (Inr [], s')
      | Inr (Yield x, s') \<Rightarrow>
          Option.bind (F nxt s') (\<lambda>(res, s''). Some (bind_res res (\<lambda>xs. Inr (x # xs)), s''))) = Some y"
  show "collect_gen (unfold_gen nxt s) = Some (fst y)"
  proof (cases "nxt s")
    case (Inl e)
    then show ?thesis using body by (auto simp: unfold_gen_step collect_gen_def)
  next
    case (Inr r)
    then obtain v s' where r: "nxt s = Inr (v, s')" by (cases r) auto
    show ?thesis
    proof (cases v)
      case (Yield x)
      with body r obtain res s'' where F: "F nxt s' = Some (res, s'')"
        and y: "y = (bind_res res (\<lambda>xs. Inr (x # xs)), s'')"
        by (auto simp: bind_eq_Some_conv)
      from IH [OF F] obtain t where t: "gen_trace (unfold_gen nxt s') = Some t" and res: "trace_res t = res"
        by (auto simp: collect_gen_def)
      show ?thesis using r Yield y t res
        by (cases t) (simp add: unfold_gen_step collect_gen_def trace_res_cons)
    next
      case StopIteration
      then show ?thesis using body r by (auto simp: unfold_gen_step collect_gen_def)
    qed
  qed
qed

lemma drain_of_gen_trace_unfold:
  assumes "gen_trace g = Some t"
  shows "\<forall>s. g = unfold_gen nxt s \<longrightarrow> (\<exists>y. drain nxt s = Some y)"
proof (rule gen_trace.raw_induct [where P = "\<lambda>g t. \<forall>s. g = unfold_gen nxt s \<longrightarrow> (\<exists>y. drain nxt s = Some y)", OF _ assms])
  fix F g t
  assume IH: "\<And>g t. F g = Some t \<Longrightarrow> \<forall>s. g = unfold_gen nxt s \<longrightarrow> (\<exists>y. drain nxt s = Some y)"
    and body: "(case g of
        GStop \<Rightarrow> Some ([], None)
      | GRaise e \<Rightarrow> Some ([], Some e)
      | GYield x g' \<Rightarrow> Option.bind (F g') (\<lambda>(xs, eo). Some (x # xs, eo))
      | GSkip g' \<Rightarrow> F g') = Some t"
  show "\<forall>s. g = unfold_gen nxt s \<longrightarrow> (\<exists>y. drain nxt s = Some y)"
  proof (intro allI impI)
    fix s
    assume g: "g = unfold_gen nxt s"
    show "\<exists>y. drain nxt s = Some y"
    proof (cases "nxt s")
      case (Inl e)
      then show ?thesis by (simp add: drain.simps [of nxt s])
    next
      case (Inr r)
      then obtain v s' where r: "nxt s = Inr (v, s')" by (cases r) auto
      show ?thesis
      proof (cases v)
        case (Yield x)
        with r g body obtain t' where "F (unfold_gen nxt s') = Some t'"
          by (auto simp: unfold_gen_step bind_eq_Some_conv)
        from IH [OF this] obtain y' where "drain nxt s' = Some y'" by blast
        then show ?thesis using r Yield by (cases y') (auto simp: drain.simps [of nxt s])
      next
        case StopIteration
        then show ?thesis using r by (simp add: drain.simps [of nxt s])
      qed
    qed
  qed
qed

text \<open>
  Collecting the generator an iterator object makes is the list-level \<open>drain\<close> of
  \<open>MediaIO\<close>: same list, same exception, and neither returns when the other does not.
\<close>

theorem collect_unfold_gen: "collect_gen (unfold_gen nxt s) = map_option fst (drain nxt s)"
proof (cases "drain nxt s")
  case None
  show ?thesis
  proof (cases "gen_trace (unfold_gen nxt s)")
    case (Some t)
    with drain_of_gen_trace_unfold [of "unfold_gen nxt s" t nxt] None show ?thesis by auto
  qed (simp add: None collect_gen_def)
next
  case (Some y)
  then show ?thesis using gen_trace_unfold_of_drain [OF Some] by simp
qed

theorem for_gen_trace:
  assumes "gen_trace g = Some t"
  shows "gen_trace (for_gen g k) = Some (trace_bind t k)"
proof (rule gen_trace.raw_induct [where P = "\<lambda>g t. gen_trace (for_gen g k) = Some (trace_bind t k)", OF _ assms])
  fix F g t
  assume IH: "\<And>g t. F g = Some t \<Longrightarrow> gen_trace (for_gen g k) = Some (trace_bind t k)"
    and body: "(case g of
        GStop \<Rightarrow> Some ([], None)
      | GRaise e \<Rightarrow> Some ([], Some e)
      | GYield x g' \<Rightarrow> Option.bind (F g') (\<lambda>(xs, eo). Some (x # xs, eo))
      | GSkip g' \<Rightarrow> F g') = Some t"
  show "gen_trace (for_gen g k) = Some (trace_bind t k)"
  proof (cases g)
    case (GYield x g')
    with body obtain xs eo where F: "F g' = Some (xs, eo)" and t: "t = (x # xs, eo)"
      by (auto simp: bind_eq_Some_conv)
    obtain ys eo1 where kx: "k x = (ys, eo1)" by fastforce
    show ?thesis
    proof (cases eo1)
      case None
      then show ?thesis using IH [OF F] GYield t kx
        by (simp add: for_gen_def gen_trace_buffer [of ys] split: prod.splits)
    qed (simp add: GYield t kx for_gen_def gen_trace_buffer [of ys])
  next
    case (GSkip g')
    then show ?thesis using IH body by (simp add: for_gen_def)
  qed (use body in \<open>auto simp: for_gen_def\<close>)
qed

theorem for_gen_raises_first:
  "snd (k x) = Some e \<Longrightarrow> gen_trace (for_gen (GYield x g) k) = Some (fst (k x), Some e)"
  by (simp add: for_gen_def gen_trace_buffer [of "fst (k x)"])

theorem fold_gen_trace:
  assumes "gen_trace g = Some (xs, eo)"
  shows "fold_gen f acc g = Some (bind_res (fold_res f acc xs) (\<lambda>a. case eo of None \<Rightarrow> Inr a | Some e \<Rightarrow> Inl e))"
proof -
  have "\<forall>acc. fold_gen f acc g = Some (bind_res (fold_res f acc (fst t)) (\<lambda>a. case snd t of None \<Rightarrow> Inr a | Some e \<Rightarrow> Inl e))"
    if "gen_trace g = Some t" for t
  proof (rule gen_trace.raw_induct [where P = "\<lambda>g t. \<forall>acc. fold_gen f acc g =
            Some (bind_res (fold_res f acc (fst t)) (\<lambda>a. case snd t of None \<Rightarrow> Inr a | Some e \<Rightarrow> Inl e))", OF _ that])
    fix F g t
    assume IH: "\<And>g t. F g = Some t \<Longrightarrow> \<forall>acc. fold_gen f acc g =
            Some (bind_res (fold_res f acc (fst t)) (\<lambda>a. case snd t of None \<Rightarrow> Inr a | Some e \<Rightarrow> Inl e))"
      and body: "(case g of
        GStop \<Rightarrow> Some ([], None)
      | GRaise e \<Rightarrow> Some ([], Some e)
      | GYield x g' \<Rightarrow> Option.bind (F g') (\<lambda>(xs, eo). Some (x # xs, eo))
      | GSkip g' \<Rightarrow> F g') = Some t"
    show "\<forall>acc. fold_gen f acc g =
            Some (bind_res (fold_res f acc (fst t)) (\<lambda>a. case snd t of None \<Rightarrow> Inr a | Some e \<Rightarrow> Inl e))"
    proof (cases g)
      case (GYield x g')
      with body obtain t' where F: "F g' = Some t'" and t: "t = (x # fst t', snd t')"
        by (auto simp: bind_eq_Some_conv split: prod.splits)
      show ?thesis
      proof
        fix acc
        show "fold_gen f acc g =
            Some (bind_res (fold_res f acc (fst t)) (\<lambda>a. case snd t of None \<Rightarrow> Inr a | Some e \<Rightarrow> Inl e))"
          using IH [OF F] GYield t by (cases "f acc x") simp_all
      qed
    next
      case (GSkip g')
      then show ?thesis using IH body by simp
    qed (use body in \<open>auto\<close>)
  qed
  then show ?thesis using assms by simp
qed

lemma gen_trace_not_diverge:
  assumes "gen_trace (g :: 'a gen) = Some t"
  shows "g \<noteq> gen_diverge"
proof (rule gen_trace.raw_induct [where P = "\<lambda>g t. g \<noteq> gen_diverge", OF _ assms])
  fix F :: "'a gen \<Rightarrow> 'a trace option" and g :: "'a gen" and t :: "'a trace"
  assume IH: "\<And>g t. F g = Some t \<Longrightarrow> g \<noteq> gen_diverge"
    and body: "(case g of
        GStop \<Rightarrow> Some ([], None)
      | GRaise e \<Rightarrow> Some ([], Some e)
      | GYield x g' \<Rightarrow> Option.bind (F g') (\<lambda>(xs, eo). Some (x # xs, eo))
      | GSkip g' \<Rightarrow> F g') = Some t"
  show "g \<noteq> gen_diverge"
  proof
    assume "g = gen_diverge"
    then have "g = GSkip gen_diverge" using gen_diverge.code by simp
    with body have "F gen_diverge = Some t" by simp
    from IH [OF this] show False by simp
  qed
qed

lemma gen_trace_diverge [simp]: "gen_trace (gen_diverge :: 'a gen) = None"
  using gen_trace_not_diverge [of "gen_diverge :: 'a gen"] by (cases "gen_trace (gen_diverge :: 'a gen)") auto

lemma gen_after_simps [simp]:
  "gen_after None k = gen_diverge"
  "gen_after (Some (Inl e)) k = GRaise e"
  "gen_after (Some (Inr x)) k = k x"
  by (simp_all add: gen_after_def)

lemma gen_trace_map_gen:
  assumes "gen_trace g = Some t"
  shows "gen_trace (map_gen f g) = Some (map f (fst t), snd t)"
proof (rule gen_trace.raw_induct [where P = "\<lambda>g t. gen_trace (map_gen f g) = Some (map f (fst t), snd t)", OF _ assms])
  fix F g t
  assume IH: "\<And>g t. F g = Some t \<Longrightarrow> gen_trace (map_gen f g) = Some (map f (fst t), snd t)"
    and body: "(case g of
        GStop \<Rightarrow> Some ([], None)
      | GRaise e \<Rightarrow> Some ([], Some e)
      | GYield x g' \<Rightarrow> Option.bind (F g') (\<lambda>(xs, eo). Some (x # xs, eo))
      | GSkip g' \<Rightarrow> F g') = Some t"
  show "gen_trace (map_gen f g) = Some (map f (fst t), snd t)"
  proof (cases g)
    case (GYield x g')
    with body obtain t' where F: "F g' = Some t'" and t: "t = (x # fst t', snd t')"
      by (auto simp: bind_eq_Some_conv split: prod.splits)
    show ?thesis using IH [OF F] GYield t by simp
  qed (use body IH in auto)
qed

text \<open>The generator of a \<open>ReadImage\<close>-style reader: its paths from the cursor on, decoded in turn.\<close>

lemma gen_trace_reader:
  "gen_trace (unfold_gen (reader_next d) r) = Some (trace_bind (drop (index r) (paths r), None) (\<lambda>p. yield_one (d p)))"
proof (induction "length (paths r) - index r" arbitrary: r rule: less_induct)
  case less
  show ?case
  proof (cases "index r < length (paths r)")
    case True
    let ?r' = "r\<lparr>index := Suc (index r)\<rparr>"
    have dr: "drop (index r) (paths r) = paths r ! index r # drop (Suc (index r)) (paths r)"
      using True by (simp add: Cons_nth_drop_Suc)
    show ?thesis
    proof (cases "d (paths r ! index r)")
      case (Inl e)
      then show ?thesis using True dr by (simp add: unfold_gen_step reader_next_at)
    next
      case (Inr v)
      have "length (paths ?r') - index ?r' < length (paths r) - index r" using True by simp
      from less [OF this] have rec: "gen_trace (unfold_gen (reader_next d) ?r') =
          Some (trace_bind (drop (Suc (index r)) (paths r), None) (\<lambda>p. yield_one (d p)))" by simp
      have "unfold_gen (reader_next d) r = GYield v (unfold_gen (reader_next d) ?r')"
        using True Inr by (intro unfold_gen_step) (simp add: reader_next_at)
      then show ?thesis using rec dr Inr by (simp split: prod.splits)
    qed
  next
    case False
    then show ?thesis by (simp add: unfold_gen_step reader_next_stop)
  qed
qed

lemma collect_for_yield:
  "gen_trace g = Some (xs, None) \<Longrightarrow> collect_gen (for_gen g (\<lambda>x. yield_one (f x))) = Some (map_res f xs)"
  by (simp add: collect_gen_def for_gen_trace trace_map_res)

lemma trace_bind_yield_Inr:
  "(\<And>x. x \<in> set xs \<Longrightarrow> f x = Inr (g x)) \<Longrightarrow> trace_bind (xs, None) (\<lambda>x. yield_one (f x)) = (map g xs, None)"
  by (induction xs) simp_all

lemma collect_gen_simps [simp]:
  "collect_gen GStop = Some (Inr [])"
  "collect_gen (GRaise e) = Some (Inl e)"
  "collect_gen (GYield x g) = map_option (\<lambda>r. bind_res r (\<lambda>xs. Inr (x # xs))) (collect_gen g)"
  "collect_gen (GSkip g) = collect_gen g"
  by (simp_all add: collect_gen_def) (cases "gen_trace g"; auto simp: trace_res_cons)

lemma collect_gen_None: "collect_gen g = None \<longleftrightarrow> gen_trace g = None"
  by (simp add: collect_gen_def)

text \<open>
  The exception order of a lazy stage \<open>for x in g: body(x)\<close>: drained, it returns the
  bodies' yields in order when every body and the input end normally; otherwise the first
  exception in the order the loop meets them, a body's exception on an item coming before
  any exception the input raises after that item.
\<close>

theorem collect_for_gen:
  assumes "gen_trace g = Some (xs, eo)"
  shows "collect_gen (for_gen g k) =
           Some (bind_res (map_res (\<lambda>x. trace_res (k x)) xs)
                   (\<lambda>yss. case eo of None \<Rightarrow> Inr (concat yss) | Some e \<Rightarrow> Inl e))"
proof -
  have "gen_trace (for_gen g k) = Some (trace_bind (xs, eo) k)" by (rule for_gen_trace [OF assms])
  then show ?thesis by (simp only: collect_gen_def option.map trace_bind_res)
qed

theorem collect_for_gen_witness:
  "gen_trace (gen_of_trace [1, 2 :: nat] (Some IOError)) = Some ([1, 2], Some IOError) \<and>
   collect_gen (for_gen (gen_of_trace [1, 2 :: nat] (Some IOError))
     (\<lambda>x. if x = 2 then ([x], Some ValueError) else ([x, x], None))) = Some (Inl ValueError)"
  using collect_for_gen [of "gen_of_trace [1, 2 :: nat] (Some IOError)" "[1, 2]" "Some IOError"
      "\<lambda>x. if x = 2 then ([x], Some ValueError) else ([x, x], None)"]
  by simp

lemma gen_trace_of_map_gen:
  assumes "gen_trace h = Some t"
  shows "\<forall>g. h = map_gen f g \<longrightarrow> (\<exists>t'. gen_trace g = Some t')"
proof (rule gen_trace.raw_induct [where P = "\<lambda>h t. \<forall>g. h = map_gen f g \<longrightarrow> (\<exists>t'. gen_trace g = Some t')", OF _ assms])
  fix F h t
  assume IH: "\<And>h t. F h = Some t \<Longrightarrow> \<forall>g. h = map_gen f g \<longrightarrow> (\<exists>t'. gen_trace g = Some t')"
    and body: "(case h of
        GStop \<Rightarrow> Some ([], None)
      | GRaise e \<Rightarrow> Some ([], Some e)
      | GYield x g' \<Rightarrow> Option.bind (F g') (\<lambda>(xs, eo). Some (x # xs, eo))
      | GSkip g' \<Rightarrow> F g') = Some t"
  show "\<forall>g. h = map_gen f g \<longrightarrow> (\<exists>t'. gen_trace g = Some t')"
  proof (intro allI impI)
    fix g
    assume h: "h = map_gen f g"
    show "\<exists>t'. gen_trace g = Some t'"
    proof (cases g)
      case (GYield x g')
      with h body obtain t'' where "F (map_gen f g') = Some t''" by (auto simp: gen.map bind_eq_Some_conv)
      from IH [OF this] obtain t' where "gen_trace g' = Some t'" by blast
      then show ?thesis using GYield by (cases t') simp
    next
      case (GSkip g')
      with h body have "F (map_gen f g') = Some t" by (simp add: gen.map)
      from IH [OF this] show ?thesis using GSkip by simp
    qed simp_all
  qed
qed

lemma gen_trace_map_gen_None: "gen_trace g = None \<Longrightarrow> gen_trace (map_gen f g) = None"
  using gen_trace_of_map_gen [of "map_gen f g" _ f] by (cases "gen_trace (map_gen f g)") auto

text \<open>
  Two lazy stages, each yielding one value per input item, fuse: the second stage works on
  item i before the first one pulls item i + 1, so the pair behaves as one stage running
  both bodies on each item in turn.
\<close>

lemma trace_bind_yield_fuse:
  "trace_bind (trace_bind (xs, eo) (\<lambda>x. yield_one (f x))) (\<lambda>y. yield_one (h y)) =
   trace_bind (xs, eo) (\<lambda>x. yield_one (bind_res (f x) h))"
proof (induction xs)
  case (Cons a xs)
  then show ?case
    by (cases "f a"; cases "bind_res (f a) h") (auto simp: bind_res_def split: prod.splits option.splits)
qed simp

lemma for_gen_yield_fuse:
  assumes "gen_trace g = Some t"
  shows "gen_trace (for_gen (for_gen g (\<lambda>x. yield_one (f x))) (\<lambda>y. yield_one (h y))) =
           Some (trace_bind t (\<lambda>x. yield_one (bind_res (f x) h)))"
proof -
  have "gen_trace (for_gen g (\<lambda>x. yield_one (f x))) = Some (trace_bind t (\<lambda>x. yield_one (f x)))"
    by (rule for_gen_trace [OF assms])
  from for_gen_trace [OF this, of "\<lambda>y. yield_one (h y)"] show ?thesis
    by (cases t) (simp only: trace_bind_yield_fuse)
qed

end
