(* ===== verification/Pipeline.thy ===== *)
theory Pipeline
  imports Lazy
begin

text \<open>
  The chaining contract of \<^verbatim>\<open>cloudmosh/components/base.py\<close>: a stage takes its input
  through \<open>__rrshift__\<close>, so \<open>x >> A >> B\<close> is \<open>B.__rrshift__(A.__rrshift__(x))\<close>. The stage
  kinds are nutsflow's, which \<^verbatim>\<open>base.py\<close> re-exports:
  \<^item> a source (\<open>ReadImage\<close>, \<open>ReadVideoOrGIF\<close>, \<open>ReadImageAsBinary\<close>) overrides
    \<open>__rrshift__\<close> to raise \<open>SyntaxError\<close> and is read, in the world as it is then, when
    something iterates it;
  \<^item> a generator stage (\<open>DepthToClouds\<close>, \<open>PaintClouds\<close>, \<open>InterpolateClouds\<close>,
    \<open>AWDepthEstimator\<close>, \<open>OffscreenCloudRender\<close>, and the \<open>NutFunction\<close> \<open>PosterizeDepth\<close>)
    returns a generator: nothing runs until the generator is consumed. Most iterate their
    input; \<open>InterpolateClouds\<close> takes \<open>len\<close> of it and indexes it, which only a list allows;
  \<^item> \<open>nutsflow.Collect()\<close> drains its input into a list;
  \<^item> a sink (\<open>SaveImage\<close>, \<open>SaveGIF\<close>, \<open>SimpleCloudView\<close>) drains its input for an effect
    on the world \<open>'s\<close> (files, screen), returns \<open>None\<close>, and overrides \<open>__iter__\<close> to raise
    \<open>SyntaxError\<close>.
  A value in a chain is a list, a generator (the \<open>gen\<close> of \<open>Lazy\<close> it is in the world it
  is pulled in), \<open>None\<close>, or a stage object. Only \<open>Collect\<close> and the sinks pull: a chain of
  generator stages builds a generator and runs nothing. A drain may not return: \<open>None\<close> of
  \<open>option\<close>.
\<close>

datatype ('v, 's) stage =
    Source "'s \<Rightarrow> 'v gen"
  | Gen "'s \<Rightarrow> 'v gen \<Rightarrow> 'v gen"
  | GenIdx "'s \<Rightarrow> 'v list \<Rightarrow> 'v gen"
  | Collect
  | Sink "'v gen \<Rightarrow> 's \<Rightarrow> (unit res \<times> 's) option"

datatype ('v, 's) pyval =
    PyList "'v list"
  | PyGen "'s \<Rightarrow> 'v gen"
  | PyNone
  | PyStage "('v, 's) stage"

text \<open>
  Iterating a value in the world \<open>w\<close>: a list yields its elements, a generator or a source
  what it produces; \<open>None\<close> and a non-source stage object are not iterable (\<open>TypeError\<close>);
  a sink's \<open>__iter__\<close> raises \<open>SyntaxError\<close>. Inside a generator these are raised when
  the generator is first pulled.
\<close>

fun iter_val :: "'s \<Rightarrow> ('v, 's) pyval \<Rightarrow> 'v gen" where
  "iter_val w (PyList xs) = gen_of_trace xs None"
| "iter_val w (PyGen g) = g w"
| "iter_val w PyNone = GRaise TypeError"
| "iter_val w (PyStage (Source r)) = r w"
| "iter_val w (PyStage (Sink g)) = GRaise SyntaxError"
| "iter_val w (PyStage _) = GRaise TypeError"

text \<open>
  The generator a stage returns, run in the world \<open>w\<close> it is pulled in: an iterating stage
  pulls its input as it goes; an indexing stage first takes \<open>len\<close> of its input, which
  only a list has (\<open>TypeError\<close> otherwise, without running the input).
\<close>

definition run_gen :: "('s \<Rightarrow> 'v gen \<Rightarrow> 'v gen) \<Rightarrow> ('v, 's) pyval \<Rightarrow> 's \<Rightarrow> 'v gen" where
  "run_gen f x w = f w (iter_val w x)"

definition run_idx :: "('s \<Rightarrow> 'v list \<Rightarrow> 'v gen) \<Rightarrow> ('v, 's) pyval \<Rightarrow> 's \<Rightarrow> 'v gen" where
  "run_idx f x w = (case x of PyList xs \<Rightarrow> f w xs | _ \<Rightarrow> GRaise TypeError)"

text \<open>\<open>x >> stage\<close>, that is \<open>stage.__rrshift__(x)\<close>, in the world \<open>s\<close>.\<close>

fun rshift :: "'s \<Rightarrow> ('v, 's) pyval \<Rightarrow> ('v, 's) stage \<Rightarrow> (('v, 's) pyval res \<times> 's) option" where
  "rshift s x (Source r) = Some (Inl SyntaxError, s)"
| "rshift s x (Gen f) = Some (Inr (PyGen (run_gen f x)), s)"
| "rshift s x (GenIdx f) = Some (Inr (PyGen (run_idx f x)), s)"
| "rshift s x Collect =
     map_option (\<lambda>r. (bind_res r (\<lambda>xs. Inr (PyList xs)), s)) (collect_gen (iter_val s x))"
| "rshift s x (Sink g) =
     Option.bind (g (iter_val s x) s) (\<lambda>(u, s'). Some (bind_res u (\<lambda>_. Inr PyNone), s'))"

text \<open>\<open>x >> s1 >> s2 >> ...\<close>, evaluated left to right; an exception stops the chain.\<close>

fun run_chain :: "'s \<Rightarrow> ('v, 's) pyval \<Rightarrow> ('v, 's) stage list \<Rightarrow> (('v, 's) pyval res \<times> 's) option" where
  "run_chain s x [] = Some (Inr x, s)"
| "run_chain s x (st # sts) =
     Option.bind (rshift s x st) (\<lambda>(r, s'). case r of Inl e \<Rightarrow> Some (Inl e, s') | Inr y \<Rightarrow> run_chain s' y sts)"

text \<open>The composition the docstring of \<open>CloudMoshComponent.__rrshift__\<close> describes.\<close>

fun compose_transforms :: "('s \<Rightarrow> 'v gen \<Rightarrow> 'v gen) list \<Rightarrow> 's \<Rightarrow> 'v gen \<Rightarrow> 'v gen" where
  "compose_transforms [] w g = g"
| "compose_transforms (f # fs) w g = compose_transforms fs w (f w g)"

subsection \<open>Lemmas\<close>

lemma run_chain_append:
  "run_chain s x (ss @ ss') =
     Option.bind (run_chain s x ss) (\<lambda>(r, s'). case r of Inl e \<Rightarrow> Some (Inl e, s') | Inr y \<Rightarrow> run_chain s' y ss')"
proof (induction ss arbitrary: s x)
  case Nil
  then show ?case by simp
next
  case (Cons st ss)
  show ?case
  proof (cases "rshift s x st")
    case (Some rs)
    then show ?thesis using Cons.IH by (cases rs; cases "fst rs") auto
  qed simp
qed

lemma run_chain_Nil_case: "(case t of Inl e \<Rightarrow> Some (Inl e, w) | Inr y \<Rightarrow> run_chain w y []) = Some (t, w)"
  by (cases t) simp_all

lemma run_chain_gens:
  "\<exists>y. run_chain s x (map Gen fs) = Some (Inr y, s) \<and> (\<forall>w. iter_val w y = compose_transforms fs w (iter_val w x))"
proof (induction fs arbitrary: x)
  case Nil
  show ?case by simp
next
  case (Cons f fs)
  then obtain y where "run_chain s (PyGen (run_gen f x)) (map Gen fs) = Some (Inr y, s)"
    and "\<forall>w. iter_val w y = compose_transforms fs w (iter_val w (PyGen (run_gen f x)))"
    by blast
  then show ?case by (simp add: run_gen_def)
qed

text \<open>
  A source can only head a chain: wherever a source occurs downstream, the chain
  raises \<open>SyntaxError\<close> there, unless an earlier stage has already raised; the world is
  left as the earlier stages left it.
\<close>

theorem run_chain_source_downstream:
  "run_chain s x (ss @ Source r # ss') =
     Option.bind (run_chain s x ss) (\<lambda>(res, s'). Some (case res of Inl e \<Rightarrow> Inl e | Inr _ \<Rightarrow> Inl SyntaxError, s'))"
proof -
  have "(case res of Inl e \<Rightarrow> Some (Inl e, s') | Inr y \<Rightarrow> run_chain s' y (Source r # ss')) =
        Some (case res of Inl e \<Rightarrow> Inl e | Inr _ \<Rightarrow> Inl SyntaxError, s')" for res :: "('a, 'b) pyval res" and s'
    by (cases res) simp_all
  then show ?thesis by (simp add: run_chain_append)
qed

text \<open>
  The composition contract of \<open>CloudMoshComponent.__rrshift__\<close>:
  \<open>x >> A >> B >> ... >> Sink\<close> with generator stages is the sink run on the composed
  generator \<open>... B(A(iter(x)))\<close>, pulled in the world as it is when the sink runs; the
  stages themselves run nothing and change nothing, the sink alone changes the world, and
  a complete chain is \<open>None\<close> unless the sink raised.
\<close>

theorem run_chain_compose:
  "run_chain s x (map Gen fs @ [Sink g]) =
     Option.bind (g (compose_transforms fs s (iter_val s x)) s) (\<lambda>(u, s'). Some (bind_res u (\<lambda>_. Inr PyNone), s'))"
proof -
  obtain y where "run_chain s x (map Gen fs) = Some (Inr y, s)"
    and "iter_val s y = compose_transforms fs s (iter_val s x)"
    using run_chain_gens [of s x fs] by blast
  then show ?thesis by (simp add: run_chain_append run_chain_Nil_case)
qed

end
