(* ===== verification/Cloud.thy ===== *)
theory Cloud
  imports NDArray
begin

text \<open>
  The point cloud entity \<open>DepthCloud\<close> of \<^verbatim>\<open>cloudmosh/components/cloud.py\<close>: its two
  fields, its constructor, the accessors, the two setters that rebuild a field from an
  image, and \<open>hasColors\<close> with numpy's elementwise \<open>!= None\<close>.
\<close>

record cloud =
  points :: "real ndarray"
  colors :: "int ndarray option"

text \<open>
  The nested comprehension \<open>[f(row, column) for row in range(a.shape[0]) for column in
  range(a.shape[1])]\<close>: \<open>a.shape[1]\<close> is only read once the outer range is non-empty.
\<close>

definition comprehend :: "'a ndarray \<Rightarrow> (nat \<Rightarrow> nat \<Rightarrow> 'b res) \<Rightarrow> 'b list res" where
  "comprehend a f =
     bind_res (shape_at (shape a) 0) (\<lambda>w.
       if w = 0 then Inr []
       else bind_res (shape_at (shape a) 1) (\<lambda>h. map_res (\<lambda>(r, c). f r c) (grid w h)))"

definition depth_point :: "real ndarray \<Rightarrow> nat \<Rightarrow> nat \<Rightarrow> (real \<times> real \<times> real) res" where
  "depth_point img r c = bind_res (nd_at img [r, c, 0]) (\<lambda>z. Inr (real r, real c, z))"

definition color_pixel :: "int ndarray \<Rightarrow> nat \<Rightarrow> nat \<Rightarrow> (int \<times> int \<times> int) res" where
  "color_pixel img r c =
     bind_res (nd_at img [r, c, 0]) (\<lambda>cr.
     bind_res (nd_at img [r, c, 1]) (\<lambda>cg.
     bind_res (nd_at img [r, c, 2]) (\<lambda>cb. Inr (cr, cg, cb))))"

definition DepthCloud :: "real ndarray \<Rightarrow> cloud res" where
  "DepthCloud depth =
     (if length (shape depth) = 3
      then bind_res (comprehend depth (depth_point depth))
             (\<lambda>pts. Inr \<lparr>points = nd_of_triples pts, colors = None\<rparr>)
      else Inr \<lparr>points = depth, colors = None\<rparr>)"

definition setDepthByImage :: "cloud \<Rightarrow> real ndarray \<Rightarrow> cloud res" where
  "setDepthByImage cl img =
     bind_res (comprehend img (depth_point img)) (\<lambda>pts. Inr (cl\<lparr>points := nd_of_triples pts\<rparr>))"

definition setColorsByImage :: "cloud \<Rightarrow> int ndarray \<Rightarrow> cloud res" where
  "setColorsByImage cl img =
     bind_res (comprehend img (color_pixel img)) (\<lambda>cs. Inr (cl\<lparr>colors := Some (nd_of_triples cs)\<rparr>))"

text \<open>The plain accessors (lines 21--34).\<close>

definition getPoints :: "cloud \<Rightarrow> real ndarray" where
  "getPoints self = points self"

definition setPoints :: "cloud \<Rightarrow> real ndarray \<Rightarrow> cloud" where
  "setPoints self pts = self\<lparr>points := pts\<rparr>"

definition getColors :: "cloud \<Rightarrow> int ndarray option" where
  "getColors self = colors self"

definition setColors :: "cloud \<Rightarrow> int ndarray option \<Rightarrow> cloud" where
  "setColors self cs = self\<lparr>colors := cs\<rparr>"

text \<open>
  \<open>hasColors\<close> returns \<open>self._colors != None\<close>. With no colours that is \<open>False\<close>; with a
  colour array numpy compares elementwise and returns a boolean array of the colours'
  shape, all \<open>True\<close>. A value used as a condition (\<open>if x:\<close>, \<open>bool(x)\<close>) is a boolean, or
  the single element of a one-element array, \<open>False\<close> for an empty array (numpy 1.x), and
  \<open>ValueError\<close> ("truth value ... is ambiguous") for a larger array.
\<close>

datatype py_truthy = PyBool bool | PyBoolArray "bool ndarray"

definition hasColors :: "cloud \<Rightarrow> py_truthy" where
  "hasColors self =
     (case colors self of None \<Rightarrow> PyBool False | Some cs \<Rightarrow> PyBoolArray (nd_map (\<lambda>_. True) cs))"

definition py_bool :: "py_truthy \<Rightarrow> bool res" where
  "py_bool v =
     (case v of
        PyBool b \<Rightarrow> Inr b
      | PyBoolArray a \<Rightarrow>
          (if length (elems a) = 0 then Inr False
           else if length (elems a) = 1 then Inr (hd (elems a))
           else Inl ValueError))"

text \<open>
  The data-model invariant of the specification: when colours are present there is one
  colour row per point row; in array terms both are arrays of the same shape.
\<close>

definition cloud_inv :: "cloud \<Rightarrow> bool" where
  "cloud_inv cl \<longleftrightarrow> nd_wf (points cl) \<and>
     (case colors cl of None \<Rightarrow> True | Some cs \<Rightarrow> nd_wf cs \<and> shape cs = shape (points cl))"

lemma cloud_eqI: "points a = points b \<Longrightarrow> colors a = colors b \<Longrightarrow> a = (b :: cloud)"
  by (cases a, cases b) simp

subsection \<open>Reading pixels of a well-formed image\<close>

lemma comprehend_image:
  assumes "shape a = w # h # rest"
    and "\<And>r c. r < w \<Longrightarrow> c < h \<Longrightarrow> f r c = Inr (g r c)"
  shows "comprehend a f = Inr (map (\<lambda>(r, c). g r c) (grid w h))"
proof (cases "w = 0")
  case True
  then show ?thesis using assms(1) by (simp add: comprehend_def shape_at_def grid_def)
next
  case False
  have "map_res (\<lambda>(r, c). f r c) (grid w h) = Inr (map (\<lambda>(r, c). g r c) (grid w h))"
    by (rule map_res_Inr_eq) (auto simp: assms(2))
  with False show ?thesis using assms(1) by (simp add: comprehend_def shape_at_def)
qed

lemma nd_at_pixel:
  assumes "nd_wf img" and "shape img = [w, h, ch]" and "r < w" and "c < h" and "k < ch"
  shows "nd_at img [r, c, k] = Inr (elems img ! ((r * h + c) * ch + k))"
proof -
  have "in_bounds (shape img) [r, c, k]" using assms(2-5) by simp
  then have "nd_at img [r, c, k] = Inr (elems img ! flat_offset (shape img) [r, c, k])"
    by (rule nd_at_offset [OF assms(1)])
  then show ?thesis using assms(2) by (simp add: algebra_simps)
qed

lemma depth_point_pixel:
  assumes "nd_wf img" and "shape img = [w, h, ch]" and "0 < ch" and "r < w" and "c < h"
  shows "depth_point img r c = Inr (real r, real c, elems img ! ((r * h + c) * ch))"
  using nd_at_pixel [OF assms(1,2,4,5) assms(3)] by (simp add: depth_point_def)

lemma color_pixel_pixel:
  assumes "nd_wf img" and "shape img = [w, h, ch]" and "3 \<le> ch" and "r < w" and "c < h"
  shows "color_pixel img r c =
           Inr (elems img ! ((r * h + c) * ch), elems img ! ((r * h + c) * ch + 1),
                elems img ! ((r * h + c) * ch + 2))"
proof -
  have p: "\<And>k. k < ch \<Longrightarrow> nd_at img [r, c, k] = Inr (elems img ! ((r * h + c) * ch + k))"
    using assms(1,2,4,5) by (rule nd_at_pixel)
  show ?thesis using p [of 0] p [of 1] p [of 2] assms(3) by (simp add: color_pixel_def)
qed

text \<open>
  C26. \<open>if cloud.hasColors():\<close> answers \<open>False\<close> without colours and raises \<open>ValueError\<close> on every
  coloured cloud that satisfies the invariant and has a point: its colour array has three
  entries per point. (An empty coloured cloud answers \<open>False\<close>.)
\<close>

theorem hasColors_condition:
  assumes "cloud_inv cl" and "shape (points cl) = [n, 3]"
  shows "py_bool (hasColors cl) =
           (case colors cl of None \<Rightarrow> Inr False | Some _ \<Rightarrow> if n = 0 then Inr False else Inl ValueError)"
proof (cases "colors cl")
  case (Some cs)
  then have "length (elems cs) = n * 3" using assms by (simp add: cloud_inv_def nd_wf_def)
  then show ?thesis using Some by (simp add: hasColors_def py_bool_def nd_map_def)
qed (simp add: hasColors_def py_bool_def)

theorem hasColors_condition_witness:
  "cloud_inv \<lparr>points = \<lparr>shape = [1, 3], elems = [0, 0, 5]\<rparr>, colors = Some \<lparr>shape = [1, 3], elems = [1, 2, 3]\<rparr>\<rparr> \<and>
   shape (points \<lparr>points = \<lparr>shape = [1, 3], elems = [0, 0, 5 :: real]\<rparr>, colors = Some \<lparr>shape = [1, 3], elems = [1, 2, 3 :: int]\<rparr>\<rparr>) = [1, 3] \<and>
   py_bool (hasColors \<lparr>points = \<lparr>shape = [1, 3], elems = [0, 0, 5]\<rparr>, colors = Some \<lparr>shape = [1, 3], elems = [1, 2, 3]\<rparr>\<rparr>) = Inl ValueError"
proof -
  let ?c = "\<lparr>points = \<lparr>shape = [1, 3], elems = [0, 0, 5 :: real]\<rparr>, colors = Some \<lparr>shape = [1, 3], elems = [1, 2, 3 :: int]\<rparr>\<rparr>"
  have i: "cloud_inv ?c" by (simp add: cloud_inv_def nd_wf_def)
  from hasColors_condition [OF i, of 1] i show ?thesis by simp
qed

end
