(* ===== verification/CloudStages.thy ===== *)
theory CloudStages
  imports Cloud
begin

text \<open>
  The stages of \<^verbatim>\<open>cloudmosh/components/cloud.py\<close> that build, paint and rewrite clouds:
  \<open>DepthToClouds\<close>, \<open>PaintClouds\<close> and \<open>ChangeDepthOfClouds\<close>. A generator stage is
  modelled by the list its output drains to, or the first exception; the in-place stage
  \<open>ChangeDepthOfClouds\<close> works on an explicit object store so that aliasing is visible.
\<close>

definition DepthToClouds :: "real ndarray list \<Rightarrow> cloud list res" where
  "DepthToClouds iterable =
     bind_res
       (map_res (\<lambda>depthData.
          bind_res (shape_at (shape depthData) 0) (\<lambda>n.
            map_res (\<lambda>i. bind_res (nd_index depthData i) DepthCloud) [0..<n])) iterable)
       (\<lambda>css. Inr (concat css))"

text \<open>
  \<open>PaintClouds(images)\<close>: both inputs are drained (\<open>Collect\<close>) and paired with
  nutsflow's \<open>Zip\<close>, which stops at the shorter of the two; cloud \<open>i\<close> takes its colours
  from \<open>images[i][0]\<close>.
\<close>

definition PaintClouds :: "int ndarray list \<Rightarrow> cloud list \<Rightarrow> cloud list res" where
  "PaintClouds images iterable =
     map_res (\<lambda>(cl, img). bind_res (nd_index img 0) (\<lambda>img. setColorsByImage cl img))
       (zip iterable images)"

text \<open>
  \<open>ChangeDepthOfClouds\<close> has no output: it mutates the cloud objects of its input list.
  Objects live in a store \<open>cloud_heap\<close> (references are \<open>nat\<close>); the list holds
  references, so the same object may occur twice. An exception at index \<open>i\<close> leaves the
  objects before \<open>i\<close> already changed.
\<close>

type_synonym cloud_heap = "nat \<Rightarrow> cloud"

function ChangeDepth_from :: "real ndarray \<Rightarrow> nat list \<Rightarrow> nat \<Rightarrow> cloud_heap \<Rightarrow> cloud_heap \<times> py_error option"
where
  "ChangeDepth_from depthData clouds i heap =
     (if i < length clouds
      then (case bind_res (nd_index depthData i) (setDepthByImage (heap (clouds ! i))) of
              Inl e \<Rightarrow> (heap, Some e)
            | Inr cl \<Rightarrow> ChangeDepth_from depthData clouds (Suc i) (heap(clouds ! i := cl)))
      else (heap, None))"
  by pat_completeness auto
termination
  by (relation "measure (\<lambda>(d, cs, i, h). length cs - i)") auto

definition ChangeDepthOfClouds :: "nat list \<Rightarrow> real ndarray \<Rightarrow> cloud_heap \<Rightarrow> cloud_heap \<times> py_error option" where
  "ChangeDepthOfClouds clouds depthData heap = ChangeDepth_from depthData clouds 0 heap"

definition depth_cloud_rows :: "real ndarray \<Rightarrow> nat \<Rightarrow> nat \<Rightarrow> nat \<Rightarrow> (real \<times> real \<times> real) list" where
  "depth_cloud_rows d w h i =
     map (\<lambda>(r, c). (real r, real c, elems d ! (i * (w * h) + (r * h + c)))) (grid w h)"

definition depth_update :: "real ndarray \<Rightarrow> nat \<Rightarrow> nat \<Rightarrow> nat list \<Rightarrow> nat \<Rightarrow> cloud_heap \<Rightarrow> cloud_heap" where
  "depth_update d w h clouds j heap =
     heap(clouds ! j := (heap (clouds ! j))\<lparr>points := nd_of_triples (depth_cloud_rows d w h j)\<rparr>)"

definition rgb_rows :: "int ndarray \<Rightarrow> (int \<times> int \<times> int) list" where
  "rgb_rows img =
     (let w = shape img ! 1; h = shape img ! 2; ch = shape img ! 3 in
      map (\<lambda>(r, c). (elems img ! ((r * h + c) * ch), elems img ! ((r * h + c) * ch + 1),
                      elems img ! ((r * h + c) * ch + 2))) (grid w h))"

definition rgb_batch1 :: "int ndarray \<Rightarrow> bool" where
  "rgb_batch1 img \<longleftrightarrow> nd_wf img \<and> length (shape img) = 4 \<and> shape img ! 0 = 1 \<and> 3 \<le> shape img ! 3"

lemma DepthCloud_image:
  assumes "nd_wf img" and "shape img = [w, h, ch]" and "0 < ch"
  shows "DepthCloud img =
           Inr \<lparr>points = nd_of_triples
                          (map (\<lambda>(r, c). (real r, real c, elems img ! ((r * h + c) * ch))) (grid w h)),
                colors = None\<rparr>"
proof -
  have "comprehend img (depth_point img)
      = Inr (map (\<lambda>(r, c). (real r, real c, elems img ! ((r * h + c) * ch))) (grid w h))"
    by (rule comprehend_image [OF assms(2)]) (rule depth_point_pixel [OF assms])
  then show ?thesis using assms(2) by (simp add: DepthCloud_def)
qed

lemma nd_index_batch:
  assumes "nd_wf d" and "shape d = n # s" and "i < n"
  shows "\<exists>b. nd_index d i = Inr b \<and> nd_wf b \<and> shape b = s \<and>
           (\<forall>k < prod_list s. elems b ! k = elems d ! (i * prod_list s + k))"
  using nd_index_wf [OF assms] assms by (auto simp: nd_wf_def)

lemma comprehend_batch_image:
  assumes "nd_wf d" and "shape d = [n, w, h, 1]" and "i < n"
  shows "bind_res (nd_index d i) (\<lambda>img. comprehend img (depth_point img)) = Inr (depth_cloud_rows d w h i)"
proof -
  obtain b where b: "nd_index d i = Inr b" "nd_wf b" "shape b = [w, h, 1]"
    and el: "\<And>k. k < w * h \<Longrightarrow> elems b ! k = elems d ! (i * (w * h) + k)"
    using nd_index_batch [OF assms] by auto
  have "comprehend b (depth_point b)
      = Inr (map (\<lambda>(r, c). (real r, real c, elems b ! ((r * h + c) * 1))) (grid w h))"
    by (rule comprehend_image [OF b(3)]) (rule depth_point_pixel [OF b(2,3) zero_less_one])
  also have "map (\<lambda>(r, c). (real r, real c, elems b ! ((r * h + c) * 1))) (grid w h) = depth_cloud_rows d w h i"
    unfolding depth_cloud_rows_def
  proof (rule map_cong [OF refl])
    fix x assume "x \<in> set (grid w h)"
    then obtain r c where x: "x = (r, c)" "r < w" "c < h" by auto
    have "r * h + c < w * h"
      using x(2,3) by (rule row_major_bound)
    then show "(case x of (r, c) \<Rightarrow> (real r, real c, elems b ! ((r * h + c) * 1)))
             = (case x of (r, c) \<Rightarrow> (real r, real c, elems d ! (i * (w * h) + (r * h + c))))"
      using x el by simp
  qed
  finally show ?thesis using b(1) by simp
qed

lemma DepthCloud_batch_image:
  assumes "nd_wf d" and "shape d = [n, w, h, 1]" and "i < n"
  shows "bind_res (nd_index d i) DepthCloud =
           Inr \<lparr>points = nd_of_triples (depth_cloud_rows d w h i), colors = None\<rparr>"
proof -
  obtain b where b: "nd_index d i = Inr b" "shape b = [w, h, 1]"
    using nd_index_batch [OF assms] by auto
  with comprehend_batch_image [OF assms] show ?thesis by (simp add: DepthCloud_def)
qed

lemma setDepthByImage_batch_image:
  assumes "nd_wf d" and "shape d = [n, w, h, 1]" and "i < n"
  shows "bind_res (nd_index d i) (setDepthByImage cl) = Inr (cl\<lparr>points := nd_of_triples (depth_cloud_rows d w h i)\<rparr>)"
proof -
  obtain b where b: "nd_index d i = Inr b"
    using nd_index_batch [OF assms] by auto
  with comprehend_batch_image [OF assms] show ?thesis by (simp add: setDepthByImage_def)
qed

lemma DepthToClouds_single:
  assumes "nd_wf d" and "shape d = [n, w, h, 1]"
  shows "DepthToClouds [d] =
           Inr (map (\<lambda>i. \<lparr>points = nd_of_triples (depth_cloud_rows d w h i), colors = None\<rparr>) [0..<n])"
proof -
  have "map_res (\<lambda>i. bind_res (nd_index d i) DepthCloud) [0..<n]
      = Inr (map (\<lambda>i. \<lparr>points = nd_of_triples (depth_cloud_rows d w h i), colors = None\<rparr>) [0..<n])"
    by (rule map_res_Inr_eq) (simp add: DepthCloud_batch_image [OF assms])
  then show ?thesis using assms(2) by (simp add: DepthToClouds_def shape_at_def)
qed

lemma DepthToClouds_batches:
  assumes "\<And>d. d \<in> set ds \<Longrightarrow> nd_wf d \<and> shape d = [1, dw d, dh d, 1]"
  shows "DepthToClouds ds =
           Inr (map (\<lambda>d. \<lparr>points = nd_of_triples (depth_cloud_rows d (dw d) (dh d) 0), colors = None\<rparr>) ds)"
proof -
  have "map_res (\<lambda>depthData. bind_res (shape_at (shape depthData) 0) (\<lambda>n.
            map_res (\<lambda>i. bind_res (nd_index depthData i) DepthCloud) [0..<n])) ds =
        Inr (map (\<lambda>d. [\<lparr>points = nd_of_triples (depth_cloud_rows d (dw d) (dh d) 0), colors = None\<rparr>]) ds)"
  proof (rule map_res_Inr_eq)
    fix d assume d: "d \<in> set ds"
    then have "DepthToClouds [d] = Inr [\<lparr>points = nd_of_triples (depth_cloud_rows d (dw d) (dh d) 0), colors = None\<rparr>]"
      using DepthToClouds_single [of d 1 "dw d" "dh d"] assms by simp
    then show "bind_res (shape_at (shape d) 0) (\<lambda>n. map_res (\<lambda>i. bind_res (nd_index d i) DepthCloud) [0..<n]) =
        Inr [\<lparr>points = nd_of_triples (depth_cloud_rows d (dw d) (dh d) 0), colors = None\<rparr>]"
      by (auto simp: DepthToClouds_def)
  qed
  then show ?thesis by (simp add: DepthToClouds_def comp_def)
qed

lemma depth_cloud_rows_nth:
  assumes "r < w" and "c < h"
  shows "depth_cloud_rows d w h i ! (r * h + c) = (real r, real c, elems d ! (i * (w * h) + (r * h + c)))"
  using assms by (simp add: depth_cloud_rows_def row_major_bound grid_nth_pair)

lemma depth_cloud_rows_at:
  assumes "r < w" and "c < h"
  shows "nd_at (nd_of_triples (depth_cloud_rows d w h i)) [r * h + c, 0] = Inr (real r) \<and>
         nd_at (nd_of_triples (depth_cloud_rows d w h i)) [r * h + c, 1] = Inr (real c) \<and>
         nd_at (nd_of_triples (depth_cloud_rows d w h i)) [r * h + c, 2] = Inr (elems d ! (i * (w * h) + (r * h + c)))"
proof -
  have k: "r * h + c < length (depth_cloud_rows d w h i)"
    using assms by (simp add: depth_cloud_rows_def row_major_bound)
  have "\<And>j. j < 3 \<Longrightarrow> nd_at (nd_of_triples (depth_cloud_rows d w h i)) [r * h + c, j]
      = Inr (row3 (real r, real c, elems d ! (i * (w * h) + (r * h + c))) ! j)"
    using nd_at_triples [OF k] by (simp add: depth_cloud_rows_nth [OF assms])
  from this [of 0] this [of 1] this [of 2] show ?thesis by (simp add: row3_def)
qed

lemma shape_depth_cloud_rows:
  "0 < w * h \<Longrightarrow> shape (nd_of_triples (depth_cloud_rows d w h i)) = [w * h, 3]"
  by (auto simp: shape_nd_of_triples depth_cloud_rows_def)

text \<open>
  C1. A depth batch of shape \<open>(N, W, H, 1)\<close> becomes exactly \<open>N\<close> clouds, without colours,
  each with \<open>W * H\<close> points, and row \<open>row * H + column\<close> of cloud \<open>i\<close> is
  \<open>(row, column, depth[i][row][column][0])\<close>.
\<close>

theorem DepthToClouds_rows:
  assumes "nd_wf d" and "shape d = [n, w, h, 1]" and "0 < w * h"
  shows "\<exists>cls. DepthToClouds [d] = Inr cls \<and> length cls = n \<and>
           (\<forall>i<n. shape (points (cls ! i)) = [w * h, 3] \<and> colors (cls ! i) = None \<and>
              (\<forall>r<w. \<forall>c<h.
                 nd_at (points (cls ! i)) [r * h + c, 0] = Inr (real r) \<and>
                 nd_at (points (cls ! i)) [r * h + c, 1] = Inr (real c) \<and>
                 nd_at (points (cls ! i)) [r * h + c, 2] = nd_at d [i, r, c, 0]))"
proof (intro exI conjI allI impI)
  let ?cls = "map (\<lambda>i. \<lparr>points = nd_of_triples (depth_cloud_rows d w h i), colors = None\<rparr>) [0..<n]"
  show "DepthToClouds [d] = Inr ?cls" by (rule DepthToClouds_single [OF assms(1,2)])
  show "length ?cls = n" by simp
  fix i assume i: "i < n"
  have len: "length (depth_cloud_rows d w h i) = w * h" by (simp add: depth_cloud_rows_def)
  with assms(3) have ne: "depth_cloud_rows d w h i \<noteq> []" by auto
  show "shape (points (?cls ! i)) = [w * h, 3]" using i ne len by (simp add: shape_nd_of_triples)
  show "colors (?cls ! i) = None" using i by simp
  fix r c assume r: "r < w" and c: "c < h"
  have k: "r * h + c < length (depth_cloud_rows d w h i)" using len r c by (simp add: row_major_bound)
  have row: "\<And>j. j < 3 \<Longrightarrow> nd_at (points (?cls ! i)) [r * h + c, j]
      = Inr (row3 (real r, real c, elems d ! (i * (w * h) + (r * h + c))) ! j)"
    using i nd_at_triples [OF k] by (simp add: depth_cloud_rows_nth [OF r c])
  have "in_bounds (shape d) [i, r, c, 0]" using assms(2) i r c by simp
  then have "nd_at d [i, r, c, 0] = Inr (elems d ! flat_offset (shape d) [i, r, c, 0])"
    by (rule nd_at_offset [OF assms(1)])
  also have "flat_offset (shape d) [i, r, c, 0] = i * (w * h) + (r * h + c)"
    using assms(2) by (simp add: algebra_simps)
  finally show "nd_at (points (?cls ! i)) [r * h + c, 0] = Inr (real r)"
    and "nd_at (points (?cls ! i)) [r * h + c, 1] = Inr (real c)"
    and "nd_at (points (?cls ! i)) [r * h + c, 2] = nd_at d [i, r, c, 0]"
    using row [of 0] row [of 1] row [of 2] by (simp_all add: row3_def)
qed

theorem DepthToClouds_rows_witness:
  "\<exists>cls. DepthToClouds [\<lparr>shape = [1, 1, 2, 1], elems = [5 :: real, 7]\<rparr>] = Inr cls \<and>
     length cls = 1 \<and> nd_at (points (cls ! 0)) [1, 2] = Inr 7"
proof -
  let ?d = "\<lparr>shape = [1, 1, 2, 1], elems = [5 :: real, 7]\<rparr>"
  have wf: "nd_wf ?d" by (simp add: nd_wf_def)
  from DepthToClouds_rows [OF wf, of 1 1 2]
  obtain cls where cls: "DepthToClouds [?d] = Inr cls" "length cls = 1"
    and row: "nd_at (points (cls ! 0)) [0 * 2 + 1, 2] = nd_at ?d [0, 0, 1, 0]"
    by fastforce
  have "nd_at ?d [0, 0, 1, 0] = Inr 7"
    by (simp add: eval_simps)
  with cls row show ?thesis by auto
qed

subsection \<open>ChangeDepthOfClouds\<close>

declare ChangeDepth_from.simps [simp del]

lemma ChangeDepth_from_batch:
  assumes "nd_wf d" and "shape d = [n, w, h, 1]"
  shows "ChangeDepth_from d clouds i heap =
           (fold (depth_update d w h clouds) [i..<min (length clouds) n] heap,
            if length clouds \<le> n \<or> length clouds \<le> i then None else Some IndexError)"
  using assms
proof (induction d clouds i heap rule: ChangeDepth_from.induct)
  case (1 d clouds i heap)
  note wf = "1.prems"(1) and sh = "1.prems"(2)
  show ?case
  proof (cases "i < length clouds")
    case False
    then show ?thesis by (simp add: ChangeDepth_from.simps [of d clouds i heap])
  next
    case inb: True
    show ?thesis
    proof (cases "i < n")
      case True
      have step: "bind_res (nd_index d i) (setDepthByImage (heap (clouds ! i)))
          = Inr ((heap (clouds ! i))\<lparr>points := nd_of_triples (depth_cloud_rows d w h i)\<rparr>)"
        by (rule setDepthByImage_batch_image [OF wf sh True])
      have upt: "[i..<min (length clouds) n] = i # [Suc i..<min (length clouds) n]"
        using inb True by (simp add: upt_conv_Cons)
      have upd: "heap(clouds ! i := (heap (clouds ! i))\<lparr>points := nd_of_triples (depth_cloud_rows d w h i)\<rparr>)
          = depth_update d w h clouds i heap"
        by (simp add: depth_update_def)
      have "ChangeDepth_from d clouds i heap = ChangeDepth_from d clouds (Suc i) (depth_update d w h clouds i heap)"
        using inb by (simp add: ChangeDepth_from.simps [of d clouds i heap] step upd)
      with "1.IH" [OF inb step wf sh] inb True show ?thesis
        by (simp only: upd upt fold_Cons comp_def) auto
    next
      case False
      then have "nd_index d i = Inl IndexError" using sh by (simp add: nd_index_def)
      with False inb show ?thesis by (simp add: ChangeDepth_from.simps [of d clouds i heap])
    qed
  qed
qed

lemma fold_depth_update_at:
  assumes "distinct clouds" and "k \<le> length clouds" and "j < length clouds"
  shows "fold (depth_update d w h clouds) [0..<k] heap (clouds ! j) =
           (if j < k then (heap (clouds ! j))\<lparr>points := nd_of_triples (depth_cloud_rows d w h j)\<rparr>
            else heap (clouds ! j))"
  using assms(2)
proof (induction k)
  case 0
  then show ?case by simp
next
  case (Suc k)
  have "clouds ! k = clouds ! j \<longleftrightarrow> k = j"
    using assms(1,3) Suc.prems by (simp add: nth_eq_iff_index_eq)
  with Suc show ?case by (auto simp: depth_update_def)
qed

lemma fold_depth_update_other:
  assumes "k \<le> length clouds" and "r \<notin> set clouds"
  shows "fold (depth_update d w h clouds) [0..<k] heap r = heap r"
  using assms(1)
proof (induction k)
  case (Suc k)
  then have "clouds ! k \<noteq> r" using assms(2) by (auto simp: in_set_conv_nth)
  with Suc show ?case by (simp add: depth_update_def)
qed simp

text \<open>
  C8. On distinct cloud objects and a depth batch of shape \<open>(N, W, H, 1)\<close> with at least as
  many images as clouds, \<open>ChangeDepthOfClouds\<close> raises nothing, rebuilds the points of
  object \<open>clouds[i]\<close> from image \<open>i\<close> (keeping its colours) and touches no other object.
\<close>

theorem ChangeDepthOfClouds_updates:
  assumes "nd_wf d" and "shape d = [n, w, h, 1]" and "distinct clouds" and "length clouds \<le> n"
  shows "\<exists>heap'. ChangeDepthOfClouds clouds d heap = (heap', None) \<and>
           (\<forall>j < length clouds. heap' (clouds ! j) =
               (heap (clouds ! j))\<lparr>points := nd_of_triples (depth_cloud_rows d w h j)\<rparr>) \<and>
           (\<forall>r. r \<notin> set clouds \<longrightarrow> heap' r = heap r)"
  using assms(4)
  by (simp add: ChangeDepthOfClouds_def ChangeDepth_from_batch [OF assms(1,2)] min_absorb1
        fold_depth_update_at [OF assms(3)] fold_depth_update_other)

theorem ChangeDepthOfClouds_updates_witness:
  "\<exists>heap'. ChangeDepthOfClouds [0] \<lparr>shape = [1, 1, 2, 1], elems = [5, 7]\<rparr>
       (\<lambda>_. \<lparr>points = \<lparr>shape = [0], elems = []\<rparr>, colors = None\<rparr>) = (heap', None) \<and>
     heap' 0 = \<lparr>points = \<lparr>shape = [2, 3], elems = [0, 0, 5, 0, 1, 7]\<rparr>, colors = None\<rparr>"
proof -
  have wf: "nd_wf \<lparr>shape = [1, 1, 2, 1], elems = [5 :: real, 7]\<rparr>" by (simp add: nd_wf_def)
  show ?thesis
    using ChangeDepthOfClouds_updates [OF wf, of 1 1 2 "[0]" "\<lambda>_. \<lparr>points = \<lparr>shape = [0], elems = []\<rparr>, colors = None\<rparr>"]
    by (auto simp: depth_cloud_rows_def grid_def nd_of_triples_def row3_def upt_rec)
qed

text \<open>
  C9. When the batch holds fewer images than there are clouds, \<open>depthData[i]\<close> raises
  \<open>IndexError\<close> at the first missing image, after the objects before it were already changed
  in place; the objects from that index on keep their old points.
\<close>

theorem ChangeDepthOfClouds_short_batch:
  assumes "nd_wf d" and "shape d = [n, w, h, 1]" and "distinct clouds" and "n < length clouds"
  shows "\<exists>heap'. ChangeDepthOfClouds clouds d heap = (heap', Some IndexError) \<and>
           (\<forall>j < n. heap' (clouds ! j) =
               (heap (clouds ! j))\<lparr>points := nd_of_triples (depth_cloud_rows d w h j)\<rparr>) \<and>
           (\<forall>j < length clouds. n \<le> j \<longrightarrow> heap' (clouds ! j) = heap (clouds ! j))"
proof -
  have "\<not> length clouds \<le> 0" and "\<not> length clouds \<le> n" and "clouds \<noteq> []"
    using assms(4) by auto
  with assms(4) show ?thesis
    by (simp add: ChangeDepthOfClouds_def ChangeDepth_from_batch [OF assms(1,2)] min_absorb2
          fold_depth_update_at [OF assms(3)])
qed

theorem ChangeDepthOfClouds_short_batch_witness:
  "\<exists>heap'. ChangeDepthOfClouds [0, 1] \<lparr>shape = [1, 1, 2, 1], elems = [5, 7]\<rparr>
       (\<lambda>_. \<lparr>points = \<lparr>shape = [0], elems = []\<rparr>, colors = None\<rparr>) = (heap', Some IndexError) \<and>
     heap' 0 = \<lparr>points = \<lparr>shape = [2, 3], elems = [0, 0, 5, 0, 1, 7]\<rparr>, colors = None\<rparr> \<and>
     heap' 1 = \<lparr>points = \<lparr>shape = [0], elems = []\<rparr>, colors = None\<rparr>"
proof -
  have wf: "nd_wf \<lparr>shape = [1, 1, 2, 1], elems = [5 :: real, 7]\<rparr>" by (simp add: nd_wf_def)
  obtain heap' where h: "ChangeDepthOfClouds [0, 1] \<lparr>shape = [1, 1, 2, 1], elems = [5, 7]\<rparr>
       (\<lambda>_. \<lparr>points = \<lparr>shape = [0], elems = []\<rparr>, colors = None\<rparr>) = (heap', Some IndexError)"
    and h0: "heap' ([0, 1] ! 0) = \<lparr>points = nd_of_triples (depth_cloud_rows \<lparr>shape = [1, 1, 2, 1], elems = [5, 7]\<rparr> 1 2 0), colors = None\<rparr>"
    and h1: "heap' ([0, 1] ! 1) = \<lparr>points = \<lparr>shape = [0], elems = []\<rparr>, colors = None\<rparr>"
    using ChangeDepthOfClouds_short_batch [OF wf, of 1 1 2 "[0, 1]" "\<lambda>_. \<lparr>points = \<lparr>shape = [0], elems = []\<rparr>, colors = None\<rparr>"]
    by auto
  then show ?thesis by (auto simp: depth_cloud_rows_def grid_def nd_of_triples_def row3_def upt_rec)
qed

text \<open>
  C10. The list holds object references: when one cloud object occurs twice, it is
  rewritten twice and ends with the points of the later image; both positions see it.
\<close>

theorem ChangeDepthOfClouds_aliased:
  assumes "nd_wf d" and "shape d = [n, w, h, 1]" and "2 \<le> n"
  shows "ChangeDepthOfClouds [r, r] d heap =
           (heap(r := (heap r)\<lparr>points := nd_of_triples (depth_cloud_rows d w h 1)\<rparr>), None)"
proof -
  have "[0..<min 2 n] = [0, 1]" using assms(3) by (simp add: min_absorb1 upt_rec)
  then show ?thesis using assms(3)
    by (simp add: ChangeDepthOfClouds_def ChangeDepth_from_batch [OF assms(1,2)] depth_update_def)
qed

theorem ChangeDepthOfClouds_aliased_witness:
  "ChangeDepthOfClouds [0, 0] \<lparr>shape = [2, 1, 1, 1], elems = [5, 7]\<rparr>
       (\<lambda>_. \<lparr>points = \<lparr>shape = [0], elems = []\<rparr>, colors = None\<rparr>) =
     ((\<lambda>_. \<lparr>points = \<lparr>shape = [0], elems = []\<rparr>, colors = None\<rparr>)
        (0 := \<lparr>points = \<lparr>shape = [1, 3], elems = [0, 0, 7]\<rparr>, colors = None\<rparr>), None)"
proof -
  have wf: "nd_wf \<lparr>shape = [2, 1, 1, 1], elems = [5 :: real, 7]\<rparr>" by (simp add: nd_wf_def)
  show ?thesis
    using ChangeDepthOfClouds_aliased [OF wf, of 2 1 1 0]
    by (simp add: depth_cloud_rows_def grid_def nd_of_triples_def row3_def upt_rec)
qed

subsection \<open>PaintClouds\<close>

lemma setColorsByImage_batch1:
  assumes "rgb_batch1 img"
  shows "bind_res (nd_index img 0) (setColorsByImage cl) = Inr (cl\<lparr>colors := Some (nd_of_triples (rgb_rows img))\<rparr>)"
proof -
  obtain w h ch where s: "shape img = [1, w, h, ch]" and ch: "3 \<le> ch" and wf: "nd_wf img"
    using assms length4_cases [of "shape img"] by (auto simp: rgb_batch1_def)
  let ?b = "\<lparr>shape = [w, h, ch], elems = elems img\<rparr>"
  have idx: "nd_index img 0 = Inr ?b" using s wf by (simp add: nd_index_def nd_wf_def)
  have wfb: "nd_wf ?b" using s wf by (simp add: nd_wf_def)
  have rows: "rgb_rows img = map (\<lambda>(r, c). (elems img ! ((r * h + c) * ch), elems img ! ((r * h + c) * ch + 1),
                      elems img ! ((r * h + c) * ch + 2))) (grid w h)"
    by (simp add: rgb_rows_def s)
  have "comprehend ?b (color_pixel ?b) = Inr (rgb_rows img)"
    unfolding rows
    by (rule comprehend_image [of _ w h "[ch]"]) (simp_all add: color_pixel_pixel [OF wfb _ ch])
  with idx show ?thesis by (simp add: setColorsByImage_def)
qed

lemma PaintClouds_rgb:
  assumes "list_all rgb_batch1 images"
  shows "PaintClouds images clouds
           = Inr (map (\<lambda>(cl, img). cl\<lparr>colors := Some (nd_of_triples (rgb_rows img))\<rparr>) (zip clouds images))"
  unfolding PaintClouds_def
proof (rule map_res_Inr_eq)
  fix x assume "x \<in> set (zip clouds images)"
  then have "snd x \<in> set images" by (auto simp: set_zip)
  then have "rgb_batch1 (snd x)" using assms by (simp add: list_all_iff)
  then show "(case x of (cl, img) \<Rightarrow> bind_res (nd_index img 0) (setColorsByImage cl))
      = Inr (case x of (cl, img) \<Rightarrow> cl\<lparr>colors := Some (nd_of_triples (rgb_rows img))\<rparr>)"
    by (cases x) (simp add: setColorsByImage_batch1)
qed

text \<open>
  C11. \<open>PaintClouds\<close> pairs clouds and images by index up to the shorter of the two lists
  (extra clouds or images are dropped without an error) and gives cloud \<open>i\<close> the colour
  rows \<open>(r, g, b)\<close> of \<open>images[i][0]\<close> in row-major order, its points untouched.
\<close>

theorem PaintClouds_colors:
  assumes "list_all rgb_batch1 images"
  shows "\<exists>out. PaintClouds images clouds = Inr out \<and> length out = min (length clouds) (length images) \<and>
           (\<forall>i < length out. out ! i = (clouds ! i)\<lparr>colors := Some (nd_of_triples (rgb_rows (images ! i)))\<rparr>)"
  using PaintClouds_rgb [OF assms] by simp

theorem PaintClouds_colors_witness:
  "\<exists>out. PaintClouds [\<lparr>shape = [1, 1, 1, 3], elems = [10, 20, 30]\<rparr>]
      [\<lparr>points = \<lparr>shape = [1, 3], elems = [0, 0, 5]\<rparr>, colors = None\<rparr>,
       \<lparr>points = \<lparr>shape = [1, 3], elems = [0, 0, 6]\<rparr>, colors = None\<rparr>] = Inr out \<and>
     out = [\<lparr>points = \<lparr>shape = [1, 3], elems = [0, 0, 5]\<rparr>, colors = Some \<lparr>shape = [1, 3], elems = [10, 20, 30]\<rparr>\<rparr>]"
proof -
  have "list_all rgb_batch1 [\<lparr>shape = [1, 1, 1, 3], elems = [10 :: int, 20, 30]\<rparr>]"
    by (simp add: rgb_batch1_def nd_wf_def)
  from PaintClouds_colors [OF this, of "[\<lparr>points = \<lparr>shape = [1, 3], elems = [0, 0, 5]\<rparr>, colors = None\<rparr>,
       \<lparr>points = \<lparr>shape = [1, 3], elems = [0, 0, 6]\<rparr>, colors = None\<rparr>]"]
  show ?thesis
    by (auto simp: rgb_rows_def grid_def nd_of_triples_def row3_def intro!: nth_equalityI)
qed

text \<open>
  C12. Painting never checks the pixel count against the cloud: it succeeds for every image
  of shape \<open>(1, W, H, C)\<close> with \<open>C >= 3\<close>, and the painted cloud satisfies the data-model
  invariant exactly when the cloud has \<open>W * H\<close> points. The shape-mismatch failure the
  specification describes does not happen; a mismatched cloud leaves the stage broken.
\<close>

theorem PaintClouds_inv_iff:
  assumes "rgb_batch1 img" and "nd_wf (points cl)" and "0 < shape img ! 1 * shape img ! 2"
  shows "\<exists>cl'. PaintClouds [img] [cl] = Inr [cl'] \<and> points cl' = points cl \<and>
           (cloud_inv cl' \<longleftrightarrow> shape (points cl) = [shape img ! 1 * shape img ! 2, 3])"
proof -
  have ne: "rgb_rows img \<noteq> []" using assms(3) by (simp add: rgb_rows_def Let_def)
  have len: "length (rgb_rows img) = shape img ! 1 * shape img ! 2" by (simp add: rgb_rows_def Let_def)
  have "PaintClouds [img] [cl] = Inr [cl\<lparr>colors := Some (nd_of_triples (rgb_rows img))\<rparr>]"
    using setColorsByImage_batch1 [OF assms(1)] by (simp add: PaintClouds_def)
  moreover have "cloud_inv (cl\<lparr>colors := Some (nd_of_triples (rgb_rows img))\<rparr>)
      \<longleftrightarrow> shape (points cl) = [shape img ! 1 * shape img ! 2, 3]"
    using assms(2) ne len by (auto simp: cloud_inv_def nd_of_triples_wf shape_nd_of_triples)
  ultimately show ?thesis by auto
qed

theorem PaintClouds_inv_iff_witness:
  "\<exists>cl'. PaintClouds [\<lparr>shape = [1, 1, 2, 3], elems = [10, 20, 30, 40, 50, 60]\<rparr>]
      [\<lparr>points = \<lparr>shape = [1, 3], elems = [0, 0, 5]\<rparr>, colors = None\<rparr>] = Inr [cl'] \<and> \<not> cloud_inv cl'"
proof -
  have "rgb_batch1 \<lparr>shape = [1, 1, 2, 3], elems = [10 :: int, 20, 30, 40, 50, 60]\<rparr>"
    by (simp add: rgb_batch1_def nd_wf_def)
  from PaintClouds_inv_iff [OF this, of "\<lparr>points = \<lparr>shape = [1, 3], elems = [0, 0, 5]\<rparr>, colors = None\<rparr>"]
  show ?thesis by (auto simp: nd_wf_def)
qed

end
