(* ===== verification/Interpolate.thy ===== *)
theory Interpolate
  imports CloudStages
begin

text \<open>
  \<open>InterpolateClouds\<close> of \<^verbatim>\<open>cloudmosh/components/cloud.py\<close>: for each adjacent pair of
  clouds a \<open>while tCurrent <= tStop\<close> loop emits blended clouds. The loop is a
  \<open>partial_function\<close> in the option monad, so a step size that never reaches \<open>tStop\<close>
  is the value \<open>None\<close>; the lemmas show termination for positive steps, the exact output,
  its size, its end points, and divergence otherwise.
\<close>

definition blend :: "real \<Rightarrow> real ndarray \<Rightarrow> real ndarray \<Rightarrow> real ndarray res" where
  "blend ft a b = nd_binop (+) (nd_map (\<lambda>x. (1 - ft) * x) a) (nd_map (\<lambda>x. ft * x) b)"

definition blend_colors :: "real \<Rightarrow> int ndarray option \<Rightarrow> int ndarray option \<Rightarrow> real ndarray res" where
  "blend_colors ft ca cb =
     (case ca of
        None \<Rightarrow> Inl TypeError
      | Some a \<Rightarrow>
          (case cb of
             None \<Rightarrow> Inl TypeError
           | Some b \<Rightarrow> blend ft (nd_map real_of_int a) (nd_map real_of_int b)))"

definition interp_step :: "(real \<Rightarrow> real) \<Rightarrow> cloud \<Rightarrow> cloud \<Rightarrow> real ndarray \<Rightarrow> real \<Rightarrow> cloud res" where
  "interp_step stepFunction A B coordinates t =
     (let ft = stepFunction t in
      bind_res (blend ft (points A) (points B)) (\<lambda>currentDepth.
      bind_res (blend_colors ft (colors A) (colors B)) (\<lambda>currentColors.
      bind_res (nd_hstack coordinates currentDepth) (\<lambda>currentPoints.
      bind_res (DepthCloud currentDepth) (\<lambda>currentCloud.
      Inr (currentCloud\<lparr>colors := Some (nd_map astype_int currentColors)\<rparr>))))))"

partial_function (option) interp_times ::
  "(real \<Rightarrow> real) \<Rightarrow> real \<Rightarrow> real \<Rightarrow> cloud \<Rightarrow> cloud \<Rightarrow> real ndarray \<Rightarrow> real \<Rightarrow> cloud list res option"
where
  "interp_times stepFunction tStop tStepSize A B coordinates tCurrent =
     (if tCurrent \<le> tStop
      then (case interp_step stepFunction A B coordinates tCurrent of
              Inl e \<Rightarrow> Some (Inl e)
            | Inr c \<Rightarrow>
                Option.bind (interp_times stepFunction tStop tStepSize A B coordinates (tCurrent + tStepSize))
                  (\<lambda>r. Some (bind_res r (\<lambda>cs. Inr (c # cs)))))
      else Some (Inr []))"

fun InterpolateClouds ::
  "(real \<Rightarrow> real) \<Rightarrow> real \<Rightarrow> real \<Rightarrow> real \<Rightarrow> cloud list \<Rightarrow> cloud list res option"
where
  "InterpolateClouds stepFunction tStart tStop tStepSize (A # B # rest) =
     (case nd_take_cols (points A) [0, 1] of
        Inl e \<Rightarrow> Some (Inl e)
      | Inr coordinates \<Rightarrow>
          Option.bind (interp_times stepFunction tStop tStepSize A B coordinates tStart) (\<lambda>r.
            case r of
              Inl e \<Rightarrow> Some (Inl e)
            | Inr cs \<Rightarrow>
                map_option (\<lambda>r'. bind_res r' (\<lambda>cs'. Inr (cs @ cs')))
                  (InterpolateClouds stepFunction tStart tStop tStepSize (B # rest))))"
| "InterpolateClouds stepFunction tStart tStop tStepSize _ = Some (Inr [])"


definition lerp :: "real \<Rightarrow> real \<Rightarrow> real \<Rightarrow> real" where
  "lerp ft x y = (1 - ft) * x + ft * y"

text \<open>
  When the loop body succeeds: both clouds are coloured, their points are 2-d arrays of the
  same shape with at least the two coordinate columns, and colours match the points.
\<close>

definition interp_compatible :: "cloud \<Rightarrow> cloud \<Rightarrow> bool" where
  "interp_compatible A B \<longleftrightarrow>
     cloud_inv A \<and> cloud_inv B \<and> shape (points A) = shape (points B) \<and>
     (case shape (points A) of [n, m] \<Rightarrow> 2 \<le> m | _ \<Rightarrow> False) \<and>
     colors A \<noteq> None \<and> colors B \<noteq> None"

definition interp_cloud :: "real \<Rightarrow> cloud \<Rightarrow> cloud \<Rightarrow> cloud" where
  "interp_cloud ft A B =
     \<lparr>points = \<lparr>shape = shape (points A),
                elems = map2 (lerp ft) (elems (points A)) (elems (points B))\<rparr>,
      colors = Some \<lparr>shape = shape (points A),
                     elems = map2 (\<lambda>x y. astype_int (lerp ft (real_of_int x) (real_of_int y)))
                               (elems (the (colors A))) (elems (the (colors B)))\<rparr>\<rparr>"

text \<open>Number of passes of the \<open>while tCurrent <= tStop\<close> loop from \<open>t\<close> with step \<open>s\<close>.\<close>

definition passes :: "real \<Rightarrow> real \<Rightarrow> real \<Rightarrow> nat" where
  "passes tStop s t = nat (\<lfloor>(tStop - t) / s\<rfloor> + 1)"


fun chain_compatible :: "cloud list \<Rightarrow> bool" where
  "chain_compatible (A # B # rest) = (interp_compatible A B \<and> chain_compatible (B # rest))"
| "chain_compatible _ = True"

definition interp_pair :: "(real \<Rightarrow> real) \<Rightarrow> real \<Rightarrow> real \<Rightarrow> real \<Rightarrow> cloud \<Rightarrow> cloud \<Rightarrow> cloud list" where
  "interp_pair f tStart tStop s A B =
     map (\<lambda>k. interp_cloud (f (tStart + real k * s)) A B) [0..<passes tStop s tStart]"

lemma passes_step:
  assumes "0 < s" and "t \<le> tStop"
  shows "passes tStop s t = Suc (passes tStop s (t + s))"
proof -
  have "(tStop - (t + s)) / s = (tStop - t) / s - 1" using assms(1) by (simp add: field_simps)
  then have fl: "\<lfloor>(tStop - (t + s)) / s\<rfloor> = \<lfloor>(tStop - t) / s\<rfloor> - 1" by simp
  have "0 \<le> (tStop - t) / s" using assms by simp
  then have "0 \<le> \<lfloor>(tStop - t) / s\<rfloor>" by simp
  then have "nat (\<lfloor>(tStop - t) / s\<rfloor> + 1) = Suc (nat \<lfloor>(tStop - t) / s\<rfloor>)"
    by (simp add: nat_add_distrib)
  with fl show ?thesis by (simp add: passes_def)
qed

lemma passes_stop:
  assumes "0 < s" and "\<not> t \<le> tStop"
  shows "passes tStop s t = 0"
proof -
  have "(tStop - t) / s < 0" using assms by (simp add: divide_neg_pos)
  then have "\<lfloor>(tStop - t) / s\<rfloor> < 0" by (simp only: floor_less_zero)
  then have "\<lfloor>(tStop - t) / s\<rfloor> + 1 \<le> 0" by linarith
  then show ?thesis by (simp only: passes_def nat_le_0)
qed

lemma interp_times_all_steps:
  assumes "0 < s" and "\<And>t. interp_step f A B co t = Inr (g t)"
  shows "interp_times f tStop s A B co t = Some (Inr (map (\<lambda>k. g (t + real k * s)) [0..<passes tStop s t]))"
proof (induction "passes tStop s t" arbitrary: t)
  case 0
  then have "\<not> t \<le> tStop" using passes_step [OF assms(1)] by fastforce
  with "0" show ?case by (simp add: interp_times.simps)
next
  case (Suc n)
  then have le: "t \<le> tStop" using passes_stop [OF assms(1)] by fastforce
  then have n: "n = passes tStop s (t + s)" using Suc.hyps passes_step [OF assms(1)] by simp
  have "map (\<lambda>k. g (t + real k * s)) [0..<Suc n] = g t # map (\<lambda>k. g (t + s + real k * s)) [0..<n]"
    by (simp add: map_upt_Suc algebra_simps del: upt_Suc)
  with Suc.hyps(1) [OF n] le n assms(2) show ?case
    by (simp add: interp_times.simps [of f tStop s A B co t] Suc.hyps(2) [symmetric])
qed

lemma blend_same_shape:
  assumes "nd_wf a" and "nd_wf b" and "shape a = shape b"
  shows "blend ft a b = Inr \<lparr>shape = shape a, elems = map2 (lerp ft) (elems a) (elems b)\<rparr>"
proof -
  have "blend ft a b = Inr \<lparr>shape = shape (nd_map (\<lambda>x. (1 - ft) * x) a),
          elems = map2 (+) (elems (nd_map (\<lambda>x. (1 - ft) * x) a)) (elems (nd_map (\<lambda>x. ft * x) b))\<rparr>"
    unfolding blend_def by (rule nd_binop_same_shape) (simp_all add: assms)
  then show ?thesis by (simp add: nd_map_def zip_map_map lerp_def case_prod_beta)
qed

lemma interp_compatibleE:
  assumes "interp_compatible A B"
  obtains n m ca cb where "shape (points A) = [n, m]" "2 \<le> m" "shape (points B) = [n, m]"
    "nd_wf (points A)" "nd_wf (points B)"
    "colors A = Some ca" "colors B = Some cb" "nd_wf ca" "nd_wf cb"
    "shape ca = [n, m]" "shape cb = [n, m]"
proof -
  from assms obtain n m where s: "shape (points A) = [n, m]" "2 \<le> m"
    by (auto simp: interp_compatible_def split: list.splits)
  from assms obtain ca cb where c: "colors A = Some ca" "colors B = Some cb"
    by (auto simp: interp_compatible_def)
  show ?thesis
    by (rule that [of n m ca cb]) (use assms s c in \<open>auto simp: interp_compatible_def cloud_inv_def\<close>)
qed

lemma take_cols_compatible:
  assumes "interp_compatible A B"
  shows "\<exists>co n. nd_take_cols (points A) [0, 1] = Inr co \<and> shape co = [n, 2] \<and> shape (points A) = [n, shape (points A) ! 1]"
  using assms by (elim interp_compatibleE) (simp add: nd_take_cols_def)

lemma interp_step_compatible:
  assumes "interp_compatible A B" and "nd_take_cols (points A) [0, 1] = Inr co"
  shows "interp_step f A B co t = Inr (interp_cloud (f t) A B)"
  using assms(1)
proof (rule interp_compatibleE)
  fix n m ca cb
  assume sA: "shape (points A) = [n, m]" and m: "2 \<le> m" and sB: "shape (points B) = [n, m]"
    and wA: "nd_wf (points A)" and wB: "nd_wf (points B)"
    and cA: "colors A = Some ca" and cB: "colors B = Some cb" and wca: "nd_wf ca" and wcb: "nd_wf cb"
    and sca: "shape ca = [n, m]" and scb: "shape cb = [n, m]"
  have co: "shape co = [n, 2]" using assms(2) sA m by (auto simp: nd_take_cols_def)
  have bp: "blend (f t) (points A) (points B)
      = Inr \<lparr>shape = [n, m], elems = map2 (lerp (f t)) (elems (points A)) (elems (points B))\<rparr>"
    using blend_same_shape [OF wA wB] sA sB by simp
  have bc: "blend_colors (f t) (colors A) (colors B)
      = Inr \<lparr>shape = [n, m], elems = map2 (lerp (f t)) (map real_of_int (elems ca)) (map real_of_int (elems cb))\<rparr>"
    using blend_same_shape [of "nd_map real_of_int ca" "nd_map real_of_int cb"] wca wcb sca scb cA cB
    by (simp add: blend_colors_def) (simp add: nd_map_def)
  have hs: "\<exists>p. nd_hstack co \<lparr>shape = [n, m], elems = map2 (lerp (f t)) (elems (points A)) (elems (points B))\<rparr> = Inr p"
    using co by (simp add: nd_hstack_def)
  show ?thesis
    using bp bc hs sA cA cB
    by (auto simp: interp_step_def Let_def DepthCloud_def interp_cloud_def nd_map_def zip_map_map
          case_prod_beta)
qed

lemma interp_times_terminates:
  assumes "0 < s"
  shows "\<exists>r. interp_times f tStop s A B co t = Some r"
proof (induction "passes tStop s t" arbitrary: t)
  case 0
  then have "\<not> t \<le> tStop" using passes_step [OF assms] by fastforce
  then show ?case by (simp add: interp_times.simps)
next
  case (Suc n)
  then have le: "t \<le> tStop" using passes_stop [OF assms] by fastforce
  then have n: "n = passes tStop s (t + s)" using Suc.hyps passes_step [OF assms] by simp
  from Suc.hyps(1) [OF n] obtain r where "interp_times f tStop s A B co (t + s) = Some r" by blast
  with le show ?case
    by (cases "interp_step f A B co t") (simp_all add: interp_times.simps [of f tStop s A B co t])
qed

lemma interp_times_returns_outside:
  assumes ret: "interp_times f tStop s A B co t = Some y"
  shows "s \<le> 0 \<longrightarrow> (\<forall>t. \<exists>c. interp_step f A B co t = Inr c) \<longrightarrow> \<not> t \<le> tStop"
proof (rule interp_times.raw_induct
    [where P = "\<lambda>f tS s A B co t y. s \<le> 0 \<longrightarrow> (\<forall>t. \<exists>c. interp_step f A B co t = Inr c) \<longrightarrow> \<not> t \<le> tS",
     OF _ ret])
  fix F f tS s A B co t y
  assume IH: "\<And>f tS s A B co t y. F f tS s A B co t = Some y \<Longrightarrow>
      s \<le> 0 \<longrightarrow> (\<forall>t. \<exists>c. interp_step f A B co t = Inr c) \<longrightarrow> \<not> t \<le> tS"
    and body: "(if t \<le> tS
      then case interp_step f A B co t of
             Inl e \<Rightarrow> Some (Inl e)
           | Inr c \<Rightarrow> Option.bind (F f tS s A B co (t + s)) (\<lambda>r. Some (bind_res r (\<lambda>cs. Inr (c # cs))))
      else Some (Inr [])) = Some y"
  show "s \<le> 0 \<longrightarrow> (\<forall>t. \<exists>c. interp_step f A B co t = Inr c) \<longrightarrow> \<not> t \<le> tS"
  proof (intro impI notI)
    assume s: "s \<le> 0" and ok: "\<forall>t. \<exists>c. interp_step f A B co t = Inr c" and t: "t \<le> tS"
    from ok obtain c where c: "interp_step f A B co t = Inr c" by blast
    from body t c obtain y' where y': "F f tS s A B co (t + s) = Some y'"
      by (auto simp: bind_eq_Some_conv)
    from IH [OF y'] s ok have "\<not> t + s \<le> tS" by blast
    with s t show False by linarith
  qed
qed


lemma interp_times_diverges:
  assumes "s \<le> 0" and "t \<le> tStop" and "\<And>t. \<exists>c. interp_step f A B co t = Inr c"
  shows "interp_times f tStop s A B co t = None"
proof (cases "interp_times f tStop s A B co t")
  case (Some y)
  with interp_times_returns_outside [OF Some] assms show ?thesis by blast
qed

lemma InterpolateClouds_output:
  assumes "0 < s" and "chain_compatible cls"
  shows "InterpolateClouds f tStart tStop s cls = Some (Inr (concat (map2 (interp_pair f tStart tStop s) cls (tl cls))))"
  using assms
proof (induction f tStart tStop s cls rule: InterpolateClouds.induct)
  case (1 f tStart tStop s A B rest)
  then have s: "0 < s" and ab: "interp_compatible A B" and tl: "chain_compatible (B # rest)"
    by simp_all
  obtain co n where co: "nd_take_cols (points A) [0, 1] = Inr co"
    using take_cols_compatible [OF ab] by blast
  have "interp_times f tStop s A B co tStart = Some (Inr (interp_pair f tStart tStop s A B))"
    unfolding interp_pair_def
    by (rule interp_times_all_steps [OF s]) (rule interp_step_compatible [OF ab co])
  with co "1.IH" [OF co _ _ s tl] show ?case by simp
qed simp_all

lemma length_concat_map2_tl:
  "(\<And>A B. length (g A B) = p) \<Longrightarrow> length (concat (map2 g xs (tl xs))) = (length xs - 1) * p"
proof (induction xs)
  case (Cons x xs)
  then show ?case by (cases xs) simp_all
qed simp

lemma nth_concat_map2_tl:
  assumes "\<And>A B. length (g A B) = p" and "i < length xs - 1" and "k < p"
  shows "concat (map2 g xs (tl xs)) ! (i * p + k) = g (xs ! i) (xs ! Suc i) ! k"
  using assms(2)
proof (induction xs arbitrary: i)
  case (Cons x xs)
  then obtain y ys where xs: "xs = y # ys" by (cases xs) auto
  show ?case
  proof (cases i)
    case 0
    with xs assms(1,3) show ?thesis by (simp add: nth_append)
  next
    case (Suc j)
    with Cons.prems xs have "j < length xs - 1" by simp
    with Cons.IH [OF this] xs Suc assms(1,3) show ?thesis
      by (simp add: nth_append length_concat_map2_tl [OF assms(1)] algebra_simps)
  qed
qed simp

lemma length_interp_pair [simp]: "length (interp_pair f tStart tStop s A B) = passes tStop s tStart"
  by (simp add: interp_pair_def)

lemma interp_cloud_0: "interp_compatible A B \<Longrightarrow> interp_cloud 0 A B = A"
  by (elim interp_compatibleE) (auto simp: interp_cloud_def lerp_def nd_wf_def intro!: cloud_eqI nd_eqI)

lemma interp_cloud_1: "interp_compatible A B \<Longrightarrow> interp_cloud 1 A B = B"
  by (elim interp_compatibleE) (auto simp: interp_cloud_def lerp_def nd_wf_def intro!: cloud_eqI nd_eqI)

text \<open>
  C2. With a positive step the interpolator ends: draining its generator returns a value
  (the clouds, or the first exception), whatever the clouds and the step function.
\<close>

theorem InterpolateClouds_terminates:
  assumes "0 < tStepSize"
  shows "\<exists>r. InterpolateClouds stepFunction tStart tStop tStepSize cls = Some r"
  using assms
proof (induction stepFunction tStart tStop tStepSize cls rule: InterpolateClouds.induct)
  case (1 f tStart tStop s A B rest)
  show ?case
  proof (cases "nd_take_cols (points A) [0, 1]")
    case (Inr co)
    obtain r where r: "interp_times f tStop s A B co tStart = Some r"
      using interp_times_terminates [OF "1.prems"] by blast
    with "1.IH" [OF Inr _ _ "1.prems"] show ?thesis using Inr
      by (cases r) (auto simp: bind_eq_Some_conv)
  qed simp
qed simp_all

lemma interp_cloud_inv: "interp_compatible A B \<Longrightarrow> cloud_inv (interp_cloud ft A B)"
  by (elim interp_compatibleE) (simp add: interp_cloud_def cloud_inv_def nd_wf_def)

lemma interp_pairs_inv:
  "chain_compatible cls \<Longrightarrow> list_all cloud_inv (concat (map2 (interp_pair f tStart tStop s) cls (tl cls)))"
proof (induction cls rule: chain_compatible.induct)
  case (1 A B rest)
  then have "list_all cloud_inv (interp_pair f tStart tStop s A B)"
    by (simp add: interp_pair_def interp_cloud_inv list_all_length)
  with 1 show ?case by simp
qed simp_all

theorem InterpolateClouds_terminates_witness:
  "\<exists>r. InterpolateClouds (\<lambda>t. t) 0 1 (1/2)
     [\<lparr>points = \<lparr>shape = [1, 3], elems = [0, 0, 2]\<rparr>, colors = None\<rparr>,
      \<lparr>points = \<lparr>shape = [2, 3], elems = [0, 0, 4, 0, 1, 3]\<rparr>, colors = None\<rparr>] = Some r"
  by (rule InterpolateClouds_terminates) simp

text \<open>
  C3. With a positive step and clouds the loop body accepts, the interpolator emits
  \<open>(numClouds - 1) * floor((tStop - tStart) / tStep + 1)\<close> clouds, as the specification says.
\<close>

theorem InterpolateClouds_count:
  assumes "0 < tStepSize" and "chain_compatible cls"
  shows "\<exists>out. InterpolateClouds stepFunction tStart tStop tStepSize cls = Some (Inr out) \<and>
           length out = (length cls - 1) * nat \<lfloor>(tStop - tStart) / tStepSize + 1\<rfloor>"
proof -
  have "nat \<lfloor>(tStop - tStart) / tStepSize + 1\<rfloor> = passes tStop tStepSize tStart"
    by (simp add: passes_def)
  then show ?thesis
    using InterpolateClouds_output [OF assms, of stepFunction tStart]
    by (simp add: length_concat_map2_tl)
qed

theorem InterpolateClouds_count_witness:
  "\<exists>out. InterpolateClouds (\<lambda>t. t) 0 1 (1/2)
     [\<lparr>points = \<lparr>shape = [1, 3], elems = [0, 0, 2]\<rparr>, colors = Some \<lparr>shape = [1, 3], elems = [10, 20, 30]\<rparr>\<rparr>,
      \<lparr>points = \<lparr>shape = [1, 3], elems = [0, 0, 4]\<rparr>, colors = Some \<lparr>shape = [1, 3], elems = [30, 40, 50]\<rparr>\<rparr>]
       = Some (Inr out) \<and> length out = 3"
  using InterpolateClouds_count [of "1/2"
      "[\<lparr>points = \<lparr>shape = [1, 3], elems = [0, 0, 2]\<rparr>, colors = Some \<lparr>shape = [1, 3], elems = [10, 20, 30]\<rparr>\<rparr>,
        \<lparr>points = \<lparr>shape = [1, 3], elems = [0, 0, 4]\<rparr>, colors = Some \<lparr>shape = [1, 3], elems = [30, 40, 50]\<rparr>\<rparr>]"
      "\<lambda>t. t" 0 1]
  by (simp add: interp_compatible_def cloud_inv_def nd_wf_def)

text \<open>
  C4. Output cloud \<open>k\<close> of the pair \<open>(i, i + 1)\<close> blends every coordinate and every colour
  channel of the two clouds with \<open>ft = stepFunction(tStart + k * tStep)\<close>: all three point
  coordinates are interpolated, not only the depth, and colours are truncated to integers.
\<close>

theorem InterpolateClouds_nth:
  assumes "0 < tStepSize" and "chain_compatible cls"
    and "i < length cls - 1" and "k < passes tStop tStepSize tStart"
  shows "\<exists>out. InterpolateClouds stepFunction tStart tStop tStepSize cls = Some (Inr out) \<and>
           out ! (i * passes tStop tStepSize tStart + k) =
             interp_cloud (stepFunction (tStart + real k * tStepSize)) (cls ! i) (cls ! Suc i)"
  using InterpolateClouds_output [OF assms(1,2), of stepFunction tStart]
    nth_concat_map2_tl [OF length_interp_pair assms(3,4)]
  by (simp add: interp_pair_def assms(4))

theorem InterpolateClouds_nth_witness:
  "\<exists>out. InterpolateClouds (\<lambda>t. t) 0 1 1
     [\<lparr>points = \<lparr>shape = [1, 3], elems = [0, 0, 2]\<rparr>, colors = Some \<lparr>shape = [1, 3], elems = [10, 20, 30]\<rparr>\<rparr>,
      \<lparr>points = \<lparr>shape = [1, 3], elems = [2, 2, 4]\<rparr>, colors = Some \<lparr>shape = [1, 3], elems = [30, 40, 50]\<rparr>\<rparr>]
       = Some (Inr out) \<and>
     out ! 1 = \<lparr>points = \<lparr>shape = [1, 3], elems = [2, 2, 4]\<rparr>, colors = Some \<lparr>shape = [1, 3], elems = [30, 40, 50]\<rparr>\<rparr>"
proof -
  let ?A = "\<lparr>points = \<lparr>shape = [1, 3], elems = [0 :: real, 0, 2]\<rparr>, colors = Some \<lparr>shape = [1, 3], elems = [10 :: int, 20, 30]\<rparr>\<rparr>"
  let ?B = "\<lparr>points = \<lparr>shape = [1, 3], elems = [2 :: real, 2, 4]\<rparr>, colors = Some \<lparr>shape = [1, 3], elems = [30 :: int, 40, 50]\<rparr>\<rparr>"
  have c: "chain_compatible [?A, ?B]" by (simp add: interp_compatible_def cloud_inv_def nd_wf_def)
  have p: "passes 1 1 0 = 2" by (simp add: passes_def)
  have k: "1 < passes 1 1 0" by (simp add: p)
  from InterpolateClouds_nth [OF _ c _ k, where stepFunction = "\<lambda>t. t" and i = 0] obtain out
    where "InterpolateClouds (\<lambda>t. t) 0 1 1 [?A, ?B] = Some (Inr out)"
      and "out ! 1 = interp_cloud 1 ?A ?B"
    by (auto simp: p)
  moreover have "interp_cloud 1 ?A ?B = ?B"
    by (simp add: interp_cloud_def lerp_def)
  ultimately show ?thesis by auto
qed

text \<open>
  C7. The test scenario of the specification: \<open>f(t) = t\<close>, \<open>tStart = 0\<close>, \<open>tStop = 1\<close>,
  \<open>tStep = 1\<close> on two clouds gives exactly two clouds, equal to the first and the second.
\<close>

theorem InterpolateClouds_endpoints:
  assumes "interp_compatible A B"
  shows "InterpolateClouds (\<lambda>t. t) 0 1 1 [A, B] = Some (Inr [A, B])"
proof -
  have p: "passes 1 1 0 = 2" by (simp add: passes_def)
  have c: "chain_compatible [A, B]" using assms by simp
  have "InterpolateClouds (\<lambda>t. t) 0 1 1 [A, B]
      = Some (Inr (concat (map2 (interp_pair (\<lambda>t. t) 0 1 1) [A, B] (tl [A, B]))))"
    by (rule InterpolateClouds_output [OF _ c]) simp
  also have "concat (map2 (interp_pair (\<lambda>t. t) 0 1 1) [A, B] (tl [A, B])) = [A, B]"
    by (simp add: interp_pair_def p numeral_2_eq_2 interp_cloud_0 [OF assms] interp_cloud_1 [OF assms])
  finally show ?thesis .
qed

theorem InterpolateClouds_endpoints_witness:
  "InterpolateClouds (\<lambda>t. t) 0 1 1
     [\<lparr>points = \<lparr>shape = [1, 3], elems = [0, 0, 2]\<rparr>, colors = Some \<lparr>shape = [1, 3], elems = [10, 20, 30]\<rparr>\<rparr>,
      \<lparr>points = \<lparr>shape = [1, 3], elems = [0, 0, 4]\<rparr>, colors = Some \<lparr>shape = [1, 3], elems = [30, 40, 50]\<rparr>\<rparr>]
   = Some (Inr
     [\<lparr>points = \<lparr>shape = [1, 3], elems = [0, 0, 2]\<rparr>, colors = Some \<lparr>shape = [1, 3], elems = [10, 20, 30]\<rparr>\<rparr>,
      \<lparr>points = \<lparr>shape = [1, 3], elems = [0, 0, 4]\<rparr>, colors = Some \<lparr>shape = [1, 3], elems = [30, 40, 50]\<rparr>\<rparr>])"
  by (rule InterpolateClouds_endpoints) (simp add: interp_compatible_def cloud_inv_def nd_wf_def)

text \<open>
  C5. With a step that is not positive and \<open>tStart <= tStop\<close>, \<open>tCurrent\<close> never passes
  \<open>tStop\<close>: draining the generator of two compatible clouds never returns.
\<close>

theorem InterpolateClouds_diverges:
  assumes "tStepSize \<le> 0" and "tStart \<le> tStop" and "interp_compatible A B"
  shows "InterpolateClouds stepFunction tStart tStop tStepSize (A # B # rest) = None"
proof -
  obtain co n where co: "nd_take_cols (points A) [0, 1] = Inr co"
    using take_cols_compatible [OF assms(3)] by blast
  have "interp_times stepFunction tStop tStepSize A B co tStart = None"
    by (rule interp_times_diverges [OF assms(1,2)]) (simp add: interp_step_compatible [OF assms(3) co])
  with co show ?thesis by simp
qed

theorem InterpolateClouds_diverges_witness:
  "InterpolateClouds (\<lambda>t. t) 0 1 0
     [\<lparr>points = \<lparr>shape = [1, 3], elems = [0, 0, 2]\<rparr>, colors = Some \<lparr>shape = [1, 3], elems = [10, 20, 30]\<rparr>\<rparr>,
      \<lparr>points = \<lparr>shape = [1, 3], elems = [0, 0, 4]\<rparr>, colors = Some \<lparr>shape = [1, 3], elems = [30, 40, 50]\<rparr>\<rparr>]
   = None"
  by (rule InterpolateClouds_diverges) (simp_all add: interp_compatible_def cloud_inv_def nd_wf_def)

text \<open>
  C6. Every cloud the interpolator emits from compatible clouds satisfies the data-model
  invariant: its colours have the shape of its points.
\<close>

theorem InterpolateClouds_inv:
  assumes "0 < tStepSize" and "chain_compatible cls"
    and "InterpolateClouds stepFunction tStart tStop tStepSize cls = Some (Inr out)"
  shows "list_all cloud_inv out"
proof -
  have "out = concat (map2 (interp_pair stepFunction tStart tStop tStepSize) cls (tl cls))"
    using assms(3) InterpolateClouds_output [OF assms(1,2)] by simp
  then show ?thesis using interp_pairs_inv [OF assms(2)] by simp
qed

theorem InterpolateClouds_inv_witness:
  "list_all cloud_inv (map (\<lambda>k. interp_cloud (real k / 2)
      \<lparr>points = \<lparr>shape = [1, 3], elems = [0, 0, 2]\<rparr>, colors = Some \<lparr>shape = [1, 3], elems = [10, 20, 30]\<rparr>\<rparr>
      \<lparr>points = \<lparr>shape = [1, 3], elems = [0, 0, 4]\<rparr>, colors = Some \<lparr>shape = [1, 3], elems = [30, 40, 50]\<rparr>\<rparr>)
      [0..<3])"
proof -
  let ?A = "\<lparr>points = \<lparr>shape = [1, 3], elems = [0 :: real, 0, 2]\<rparr>, colors = Some \<lparr>shape = [1, 3], elems = [10 :: int, 20, 30]\<rparr>\<rparr>"
  let ?B = "\<lparr>points = \<lparr>shape = [1, 3], elems = [0 :: real, 0, 4]\<rparr>, colors = Some \<lparr>shape = [1, 3], elems = [30 :: int, 40, 50]\<rparr>\<rparr>"
  have c: "chain_compatible [?A, ?B]" by (simp add: interp_compatible_def cloud_inv_def nd_wf_def)
  have p: "passes 1 (1 / 2) 0 = 3" by (simp add: passes_def)
  have "InterpolateClouds (\<lambda>t. t) 0 1 (1 / 2) [?A, ?B]
      = Some (Inr (map (\<lambda>k. interp_cloud (real k / 2) ?A ?B) [0..<3]))"
    using InterpolateClouds_output [OF _ c, of "1/2" "\<lambda>t. t" 0 1] by (simp add: interp_pair_def p)
  from InterpolateClouds_inv [OF _ c this] show ?thesis by simp
qed

end
