(* ===== verification/Posterize.thy ===== *)
theory Posterize
  imports Cloud
begin

text \<open>
  \<open>PosterizeDepth\<close> of \<^verbatim>\<open>cloudmosh/components/effect.py\<close>: the z column of a cloud is
  quantised to the centroids of a k-means clustering of its whitened values. scipy's
  \<open>kmeans\<close> (random initialisation) is a parameter of the model; \<open>whiten\<close>, \<open>vq\<close>,
  \<open>np.std\<close>, the padding and the masked replacement loop are modelled from their code.
\<close>

record posterize_params =
  levels :: nat
  zPadding :: "real option"

definition np_mean :: "real list \<Rightarrow> real" where
  "np_mean xs = sum_list xs / real (length xs)"

text \<open>
  \<open>np.std\<close> of a non-empty array. numpy's standard deviation of an empty array is NaN,
  which the reals do not have; the value of \<open>np_std []\<close> is never observed: \<open>whiten\<close>
  takes the empty input apart, and the unwhitened centroids of an empty cloud are never
  stored, as the theorem on empty clouds below shows.
\<close>

definition np_std :: "real list \<Rightarrow> real" where
  "np_std xs = sqrt (sum_list (map (\<lambda>x. (x - np_mean xs)\<^sup>2) xs) / real (length xs))"

text \<open>
  scipy's \<open>whiten\<close> divides by the standard deviation; for a 1-d input with standard
  deviation 0 its in-place fix-up \<open>std_dev[zero_std_mask] = 1.0\<close> writes into a numpy
  scalar and raises \<open>TypeError\<close>. For an empty input the deviation is NaN, which is not
  equal to 0, and \<open>obs / std_dev\<close> is the empty array.
\<close>

definition whiten :: "real list \<Rightarrow> real list res" where
  "whiten obs =
     (if obs = [] then Inr []
      else let s = np_std obs in if s = 0 then Inl TypeError else Inr (map (\<lambda>x. x / s) obs))"

text \<open>\<open>vq\<close>: the index of the first nearest code for each observation.\<close>

definition vq_code :: "real list \<Rightarrow> real \<Rightarrow> nat" where
  "vq_code code_book x =
     (case code_book of
        [] \<Rightarrow> 0
      | c0 # _ \<Rightarrow>
          fst (foldl (\<lambda>(bi, bd) (i, c). if \<bar>x - c\<bar> < bd then (i, \<bar>x - c\<bar>) else (bi, bd))
                 (0, \<bar>x - c0\<bar>) (zip [0..<length code_book] code_book)))"


text \<open>
  \<open>for i in range(levels): clusterIndices[clusterIndices == i] = centroids[i]\<close>: the
  index array is an integer array, so each stored centroid is truncated; \<open>centroids[i]\<close>
  raises \<open>IndexError\<close> past the end of the codebook.
\<close>

fun replace_levels :: "real list \<Rightarrow> nat list \<Rightarrow> int list \<Rightarrow> int list res" where
  "replace_levels centroids [] codes = Inr codes"
| "replace_levels centroids (i # is) codes =
     (if i < length centroids
      then replace_levels centroids is
             (map (\<lambda>v. if v = int i then astype_int (centroids ! i) else v) codes)
      else Inl IndexError)"

text \<open>The effect of the masked loop on one element: the levels are applied in order.\<close>

definition level_step :: "real list \<Rightarrow> int \<Rightarrow> nat \<Rightarrow> int" where
  "level_step centroids v i = (if v = int i then astype_int (centroids ! i) else v)"

definition pad_centroids :: "nat \<Rightarrow> real option \<Rightarrow> real list \<Rightarrow> real list res" where
  "pad_centroids lv zp centroids =
     (case zp of
        None \<Rightarrow> Inr centroids
      | Some p \<Rightarrow>
          bind_res (nd_binop (+) \<lparr>shape = [length centroids], elems = centroids\<rparr>
                                 \<lparr>shape = [lv], elems = replicate lv p\<rparr>)
            (\<lambda>a. Inr (elems a)))"

definition PosterizeDepth :: "(real list \<Rightarrow> nat \<Rightarrow> real list res) \<Rightarrow> posterize_params \<Rightarrow> cloud \<Rightarrow> cloud res" where
  "PosterizeDepth kmeans prm element =
     bind_res (nd_column (points element) 2) (\<lambda>zValues.
     bind_res (whiten (elems zValues)) (\<lambda>whitenedValues.
     bind_res (kmeans whitenedValues (levels prm)) (\<lambda>centroids.
     bind_res (pad_centroids (levels prm) (zPadding prm)
                (map (\<lambda>c. c * np_std (elems zValues)) centroids)) (\<lambda>centroids'.
     bind_res (replace_levels centroids' [0..<levels prm]
                (map (\<lambda>x. int (vq_code centroids x)) whitenedValues)) (\<lambda>clusterIndices.
     bind_res (nd_set_column (points element) 2 (map real_of_int clusterIndices)) (\<lambda>pts.
     Inr (element\<lparr>points := pts\<rparr>)))))))"


subsection \<open>The replacement loop\<close>

lemma replace_levels_chain:
  "list_all (\<lambda>i. i < length centroids) is \<Longrightarrow>
   replace_levels centroids is codes = Inr (map (\<lambda>v. foldl (level_step centroids) v is) codes)"
  by (induction "is" arbitrary: codes) (simp_all add: level_step_def comp_def)

lemma replace_levels_short:
  "\<not> list_all (\<lambda>i. i < length centroids) is \<Longrightarrow> replace_levels centroids is codes = Inl IndexError"
  by (induction "is" arbitrary: codes) auto

lemma foldl_level_step_other:
  "v \<notin> int ` set is \<Longrightarrow> foldl (level_step centroids) v is = v"
  by (induction "is") (auto simp: level_step_def)

lemma foldl_level_step_range:
  "v \<in> int ` set is \<Longrightarrow> foldl (level_step centroids) v is \<in> (\<lambda>i. astype_int (centroids ! i)) ` set is"
proof (induction "is" arbitrary: v)
  case Nil
  then show ?case by simp
next
  case (Cons i "is")
  show ?case
  proof (cases "v = int i")
    case True
    let ?u = "astype_int (centroids ! i)"
    have step: "foldl (level_step centroids) v (i # is) = foldl (level_step centroids) ?u is"
      using True by (simp add: level_step_def)
    show ?thesis
    proof (cases "?u \<in> int ` set is")
      case True
      with Cons.IH [OF True] step show ?thesis by auto
    next
      case False
      with foldl_level_step_other [OF False] step show ?thesis by simp
    qed
  next
    case False
    with Cons.prems have "v \<in> int ` set is" by auto
    with Cons.IH False show ?thesis by (auto simp: level_step_def)
  qed
qed

lemma vq_code_bound: "code_book \<noteq> [] \<Longrightarrow> vq_code code_book x < length code_book"
proof -
  assume ne: "code_book \<noteq> []"
  have "\<And>p ps. fst p < length code_book \<Longrightarrow> set ps \<subseteq> set (zip [0..<length code_book] code_book) \<Longrightarrow>
      fst (foldl (\<lambda>(bi, bd) (i, c). if \<bar>x - c\<bar> < bd then (i, \<bar>x - c\<bar>) else (bi, bd)) p ps) < length code_book"
  proof -
    fix p ps
    show "fst p < length code_book \<Longrightarrow> set ps \<subseteq> set (zip [0..<length code_book] code_book) \<Longrightarrow>
      fst (foldl (\<lambda>(bi, bd) (i, c). if \<bar>x - c\<bar> < bd then (i, \<bar>x - c\<bar>) else (bi, bd)) p ps) < length code_book"
      by (induction ps arbitrary: p) (auto simp: set_zip split: prod.splits)
  qed
  with ne show ?thesis by (auto simp: vq_code_def split: list.splits)
qed

lemma replace_levels_length:
  "replace_levels centroids is codes = Inr codes' \<Longrightarrow> length codes' = length codes"
  by (induction "is" arbitrary: codes) (auto split: if_splits)

lemma replace_levels_range:
  assumes "replace_levels cs [0..<L] codes = Inr codes'"
    and "list_all (\<lambda>v. v \<in> int ` {..<L}) codes"
  shows "set codes' \<subseteq> (\<lambda>i. astype_int (cs ! i)) ` {..<L}"
proof -
  have ok: "list_all (\<lambda>i. i < length cs) [0..<L]"
    using assms(1) replace_levels_short by fastforce
  then have "codes' = map (\<lambda>v. foldl (level_step cs) v [0..<L]) codes"
    using assms(1) by (simp add: replace_levels_chain)
  moreover have "\<And>v. v \<in> set codes \<Longrightarrow> foldl (level_step cs) v [0..<L] \<in> (\<lambda>i. astype_int (cs ! i)) ` {..<L}"
    using foldl_level_step_range [of _ "[0..<L]" cs] assms(2) by (auto simp: list_all_iff atLeast0LessThan)
  ultimately show ?thesis by auto
qed

lemma card_levels:
  "set zs \<subseteq> f ` {..<(L::nat)} \<Longrightarrow> card (set zs) \<le> L"
  by (metis card_image_le card_lessThan card_mono finite_imageI finite_lessThan order_trans)

lemma foldl_level_step_exact:
  assumes "a \<le> i" and "i < b" and "\<forall>j. i < j \<and> j < b \<longrightarrow> astype_int (cs ! i) \<noteq> int j"
  shows "foldl (level_step cs) (int i) [a..<b] = astype_int (cs ! i)"
proof -
  have split: "[a..<b] = [a..<i] @ i # [Suc i..<b]"
  proof -
    have "[a..<i + (b - i)] = [a..<i] @ [i..<i + (b - i)]"
      using assms(1) by (rule upt_add_eq_append)
    then show ?thesis using assms(2) by (simp add: upt_conv_Cons)
  qed
  have pre: "foldl (level_step cs) (int i) [a..<i] = int i"
    by (rule foldl_level_step_other) auto
  have post: "foldl (level_step cs) (astype_int (cs ! i)) [Suc i..<b] = astype_int (cs ! i)"
    using assms(3) by (intro foldl_level_step_other) (force simp: Suc_le_eq)
  show ?thesis using pre post by (simp add: split level_step_def)
qed

subsection \<open>Decomposing a successful run\<close>

text \<open>
  A successful run of \<open>PosterizeDepth\<close> on a well-formed cloud goes through every stage of
  \<open>__call__\<close>; its output differs from the input only in column 2 of the points, which
  holds the replaced cluster indices.
\<close>

lemma PosterizeDepth_run:
  assumes inv: "cloud_inv cl"
    and ok: "PosterizeDepth kmeans prm cl = Inr cl'"
  shows "\<exists>n m zs0 w c0 cents.
           shape (points cl) = [n, m] \<and> 2 < m \<and>
           nd_column (points cl) 2 = Inr zs0 \<and> whiten (elems zs0) = Inr w \<and> length w = n \<and>
           kmeans w (levels prm) = Inr c0 \<and>
           pad_centroids (levels prm) (zPadding prm) (map (\<lambda>c. c * np_std (elems zs0)) c0) = Inr cents \<and>
           list_all (\<lambda>i. i < length cents) [0..<levels prm] \<and>
           nd_column (points cl') 2 =
             Inr \<lparr>shape = [n], elems = map (\<lambda>x. real_of_int (foldl (level_step cents) (int (vq_code c0 x)) [0..<levels prm])) w\<rparr> \<and>
           nd_wf (points cl') \<and> shape (points cl') = [n, m] \<and> colors cl' = colors cl \<and>
           (\<forall>k < n * m. k mod m \<noteq> 2 \<longrightarrow> elems (points cl') ! k = elems (points cl) ! k)"
proof -
  let ?L = "levels prm"
  from ok obtain zs0 w c0 cents codes' pts where
    z: "nd_column (points cl) 2 = Inr zs0" and wh: "whiten (elems zs0) = Inr w"
    and km: "kmeans w ?L = Inr c0"
    and pad: "pad_centroids ?L (zPadding prm) (map (\<lambda>c. c * np_std (elems zs0)) c0) = Inr cents"
    and rep: "replace_levels cents [0..<?L] (map (\<lambda>x. int (vq_code c0 x)) w) = Inr codes'"
    and set: "nd_set_column (points cl) 2 (map real_of_int codes') = Inr pts"
    and cl': "cl' = cl\<lparr>points := pts\<rparr>"
    by (auto simp: PosterizeDepth_def)
  from set obtain n m where sh: "shape (points cl) = [n, m]" and m: "2 < m"
    by (auto simp: nd_set_column_def split: list.splits if_splits)
  have wf: "nd_wf (points cl)" using inv by (simp add: cloud_inv_def)
  have lw: "length w = n"
    using z wh nd_column_2d [OF wf sh m] by (auto simp: whiten_def Let_def split: if_splits)
  have rng: "list_all (\<lambda>i. i < length cents) [0..<?L]"
    using rep replace_levels_short by fastforce
  have codes: "codes' = map (\<lambda>x. foldl (level_step cents) (int (vq_code c0 x)) [0..<?L]) w"
    using rep replace_levels_chain [OF rng] by (simp add: comp_def)
  obtain a' where a': "nd_set_column (points cl) 2 (map real_of_int codes') = Inr a'"
    and wf': "nd_wf a'" and sh': "shape a' = [n, m]"
    and col: "nd_column a' 2 = Inr \<lparr>shape = [n], elems = map real_of_int codes'\<rparr>"
    and oth: "\<forall>k < n * m. k mod m \<noteq> 2 \<longrightarrow> elems a' ! k = elems (points cl) ! k"
    using nd_set_column_2d [OF wf sh m, of "map real_of_int codes'"] lw codes by auto
  have pts: "pts = a'" using a' set by simp
  show ?thesis
    using sh m z wh lw km pad rng col wf' sh' oth
    by (intro exI [of _ n] exI [of _ m] exI [of _ zs0] exI [of _ w] exI [of _ c0] exI [of _ cents])
       (simp add: cl' pts codes comp_def)
qed

text \<open>
  C13. Whatever clustering k-means returns (a non-empty codebook of at most \<open>levels\<close>
  centroids, as scipy's does), a successful \<open>PosterizeDepth\<close> leaves at most \<open>levels\<close>
  distinct z values, each the integer truncation of one of the first \<open>levels\<close> unwhitened
  (and padded) centroids.
\<close>

theorem PosterizeDepth_levels:
  assumes kmeans_k: "\<And>obs k cs. kmeans obs k = Inr cs \<Longrightarrow> cs \<noteq> [] \<and> length cs \<le> k"
    and inv: "cloud_inv cl"
    and ok: "PosterizeDepth kmeans prm cl = Inr cl'"
  shows "\<exists>zs0 w c0 cents zs.
           nd_column (points cl) 2 = Inr zs0 \<and> whiten (elems zs0) = Inr w \<and>
           kmeans w (levels prm) = Inr c0 \<and>
           pad_centroids (levels prm) (zPadding prm) (map (\<lambda>c. c * np_std (elems zs0)) c0) = Inr cents \<and>
           nd_column (points cl') 2 = Inr zs \<and>
           set (elems zs) \<subseteq> (\<lambda>i. real_of_int (astype_int (cents ! i))) ` {..<levels prm} \<and>
           card (set (elems zs)) \<le> levels prm"
proof -
  let ?L = "levels prm"
  obtain n zs0 w c0 cents where
    run: "nd_column (points cl) 2 = Inr zs0" "whiten (elems zs0) = Inr w" "kmeans w ?L = Inr c0"
      "pad_centroids ?L (zPadding prm) (map (\<lambda>c. c * np_std (elems zs0)) c0) = Inr cents"
    and col: "nd_column (points cl') 2 =
             Inr \<lparr>shape = [n], elems = map (\<lambda>x. real_of_int (foldl (level_step cents) (int (vq_code c0 x)) [0..<?L])) w\<rparr>"
    using PosterizeDepth_run [OF inv ok] by blast
  have "vq_code c0 x < ?L" for x
    using kmeans_k [OF run(3)] vq_code_bound [of c0 x] by linarith
  then have "foldl (level_step cents) (int (vq_code c0 x)) [0..<?L] \<in> (\<lambda>i. astype_int (cents ! i)) ` {..<?L}" for x
    using foldl_level_step_range [of "int (vq_code c0 x)" "[0..<?L]" cents] by (auto simp: atLeast0LessThan)
  then have sub: "set (map (\<lambda>x. real_of_int (foldl (level_step cents) (int (vq_code c0 x)) [0..<?L])) w)
      \<subseteq> (\<lambda>i. real_of_int (astype_int (cents ! i))) ` {..<?L}"
    by fastforce
  show ?thesis using run col sub card_levels [OF sub] by fastforce
qed

text \<open>
  C14. The loop's intended meaning holds exactly when no truncated centroid collides with a
  later level index: then each point's z becomes the truncation of its own cluster's
  (unwhitened, padded) centroid.
\<close>

theorem PosterizeDepth_exact:
  assumes kmeans_k: "\<And>obs k cs. kmeans obs k = Inr cs \<Longrightarrow> cs \<noteq> [] \<and> length cs \<le> k"
    and inv: "cloud_inv cl"
    and ok: "PosterizeDepth kmeans prm cl = Inr cl'"
  shows "\<exists>zs0 w c0 cents.
           nd_column (points cl) 2 = Inr zs0 \<and> whiten (elems zs0) = Inr w \<and>
           kmeans w (levels prm) = Inr c0 \<and>
           pad_centroids (levels prm) (zPadding prm) (map (\<lambda>c. c * np_std (elems zs0)) c0) = Inr cents \<and>
           ((\<forall>i < levels prm. \<forall>j. i < j \<and> j < levels prm \<longrightarrow> astype_int (cents ! i) \<noteq> int j) \<longrightarrow>
            nd_column (points cl') 2 =
              Inr \<lparr>shape = [length w], elems = map (\<lambda>x. real_of_int (astype_int (cents ! vq_code c0 x))) w\<rparr>)"
proof -
  let ?L = "levels prm"
  obtain n zs0 w c0 cents where
    run: "nd_column (points cl) 2 = Inr zs0" "whiten (elems zs0) = Inr w" "kmeans w ?L = Inr c0"
      "pad_centroids ?L (zPadding prm) (map (\<lambda>c. c * np_std (elems zs0)) c0) = Inr cents"
    and lw: "length w = n"
    and col: "nd_column (points cl') 2 =
             Inr \<lparr>shape = [n], elems = map (\<lambda>x. real_of_int (foldl (level_step cents) (int (vq_code c0 x)) [0..<?L])) w\<rparr>"
    using PosterizeDepth_run [OF inv ok] by blast
  have bound: "vq_code c0 x < ?L" for x
    using kmeans_k [OF run(3)] vq_code_bound [of c0 x] by linarith
  have "nd_column (points cl') 2 =
          Inr \<lparr>shape = [length w], elems = map (\<lambda>x. real_of_int (astype_int (cents ! vq_code c0 x))) w\<rparr>"
    if nc: "\<forall>i < ?L. \<forall>j. i < j \<and> j < ?L \<longrightarrow> astype_int (cents ! i) \<noteq> int j"
  proof -
    have "foldl (level_step cents) (int (vq_code c0 x)) [0..<?L] = astype_int (cents ! vq_code c0 x)" for x
      using nc bound [of x] by (intro foldl_level_step_exact) auto
    then show ?thesis using col lw by simp
  qed
  then show ?thesis using run by blast
qed

text \<open>
  C16. \<open>PosterizeDepth\<close> changes nothing but the z column: the shape of the points, their x
  and y columns and the colours are those of the input.
\<close>

theorem PosterizeDepth_other_columns:
  assumes "cloud_inv cl" and "PosterizeDepth kmeans prm cl = Inr cl'"
  shows "shape (points cl') = shape (points cl) \<and> colors cl' = colors cl \<and> cloud_inv cl' \<and>
         (\<forall>k < length (elems (points cl)). k mod (shape (points cl) ! 1) \<noteq> 2 \<longrightarrow>
            elems (points cl') ! k = elems (points cl) ! k)"
proof -
  obtain n m where sh: "shape (points cl) = [n, m]" and wf': "nd_wf (points cl')"
    and sh': "shape (points cl') = [n, m]" and cs: "colors cl' = colors cl"
    and oth: "\<forall>k < n * m. k mod m \<noteq> 2 \<longrightarrow> elems (points cl') ! k = elems (points cl) ! k"
    using PosterizeDepth_run [OF assms] by blast
  have len: "length (elems (points cl)) = n * m"
    using assms(1) sh by (simp add: cloud_inv_def nd_wf_def)
  have "cloud_inv cl'"
    using assms(1) wf' sh sh' cs by (auto simp: cloud_inv_def split: option.splits)
  then show ?thesis using sh sh' cs oth len by simp
qed

lemma np_std_replicate: "np_std (replicate n d) = 0"
  by (cases "n = 0") (simp_all add: np_std_def np_mean_def sum_list_replicate)

lemma map_upt_const: "(\<And>r. r < n \<Longrightarrow> f r = d) \<Longrightarrow> map f [0..<n] = replicate n d"
  by (simp add: list_eq_iff_nth_eq)

text \<open>
  C17. A cloud of at least one point whose depth values are all equal cannot be
  posterized: \<open>whiten\<close> meets a zero standard deviation and raises \<open>TypeError\<close>,
  before k-means is called.
\<close>

theorem PosterizeDepth_flat_depth:
  assumes "nd_wf (points cl)" and "shape (points cl) = [n, m]" and "2 < m" and "0 < n"
    and "\<forall>r < n. elems (points cl) ! (r * m + 2) = d"
  shows "PosterizeDepth kmeans prm cl = Inl TypeError"
proof -
  have "map (\<lambda>r. elems (points cl) ! (r * m + 2)) [0..<n] = replicate n d"
    using assms(5) by (intro map_upt_const) simp
  then show ?thesis
    using nd_column_2d [OF assms(1-3)] assms(4)
    by (simp add: PosterizeDepth_def whiten_def np_std_replicate)
qed

lemma pad_centroids_values:
  "length cs' = length cs \<Longrightarrow>
   map_sum id length (pad_centroids L zp cs') = map_sum id length (pad_centroids L zp cs)"
  by (simp add: pad_centroids_def nd_binop_def split: option.splits)

lemma replace_levels_Nil_codes:
  "replace_levels cs is [] = (if list_all (\<lambda>i. i < length cs) is then Inr [] else Inl IndexError)"
  by (induction "is") auto

text \<open>
  C18. An empty cloud reaches k-means with the empty array: \<open>whiten\<close> returns it, as
  its NaN deviation is not 0. k-means' exception is the result (scipy's raises
  \<open>ValueError\<close>); if it returns, only the number of centroids matters, not their values:
  the padding's broadcast may raise \<open>ValueError\<close>, a codebook shorter than
  \<open>levels\<close> raises \<open>IndexError\<close>, and otherwise the cloud comes back unchanged.
\<close>

theorem PosterizeDepth_empty:
  assumes "nd_wf (points cl)" and "shape (points cl) = [0, m]" and "2 < m"
  shows "PosterizeDepth kmeans prm cl =
           bind_res (kmeans [] (levels prm)) (\<lambda>c0.
           bind_res (pad_centroids (levels prm) (zPadding prm) c0) (\<lambda>cents.
           if levels prm \<le> length cents then Inr cl else Inl IndexError))"
proof -
  have col: "nd_column (points cl) 2 = Inr \<lparr>shape = [0], elems = []\<rparr>"
    using nd_column_2d [OF assms] by simp
  obtain a' where set: "nd_set_column (points cl) 2 [] = Inr a'" and wf': "nd_wf a'" and sh': "shape a' = [0, m]"
    using nd_set_column_2d [OF assms, of "[]"] by auto
  have "a' = points cl"
    using wf' sh' assms(1,2) by (cases a', cases "points cl") (simp add: nd_wf_def)
  then have set': "nd_set_column (points cl) 2 [] = Inr (points cl)" using set by simp
  have pad: "map_sum id length (pad_centroids (levels prm) (zPadding prm) (map (\<lambda>c. c * np_std []) c0)) =
      map_sum id length (pad_centroids (levels prm) (zPadding prm) c0)" for c0
    by (rule pad_centroids_values) simp
  have "bind_res (pad_centroids (levels prm) (zPadding prm) (map (\<lambda>c. c * np_std []) c0)) (\<lambda>cents.
          if levels prm \<le> length cents then Inr cl else Inl IndexError) =
        bind_res (pad_centroids (levels prm) (zPadding prm) c0) (\<lambda>cents.
          if levels prm \<le> length cents then Inr cl else Inl IndexError)" for c0
    using pad [of c0]
    by (cases "pad_centroids (levels prm) (zPadding prm) (map (\<lambda>c. c * np_std []) c0)";
        cases "pad_centroids (levels prm) (zPadding prm) c0") simp_all
  moreover have "list_all (\<lambda>i. i < length cents) [0..<levels prm] \<longleftrightarrow> levels prm \<le> length cents" for cents :: "real list"
    by (auto simp: list_all_iff)
  moreover have "bind_res (if levels prm \<le> length cents then Inr [] else Inl IndexError) (\<lambda>clusterIndices.
      bind_res (nd_set_column (points cl) 2 (map real_of_int clusterIndices)) (\<lambda>pts. Inr (cl\<lparr>points := pts\<rparr>))) =
      (if levels prm \<le> length cents then Inr cl else Inl IndexError)" for cents :: "real list"
    using set' by simp
  ultimately show ?thesis
    using col by (simp add: PosterizeDepth_def whiten_def replace_levels_Nil_codes)
qed

lemma pad_centroids_mismatch:
  "1 < k \<Longrightarrow> k < L \<Longrightarrow> length cs = k \<Longrightarrow> pad_centroids L (Some p) cs = Inl ValueError"
  by (simp add: pad_centroids_def nd_binop_def bcast_shape_def)

text \<open>
  C19. When k-means returns fewer centroids than \<open>levels\<close> (scipy drops clusters left
  empty, so this happens when the cloud has fewer distinct depths than levels) and more than
  one, \<open>PosterizeDepth\<close> fails in its own code: with no padding the replacement loop indexes
  past the codebook (\<open>IndexError\<close>); with padding the addition of the padding array cannot
  broadcast (\<open>ValueError\<close>).
\<close>

theorem PosterizeDepth_short_codebook:
  assumes "nd_wf (points cl)" and "shape (points cl) = [n, m]" and "2 < m"
    and "whiten (map (\<lambda>r. elems (points cl) ! (r * m + 2)) [0..<n]) = Inr w"
    and "kmeans w (levels prm) = Inr book" and "1 < length book" and "length book < levels prm"
  shows "PosterizeDepth kmeans prm cl = Inl (if zPadding prm = None then IndexError else ValueError)"
proof (cases "zPadding prm")
  case None
  have "\<not> list_all (\<lambda>i. i < length book) [0..<levels prm]"
    using assms(7) by (auto simp: list_all_iff)
  then have "replace_levels (map (\<lambda>c. c * s) book) [0..<levels prm] codes = Inl IndexError" for s codes
    using replace_levels_short by simp
  then show ?thesis
    using None nd_column_2d [OF assms(1-3)] assms(4,5) by (simp add: PosterizeDepth_def pad_centroids_def)
next
  case (Some p)
  have "pad_centroids (levels prm) (Some p) (map (\<lambda>c. c * s) book) = Inl ValueError" for s
    using assms(6,7) by (intro pad_centroids_mismatch) simp_all
  then show ?thesis
    using Some nd_column_2d [OF assms(1-3)] assms(4,5) by (simp add: PosterizeDepth_def)
qed

subsection \<open>Concrete runs\<close>

lemma ex_column: "nd_column \<lparr>shape = [2, 3], elems = [0, 0, 0, 0, 1, 2::real]\<rparr> 2 = Inr \<lparr>shape = [2], elems = [0, 2]\<rparr>"
  by (simp add: nd_column_def upt_rec)

lemma ex_std: "np_std [0, 2] = 1"
  by (simp add: np_std_def np_mean_def)

lemma ex_whiten: "whiten [0, 2] = Inr [0, 2]"
  by (simp add: whiten_def ex_std)

lemma ex_vq_a: "map (\<lambda>x. int (vq_code [0.5, 2.5] x)) [0, 2] = [0, 1]"
  by (simp add: vq_code_def upt_rec)

lemma ex_vq_b: "map (\<lambda>x. int (vq_code [1.2, 2.6] x)) [0, 2] = [0, 1]"
  by (simp add: vq_code_def upt_rec)

lemma ex_replace_a: "replace_levels [0.5, 2.5] [0..<2] [0, 1] = Inr [0, 2]"
  by (simp add: upt_rec astype_int_def)

lemma ex_replace_b: "replace_levels [1.2, 2.6] [0..<2] [0, 1] = Inr [2, 2]"
  by (simp add: upt_rec astype_int_def)

lemma ex_set_column:
  "nd_set_column \<lparr>shape = [2, 3], elems = [0, 0, 0, 0, 1, 2::real]\<rparr> 2 [a, b] =
     Inr \<lparr>shape = [2, 3], elems = [0, 0, a, 0, 1, b]\<rparr>"
  by (simp add: nd_set_column_def upt_rec)

theorem PosterizeDepth_levels_witness: "\<exists>cl' zs. PosterizeDepth (\<lambda>obs k. if k = 2 then Inr [0.5, 2.5] else Inl ValueError)
            \<lparr>levels = 2, zPadding = None\<rparr>
            \<lparr>points = \<lparr>shape = [2, 3], elems = [0, 0, 0, 0, 1, 2]\<rparr>, colors = None\<rparr> = Inr cl' \<and>
         nd_column (points cl') 2 = Inr zs \<and> set (elems zs) \<subseteq> {0, 2} \<and> card (set (elems zs)) \<le> 2"
proof -
  let ?K = "\<lambda>(obs::real list) k. if k = (2::nat) then Inr [0.5, 2.5::real] else Inl ValueError"
  let ?C = "\<lparr>points = \<lparr>shape = [2, 3], elems = [0, 0, 0, 0, 1, 2::real]\<rparr>, colors = None\<rparr>"
  have run: "PosterizeDepth ?K \<lparr>levels = 2, zPadding = None\<rparr> ?C = Inr ?C"
    using ex_vq_a ex_replace_a
    by (simp add: PosterizeDepth_def ex_column ex_whiten ex_std ex_set_column pad_centroids_def)
  have k: "\<And>obs k cs. ?K obs k = Inr cs \<Longrightarrow> cs \<noteq> [] \<and> length cs \<le> k"
    by (auto split: if_splits)
  have inv: "cloud_inv ?C" by (simp add: cloud_inv_def nd_wf_def)
  obtain zs where "nd_column (points ?C) 2 = Inr zs"
    and sub: "set (elems zs) \<subseteq> (\<lambda>i. real_of_int (astype_int ([0.5, 2.5] ! i))) ` {..<2}"
    and card: "card (set (elems zs)) \<le> 2"
    using PosterizeDepth_levels [OF k inv run]
    by (auto simp: ex_column ex_whiten ex_std pad_centroids_def)
  moreover have "(\<lambda>i. real_of_int (astype_int ([0.5, 2.5] ! i))) ` {..<2::nat} = {0, 2}"
    by (simp add: lessThan_nat_numeral lessThan_Suc astype_int_def insert_commute)
  ultimately show ?thesis using run by auto
qed

theorem PosterizeDepth_exact_witness:
  "\<exists>cl'. PosterizeDepth (\<lambda>obs k. if k = 2 then Inr [0.5, 2.5] else Inl ValueError) \<lparr>levels = 2, zPadding = None\<rparr> \<lparr>points = \<lparr>shape = [2, 3], elems = [0, 0, 0, 0, 1, 2]\<rparr>, colors = None\<rparr> = Inr cl' \<and>
     nd_column (points cl') 2 = Inr \<lparr>shape = [2], elems = [0, 2]\<rparr>"
proof -
  let ?K = "\<lambda>(obs::real list) k. if k = (2::nat) then Inr [0.5, 2.5::real] else Inl ValueError"
  let ?C = "\<lparr>points = \<lparr>shape = [2, 3], elems = [0, 0, 0, 0, 1, 2::real]\<rparr>, colors = None\<rparr>"
  have run: "PosterizeDepth ?K \<lparr>levels = 2, zPadding = None\<rparr> ?C = Inr ?C"
    using ex_vq_a ex_replace_a
    by (simp add: PosterizeDepth_def ex_column ex_whiten ex_std ex_set_column pad_centroids_def)
  have k: "\<And>obs k cs. ?K obs k = Inr cs \<Longrightarrow> cs \<noteq> [] \<and> length cs \<le> k"
    by (auto split: if_splits)
  have inv: "cloud_inv ?C" by (simp add: cloud_inv_def nd_wf_def)
  have nc: "\<forall>i < 2. \<forall>j. i < j \<and> j < 2 \<longrightarrow> astype_int ([0.5, 2.5] ! i) \<noteq> int j"
    by (auto simp: less_Suc_eq numeral_2_eq_2 astype_int_def)
  have "nd_column (points ?C) 2 = Inr \<lparr>shape = [2], elems = map (\<lambda>x. real_of_int (astype_int ([0.5, 2.5] ! vq_code [0.5, 2.5] x))) [0, 2]\<rparr>"
    using PosterizeDepth_exact [OF k inv run] nc
    by (auto simp: ex_column ex_whiten ex_std pad_centroids_def)
  moreover have "map (\<lambda>x. real_of_int (astype_int ([0.5, 2.5] ! vq_code [0.5, 2.5] x))) [0, 2::real] = [0, 2]"
    by (simp add: vq_code_def upt_rec astype_int_def)
  ultimately show ?thesis using run by auto
qed

text \<open>
  The specification's promise that every output z value is a centroid does not hold:
  with centroids 0.5 and 2.5 the replaced values are stored into the integer index array
  and truncated, so the cloud comes back with z values 0 and 2, neither a centroid.
\<close>

theorem PosterizeDepth_truncates:
  "PosterizeDepth (\<lambda>obs k. if k = 2 then Inr [0.5, 2.5] else Inl ValueError) \<lparr>levels = 2, zPadding = None\<rparr> \<lparr>points = \<lparr>shape = [2, 3], elems = [0, 0, 0, 0, 1, 2]\<rparr>, colors = None\<rparr> = Inr \<lparr>points = \<lparr>shape = [2, 3], elems = [0, 0, 0, 0, 1, 2]\<rparr>, colors = None\<rparr>"
  using ex_vq_a ex_replace_a
  by (simp add: PosterizeDepth_def ex_column ex_whiten ex_std ex_set_column pad_centroids_def)

text \<open>
  The replacement loop rewrites the index array in place, level after level, so a
  point whose truncated centroid equals a later level index is rewritten again: with
  centroids 1.2 and 2.6 the point of cluster 0 first becomes 1 and then 2, and both points
  end at depth 2.
\<close>

theorem PosterizeDepth_chained_levels:
  "PosterizeDepth (\<lambda>obs k. if k = 2 then Inr [1.2, 2.6] else Inl ValueError) \<lparr>levels = 2, zPadding = None\<rparr> \<lparr>points = \<lparr>shape = [2, 3], elems = [0, 0, 0, 0, 1, 2]\<rparr>, colors = None\<rparr> =
     Inr \<lparr>points = \<lparr>shape = [2, 3], elems = [0, 0, 2, 0, 1, 2]\<rparr>, colors = None\<rparr>"
  using ex_vq_b ex_replace_b
  by (simp add: PosterizeDepth_def ex_column ex_whiten ex_std ex_set_column pad_centroids_def)

theorem PosterizeDepth_other_columns_witness:
  "\<exists>cl'. PosterizeDepth (\<lambda>obs k. if k = 2 then Inr [1.2, 2.6] else Inl ValueError) \<lparr>levels = 2, zPadding = None\<rparr> \<lparr>points = \<lparr>shape = [2, 3], elems = [0, 0, 0, 0, 1, 2]\<rparr>, colors = None\<rparr> = Inr cl' \<and>
     cloud_inv cl' \<and> colors cl' = None \<and> elems (points cl') ! 3 = 0 \<and> elems (points cl') ! 4 = 1"
proof -
  let ?C = "\<lparr>points = \<lparr>shape = [2, 3], elems = [0, 0, 0, 0, 1, 2::real]\<rparr>, colors = None\<rparr>"
  let ?C' = "\<lparr>points = \<lparr>shape = [2, 3], elems = [0, 0, 2, 0, 1, 2::real]\<rparr>, colors = None\<rparr>"
  have run: "PosterizeDepth (\<lambda>obs k. if k = 2 then Inr [1.2, 2.6] else Inl ValueError) \<lparr>levels = 2, zPadding = None\<rparr> ?C = Inr ?C'"
    using ex_vq_b ex_replace_b
    by (simp add: PosterizeDepth_def ex_column ex_whiten ex_std ex_set_column pad_centroids_def)
  have inv: "cloud_inv ?C" by (simp add: cloud_inv_def nd_wf_def)
  have "cloud_inv ?C' \<and> colors ?C' = None \<and> elems (points ?C') ! 3 = 0 \<and> elems (points ?C') ! 4 = 1"
    using PosterizeDepth_other_columns [OF inv run] by simp
  then show ?thesis using run by blast
qed

theorem PosterizeDepth_flat_depth_witness:
  "PosterizeDepth (\<lambda>obs k. Inr (take k obs)) \<lparr>levels = 2, zPadding = None\<rparr> \<lparr>points = \<lparr>shape = [2, 3], elems = [0, 0, 5, 1, 0, 5]\<rparr>, colors = None\<rparr> = Inl TypeError"
  by (rule PosterizeDepth_flat_depth [where n = 2 and m = 3 and d = 5])
     (simp_all add: nd_wf_def less_Suc_eq numeral_2_eq_2)

theorem PosterizeDepth_empty_witness:
  "PosterizeDepth (\<lambda>obs k. Inl ValueError) \<lparr>levels = 2, zPadding = None\<rparr>
     \<lparr>points = \<lparr>shape = [0, 3], elems = []\<rparr>, colors = None\<rparr> = Inl ValueError \<and>
   PosterizeDepth (\<lambda>obs k. Inr [1, 2]) \<lparr>levels = 2, zPadding = Some 5\<rparr>
     \<lparr>points = \<lparr>shape = [0, 3], elems = []\<rparr>, colors = None\<rparr> =
     Inr \<lparr>points = \<lparr>shape = [0, 3], elems = []\<rparr>, colors = None\<rparr>"
  using PosterizeDepth_empty [of "\<lparr>points = \<lparr>shape = [0, 3], elems = []\<rparr>, colors = None\<rparr>" 3 "\<lambda>obs k. Inl ValueError"
          "\<lparr>levels = 2, zPadding = None\<rparr>"]
        PosterizeDepth_empty [of "\<lparr>points = \<lparr>shape = [0, 3], elems = []\<rparr>, colors = None\<rparr>" 3 "\<lambda>obs k. Inr [1, 2]"
          "\<lparr>levels = 2, zPadding = Some 5\<rparr>"]
  by (simp add: nd_wf_def pad_centroids_def nd_binop_def bcast_shape_def)

theorem PosterizeDepth_short_codebook_witness: "PosterizeDepth (\<lambda>obs k. Inr [0, 2]) \<lparr>levels = 3, zPadding = None\<rparr>
            \<lparr>points = \<lparr>shape = [2, 3], elems = [0, 0, 0, 0, 1, 2]\<rparr>, colors = None\<rparr> = Inl IndexError"
  using PosterizeDepth_short_codebook [where n = 2 and m = 3 and w = "[0, 2]" and book = "[0, 2]"
      and cl = "\<lparr>points = \<lparr>shape = [2, 3], elems = [0, 0, 0, 0, 1, 2]\<rparr>, colors = None\<rparr>"
      and prm = "\<lparr>levels = 3, zPadding = None\<rparr>" and kmeans = "\<lambda>obs k. Inr [0, 2]"]
  by (simp add: nd_wf_def upt_rec ex_whiten)


subsection \<open>\<open>vq\<close> against its reference\<close>







end
