(* ===== verification/Render.thy ===== *)
theory Render
  imports Cloud
begin

text \<open>
  The render stages of \<^verbatim>\<open>cloudmosh/components/render.py\<close>. pyrender is external: a scene
  is modelled as the data the code puts into it (lights, background, meshes built from a
  cloud's points and colours, a camera with its pose), and the offscreen renderer and the
  interactive viewer are parameters that receive that data. \<open>OffscreenCloudRender\<close> yields
  one rendered image per cloud; \<open>SimpleCloudView\<close> adds every cloud to one scene and opens
  one viewer on it. \<open>_getDefaultCameraPose\<close>, no longer called by the render loop, is
  modelled with the geometry of the pose it builds.
\<close>

type_synonym pose = "real list list"

record mesh =
  mesh_points :: "real ndarray"
  mesh_colors :: "int ndarray option"

record camera =
  yfov :: real
  aspectRatio :: real

datatype scene_node = MeshNode mesh | CameraNode camera pose

record scene =
  ambient_light :: "real list"
  bg_color :: "real list"
  nodes :: "scene_node list"

record offscreen_renderer =
  viewport_width :: nat
  viewport_height :: nat
  point_size :: real

text \<open>\<open>pyrender.Mesh.from_points(points, colors=colors)\<close> of a cloud.\<close>

definition from_points :: "cloud \<Rightarrow> mesh" where
  "from_points cl = \<lparr>mesh_points = points cl, mesh_colors = colors cl\<rparr>"

definition empty_scene :: scene where
  "empty_scene = \<lparr>ambient_light = [1, 1, 1, 1], bg_color = [0, 0, 0], nodes = []\<rparr>"

definition scene_add :: "scene \<Rightarrow> scene_node \<Rightarrow> scene" where
  "scene_add sc n = sc\<lparr>nodes := nodes sc @ [n]\<rparr>"

definition fixed_pose :: pose where
  "fixed_pose =
     [[-0.67965718, -0.67467772, 0.28788207, 218.90296805],
      [-0.5763984, 0.24848092, -0.77847422, -201.12334648],
      [0.45368601, -0.69503036, -0.557765, -31.37713392],
      [0, 0, 0, 1]]"

definition offscreen_cfg :: offscreen_renderer where
  "offscreen_cfg = \<lparr>viewport_width = 640, viewport_height = 480, point_size = 9\<rparr>"

definition render_camera :: camera where
  "render_camera = \<lparr>yfov = pi / 3, aspectRatio = 1\<rparr>"

text \<open>
  \<open>OffscreenCloudRender._getDefaultCameraPose(scene)\<close> (lines 45--58), as a function of
  \<open>scene.centroid\<close> (pyrender computes it from the meshes' bounds): a rotation block and the
  position \<open>dist * [1, 0, 1] + centroid\<close> with \<open>dist = scale / (2 tan hfov)\<close>, written into
  \<open>np.eye(4)\<close>. The addition broadcasts; a result of another shape than \<open>(3,)\<close> cannot be
  assigned to \<open>cp[:3, 3]\<close> (\<open>ValueError\<close>). The loop of \<open>__rrshift__\<close> no longer calls it
  (the call is commented out in favour of \<open>fixed_pose\<close>).
\<close>

definition getDefaultCameraPose :: "real ndarray \<Rightarrow> pose res" where
  "getDefaultCameraPose centroid =
     (let scale = 1 / 2; s2 = 1 / sqrt 2; hfov = pi / 6; dist = scale / (2 * tan hfov) in
      bind_res (nd_binop (+) (nd_map (\<lambda>x. dist * x) \<lparr>shape = [3], elems = [1, 0, 1]\<rparr>) centroid) (\<lambda>t.
        if shape t = [3]
        then Inr [[0, - s2, s2, elems t ! 0], [1, 0, 0, elems t ! 1], [0, s2, s2, elems t ! 2], [0, 0, 0, 1]]
        else Inl ValueError))"

text \<open>
  Reading a pose: its rotation block and the camera position, the determinant of a 3 x 3
  matrix and orthonormality of its columns.
\<close>

definition pose_rotation :: "pose \<Rightarrow> real list list" where
  "pose_rotation P = map (take 3) (take 3 P)"

definition pose_position :: "pose \<Rightarrow> real list" where
  "pose_position P = map (\<lambda>r. r ! 3) (take 3 P)"

definition det3 :: "real list list \<Rightarrow> real" where
  "det3 R = R!0!0 * (R!1!1 * R!2!2 - R!1!2 * R!2!1) - R!0!1 * (R!1!0 * R!2!2 - R!1!2 * R!2!0)
          + R!0!2 * (R!1!0 * R!2!1 - R!1!1 * R!2!0)"

definition orthonormal3 :: "real list list \<Rightarrow> bool" where
  "orthonormal3 R \<longleftrightarrow>
     (\<forall>i < 3. \<forall>j < 3. sum_list (map (\<lambda>k. R!k!i * R!k!j) [0..<3]) = (if i = j then 1 else 0))"

text \<open>The scene built for one cloud in the loop of \<open>OffscreenCloudRender.__rrshift__\<close>.\<close>

definition cloud_scene :: "cloud \<Rightarrow> scene" where
  "cloud_scene cl =
     scene_add (scene_add empty_scene (MeshNode (from_points cl))) (CameraNode render_camera fixed_pose)"

text \<open>
  \<open>OffscreenCloudRender.__rrshift__\<close>, drained: \<open>render cfg scene\<close> is the colour image
  \<open>renderer.render(scene)\<close> returns (or the backend's exception).
\<close>

definition OffscreenCloudRender ::
  "(offscreen_renderer \<Rightarrow> scene \<Rightarrow> int ndarray res) \<Rightarrow> cloud list \<Rightarrow> int ndarray list res" where
  "OffscreenCloudRender render iterable = map_res (\<lambda>cloud. render offscreen_cfg (cloud_scene cloud)) iterable"

text \<open>
  One iteration of \<open>SimpleCloudView.__rrshift__\<close>: the debug prints read
  \<open>colors.shape\<close> (an \<open>AttributeError\<close> when the cloud has no colours) and
  \<open>points[:,2]\<close>, then the cloud's mesh is added to the scene.
\<close>

definition view_add :: "scene \<Rightarrow> cloud \<Rightarrow> scene res" where
  "view_add sc cloud =
     (case colors cloud of
        None \<Rightarrow> Inl AttributeError
      | Some _ \<Rightarrow> bind_res (nd_column (points cloud) 2) (\<lambda>_. Inr (scene_add sc (MeshNode (from_points cloud)))))"

fun view_loop :: "scene \<Rightarrow> cloud list \<Rightarrow> scene res" where
  "view_loop sc [] = Inr sc"
| "view_loop sc (cloud # rest) = bind_res (view_add sc cloud) (\<lambda>sc'. view_loop sc' rest)"

text \<open>The result is what \<open>pyrender.Viewer\<close> is opened on: the scene and the point size.\<close>

definition SimpleCloudView :: "nat \<Rightarrow> cloud list \<Rightarrow> (scene \<times> nat) res" where
  "SimpleCloudView pointSize iterable = bind_res (view_loop empty_scene iterable) (\<lambda>sc. Inr (sc, pointSize))"

definition viewable :: "cloud \<Rightarrow> bool" where
  "viewable cl \<longleftrightarrow> colors cl \<noteq> None \<and> (\<exists>z. nd_column (points cl) 2 = Inr z)"

subsection \<open>Lemmas\<close>

lemma nodes_cloud_scene:
  "nodes (cloud_scene cl) = [MeshNode (from_points cl), CameraNode render_camera fixed_pose]"
  by (simp add: cloud_scene_def scene_add_def empty_scene_def)

lemma view_loop_ok:
  "list_all viewable cls \<Longrightarrow>
   view_loop sc cls = Inr (sc\<lparr>nodes := nodes sc @ map (\<lambda>cl. MeshNode (from_points cl)) cls\<rparr>)"
proof (induction cls arbitrary: sc)
  case Nil
  then show ?case by simp
next
  case (Cons cl cls)
  then obtain c z where "colors cl = Some c" and "nd_column (points cl) 2 = Inr z"
    by (auto simp: viewable_def)
  with Cons show ?case by (simp add: view_add_def scene_add_def)
qed

lemma view_loop_first_uncolored:
  "list_all viewable (take k cls) \<Longrightarrow> k < length cls \<Longrightarrow> colors (cls ! k) = None \<Longrightarrow>
   view_loop sc cls = Inl AttributeError"
proof (induction cls arbitrary: sc k)
  case Nil
  then show ?case by simp
next
  case (Cons cl cls)
  show ?case
  proof (cases k)
    case 0
    with Cons.prems show ?thesis by (simp add: view_add_def)
  next
    case (Suc k')
    with Cons.prems obtain c z where "colors cl = Some c" and "nd_column (points cl) 2 = Inr z"
      by (auto simp: viewable_def)
    with Cons.prems Suc Cons.IH [of k'] show ?thesis by (simp add: view_add_def)
  qed
qed

text \<open>
  \<open>OffscreenCloudRender\<close> renders each cloud on its own: it succeeds exactly when the
  backend renders every cloud's scene, and then image i is the render of the scene that
  holds cloud i's mesh and the camera at the hard-coded pose, nothing else.
\<close>

theorem OffscreenCloudRender_per_cloud:
  "OffscreenCloudRender render cls = Inr imgs \<longleftrightarrow>
   length imgs = length cls \<and>
   (\<forall>i < length cls. render offscreen_cfg (cloud_scene (cls ! i)) = Inr (imgs ! i) \<and>
      nodes (cloud_scene (cls ! i)) = [MeshNode (from_points (cls ! i)), CameraNode render_camera fixed_pose])"
proof
  assume ok: "OffscreenCloudRender render cls = Inr imgs"
  have len: "length imgs = length cls"
    using map_res_Inr_length [OF ok [unfolded OffscreenCloudRender_def]] .
  show "length imgs = length cls \<and>
   (\<forall>i < length cls. render offscreen_cfg (cloud_scene (cls ! i)) = Inr (imgs ! i) \<and>
      nodes (cloud_scene (cls ! i)) = [MeshNode (from_points (cls ! i)), CameraNode render_camera fixed_pose])"
    using map_res_Inr_nth [OF ok [unfolded OffscreenCloudRender_def]] len by (simp add: nodes_cloud_scene)
next
  assume r: "length imgs = length cls \<and>
   (\<forall>i < length cls. render offscreen_cfg (cloud_scene (cls ! i)) = Inr (imgs ! i) \<and>
      nodes (cloud_scene (cls ! i)) = [MeshNode (from_points (cls ! i)), CameraNode render_camera fixed_pose])"
  then have "map_res (\<lambda>cloud. render offscreen_cfg (cloud_scene cloud)) (map (\<lambda>i. cls ! i) [0..<length cls]) =
      Inr (map (\<lambda>i. imgs ! i) [0..<length cls])"
    by (intro map_res_map_Inr) auto
  moreover have "map (\<lambda>i. imgs ! i) [0..<length cls] = imgs"
    using r map_nth [of imgs] by simp
  ultimately show "OffscreenCloudRender render cls = Inr imgs"
    by (simp add: OffscreenCloudRender_def map_nth)
qed

text \<open>
  \<open>SimpleCloudView\<close> on coloured clouds with a z column opens one viewer on a scene
  that holds the meshes of all clouds, in input order, with the configured point size.
\<close>

theorem SimpleCloudView_scene:
  assumes "list_all viewable cls"
  shows "SimpleCloudView pointSize cls =
           Inr (empty_scene\<lparr>nodes := map (\<lambda>cl. MeshNode (from_points cl)) cls\<rparr>, pointSize)"
  using view_loop_ok [OF assms, of empty_scene] by (simp add: SimpleCloudView_def empty_scene_def)

text \<open>
  A cloud without colours makes \<open>SimpleCloudView\<close> raise \<open>AttributeError\<close> (its debug
  print reads \<open>colors.shape\<close>), so no viewer is opened.
\<close>

theorem SimpleCloudView_uncolored:
  assumes "list_all viewable (take k cls)" and "k < length cls" and "colors (cls ! k) = None"
  shows "SimpleCloudView pointSize cls = Inl AttributeError"
  using view_loop_first_uncolored [OF assms] by (simp add: SimpleCloudView_def)

lemma dist_default: "(1 / 2) / (2 * tan (pi / 6)) = sqrt 3 / 4"
  by (simp add: tan_30)

lemma default_pose:
  assumes "nd_wf c" and "shape c = [3]"
  shows "getDefaultCameraPose c =
           Inr [[0, - (1 / sqrt 2), 1 / sqrt 2, sqrt 3 / 4 + elems c ! 0], [1, 0, 0, elems c ! 1],
                [0, 1 / sqrt 2, 1 / sqrt 2, sqrt 3 / 4 + elems c ! 2], [0, 0, 0, 1]]"
proof -
  have "nd_binop (+) (nd_map (\<lambda>x. sqrt 3 / 4 * x) \<lparr>shape = [3], elems = [1, 0, 1 :: real]\<rparr>) c =
        Inr \<lparr>shape = [3], elems = map2 (+) [sqrt 3 / 4, 0, sqrt 3 / 4] (elems c)\<rparr>"
    using nd_binop_same_shape [of "nd_map (\<lambda>x. sqrt 3 / 4 * x) \<lparr>shape = [3], elems = [1, 0, 1 :: real]\<rparr>" c "(+)"] assms
    by (simp add: nd_map_def nd_wf_def)
  moreover obtain a b d where "elems c = [a, b, d]"
    using assms by (auto simp: nd_wf_def numeral_3_eq_3 length_Suc_conv)
  moreover have "getDefaultCameraPose c =
      bind_res (nd_binop (+) (nd_map (\<lambda>x. sqrt 3 / 4 * x) \<lparr>shape = [3], elems = [1, 0, 1]\<rparr>) c) (\<lambda>t.
        if shape t = [3]
        then Inr [[0, - (1 / sqrt 2), 1 / sqrt 2, elems t ! 0], [1, 0, 0, elems t ! 1],
                  [0, 1 / sqrt 2, 1 / sqrt 2, elems t ! 2], [0, 0, 0, 1]]
        else Inl ValueError)"
    unfolding getDefaultCameraPose_def Let_def dist_default ..
  ultimately show ?thesis by simp
qed

lemma sqrt2_inv_sq: "1 / sqrt 2 * (1 / sqrt 2) = (1 / 2 :: real)"
  by (simp add: divide_simps)

text \<open>
  The default pose exists exactly for the centroids that broadcast against a 3-vector to a
  3-vector; any other shape raises \<open>ValueError\<close>.
\<close>

theorem getDefaultCameraPose_error:
  "bcast_shape [3] (shape c) \<noteq> Some [3] \<Longrightarrow> getDefaultCameraPose c = Inl ValueError"
  by (auto simp: getDefaultCameraPose_def Let_def nd_binop_def nd_map_def split: option.splits)

text \<open>
  The default pose is a rigid motion (orthonormal rotation block of determinant 1, last row
  \<open>[0, 0, 0, 1]\<close>) that places the camera at distance \<open>sqrt 6 / 4\<close> from the centroid and
  points its viewing axis (the camera's \<open>-z\<close> axis, pyrender's convention) at it.
\<close>

theorem default_pose_looks_at:
  assumes "nd_wf c" and "shape c = [3]"
  shows "\<exists>P. getDefaultCameraPose c = Inr P \<and> orthonormal3 (pose_rotation P) \<and> det3 (pose_rotation P) = 1 \<and>
           P ! 3 = [0, 0, 0, 1] \<and>
           (\<forall>k < 3. pose_position P ! k - sqrt 6 / 4 * pose_rotation P ! k ! 2 = elems c ! k)"
proof -
  have s6: "sqrt 6 / sqrt 2 = sqrt (3 :: real)"
    by (simp add: real_sqrt_divide [symmetric])
  then have s6': "sqrt 6 / (sqrt 2 * 4) = sqrt (3 :: real) / 4"
    by (metis divide_divide_eq_left)
  show ?thesis
    using default_pose [OF assms]
    by (simp add: pose_rotation_def pose_position_def det3_def orthonormal3_def sqrt2_inv_sq s6 s6' numeral_2_eq_2
        numeral_3_eq_3 less_Suc_eq)
qed

subsection \<open>Concrete runs\<close>

lemma viewable_example: "viewable \<lparr>points = \<lparr>shape = [1, 3], elems = [0, 0, 5]\<rparr>, colors = Some \<lparr>shape = [1, 3], elems = [1, 2, 3]\<rparr>\<rparr>"
  by (simp add: viewable_def nd_column_def)

theorem OffscreenCloudRender_per_cloud_witness:
  "OffscreenCloudRender (\<lambda>cfg sc. Inr \<lparr>shape = [1], elems = [int (length (nodes sc))]\<rparr>) [\<lparr>points = \<lparr>shape = [1, 3], elems = [0, 0, 5]\<rparr>, colors = Some \<lparr>shape = [1, 3], elems = [1, 2, 3]\<rparr>\<rparr>] =
     Inr [\<lparr>shape = [1], elems = [2]\<rparr>]"
  by (rule OffscreenCloudRender_per_cloud [THEN iffD2]) (simp add: nodes_cloud_scene)

theorem SimpleCloudView_scene_witness:
  "SimpleCloudView 9 [\<lparr>points = \<lparr>shape = [1, 3], elems = [0, 0, 5]\<rparr>, colors = Some \<lparr>shape = [1, 3], elems = [1, 2, 3]\<rparr>\<rparr>] = Inr (empty_scene\<lparr>nodes := [MeshNode (from_points \<lparr>points = \<lparr>shape = [1, 3], elems = [0, 0, 5]\<rparr>, colors = Some \<lparr>shape = [1, 3], elems = [1, 2, 3]\<rparr>\<rparr>)]\<rparr>, 9)"
  using SimpleCloudView_scene [of "[\<lparr>points = \<lparr>shape = [1, 3], elems = [0, 0, 5]\<rparr>, colors = Some \<lparr>shape = [1, 3], elems = [1, 2, 3]\<rparr>\<rparr>]" 9] viewable_example by simp

theorem SimpleCloudView_uncolored_witness:
  "SimpleCloudView 9 [\<lparr>points = \<lparr>shape = [1, 3], elems = [0, 0, 5]\<rparr>, colors = Some \<lparr>shape = [1, 3], elems = [1, 2, 3]\<rparr>\<rparr>, \<lparr>points = \<lparr>shape = [1, 3], elems = [0, 0, 5]\<rparr>, colors = None\<rparr>] = Inl AttributeError"
  by (rule SimpleCloudView_uncolored [where k = 1]) (simp_all add: viewable_def nd_column_def)

theorem default_pose_looks_at_witness:
  "nd_wf \<lparr>shape = [3], elems = [1, 2, 3 :: real]\<rparr> \<and> shape \<lparr>shape = [3], elems = [1, 2, 3 :: real]\<rparr> = [3] \<and>
   (\<exists>P. getDefaultCameraPose \<lparr>shape = [3], elems = [1, 2, 3]\<rparr> = Inr P \<and> orthonormal3 (pose_rotation P) \<and>
        det3 (pose_rotation P) = 1 \<and> P ! 3 = [0, 0, 0, 1] \<and>
        (\<forall>k < 3. pose_position P ! k - sqrt 6 / 4 * pose_rotation P ! k ! 2 = [1, 2, 3] ! k))"
  using default_pose_looks_at [of "\<lparr>shape = [3], elems = [1, 2, 3 :: real]\<rparr>"] by (simp add: nd_wf_def)

theorem getDefaultCameraPose_error_witness:
  "bcast_shape [3] (shape \<lparr>shape = [2], elems = [1, 2 :: real]\<rparr>) \<noteq> Some [3] \<and>
   getDefaultCameraPose \<lparr>shape = [2], elems = [1, 2]\<rparr> = Inl ValueError"
  using getDefaultCameraPose_error [of "\<lparr>shape = [2], elems = [1, 2 :: real]\<rparr>"] by (simp add: bcast_shape_def)

end
