(* ===== verification/Stages.thy ===== *)
theory Stages
  imports Pipeline Interpolate Posterize MediaIO Render
begin

text \<open>
  The repository's stages as values of the chaining model of \<open>Pipeline\<close>. The world is
  the image files, the video files and the viewer windows opened so far. Items flowing
  between stages are decoded images, frame lists, the byte strings of
  \<open>ReadImageAsBinary\<close>, and clouds; a stage that reads an attribute the item lacks
  (\<open>.shape\<close> of a cloud, \<open>.getPoints()\<close> of an array) raises \<open>AttributeError\<close>.
\<close>

record world =
  img_store :: "int ndarray file_store"
  video_store :: "int ndarray list file_store"
  screen :: "(scene \<times> nat) list"

datatype media = MImage "int ndarray" | MFrames "int ndarray list" | MBytes "string option" | MInt int | MCloud cloud

type_synonym media_stage = "(media, world) stage"

definition as_image :: "media \<Rightarrow> int ndarray res" where
  "as_image m = (case m of MImage img \<Rightarrow> Inr img | _ \<Rightarrow> Inl AttributeError)"

definition as_frames :: "media \<Rightarrow> int ndarray list res" where
  "as_frames m = (case m of MFrames fr \<Rightarrow> Inr fr | _ \<Rightarrow> Inl AttributeError)"

definition as_cloud :: "media \<Rightarrow> cloud res" where
  "as_cloud m = (case m of MCloud c \<Rightarrow> Inr c | _ \<Rightarrow> Inl AttributeError)"

text \<open>An image used as a depth map: its integer entries as numbers.\<close>

definition as_depth :: "media \<Rightarrow> real ndarray res" where
  "as_depth m = bind_res (as_image m) (\<lambda>img. Inr (nd_map real_of_int img))"

subsection \<open>Sources\<close>

text \<open>A source is read when it is iterated: \<open>__iter__\<close> resets the cursor, then \<open>__next__\<close>.\<close>

definition ReadImage_stage :: "string list \<Rightarrow> media_stage" where
  "ReadImage_stage ps =
     Source (\<lambda>w. map_gen MImage (unfold_gen (ReadImage_next (img_store w)) (reader_iter \<lparr>paths = ps, index = 0\<rparr>)))"

definition ReadVideoOrGIF_stage :: "string list \<Rightarrow> media_stage" where
  "ReadVideoOrGIF_stage ps =
     Source (\<lambda>w. map_gen MFrames (unfold_gen (ReadVideoOrGIF_next (video_store w)) (reader_iter \<lparr>paths = ps, index = 0\<rparr>)))"

text \<open>\<open>ReadImageAsBinary.__iter__\<close> returns the object itself, cursor untouched.\<close>

definition ReadImageAsBinary_stage :: "string list \<Rightarrow> media_stage" where
  "ReadImageAsBinary_stage ps =
     Source (\<lambda>w. map_gen MBytes (unfold_gen ReadImageAsBinary_next \<lparr>paths = ps, index = 0\<rparr>))"

subsection \<open>Generator stages\<close>

text \<open>
  \<open>DepthToClouds.__rrshift__\<close>: for each batch pulled from the input, one cloud per batch
  index, yielded as it is built.
\<close>

definition DepthToClouds_batch :: "media \<Rightarrow> media trace" where
  "DepthToClouds_batch m =
     bind_trace (as_depth m) (\<lambda>depthData.
       bind_trace (shape_at (shape depthData) 0) (\<lambda>n.
         trace_bind ([0..<n], None) (\<lambda>i. yield_one (
           bind_res (nd_index depthData i) (\<lambda>depthImage.
           bind_res (DepthCloud depthImage) (\<lambda>cloud. Inr (MCloud cloud)))))))"

definition DepthToClouds_gen :: "media gen \<Rightarrow> media gen" where
  "DepthToClouds_gen iterable = for_gen iterable DepthToClouds_batch"

definition DepthToClouds_stage :: media_stage where
  "DepthToClouds_stage = Gen (\<lambda>w. DepthToClouds_gen)"

text \<open>
  \<open>item[0]\<close> on an item: an array's first sub-array, a frame list's first frame, a byte
  string's first byte (an integer); \<open>None\<close>, an integer and a cloud are not subscriptable.
\<close>

definition py_index0 :: "media \<Rightarrow> media res" where
  "py_index0 m =
     (case m of
        MImage a \<Rightarrow> bind_res (nd_index a 0) (\<lambda>a0. Inr (MImage a0))
      | MFrames fr \<Rightarrow> (case fr of [] \<Rightarrow> Inl IndexError | f # _ \<Rightarrow> Inr (MImage f))
      | MBytes None \<Rightarrow> Inl TypeError
      | MBytes (Some bs) \<Rightarrow> (case bs of [] \<Rightarrow> Inl IndexError | b # _ \<Rightarrow> Inr (MInt (int (of_char b))))
      | MInt _ \<Rightarrow> Inl TypeError
      | MCloud _ \<Rightarrow> Inl TypeError)"

text \<open>
  \<open>PaintClouds(images)\<close> is a generator function: when first pulled it collects its input,
  then the images (in the world as it is then), and then loops over the pairs:
  \<open>image = image[0]\<close>, the debug prints of \<open>cloud.getPoints().shape\<close> and
  \<open>image.shape\<close>, the cloud's colours, then \<open>yield\<close>.
\<close>

definition paint_pair :: "media \<times> media \<Rightarrow> media res" where
  "paint_pair cm =
     (case cm of (m, im) \<Rightarrow>
        bind_res (py_index0 im) (\<lambda>image.
        bind_res (as_cloud m) (\<lambda>cloud.
        bind_res (as_image image) (\<lambda>image0.
        bind_res (setColorsByImage cloud image0) (\<lambda>cloud'. Inr (MCloud cloud'))))))"

definition PaintClouds_stage :: "(media, world) pyval \<Rightarrow> media_stage" where
  "PaintClouds_stage images =
     Gen (\<lambda>w iterable.
       gen_after (collect_gen iterable) (\<lambda>clouds.
       gen_after (collect_gen (iter_val w images)) (\<lambda>ims.
       for_gen (gen_of_trace (zip clouds ims) None) (\<lambda>cm. yield_one (paint_pair cm)))))"

text \<open>\<open>PosterizeDepth\<close> is a \<open>NutFunction\<close>: \<open>__call__\<close> is mapped over the input lazily.\<close>

definition PosterizeDepth_stage :: "(real list \<Rightarrow> nat \<Rightarrow> real list res) \<Rightarrow> posterize_params \<Rightarrow> media_stage" where
  "PosterizeDepth_stage kmeans prm =
     Gen (\<lambda>w iterable. for_gen iterable (\<lambda>m. yield_one (bind_res (as_cloud m) (\<lambda>element.
                          bind_res (PosterizeDepth kmeans prm element) (\<lambda>c'. Inr (MCloud c'))))))"

text \<open>
  \<open>InterpolateClouds.__rrshift__\<close> as the generator it is: \<open>len\<close> and indexing of its input
  list; per pair, the coordinates of the first cloud, then the \<open>while\<close> loop, one cloud
  per pass; the state is the list from the current pair on and, inside the loop, the
  coordinates and \<open>tCurrent\<close>.
\<close>

primcorec InterpolateClouds_gen ::
  "(real \<Rightarrow> real) \<Rightarrow> real \<Rightarrow> real \<Rightarrow> real \<Rightarrow> media list \<Rightarrow> (real ndarray \<times> real) option \<Rightarrow> media gen"
where
  "InterpolateClouds_gen stepFunction tStart tStop tStepSize ms st =
     (if length ms < 2 then GStop
      else (case st of
        None \<Rightarrow>
          (case bind_res (as_cloud (ms ! 0)) (\<lambda>cloudAtZero. nd_take_cols (points cloudAtZero) [0, 1]) of
             Inl e \<Rightarrow> GRaise e
           | Inr coordinates \<Rightarrow>
               GSkip (InterpolateClouds_gen stepFunction tStart tStop tStepSize ms (Some (coordinates, tStart))))
      | Some (coordinates, tCurrent) \<Rightarrow>
          (if tCurrent \<le> tStop then
             (case bind_res (as_cloud (ms ! 0)) (\<lambda>cloudAtZero. bind_res (as_cloud (ms ! 1)) (\<lambda>cloudAtOne.
                     interp_step stepFunction cloudAtZero cloudAtOne coordinates tCurrent)) of
                Inl e \<Rightarrow> GRaise e
              | Inr currentCloud \<Rightarrow>
                  GYield (MCloud currentCloud)
                    (InterpolateClouds_gen stepFunction tStart tStop tStepSize ms (Some (coordinates, tCurrent + tStepSize))))
           else GSkip (InterpolateClouds_gen stepFunction tStart tStop tStepSize (tl ms) None))))"

definition InterpolateClouds_stage :: "(real \<Rightarrow> real) \<Rightarrow> real \<Rightarrow> real \<Rightarrow> real \<Rightarrow> media_stage" where
  "InterpolateClouds_stage f tStart tStop tStepSize =
     GenIdx (\<lambda>w iterable. InterpolateClouds_gen f tStart tStop tStepSize iterable None)"

text \<open>
  \<open>OffscreenCloudRender.__rrshift__\<close>: renderer and camera first, then one render per cloud
  pulled from the input.
\<close>

definition OffscreenCloudRender_gen :: "(offscreen_renderer \<Rightarrow> scene \<Rightarrow> int ndarray res) \<Rightarrow> media gen \<Rightarrow> media gen" where
  "OffscreenCloudRender_gen render iterable =
     for_gen iterable (\<lambda>m. yield_one (bind_res (as_cloud m) (\<lambda>cloud.
       bind_res (render offscreen_cfg (cloud_scene cloud)) (\<lambda>colorImage. Inr (MImage colorImage)))))"

definition OffscreenCloudRender_stage :: "(offscreen_renderer \<Rightarrow> scene \<Rightarrow> int ndarray res) \<Rightarrow> media_stage" where
  "OffscreenCloudRender_stage render = Gen (\<lambda>w. OffscreenCloudRender_gen render)"

subsection \<open>Sinks\<close>

text \<open>\<open>SaveImage\<close> and \<open>SaveGIF\<close> collect their input before writing anything.\<close>

definition SaveImage_stage :: "(string \<Rightarrow> int ndarray \<Rightarrow> int ndarray) \<Rightarrow> string list \<Rightarrow> media_stage" where
  "SaveImage_stage enc ps =
     Sink (\<lambda>iterable w. map_option (\<lambda>r. case r of
        Inl e \<Rightarrow> (Inl e, w)
      | Inr images \<Rightarrow> (case sink_rrshift (\<lambda>m. bind_res (as_image m) unbatch) enc ps images (img_store w) of
                       (u, fs') \<Rightarrow> (u, w\<lparr>img_store := fs'\<rparr>))) (collect_gen iterable))"

definition SaveGIF_stage :: "(string \<Rightarrow> int ndarray list \<Rightarrow> int ndarray list) \<Rightarrow> string list \<Rightarrow> media_stage" where
  "SaveGIF_stage enc ps =
     Sink (\<lambda>iterable w. map_option (\<lambda>r. case r of
        Inl e \<Rightarrow> (Inl e, w)
      | Inr sequences \<Rightarrow> (case sink_rrshift (\<lambda>m. bind_res (as_frames m) (map_res unbatch)) enc ps sequences (video_store w) of
                          (u, fs') \<Rightarrow> (u, w\<lparr>video_store := fs'\<rparr>))) (collect_gen iterable))"

text \<open>
  \<open>SimpleCloudView\<close> adds each cloud to its scene as it pulls it, and opens the viewer
  once the input is exhausted.
\<close>

definition SimpleCloudView_stage :: "nat \<Rightarrow> media_stage" where
  "SimpleCloudView_stage pointSize =
     Sink (\<lambda>iterable w. map_option (\<lambda>r. case r of
        Inl e \<Rightarrow> (Inl e, w)
      | Inr scene \<Rightarrow> (Inr (), w\<lparr>screen := screen w @ [(scene, pointSize)]\<rparr>))
       (fold_gen (\<lambda>scene m. bind_res (as_cloud m) (view_add scene)) empty_scene iterable))"

text \<open>Files holding grayscale (rank-2) images, which is what a depth map is on disk.\<close>

definition depth_files :: "int ndarray file_store \<Rightarrow> string list \<Rightarrow> bool" where
  "depth_files fs ps \<longleftrightarrow>
     (\<forall>p \<in> set ps. \<exists>img. fs p = Some img \<and> nd_wf img \<and> length (shape img) = 2 \<and> 0 < prod_list (shape img))"

text \<open>Files holding colour (rank-3) images with at least three channels, read as RGB.\<close>

definition rgb_files :: "int ndarray file_store \<Rightarrow> string list \<Rightarrow> bool" where
  "rgb_files fs ps \<longleftrightarrow>
     (\<forall>p \<in> set ps. \<exists>img. fs p = Some img \<and> nd_wf img \<and> length (shape img) = 3 \<and> 3 \<le> shape img ! 2)"

text \<open>The cloud \<open>DepthToClouds\<close> builds from a grayscale depth image.\<close>

definition gray_cloud :: "int ndarray \<Rightarrow> cloud" where
  "gray_cloud img =
     (let d = nd_map real_of_int (img\<lparr>shape := [1, shape img ! 0, shape img ! 1, 1]\<rparr>) in
      \<lparr>points = nd_of_triples (depth_cloud_rows d (shape img ! 0) (shape img ! 1) 0), colors = None\<rparr>)"

subsection \<open>Each stage refines its list-level model\<close>

text \<open>
  On an input that ends normally, draining a generator stage gives what the drained model
  of its component computes on the collected input.
\<close>

lemma trace_res_DepthToClouds_batch:
  "trace_res (DepthToClouds_batch (MImage img)) =
   bind_res (bind_res (shape_at (shape (nd_map real_of_int img)) 0) (\<lambda>n.
       map_res (\<lambda>i. bind_res (nd_index (nd_map real_of_int img) i) DepthCloud) [0..<n])) (\<lambda>cs. Inr (map MCloud cs))"
  by (simp add: DepthToClouds_batch_def as_depth_def as_image_def trace_res_bind_trace trace_map_res map_res_bind_Inr
      flip: bind_res_assoc)

lemma concat_map_map_res:
  "bind_res (map_res (\<lambda>x. bind_res (f x) (\<lambda>cs. Inr (map h cs))) xs) (\<lambda>yss. Inr (concat yss)) =
   bind_res (bind_res (map_res f xs) (\<lambda>css. Inr (concat css))) (\<lambda>cs. Inr (map h cs))"
  by (simp add: map_res_bind_Inr bind_res_assoc map_concat)

lemma collect_DepthToClouds_gen:
  assumes "gen_trace iterable = Some (map MImage imgs, None)"
  shows "collect_gen (DepthToClouds_gen iterable) =
           Some (bind_res (DepthToClouds (map (nd_map real_of_int) imgs)) (\<lambda>cls. Inr (map MCloud cls)))"
  using assms
  by (simp add: collect_gen_def DepthToClouds_gen_def for_gen_trace trace_bind_res map_res_map
      trace_res_DepthToClouds_batch concat_map_map_res DepthToClouds_def)

text \<open>
  Refinement of \<open>DepthToClouds\<close>: the generator of \<open>DepthToClouds.__rrshift__\<close>, drained
  over an input that yields images and ends normally, is the list-level \<open>DepthToClouds\<close>
  of \<open>CloudStages\<close> applied to those images read as depth maps.
\<close>

theorem DepthToClouds_gen_refines:
  assumes "gen_trace iterable = Some (map MImage imgs, None)"
  shows "collect_gen (DepthToClouds_gen iterable) =
           Some (bind_res (DepthToClouds (map (nd_map real_of_int) imgs)) (\<lambda>cls. Inr (map MCloud cls)))"
  using assms by (rule collect_DepthToClouds_gen)

theorem DepthToClouds_gen_refines_witness:
  "gen_trace (gen_of_trace [MImage \<lparr>shape = [1, 1, 2, 1], elems = [5, 7]\<rparr>] None) =
     Some (map MImage [\<lparr>shape = [1, 1, 2, 1], elems = [5, 7]\<rparr>], None) \<and>
   collect_gen (DepthToClouds_gen (gen_of_trace [MImage \<lparr>shape = [1, 1, 2, 1], elems = [5, 7]\<rparr>] None)) =
     Some (bind_res (DepthToClouds [nd_map real_of_int \<lparr>shape = [1, 1, 2, 1], elems = [5, 7]\<rparr>])
             (\<lambda>cls. Inr (map MCloud cls)))"
  using DepthToClouds_gen_refines [of "gen_of_trace [MImage \<lparr>shape = [1, 1, 2, 1], elems = [5, 7]\<rparr>] None"
      "[\<lparr>shape = [1, 1, 2, 1], elems = [5, 7]\<rparr>]"]
  by simp

lemma ReadImage_stage_gen:
  assumes "image_files (img_store w) ps"
  shows "gen_trace (iter_val w (PyStage (ReadImage_stage ps))) =
           Some (map MImage (map (\<lambda>p. the (img_store w p)\<lparr>shape := batch_shape (shape (the (img_store w p)))\<rparr>) ps), None)"
proof -
  have "trace_bind (ps, None) (\<lambda>p. yield_one (read_image (img_store w) p)) =
      (map (\<lambda>p. the (img_store w p)\<lparr>shape := batch_shape (shape (the (img_store w p)))\<rparr>) ps, None)"
    by (rule trace_bind_yield_Inr) (use assms in \<open>auto simp: image_files_def read_image_ok\<close>)
  then have "gen_trace (unfold_gen (ReadImage_next (img_store w)) (reader_iter \<lparr>paths = ps, index = 0\<rparr>)) =
      Some (map (\<lambda>p. the (img_store w p)\<lparr>shape := batch_shape (shape (the (img_store w p)))\<rparr>) ps, None)"
    using gen_trace_reader [of "read_image (img_store w)" "reader_iter \<lparr>paths = ps, index = 0\<rparr>"]
    by (simp add: ReadImage_next_def reader_iter_def)
  from gen_trace_map_gen [OF this, of MImage] show ?thesis by (simp add: ReadImage_stage_def del: map_map)
qed

subsection \<open>The generator of \<open>InterpolateClouds\<close>\<close>

lemma InterpolateClouds_gen_short:
  "length ms < 2 \<Longrightarrow> InterpolateClouds_gen f tStart tStop tStepSize ms st = GStop"
  by (subst InterpolateClouds_gen.code) simp

lemma InterpolateClouds_gen_pair:
  "InterpolateClouds_gen f tStart tStop tStepSize (MCloud A # MCloud B # ms) None =
     (case nd_take_cols (points A) [0, 1] of
        Inl e \<Rightarrow> GRaise e
      | Inr coordinates \<Rightarrow> GSkip (InterpolateClouds_gen f tStart tStop tStepSize (MCloud A # MCloud B # ms) (Some (coordinates, tStart))))"
  by (subst InterpolateClouds_gen.code) (simp add: as_cloud_def)

lemma InterpolateClouds_gen_loop:
  "InterpolateClouds_gen f tStart tStop tStepSize (MCloud A # MCloud B # ms) (Some (coordinates, t)) =
     (if t \<le> tStop then
        (case interp_step f A B coordinates t of
           Inl e \<Rightarrow> GRaise e
         | Inr c \<Rightarrow> GYield (MCloud c) (InterpolateClouds_gen f tStart tStop tStepSize (MCloud A # MCloud B # ms) (Some (coordinates, t + tStepSize))))
      else GSkip (InterpolateClouds_gen f tStart tStop tStepSize (MCloud B # ms) None))"
  by (subst InterpolateClouds_gen.code) (simp add: as_cloud_def)

lemma InterpolateClouds_gen_loop_fwd:
  assumes "interp_times f tStop tStepSize A B coordinates t = Some r"
  shows "collect_gen (InterpolateClouds_gen f tStart tStop tStepSize (MCloud A # MCloud B # ms) (Some (coordinates, t))) =
           (case r of
              Inl e \<Rightarrow> Some (Inl e)
            | Inr cs \<Rightarrow> map_option (\<lambda>r'. bind_res r' (\<lambda>cs'. Inr (map MCloud cs @ cs')))
                          (collect_gen (InterpolateClouds_gen f tStart tStop tStepSize (MCloud B # ms) None)))"
proof (rule interp_times.raw_induct [where P = "\<lambda>f tStop tStepSize A B coordinates t r.
      collect_gen (InterpolateClouds_gen f tStart tStop tStepSize (MCloud A # MCloud B # ms) (Some (coordinates, t))) =
           (case r of
              Inl e \<Rightarrow> Some (Inl e)
            | Inr cs \<Rightarrow> map_option (\<lambda>r'. bind_res r' (\<lambda>cs'. Inr (map MCloud cs @ cs')))
                          (collect_gen (InterpolateClouds_gen f tStart tStop tStepSize (MCloud B # ms) None)))", OF _ assms])
  fix F f tStop tStepSize A B coordinates t r
  assume IH: "\<And>f tStop tStepSize A B coordinates t r. F f tStop tStepSize A B coordinates t = Some r \<Longrightarrow>
      collect_gen (InterpolateClouds_gen f tStart tStop tStepSize (MCloud A # MCloud B # ms) (Some (coordinates, t))) =
           (case r of
              Inl e \<Rightarrow> Some (Inl e)
            | Inr cs \<Rightarrow> map_option (\<lambda>r'. bind_res r' (\<lambda>cs'. Inr (map MCloud cs @ cs')))
                          (collect_gen (InterpolateClouds_gen f tStart tStop tStepSize (MCloud B # ms) None)))"
    and body: "(if t \<le> tStop
      then (case interp_step f A B coordinates t of
              Inl e \<Rightarrow> Some (Inl e)
            | Inr c \<Rightarrow>
                Option.bind (F f tStop tStepSize A B coordinates (t + tStepSize))
                  (\<lambda>r. Some (bind_res r (\<lambda>cs. Inr (c # cs)))))
      else Some (Inr [])) = Some r"
  show "collect_gen (InterpolateClouds_gen f tStart tStop tStepSize (MCloud A # MCloud B # ms) (Some (coordinates, t))) =
           (case r of
              Inl e \<Rightarrow> Some (Inl e)
            | Inr cs \<Rightarrow> map_option (\<lambda>r'. bind_res r' (\<lambda>cs'. Inr (map MCloud cs @ cs')))
                          (collect_gen (InterpolateClouds_gen f tStart tStop tStepSize (MCloud B # ms) None)))"
  proof (cases "t \<le> tStop")
    case True
    show ?thesis
    proof (cases "interp_step f A B coordinates t")
      case (Inl e)
      moreover from body True Inl have "r = Inl e" by simp
      ultimately show ?thesis using True by (subst InterpolateClouds_gen_loop) simp
    next
      case (Inr c)
      with body True obtain r' where F: "F f tStop tStepSize A B coordinates (t + tStepSize) = Some r'"
        and r: "r = bind_res r' (\<lambda>cs. Inr (c # cs))"
        by (auto simp: bind_eq_Some_conv)
      have "collect_gen (InterpolateClouds_gen f tStart tStop tStepSize (MCloud A # MCloud B # ms) (Some (coordinates, t))) =
          map_option (\<lambda>r. bind_res r (\<lambda>xs. Inr (MCloud c # xs)))
            (collect_gen (InterpolateClouds_gen f tStart tStop tStepSize (MCloud A # MCloud B # ms) (Some (coordinates, t + tStepSize))))"
        using True Inr by (subst InterpolateClouds_gen_loop) simp
      then show ?thesis using IH [OF F] r
        by (cases r') (simp_all add: option.map_comp comp_def bind_res_assoc)
    qed
  next
    case False
    moreover from body False have "r = Inr []" by simp
    ultimately show ?thesis by (subst InterpolateClouds_gen_loop) (simp add: option.map_ident)
  qed
qed

lemma InterpolateClouds_gen_loop_bwd:
  assumes "gen_trace g = Some tr"
  shows "\<forall>t. g = InterpolateClouds_gen f tStart tStop tStepSize (MCloud A # MCloud B # ms) (Some (coordinates, t)) \<longrightarrow>
           (\<exists>r. interp_times f tStop tStepSize A B coordinates t = Some r)"
proof (rule gen_trace.raw_induct [where P = "\<lambda>g tr. \<forall>t.
      g = InterpolateClouds_gen f tStart tStop tStepSize (MCloud A # MCloud B # ms) (Some (coordinates, t)) \<longrightarrow>
      (\<exists>r. interp_times f tStop tStepSize A B coordinates t = Some r)", OF _ assms])
  fix F g tr
  assume IH: "\<And>g tr. F g = Some tr \<Longrightarrow> \<forall>t.
      g = InterpolateClouds_gen f tStart tStop tStepSize (MCloud A # MCloud B # ms) (Some (coordinates, t)) \<longrightarrow>
      (\<exists>r. interp_times f tStop tStepSize A B coordinates t = Some r)"
    and body: "(case g of
        GStop \<Rightarrow> Some ([], None)
      | GRaise e \<Rightarrow> Some ([], Some e)
      | GYield x g' \<Rightarrow> Option.bind (F g') (\<lambda>(xs, eo). Some (x # xs, eo))
      | GSkip g' \<Rightarrow> F g') = Some tr"
  show "\<forall>t. g = InterpolateClouds_gen f tStart tStop tStepSize (MCloud A # MCloud B # ms) (Some (coordinates, t)) \<longrightarrow>
      (\<exists>r. interp_times f tStop tStepSize A B coordinates t = Some r)"
  proof (intro allI impI)
    fix t
    assume g: "g = InterpolateClouds_gen f tStart tStop tStepSize (MCloud A # MCloud B # ms) (Some (coordinates, t))"
    show "\<exists>r. interp_times f tStop tStepSize A B coordinates t = Some r"
    proof (cases "t \<le> tStop \<and> (\<exists>c. interp_step f A B coordinates t = Inr c)")
      case True
      then obtain c where le: "t \<le> tStop" and c: "interp_step f A B coordinates t = Inr c" by blast
      have "g = GYield (MCloud c)
          (InterpolateClouds_gen f tStart tStop tStepSize (MCloud A # MCloud B # ms) (Some (coordinates, t + tStepSize)))"
        unfolding g using le c by (subst InterpolateClouds_gen_loop) simp
      with body obtain tr' where "F (InterpolateClouds_gen f tStart tStop tStepSize (MCloud A # MCloud B # ms)
          (Some (coordinates, t + tStepSize))) = Some tr'"
        by (auto simp: bind_eq_Some_conv)
      from IH [OF this] obtain r' where "interp_times f tStop tStepSize A B coordinates (t + tStepSize) = Some r'"
        by blast
      then show ?thesis using le c by (simp add: interp_times.simps [of f tStop tStepSize A B coordinates t])
    next
      case False
      then show ?thesis
        by (cases "interp_step f A B coordinates t")
           (auto simp: interp_times.simps [of f tStop tStepSize A B coordinates t])
    qed
  qed
qed

text \<open>
  Refinement of \<open>InterpolateClouds\<close>: the generator \<open>InterpolateClouds.__rrshift__\<close>
  returns, drained over a list of clouds, is the drained model of \<open>Interpolate\<close>: the
  same clouds, the same exception, and it never ends exactly when that model does not
  return.
\<close>

theorem InterpolateClouds_gen_refines:
  "collect_gen (InterpolateClouds_gen f tStart tStop tStepSize (map MCloud cls) None) =
     map_option (\<lambda>r. bind_res r (\<lambda>cs. Inr (map MCloud cs))) (InterpolateClouds f tStart tStop tStepSize cls)"
proof (induction f tStart tStop tStepSize cls rule: InterpolateClouds.induct)
  case (1 f tStart tStop tStepSize A B rest)
  let ?G = "InterpolateClouds_gen f tStart tStop tStepSize"
  show ?case
  proof (cases "nd_take_cols (points A) [0, 1]")
    case (Inl e)
    then show ?thesis by (simp add: InterpolateClouds_gen_pair)
  next
    case (Inr coordinates)
    have start: "collect_gen (?G (map MCloud (A # B # rest)) None) =
        collect_gen (?G (MCloud A # MCloud B # map MCloud rest) (Some (coordinates, tStart)))"
      using Inr by (simp add: InterpolateClouds_gen_pair)
    show ?thesis
    proof (cases "interp_times f tStop tStepSize A B coordinates tStart")
      case None
      have "gen_trace (?G (MCloud A # MCloud B # map MCloud rest) (Some (coordinates, tStart))) \<noteq> Some tr" for tr
        using InterpolateClouds_gen_loop_bwd [where g = "?G (MCloud A # MCloud B # map MCloud rest) (Some (coordinates, tStart))"
            and tr = tr and f = f and tStart = tStart and tStop = tStop and tStepSize = tStepSize and A = A and B = B
            and ms = "map MCloud rest" and coordinates = coordinates, rule_format, OF _ refl] None by auto
      then have "gen_trace (?G (MCloud A # MCloud B # map MCloud rest) (Some (coordinates, tStart))) = None"
        by (cases "gen_trace (?G (MCloud A # MCloud B # map MCloud rest) (Some (coordinates, tStart)))") auto
      then show ?thesis using start Inr None by (simp add: collect_gen_None)
    next
      case (Some r)
      show ?thesis
        using start Inr Some InterpolateClouds_gen_loop_fwd [OF Some, of tStart "map MCloud rest"] "1" [OF Inr Some]
        by (cases r) (simp_all add: option.map_comp comp_def bind_res_assoc)
    qed
  qed
qed (simp_all add: InterpolateClouds_gen_short)

subsection \<open>The other stages against their list-level models\<close>

lemma OffscreenCloudRender_gen_refines:
  "gen_trace iterable = Some (map MCloud cls, None) \<Longrightarrow>
   collect_gen (OffscreenCloudRender_gen render iterable) =
     Some (bind_res (OffscreenCloudRender render cls) (\<lambda>imgs. Inr (map MImage imgs)))"
  by (simp add: OffscreenCloudRender_gen_def collect_for_yield map_res_map as_cloud_def map_res_bind_Inr
      OffscreenCloudRender_def)

lemma PosterizeDepth_stage_refines:
  "gen_trace iterable = Some (map MCloud cls, None) \<Longrightarrow>
   collect_gen (run_gen (\<lambda>w iterable. for_gen iterable (\<lambda>m. yield_one (bind_res (as_cloud m) (\<lambda>element.
      bind_res (PosterizeDepth kmeans prm element) (\<lambda>c'. Inr (MCloud c')))))) (PyGen (\<lambda>w. iterable)) w) =
     Some (bind_res (map_res (PosterizeDepth kmeans prm) cls) (\<lambda>cls'. Inr (map MCloud cls')))"
  by (simp add: run_gen_def collect_for_yield map_res_map as_cloud_def map_res_bind_Inr)

lemma PaintClouds_stage_refines:
  assumes "gen_trace iterable = Some (map MCloud cls, None)"
    and "gen_trace (iter_val w images) = Some (map MImage imgs, None)"
  shows "(case PaintClouds_stage images of Gen f \<Rightarrow> collect_gen (f w iterable)) =
           Some (bind_res (PaintClouds imgs cls) (\<lambda>cls'. Inr (map MCloud cls')))"
proof -
  have "paint_pair (MCloud c, MImage i) =
      bind_res (bind_res (nd_index i 0) (setColorsByImage c)) (\<lambda>c'. Inr (MCloud c'))" for c i
    by (cases "nd_index i 0") (simp_all add: paint_pair_def py_index0_def as_image_def as_cloud_def)
  then have "map_res paint_pair (zip (map MCloud cls) (map MImage imgs)) =
      bind_res (PaintClouds imgs cls) (\<lambda>cls'. Inr (map MCloud cls'))"
    by (simp add: zip_map_map map_res_map case_prod_beta PaintClouds_def map_res_bind_Inr split_def)
  moreover have "collect_gen iterable = Some (Inr (map MCloud cls))"
    and "collect_gen (iter_val w images) = Some (Inr (map MImage imgs))"
    using assms by (simp_all add: collect_gen_def)
  ultimately show ?thesis
    by (simp add: PaintClouds_stage_def collect_for_yield [OF gen_trace_of_trace])
qed

lemma view_loop_fold_res: "view_loop sc cls = fold_res view_add sc cls"
  by (induction cls arbitrary: sc) simp_all

lemma SimpleCloudView_stage_refines:
  assumes "gen_trace iterable = Some (map MCloud cls, None)"
  shows "(case SimpleCloudView_stage n of Sink g \<Rightarrow> g iterable w) =
           Some (case SimpleCloudView n cls of
                   Inl e \<Rightarrow> (Inl e, w)
                 | Inr v \<Rightarrow> (Inr (), w\<lparr>screen := screen w @ [v]\<rparr>))"
proof -
  have "fold_res (\<lambda>scene m. bind_res (as_cloud m) (view_add scene)) sc (map MCloud cls) = view_loop sc cls" for sc
    by (induction cls arbitrary: sc) (simp_all add: as_cloud_def)
  then show ?thesis
    using fold_gen_trace [OF assms, of "\<lambda>scene m. bind_res (as_cloud m) (view_add scene)" empty_scene]
    by (simp add: SimpleCloudView_stage_def SimpleCloudView_def split: sum.splits)
qed

end
