(* ===== verification/Chains.thy ===== *)
theory Chains
  imports Stages
begin

text \<open>
  Whole chains of the repository's stages, run by \<open>run_chain\<close> in a world of files: what
  they compute, the exceptions they raise and the order in which they raise them, and
  where the lazy evaluation of generator stages makes a chain behave unlike the
  composition of its stages' list-level models.
\<close>

text \<open>
  The cloud that painting makes of the depth file \<open>d\<close> and the colour file \<open>c\<close>: the
  cloud of the depth map, coloured with the pixels of the batch \<open>ReadImage\<close> makes of the
  colour image.
\<close>

definition painted_cloud :: "int ndarray file_store \<Rightarrow> string \<Rightarrow> string \<Rightarrow> cloud" where
  "painted_cloud fs d c =
     (gray_cloud (the (fs d)))\<lparr>colors :=
        Some (nd_of_triples (rgb_rows ((the (fs c))\<lparr>shape := 1 # shape (the (fs c))\<rparr>)))\<rparr>"

text \<open>
  \<open>InterpolateClouds\<close> cannot follow a generator stage: in
  \<open>ReadImage(ps) >> DepthToClouds() >> InterpolateClouds(...)\<close> its input is a generator,
  which has no \<open>len\<close>, so consuming the chain raises \<open>TypeError\<close>, in every world and
  before any file is read; a \<open>Collect()\<close> is needed in between.
\<close>

theorem chain_interpolate_needs_list:
  "run_chain w (PyStage (ReadImage_stage ps)) [DepthToClouds_stage, InterpolateClouds_stage f tStart tStop tStepSize, Collect] =
     Some (Inl TypeError, w)"
  by (simp add: DepthToClouds_stage_def InterpolateClouds_stage_def run_gen_def run_idx_def collect_gen_def)

lemma depth_files_image_files: "depth_files fs ps \<Longrightarrow> image_files fs ps"
  by (auto simp: depth_files_def image_files_def)

lemma DepthToClouds_read:
  assumes "depth_files fs ps"
  shows "DepthToClouds (map (nd_map real_of_int) (map (\<lambda>p. the (fs p)\<lparr>shape := batch_shape (shape (the (fs p)))\<rparr>) ps)) =
         Inr (map (\<lambda>p. gray_cloud (the (fs p))) ps)"
proof -
  let ?d = "\<lambda>p. nd_map real_of_int (the (fs p)\<lparr>shape := [1, shape (the (fs p)) ! 0, shape (the (fs p)) ! 1, 1]\<rparr>)"
  have rank: "length (shape (the (fs p))) = 2" and wf: "nd_wf (the (fs p))" if "p \<in> set ps" for p
    using assms that by (auto simp: depth_files_def)
  have md: "map (nd_map real_of_int) (map (\<lambda>p. the (fs p)\<lparr>shape := batch_shape (shape (the (fs p)))\<rparr>) ps) = map ?d ps"
    using rank by (simp add: batch_shape_def)
  have "nd_wf (?d p) \<and> shape (?d p) = [1, shape (the (fs p)) ! 0, shape (the (fs p)) ! 1, 1]" if p: "p \<in> set ps" for p
  proof -
    obtain a b where "shape (the (fs p)) = [a, b]"
      using rank [OF p] by (auto simp: numeral_2_eq_2 length_Suc_conv)
    then show ?thesis using wf [OF p] by (simp add: nd_wf_def nd_map_def)
  qed
  then have "DepthToClouds (map ?d ps) =
      Inr (map (\<lambda>d. \<lparr>points = nd_of_triples (depth_cloud_rows d (shape d ! 1) (shape d ! 2) 0), colors = None\<rparr>) (map ?d ps))"
    by (intro DepthToClouds_batches) auto
  moreover have "map (\<lambda>d. \<lparr>points = nd_of_triples (depth_cloud_rows d (shape d ! 1) (shape d ! 2) 0), colors = None\<rparr>) (map ?d ps) =
      map (\<lambda>p. gray_cloud (the (fs p))) ps"
    by (simp add: gray_cloud_def nd_map_def)
  ultimately show ?thesis by (simp only: md)
qed

text \<open>
  C38. Reading grayscale depth images and converting them: \<open>ReadImage(ps) >>
  DepthToClouds() >> Collect()\<close> yields one cloud per file, in path order, whose point
  \<open>row * h + column\<close> is \<open>(row, column, depth)\<close> of that file's pixel; the world is
  unchanged. The batch of one that \<open>ReadImage\<close> makes is exactly what \<open>DepthToClouds\<close>
  expects.
\<close>

theorem chain_read_depth_clouds:
  assumes files: "depth_files (img_store w) ps"
  shows "\<exists>cls. run_chain w (PyStage (ReadImage_stage ps)) [DepthToClouds_stage, Collect] =
                Some (Inr (PyList (map MCloud cls)), w) \<and> length cls = length ps \<and>
           (\<forall>i < length ps. \<exists>img W H. img_store w (ps ! i) = Some img \<and> shape img = [W, H] \<and>
              shape (points (cls ! i)) = [W * H, 3] \<and> colors (cls ! i) = None \<and>
              (\<forall>r < W. \<forall>c < H.
                 nd_at (points (cls ! i)) [r * H + c, 0] = Inr (real r) \<and>
                 nd_at (points (cls ! i)) [r * H + c, 1] = Inr (real c) \<and>
                 nd_at (points (cls ! i)) [r * H + c, 2] = Inr (real_of_int (elems img ! (r * H + c)))))"
proof (intro exI conjI)
  let ?cls = "map (\<lambda>p. gray_cloud (the (img_store w p))) ps"
  show "run_chain w (PyStage (ReadImage_stage ps)) [DepthToClouds_stage, Collect] =
      Some (Inr (PyList (map MCloud ?cls)), w)"
    using collect_DepthToClouds_gen [OF ReadImage_stage_gen [OF depth_files_image_files [OF files]]]
    by (simp add: DepthToClouds_read [OF files, simplified] DepthToClouds_stage_def run_gen_def)
  show "length ?cls = length ps" by simp
  show "\<forall>i < length ps. \<exists>img W H. img_store w (ps ! i) = Some img \<and> shape img = [W, H] \<and>
              shape (points (?cls ! i)) = [W * H, 3] \<and> colors (?cls ! i) = None \<and>
              (\<forall>r < W. \<forall>c < H.
                 nd_at (points (?cls ! i)) [r * H + c, 0] = Inr (real r) \<and>
                 nd_at (points (?cls ! i)) [r * H + c, 1] = Inr (real c) \<and>
                 nd_at (points (?cls ! i)) [r * H + c, 2] = Inr (real_of_int (elems img ! (r * H + c))))"
  proof (intro allI impI)
    fix i assume i: "i < length ps"
    then have "ps ! i \<in> set ps" by simp
    with files obtain img where img: "img_store w (ps ! i) = Some img" and rk: "length (shape img) = 2"
      and wf: "nd_wf img" and pos: "0 < prod_list (shape img)"
      by (auto simp: depth_files_def)
    from rk obtain W H where sh: "shape img = [W, H]" by (auto simp: numeral_2_eq_2 length_Suc_conv)
    have cl: "?cls ! i = gray_cloud img" using i img by simp
    let ?d = "nd_map real_of_int (img\<lparr>shape := [1, W, H, 1]\<rparr>)"
    have el: "elems ?d ! (0 * (W * H) + (r * H + c)) = real_of_int (elems img ! (r * H + c))"
      if "r < W" "c < H" for r c
    proof -
      have "r * H + c < W * H" using that by (rule row_major_bound)
      moreover have "length (elems img) = W * H" using wf sh by (simp add: nd_wf_def)
      ultimately show ?thesis by (simp add: nd_map_def)
    qed
    have pts: "points (gray_cloud img) = nd_of_triples (depth_cloud_rows ?d W H 0)"
      using sh by (simp add: gray_cloud_def)
    show "\<exists>img W H. img_store w (ps ! i) = Some img \<and> shape img = [W, H] \<and>
              shape (points (?cls ! i)) = [W * H, 3] \<and> colors (?cls ! i) = None \<and>
              (\<forall>r < W. \<forall>c < H.
                 nd_at (points (?cls ! i)) [r * H + c, 0] = Inr (real r) \<and>
                 nd_at (points (?cls ! i)) [r * H + c, 1] = Inr (real c) \<and>
                 nd_at (points (?cls ! i)) [r * H + c, 2] = Inr (real_of_int (elems img ! (r * H + c))))"
      using img sh pos cl pts depth_cloud_rows_at [of _ W _ H ?d 0] el shape_depth_cloud_rows [of W H ?d 0]
      by (auto simp: gray_cloud_def)
  qed
qed


theorem chain_read_depth_clouds_witness:
  "\<exists>cls. run_chain \<lparr>img_store = [''d.png'' \<mapsto> \<lparr>shape = [1, 2], elems = [5, 7]\<rparr>], video_store = Map.empty, screen = []\<rparr>
          (PyStage (ReadImage_stage [''d.png''])) [DepthToClouds_stage, Collect] =
        Some (Inr (PyList (map MCloud cls)),
              \<lparr>img_store = [''d.png'' \<mapsto> \<lparr>shape = [1, 2], elems = [5, 7]\<rparr>], video_store = Map.empty, screen = []\<rparr>) \<and>
        length cls = 1 \<and> shape (points (hd cls)) = [2, 3] \<and>
        nd_at (points (hd cls)) [1, 1] = Inr 1 \<and> nd_at (points (hd cls)) [1, 2] = Inr 7"
proof -
  let ?w = "\<lparr>img_store = [''d.png'' \<mapsto> \<lparr>shape = [1, 2], elems = [5, 7::int]\<rparr>], video_store = Map.empty, screen = []\<rparr>"
  have f: "depth_files (img_store ?w) [''d.png'']" by (simp add: depth_files_def nd_wf_def)
  obtain cls where run: "run_chain ?w (PyStage (ReadImage_stage [''d.png''])) [DepthToClouds_stage, Collect] =
                Some (Inr (PyList (map MCloud cls)), ?w)" and len: "length cls = 1"
    and at: "\<forall>i < 1. \<exists>img W H. img_store ?w ([''d.png''] ! i) = Some img \<and> shape img = [W, H] \<and>
              shape (points (cls ! i)) = [W * H, 3] \<and> colors (cls ! i) = None \<and>
              (\<forall>r < W. \<forall>c < H.
                 nd_at (points (cls ! i)) [r * H + c, 0] = Inr (real r) \<and>
                 nd_at (points (cls ! i)) [r * H + c, 1] = Inr (real c) \<and>
                 nd_at (points (cls ! i)) [r * H + c, 2] = Inr (real_of_int (elems img ! (r * H + c))))"
    using chain_read_depth_clouds [OF f] by auto
  from at have "shape (points (cls ! 0)) = [2, 3] \<and>
      nd_at (points (cls ! 0)) [0 * 2 + 1, 1] = Inr (real (1::nat)) \<and>
      nd_at (points (cls ! 0)) [0 * 2 + 1, 2] = Inr (real_of_int (elems \<lparr>shape = [1, 2], elems = [5, 7::int]\<rparr> ! (0 * 2 + 1)))"
    by fastforce
  moreover have "hd cls = cls ! 0" using len by (cases cls) auto
  ultimately show ?thesis using run len by auto
qed

text \<open>
  C40. A lazy stage stops an endless source at its first bad item: collecting
  \<open>ReadImageAsBinary(ps)\<close> never returns (its stub \<open>__next__\<close> returns \<open>None\<close> and never
  raises \<open>StopIteration\<close>), but \<open>ReadImageAsBinary(ps) >> DepthToClouds() >> Collect()\<close>
  raises \<open>AttributeError\<close> at once (\<open>None\<close> has no \<open>.shape\<close>).
\<close>

theorem chain_binary_depth_raises:
  "collect_gen (iter_val w (PyStage (ReadImageAsBinary_stage ps))) = None \<and>
   run_chain w (PyStage (ReadImageAsBinary_stage ps)) [DepthToClouds_stage, Collect] = Some (Inl AttributeError, w)"
proof
  let ?r = "\<lparr>paths = ps, index = 0\<rparr>"
  have "gen_trace (unfold_gen ReadImageAsBinary_next ?r) \<noteq> Some t" for t
  proof
    assume "gen_trace (unfold_gen ReadImageAsBinary_next ?r) = Some t"
    from drain_of_gen_trace_unfold [OF this, rule_format, OF refl]
    show False using ReadImageAsBinary_diverges [of ?r] by simp
  qed
  then have "gen_trace (unfold_gen ReadImageAsBinary_next ?r) = None" by (cases "gen_trace (unfold_gen ReadImageAsBinary_next ?r)") auto
  then show "collect_gen (iter_val w (PyStage (ReadImageAsBinary_stage ps))) = None"
    by (simp add: ReadImageAsBinary_stage_def collect_gen_def gen_trace_map_gen_None)
  have u: "unfold_gen ReadImageAsBinary_next ?r = GYield None (unfold_gen ReadImageAsBinary_next ?r)"
    by (rule unfold_gen_step) (simp add: ReadImageAsBinary_next_def)
  have "iter_val w (PyStage (ReadImageAsBinary_stage ps)) =
      GYield (MBytes None) (map_gen MBytes (unfold_gen ReadImageAsBinary_next ?r))"
    unfolding ReadImageAsBinary_stage_def iter_val.simps by (subst (1) u) (simp only: gen.map)
  then show "run_chain w (PyStage (ReadImageAsBinary_stage ps)) [DepthToClouds_stage, Collect] = Some (Inl AttributeError, w)"
    by (simp add: DepthToClouds_stage_def run_gen_def DepthToClouds_gen_def collect_gen_def for_gen_raises_first
        DepthToClouds_batch_def as_depth_def as_image_def)
qed

lemma DepthToClouds_batch_read:
  assumes "depth_files fs [p]"
  shows "DepthToClouds_batch (MImage (the (fs p)\<lparr>shape := batch_shape (shape (the (fs p)))\<rparr>)) =
           ([MCloud (gray_cloud (the (fs p)))], None)"
proof -
  have "DepthToClouds [nd_map real_of_int (the (fs p)\<lparr>shape := batch_shape (shape (the (fs p)))\<rparr>)] =
      Inr [gray_cloud (the (fs p))]"
    using DepthToClouds_read [OF assms] by simp
  then have "trace_res (DepthToClouds_batch (MImage (the (fs p)\<lparr>shape := batch_shape (shape (the (fs p)))\<rparr>))) =
      Inr [MCloud (gray_cloud (the (fs p)))]"
    by (auto simp: trace_res_DepthToClouds_batch DepthToClouds_def bind_res_def split: sum.splits)
  then show ?thesis by (simp only: trace_res_eq_Inr)
qed

text \<open>
  C39. Exceptions surface in the order the lazy chain meets them, not in the order of
  the stages: in \<open>ReadImage(p, ...) >> DepthToClouds() >> SimpleCloudView()\<close> with a
  depth image at \<open>p\<close>, the viewer's loop pulls the first cloud and raises
  \<open>AttributeError\<close> on its missing colours before the source reads any later path, so
  whatever the later paths hold (missing files included) the chain raises
  \<open>AttributeError\<close> and no viewer is opened.
\<close>

theorem chain_view_error_first:
  assumes p: "depth_files (img_store w) [p]"
  shows "run_chain w (PyStage (ReadImage_stage (p # ps))) [DepthToClouds_stage, SimpleCloudView_stage n] =
           Some (Inl AttributeError, w)"
proof -
  let ?fs = "img_store w"
  let ?img = "the (?fs p)\<lparr>shape := batch_shape (shape (the (?fs p)))\<rparr>"
  let ?rest = "map_gen MImage (unfold_gen (ReadImage_next ?fs) \<lparr>paths = p # ps, index = 1\<rparr>)"
  have "read_image ?fs p = Inr ?img"
    using p by (auto simp: depth_files_def read_image_ok)
  then have "unfold_gen (ReadImage_next ?fs) (reader_iter \<lparr>paths = p # ps, index = 0\<rparr>) =
      GYield ?img (unfold_gen (ReadImage_next ?fs) \<lparr>paths = p # ps, index = 1\<rparr>)"
    by (intro unfold_gen_step) (simp add: ReadImage_next_def reader_next_at reader_iter_def)
  then have src: "iter_val w (PyStage (ReadImage_stage (p # ps))) = GYield (MImage ?img) ?rest"
    by (simp add: ReadImage_stage_def gen.map)
  have "view_add empty_scene (gray_cloud (the (?fs p))) = Inl AttributeError"
    by (simp add: view_add_def gray_cloud_def Let_def)
  then show ?thesis
    by (simp add: src DepthToClouds_stage_def run_gen_def DepthToClouds_gen_def for_gen_def
        DepthToClouds_batch_read [OF p] SimpleCloudView_stage_def as_cloud_def)
qed

theorem chain_view_error_first_witness:
  "depth_files [''a.png'' \<mapsto> \<lparr>shape = [1, 1], elems = [3]\<rparr>] [''a.png''] \<and>
   run_chain \<lparr>img_store = [''a.png'' \<mapsto> \<lparr>shape = [1, 1], elems = [3]\<rparr>], video_store = Map.empty, screen = []\<rparr>
     (PyStage (ReadImage_stage [''a.png'', ''missing.png''])) [DepthToClouds_stage, SimpleCloudView_stage 9] =
   Some (Inl AttributeError, \<lparr>img_store = [''a.png'' \<mapsto> \<lparr>shape = [1, 1], elems = [3]\<rparr>], video_store = Map.empty, screen = []\<rparr>)"
  using chain_view_error_first [of "\<lparr>img_store = [''a.png'' \<mapsto> \<lparr>shape = [1, 1], elems = [3]\<rparr>], video_store = Map.empty, screen = []\<rparr>"
      "''a.png''" "[''missing.png'']" 9]
  by (simp add: depth_files_def nd_wf_def)

subsection \<open>From depth files to rendered images on disk\<close>

lemma sink_loop_map_items:
  "sink_loop prep enc fs (zip ps (map g xs)) = sink_loop (\<lambda>x. prep (g x)) enc fs (zip ps xs)"
proof (induction xs arbitrary: ps fs)
  case (Cons x xs)
  then show ?case by (cases ps) (simp_all add: fun_upd_def split: sum.splits)
qed simp

lemma save_images_media:
  "sink_rrshift (\<lambda>m. bind_res (as_image m) unbatch) enc qs (map MImage imgs) fs = SaveImage enc qs imgs fs"
  by (simp add: SaveImage_def sink_rrshift_def sink_loop_map_items as_image_def)

lemma read_depth_clouds_trace:
  assumes "depth_files (img_store w) ps"
  shows "gen_trace (DepthToClouds_gen (iter_val w (PyStage (ReadImage_stage ps)))) =
           Some (map MCloud (map (\<lambda>p. gray_cloud (the (img_store w p))) ps), None)"
proof -
  have "collect_gen (DepthToClouds_gen (iter_val w (PyStage (ReadImage_stage ps)))) =
      Some (Inr (map MCloud (map (\<lambda>p. gray_cloud (the (img_store w p))) ps)))"
    using collect_DepthToClouds_gen [OF ReadImage_stage_gen [OF depth_files_image_files [OF assms]]]
    by (simp add: DepthToClouds_read [OF assms, simplified])
  then show ?thesis by (auto simp: collect_gen_def trace_res_eq_Inr)
qed

lemma gray_cloud_row:
  "gray_cloud \<lparr>shape = [1, 2], elems = [a, b]\<rparr> =
     \<lparr>points = \<lparr>shape = [2, 3], elems = [0, 0, real_of_int a, 0, 1, real_of_int b]\<rparr>, colors = None\<rparr>"
  by (simp add: gray_cloud_def depth_cloud_rows_def grid_def nd_of_triples_def nd_map_def row3_def upt_rec)

text \<open>
  C34. The repository's rendering chain
  \<open>ReadImage(ps) >> DepthToClouds() >> PosterizeDepth(...) >> OffscreenCloudRender() >> SaveImage(qs)\<close>
  on grayscale depth files: the generator stages run item by item, each cloud posterized
  and then rendered before the next file's cloud is posterized, so the chain computes the
  per-item composition of the two stages, with the first exception in that order;
  \<open>SaveImage\<close> collects all renders before it writes, so a failing item leaves the files
  untouched, and otherwise the renders are saved as \<open>SaveImage\<close> saves a list.
\<close>

theorem chain_render_posterized:
  assumes files: "depth_files (img_store w) ps"
  shows "run_chain w (PyStage (ReadImage_stage ps))
           [DepthToClouds_stage, PosterizeDepth_stage kmeans prm, OffscreenCloudRender_stage render, SaveImage_stage enc qs] =
         Some (case map_res (\<lambda>c. bind_res (PosterizeDepth kmeans prm c) (\<lambda>c'. render offscreen_cfg (cloud_scene c')))
                        (map (\<lambda>p. gray_cloud (the (img_store w p))) ps) of
                 Inl e \<Rightarrow> (Inl e, w)
               | Inr imgs \<Rightarrow> (case SaveImage enc qs imgs (img_store w) of
                                (u, fs') \<Rightarrow> (bind_res u (\<lambda>_. Inr PyNone), w\<lparr>img_store := fs'\<rparr>)))"
proof -
  let ?cls = "map (\<lambda>p. gray_cloud (the (img_store w p))) ps"
  let ?f = "\<lambda>m. bind_res (as_cloud m) (\<lambda>element. bind_res (PosterizeDepth kmeans prm element) (\<lambda>c'. Inr (MCloud c')))"
  let ?h = "\<lambda>m. bind_res (as_cloud m) (\<lambda>cloud. bind_res (render offscreen_cfg (cloud_scene cloud)) (\<lambda>ci. Inr (MImage ci)))"
  let ?G = "OffscreenCloudRender_gen render (for_gen (DepthToClouds_gen (iter_val w (PyStage (ReadImage_stage ps)))) (\<lambda>m. yield_one (?f m)))"
  have "gen_trace ?G = Some (trace_bind (map MCloud ?cls, None) (\<lambda>x. yield_one (bind_res (?f x) ?h)))"
    unfolding OffscreenCloudRender_gen_def by (rule for_gen_yield_fuse [OF read_depth_clouds_trace [OF files]])
  then have "collect_gen ?G =
      Some (map_res (\<lambda>c. bind_res (bind_res (PosterizeDepth kmeans prm c) (\<lambda>c'. render offscreen_cfg (cloud_scene c')))
                         (\<lambda>ci. Inr (MImage ci))) ?cls)"
    by (simp add: collect_gen_def trace_map_res map_res_map as_cloud_def bind_res_assoc)
  then have "collect_gen ?G =
      Some (bind_res (map_res (\<lambda>c. bind_res (PosterizeDepth kmeans prm c) (\<lambda>c'. render offscreen_cfg (cloud_scene c'))) ?cls)
              (\<lambda>imgs. Inr (map MImage imgs)))"
    by (simp add: map_res_bind_Inr)
  then show ?thesis
    by (auto simp: DepthToClouds_stage_def PosterizeDepth_stage_def OffscreenCloudRender_stage_def SaveImage_stage_def
        run_gen_def save_images_media split: sum.splits prod.splits)
qed

text \<open>
  Two depth files, the second of constant depth, and a renderer that fails: the chain
  raises the renderer's \<open>ValueError\<close> on the first cloud before it posterizes the second,
  while composing the stages' list-level models would raise posterizing's \<open>TypeError\<close>.
\<close>

theorem chain_render_posterized_witness:
  "depth_files [''a.png'' \<mapsto> \<lparr>shape = [1, 2], elems = [0, 2]\<rparr>, ''b.png'' \<mapsto> \<lparr>shape = [1, 2], elems = [5, 5]\<rparr>] [''a.png'', ''b.png''] \<and>
   run_chain \<lparr>img_store = [''a.png'' \<mapsto> \<lparr>shape = [1, 2], elems = [0, 2]\<rparr>, ''b.png'' \<mapsto> \<lparr>shape = [1, 2], elems = [5, 5]\<rparr>],
              video_store = Map.empty, screen = []\<rparr>
     (PyStage (ReadImage_stage [''a.png'', ''b.png'']))
     [DepthToClouds_stage, PosterizeDepth_stage (\<lambda>obs k. if k = 2 then Inr [1.2, 2.6] else Inl ValueError) \<lparr>levels = 2, zPadding = None\<rparr>,
      OffscreenCloudRender_stage (\<lambda>cfg sc. Inl ValueError), SaveImage_stage (\<lambda>p x. x) [''o1.png'', ''o2.png'']] =
     Some (Inl ValueError, \<lparr>img_store = [''a.png'' \<mapsto> \<lparr>shape = [1, 2], elems = [0, 2]\<rparr>, ''b.png'' \<mapsto> \<lparr>shape = [1, 2], elems = [5, 5]\<rparr>],
                            video_store = Map.empty, screen = []\<rparr>) \<and>
   bind_res (map_res (PosterizeDepth (\<lambda>obs k. if k = 2 then Inr [1.2, 2.6] else Inl ValueError) \<lparr>levels = 2, zPadding = None\<rparr>)
               [gray_cloud \<lparr>shape = [1, 2], elems = [0, 2]\<rparr>, gray_cloud \<lparr>shape = [1, 2], elems = [5, 5]\<rparr>])
     (OffscreenCloudRender (\<lambda>cfg sc. Inl ValueError)) = Inl TypeError"
proof -
  let ?fs = "[''a.png'' \<mapsto> \<lparr>shape = [1, 2], elems = [0, 2]\<rparr>, ''b.png'' \<mapsto> \<lparr>shape = [1, 2], elems = [5, 5 :: int]\<rparr>]"
  let ?w = "\<lparr>img_store = ?fs, video_store = Map.empty, screen = []\<rparr> :: world"
  let ?K = "\<lambda>(obs :: real list) k. if k = 2 then Inr [1.2, 2.6] else Inl ValueError :: real list res"
  let ?P = "\<lparr>levels = 2, zPadding = None\<rparr> :: posterize_params"
  have f: "depth_files (img_store ?w) [''a.png'', ''b.png'']" by (simp add: depth_files_def nd_wf_def)
  have pa: "PosterizeDepth ?K ?P (gray_cloud \<lparr>shape = [1, 2], elems = [0, 2]\<rparr>) =
      Inr \<lparr>points = \<lparr>shape = [2, 3], elems = [0, 0, 2, 0, 1, 2]\<rparr>, colors = None\<rparr>"
    unfolding gray_cloud_row using PosterizeDepth_chained_levels by simp
  have pb: "PosterizeDepth kmeans prm (gray_cloud \<lparr>shape = [1, 2], elems = [5, 5]\<rparr>) = Inl TypeError" for kmeans prm
    unfolding gray_cloud_row by (simp add: PosterizeDepth_def nd_column_def whiten_def np_std_def np_mean_def upt_rec)
  let ?R = "\<lambda>(cfg :: offscreen_renderer) (sc :: scene). Inl ValueError :: int ndarray res"
  let ?ch = "[DepthToClouds_stage, PosterizeDepth_stage ?K ?P, OffscreenCloudRender_stage ?R,
              SaveImage_stage (\<lambda>p x. x) [''o1.png'', ''o2.png'']]"
  have "run_chain ?w (PyStage (ReadImage_stage [''a.png'', ''b.png''])) ?ch =
      Some (case map_res (\<lambda>c. bind_res (PosterizeDepth ?K ?P c) (\<lambda>c'. ?R offscreen_cfg (cloud_scene c')))
                     (map (\<lambda>p. gray_cloud (the (img_store ?w p))) [''a.png'', ''b.png'']) of
              Inl e \<Rightarrow> (Inl e, ?w)
            | Inr imgs \<Rightarrow> (case SaveImage (\<lambda>p x. x) [''o1.png'', ''o2.png''] imgs (img_store ?w) of
                             (u, fs') \<Rightarrow> (bind_res u (\<lambda>_. Inr PyNone), ?w\<lparr>img_store := fs'\<rparr>)))"
    by (rule chain_render_posterized [OF f])
  also have "\<dots> = Some (Inl ValueError, ?w)" using pa by simp
  finally have run: "run_chain ?w (PyStage (ReadImage_stage [''a.png'', ''b.png''])) ?ch = Some (Inl ValueError, ?w)" .
  have f': "depth_files ?fs [''a.png'', ''b.png'']" using f by simp
  have lst: "bind_res (map_res (PosterizeDepth ?K ?P)
               [gray_cloud \<lparr>shape = [1, 2], elems = [0, 2]\<rparr>, gray_cloud \<lparr>shape = [1, 2], elems = [5, 5]\<rparr>])
      (OffscreenCloudRender ?R) = Inl TypeError"
    using pa pb by simp
  from f' run lst show ?thesis by (intro conjI)
qed



lemma rgb_files_image_files: "rgb_files fs ps \<Longrightarrow> image_files fs ps"
  by (auto simp: rgb_files_def image_files_def)

lemma rgb_files_batch1:
  assumes "rgb_files fs ps"
  shows "list_all rgb_batch1 (map (\<lambda>p. the (fs p)\<lparr>shape := batch_shape (shape (the (fs p)))\<rparr>) ps)"
    and "map (\<lambda>p. the (fs p)\<lparr>shape := batch_shape (shape (the (fs p)))\<rparr>) ps =
           map (\<lambda>p. the (fs p)\<lparr>shape := 1 # shape (the (fs p))\<rparr>) ps"
proof -
  have r3: "length (shape (the (fs p))) = 3" and "nd_wf (the (fs p))" and "3 \<le> shape (the (fs p)) ! 2"
    if "p \<in> set ps" for p
    using assms that by (auto simp: rgb_files_def)
  then show "list_all rgb_batch1 (map (\<lambda>p. the (fs p)\<lparr>shape := batch_shape (shape (the (fs p)))\<rparr>) ps)"
    by (auto simp: list_all_iff rgb_batch1_def batch_shape_def nd_wf_def)
  show "map (\<lambda>p. the (fs p)\<lparr>shape := batch_shape (shape (the (fs p)))\<rparr>) ps =
           map (\<lambda>p. the (fs p)\<lparr>shape := 1 # shape (the (fs p))\<rparr>) ps"
    using r3 by (simp add: batch_shape_def)
qed

lemma paint_chain_run:
  assumes depth: "depth_files (img_store w) ds" and rgb: "rgb_files (img_store w) cs"
  shows "run_chain w (PyStage (ReadImage_stage ds))
           [DepthToClouds_stage, PaintClouds_stage (PyStage (ReadImage_stage cs)), Collect] =
         Some (Inr (PyList (map MCloud (map2 (painted_cloud (img_store w)) ds cs))), w)"
proof -
  let ?cls = "map (\<lambda>p. gray_cloud (the (img_store w p))) ds"
  let ?imgs = "map (\<lambda>p. the (img_store w p)\<lparr>shape := 1 # shape (the (img_store w p))\<rparr>) cs"
  have "(case PaintClouds_stage (PyStage (ReadImage_stage cs)) of
           Gen f \<Rightarrow> collect_gen (f w (DepthToClouds_gen (iter_val w (PyStage (ReadImage_stage ds)))))) =
        Some (bind_res (PaintClouds ?imgs ?cls) (\<lambda>cls'. Inr (map MCloud cls')))"
    using PaintClouds_stage_refines [OF read_depth_clouds_trace [OF depth]
        ReadImage_stage_gen [OF rgb_files_image_files [OF rgb]]]
    by (simp only: rgb_files_batch1(2) [OF rgb])
  moreover have "PaintClouds ?imgs ?cls =
      Inr (map (\<lambda>(cl, img). cl\<lparr>colors := Some (nd_of_triples (rgb_rows img))\<rparr>) (zip ?cls ?imgs))"
    by (rule PaintClouds_rgb [OF rgb_files_batch1(1) [OF rgb, unfolded rgb_files_batch1(2) [OF rgb]]])
  moreover have "map (\<lambda>(cl, img). cl\<lparr>colors := Some (nd_of_triples (rgb_rows img))\<rparr>) (zip ?cls ?imgs) =
      map2 (painted_cloud (img_store w)) ds cs"
    by (simp only: zip_map_map map_map comp_def case_prod_unfold fst_conv snd_conv painted_cloud_def)
  ultimately show ?thesis
    by (simp add: PaintClouds_stage_def DepthToClouds_stage_def run_gen_def map_map comp_def case_prod_unfold)
qed

text \<open>
  C35. Painting depth clouds from colour files:
  \<open>ReadImage(ds) >> DepthToClouds() >> PaintClouds(ReadImage(cs)) >> Collect()\<close> on
  grayscale depth files \<open>ds\<close> and RGB files \<open>cs\<close> yields, for each pair of the two lists up to
  the shorter one, the cloud of the depth file coloured with the pixels of the colour
  file in row-major order; the world is unchanged.
\<close>

theorem chain_paint_clouds:
  assumes depth: "depth_files (img_store w) ds" and rgb: "rgb_files (img_store w) cs"
  shows "run_chain w (PyStage (ReadImage_stage ds))
           [DepthToClouds_stage, PaintClouds_stage (PyStage (ReadImage_stage cs)), Collect] =
         Some (Inr (PyList (map (\<lambda>(d, c). MCloud ((gray_cloud (the (img_store w d)))\<lparr>colors :=
                  Some (nd_of_triples (rgb_rows ((the (img_store w c))\<lparr>shape := 1 # shape (the (img_store w c))\<rparr>)))\<rparr>))
                (zip ds cs))), w)"
  using paint_chain_run [OF depth rgb] by (simp add: painted_cloud_def case_prod_unfold)

text \<open>
  One depth file of two pixels and two colour files: the chain paints the one cloud with
  the first colour file and drops the second.
\<close>

theorem chain_paint_clouds_witness:
  "run_chain \<lparr>img_store = [''d.png'' \<mapsto> \<lparr>shape = [1, 2], elems = [5, 7]\<rparr>,
                           ''c.png'' \<mapsto> \<lparr>shape = [1, 2, 3], elems = [10, 20, 30, 40, 50, 60]\<rparr>,
                           ''e.png'' \<mapsto> \<lparr>shape = [1, 1, 3], elems = [1, 2, 3]\<rparr>],
              video_store = Map.empty, screen = []\<rparr>
     (PyStage (ReadImage_stage [''d.png'']))
     [DepthToClouds_stage, PaintClouds_stage (PyStage (ReadImage_stage [''c.png'', ''e.png''])), Collect] =
   Some (Inr (PyList [MCloud \<lparr>points = \<lparr>shape = [2, 3], elems = [0, 0, 5, 0, 1, 7]\<rparr>,
                              colors = Some \<lparr>shape = [2, 3], elems = [10, 20, 30, 40, 50, 60]\<rparr>\<rparr>]),
         \<lparr>img_store = [''d.png'' \<mapsto> \<lparr>shape = [1, 2], elems = [5, 7]\<rparr>,
                      ''c.png'' \<mapsto> \<lparr>shape = [1, 2, 3], elems = [10, 20, 30, 40, 50, 60]\<rparr>,
                      ''e.png'' \<mapsto> \<lparr>shape = [1, 1, 3], elems = [1, 2, 3]\<rparr>],
          video_store = Map.empty, screen = []\<rparr>)"
proof -
  let ?fs = "[''d.png'' \<mapsto> \<lparr>shape = [1, 2], elems = [5, 7]\<rparr>,
              ''c.png'' \<mapsto> \<lparr>shape = [1, 2, 3], elems = [10, 20, 30, 40, 50, 60]\<rparr>,
              ''e.png'' \<mapsto> \<lparr>shape = [1, 1, 3], elems = [1, 2, 3 :: int]\<rparr>]"
  let ?w = "\<lparr>img_store = ?fs, video_store = Map.empty, screen = []\<rparr> :: world"
  have d: "depth_files (img_store ?w) [''d.png'']" by (simp add: depth_files_def nd_wf_def)
  have c: "rgb_files (img_store ?w) [''c.png'', ''e.png'']" by (simp add: rgb_files_def nd_wf_def)
  have "rgb_rows \<lparr>shape = [1, 1, 2, 3], elems = [10, 20, 30, 40, 50, 60 :: int]\<rparr> = [(10, 20, 30), (40, 50, 60)]"
    by (simp add: rgb_rows_def grid_def upt_rec)
  moreover have "gray_cloud \<lparr>shape = [Suc 0, 2], elems = [5, 7 :: int]\<rparr> =
      \<lparr>points = \<lparr>shape = [2, 3], elems = [0, 0, 5, 0, 1, 7]\<rparr>, colors = None\<rparr>"
    using gray_cloud_row [of 5 7] by simp
  ultimately show ?thesis
    using chain_paint_clouds [OF d c]
    by (simp add: nd_of_triples_def row3_def)
qed

lemma interp_compatible_uniform:
  "cloud_inv A \<and> shape (points A) = [n, 3] \<and> colors A \<noteq> None \<Longrightarrow>
   cloud_inv B \<and> shape (points B) = [n, 3] \<and> colors B \<noteq> None \<Longrightarrow> interp_compatible A B"
  unfolding interp_compatible_def by auto

lemma chain_compatible_uniform:
  "(\<And>x. x \<in> set xs \<Longrightarrow> cloud_inv x \<and> shape (points x) = [n, 3] \<and> colors x \<noteq> None) \<Longrightarrow>
   chain_compatible xs"
proof (induction xs rule: chain_compatible.induct)
  case (1 A B rest)
  have "interp_compatible A B"
    by (rule interp_compatible_uniform [OF "1.prems" "1.prems"]) simp_all
  moreover have "chain_compatible (B # rest)"
    by (rule "1.IH") (rule "1.prems", simp)
  ultimately show ?case by simp
qed simp_all

lemma painted_cloud_shape:
  assumes d: "fs d = Some dimg" "nd_wf dimg" "shape dimg = [W, H]" "0 < W * H"
    and c: "fs c = Some cimg" "take 2 (shape cimg) = [W, H]"
  shows "cloud_inv (painted_cloud fs d c) \<and> shape (points (painted_cloud fs d c)) = [W * H, 3] \<and>
         colors (painted_cloud fs d c) \<noteq> None"
proof -
  obtain rest where cs: "shape cimg = W # H # rest"
    using c(2) by (cases "shape cimg" rule: list.exhaust; cases "tl (shape cimg)") auto
  have rows: "length (rgb_rows (cimg\<lparr>shape := 1 # shape cimg\<rparr>)) = W * H"
    by (simp add: rgb_rows_def cs Let_def)
  have pts: "shape (points (gray_cloud dimg)) = [W * H, 3]" and wfp: "nd_wf (points (gray_cloud dimg))"
    using d(3,4) shape_depth_cloud_rows by (simp_all add: gray_cloud_def nd_of_triples_wf)
  have "rgb_rows (cimg\<lparr>shape := 1 # shape cimg\<rparr>) \<noteq> []"
    using rows d(4) by auto
  then have col: "shape (nd_of_triples (rgb_rows (cimg\<lparr>shape := 1 # shape cimg\<rparr>))) = [W * H, 3]"
    using rows by (simp add: shape_nd_of_triples)
  show ?thesis
    unfolding painted_cloud_def cloud_inv_def using pts wfp col d(1) c(1) by (simp add: nd_of_triples_wf)
qed


text \<open>
  C36. The repository's painting and morphing pipeline
  \<open>ReadImage(ds) >> DepthToClouds() >> PaintClouds(ReadImage(cs)) >> Collect() >>
  InterpolateClouds(f, tStart, tStop, tStep) >> Collect()\<close>, on grayscale depth files
  and RGB files all of the same width and height and a positive step, returns: for each
  adjacent pair of painted clouds, one cloud per pass of the \<open>while\<close> loop, pass \<open>k\<close>
  blending points and colours with weight \<open>f(tStart + k * tStep)\<close>; the world is unchanged.
\<close>

theorem chain_paint_interpolate:
  assumes depth: "depth_files (img_store w) ds" and rgb: "rgb_files (img_store w) cs"
    and dsz: "\<forall>d \<in> set ds. shape (the (img_store w d)) = [W, H]"
    and csz: "\<forall>c \<in> set cs. take 2 (shape (the (img_store w c))) = [W, H]"
    and step: "0 < tStepSize"
  shows "run_chain w (PyStage (ReadImage_stage ds))
           [DepthToClouds_stage, PaintClouds_stage (PyStage (ReadImage_stage cs)), Collect,
            InterpolateClouds_stage f tStart tStop tStepSize, Collect] =
         Some (Inr (PyList (map MCloud (concat (map2 (interp_pair f tStart tStop tStepSize)
                  (map2 (painted_cloud (img_store w)) ds cs) (tl (map2 (painted_cloud (img_store w)) ds cs)))))), w)"
proof -
  let ?P = "map2 (painted_cloud (img_store w)) ds cs"
  have "chain_compatible ?P"
  proof (rule chain_compatible_uniform)
    fix x assume "x \<in> set ?P"
    then obtain d c where x: "x = painted_cloud (img_store w) d c" and dc: "d \<in> set ds" "c \<in> set cs"
      by (auto elim: in_set_zipE)
    obtain dimg where di: "img_store w d = Some dimg" "nd_wf dimg" "0 < prod_list (shape dimg)"
      using depth dc(1) by (auto simp: depth_files_def)
    have ds: "shape dimg = [W, H]" using dsz dc(1) di(1) by auto
    obtain cimg where ci: "img_store w c = Some cimg" using rgb dc(2) by (auto simp: rgb_files_def)
    have cs': "take 2 (shape cimg) = [W, H]" using csz dc(2) ci by auto
    show "cloud_inv x \<and> shape (points x) = [W * H, 3] \<and> colors x \<noteq> None"
      unfolding x by (rule painted_cloud_shape [OF di(1,2) ds _ ci cs']) (use di(3) ds in simp)
  qed
  then have interp: "InterpolateClouds f tStart tStop tStepSize ?P =
      Some (Inr (concat (map2 (interp_pair f tStart tStop tStepSize) ?P (tl ?P))))"
    by (rule InterpolateClouds_output [OF step])
  have split: "[DepthToClouds_stage, PaintClouds_stage (PyStage (ReadImage_stage cs)), Collect,
            InterpolateClouds_stage f tStart tStop tStepSize, Collect] =
      [DepthToClouds_stage, PaintClouds_stage (PyStage (ReadImage_stage cs)), Collect] @
      [InterpolateClouds_stage f tStart tStop tStepSize, Collect]" by simp
  show ?thesis
    unfolding split run_chain_append paint_chain_run [OF depth rgb]
    using interp InterpolateClouds_gen_refines [of f tStart tStop tStepSize ?P]
    by (simp add: InterpolateClouds_stage_def run_idx_def del: map_map)
qed

text \<open>
  C37. Morphing needs colours: with at least two grayscale depth files, the first
  two of the same size, and \<open>tStart <= tStop\<close>,
  \<open>ReadImage(ds) >> DepthToClouds() >> Collect() >> InterpolateClouds(...) >> Collect()\<close>
  raises \<open>TypeError\<close> in the first pass: the points blend, and then
  \<open>(1 - ft) * cloudAtZero.getColors()\<close> multiplies \<open>None\<close>.
\<close>

theorem chain_interpolate_uncoloured:
  assumes depth: "depth_files (img_store w) ds" and two: "2 \<le> length ds"
    and same: "shape (the (img_store w (ds ! 0))) = shape (the (img_store w (ds ! 1)))"
    and le: "tStart \<le> tStop"
  shows "run_chain w (PyStage (ReadImage_stage ds))
           [DepthToClouds_stage, Collect, InterpolateClouds_stage f tStart tStop tStepSize, Collect] =
         Some (Inl TypeError, w)"
proof -
  obtain d0 d1 rest where ds: "ds = d0 # d1 # rest"
    using two by (cases ds; cases "tl ds") auto
  obtain i0 where i0: "img_store w d0 = Some i0" "nd_wf i0" "length (shape i0) = 2" "0 < prod_list (shape i0)"
    using depth ds by (auto simp: depth_files_def)
  obtain i1 where i1: "img_store w d1 = Some i1" "nd_wf i1" "length (shape i1) = 2"
    using depth ds by (auto simp: depth_files_def)
  obtain W H where sh0: "shape i0 = [W, H]"
    using i0(3) by (auto simp: numeral_2_eq_2 length_Suc_conv)
  have sh1: "shape i1 = [W, H]" using same ds i0(1) i1(1) sh0 by simp
  let ?A = "gray_cloud i0" and ?B = "gray_cloud i1"
  have pa: "shape (points ?A) = [W * H, 3]" and pb: "shape (points ?B) = [W * H, 3]"
    using sh0 sh1 i0(4) shape_depth_cloud_rows by (simp_all add: gray_cloud_def)
  have wa: "nd_wf (points ?A)" and wb: "nd_wf (points ?B)"
    by (simp_all add: gray_cloud_def nd_of_triples_wf)
  obtain co where co: "nd_take_cols (points ?A) [0, 1] = Inr co"
    using pa by (simp add: nd_take_cols_def)
  have "blend (f tStart) (points ?A) (points ?B) \<noteq> Inl e" for e
    using blend_same_shape [OF wa wb] pa pb by simp
  then have step: "interp_step f ?A ?B co tStart = Inl TypeError"
    by (cases "blend (f tStart) (points ?A) (points ?B)")
       (simp_all add: interp_step_def blend_colors_def gray_cloud_def)
  have "InterpolateClouds f tStart tStop tStepSize (map (\<lambda>p. gray_cloud (the (img_store w p))) ds) = Some (Inl TypeError)"
    using co step le i0(1) i1(1) ds by (simp add: interp_times.simps)
  moreover have "collect_gen (DepthToClouds_gen (iter_val w (PyStage (ReadImage_stage ds)))) =
      Some (Inr (map MCloud (map (\<lambda>p. gray_cloud (the (img_store w p))) ds)))"
    using read_depth_clouds_trace [OF depth] by (simp add: collect_gen_def)
  ultimately show ?thesis
    by (simp add: DepthToClouds_stage_def InterpolateClouds_stage_def run_gen_def run_idx_def
        InterpolateClouds_gen_refines del: map_map)
qed


text \<open>
  Two depth files of two pixels with a colour file each, morphed with \<open>f(t) = t\<close> from
  0 to 1 in steps of 1/2: the first painted cloud, their average (colours truncated), the
  second.
\<close>

theorem chain_paint_interpolate_witness:
  "run_chain \<lparr>img_store = [''a.png'' \<mapsto> \<lparr>shape = [1, 2], elems = [5, 7]\<rparr>, ''b.png'' \<mapsto> \<lparr>shape = [1, 2], elems = [9, 11]\<rparr>,
                           ''ca.png'' \<mapsto> \<lparr>shape = [1, 2, 3], elems = [10, 20, 30, 40, 50, 60]\<rparr>,
                           ''cb.png'' \<mapsto> \<lparr>shape = [1, 2, 3], elems = [31, 40, 50, 60, 70, 80]\<rparr>],
              video_store = Map.empty, screen = []\<rparr>
     (PyStage (ReadImage_stage [''a.png'', ''b.png'']))
     [DepthToClouds_stage, PaintClouds_stage (PyStage (ReadImage_stage [''ca.png'', ''cb.png''])), Collect,
      InterpolateClouds_stage (\<lambda>t. t) 0 1 (1 / 2), Collect] =
   Some (Inr (PyList
     [MCloud \<lparr>points = \<lparr>shape = [2, 3], elems = [0, 0, 5, 0, 1, 7]\<rparr>,
              colors = Some \<lparr>shape = [2, 3], elems = [10, 20, 30, 40, 50, 60]\<rparr>\<rparr>,
      MCloud \<lparr>points = \<lparr>shape = [2, 3], elems = [0, 0, 7, 0, 1, 9]\<rparr>,
              colors = Some \<lparr>shape = [2, 3], elems = [20, 30, 40, 50, 60, 70]\<rparr>\<rparr>,
      MCloud \<lparr>points = \<lparr>shape = [2, 3], elems = [0, 0, 9, 0, 1, 11]\<rparr>,
              colors = Some \<lparr>shape = [2, 3], elems = [31, 40, 50, 60, 70, 80]\<rparr>\<rparr>]),
     \<lparr>img_store = [''a.png'' \<mapsto> \<lparr>shape = [1, 2], elems = [5, 7]\<rparr>, ''b.png'' \<mapsto> \<lparr>shape = [1, 2], elems = [9, 11]\<rparr>,
                  ''ca.png'' \<mapsto> \<lparr>shape = [1, 2, 3], elems = [10, 20, 30, 40, 50, 60]\<rparr>,
                  ''cb.png'' \<mapsto> \<lparr>shape = [1, 2, 3], elems = [31, 40, 50, 60, 70, 80]\<rparr>],
      video_store = Map.empty, screen = []\<rparr>)"
proof -
  let ?fs = "[''a.png'' \<mapsto> \<lparr>shape = [1, 2], elems = [5, 7]\<rparr>, ''b.png'' \<mapsto> \<lparr>shape = [1, 2], elems = [9, 11]\<rparr>,
              ''ca.png'' \<mapsto> \<lparr>shape = [1, 2, 3], elems = [10, 20, 30, 40, 50, 60]\<rparr>,
              ''cb.png'' \<mapsto> \<lparr>shape = [1, 2, 3], elems = [31, 40, 50, 60, 70, 80 :: int]\<rparr>]"
  let ?w = "\<lparr>img_store = ?fs, video_store = Map.empty, screen = []\<rparr> :: world"
  have d: "depth_files (img_store ?w) [''a.png'', ''b.png'']" by (simp add: depth_files_def nd_wf_def)
  have c: "rgb_files (img_store ?w) [''ca.png'', ''cb.png'']" by (simp add: rgb_files_def nd_wf_def)
  have dsz: "\<forall>d \<in> set [''a.png'', ''b.png'']. shape (the (img_store ?w d)) = [1, 2]" by simp
  have csz: "\<forall>c \<in> set [''ca.png'', ''cb.png'']. take 2 (shape (the (img_store ?w c))) = [1, 2]" by simp
  have pa: "painted_cloud ?fs ''a.png'' ''ca.png'' =
      \<lparr>points = \<lparr>shape = [2, 3], elems = [0, 0, 5, 0, 1, 7]\<rparr>, colors = Some \<lparr>shape = [2, 3], elems = [10, 20, 30, 40, 50, 60]\<rparr>\<rparr>"
    unfolding painted_cloud_def
    by (simp add: gray_cloud_row [of 5 7, simplified] rgb_rows_def grid_def upt_rec nd_of_triples_def row3_def)
  have pb: "painted_cloud ?fs ''b.png'' ''cb.png'' =
      \<lparr>points = \<lparr>shape = [2, 3], elems = [0, 0, 9, 0, 1, 11]\<rparr>, colors = Some \<lparr>shape = [2, 3], elems = [31, 40, 50, 60, 70, 80]\<rparr>\<rparr>"
    unfolding painted_cloud_def
    by (simp add: gray_cloud_row [of 9 11, simplified] rgb_rows_def grid_def upt_rec nd_of_triples_def row3_def)
  have p: "passes 1 (1 / 2) 0 = 3" by (simp add: passes_def)
  show ?thesis
    using chain_paint_interpolate [OF d c dsz csz, where f = "\<lambda>t. t" and tStart = 0 and tStop = 1 and tStepSize = "1 / 2"] pa pb
    by (simp add: interp_pair_def p upt_rec interp_cloud_def lerp_def astype_int_def)
qed

theorem chain_interpolate_uncoloured_witness:
  "run_chain \<lparr>img_store = [''a.png'' \<mapsto> \<lparr>shape = [1, 2], elems = [5, 7]\<rparr>, ''b.png'' \<mapsto> \<lparr>shape = [1, 2], elems = [9, 11]\<rparr>],
              video_store = Map.empty, screen = []\<rparr>
     (PyStage (ReadImage_stage [''a.png'', ''b.png'']))
     [DepthToClouds_stage, Collect, InterpolateClouds_stage (\<lambda>t. t) 0 1 (1 / 2), Collect] =
   Some (Inl TypeError,
         \<lparr>img_store = [''a.png'' \<mapsto> \<lparr>shape = [1, 2], elems = [5, 7]\<rparr>, ''b.png'' \<mapsto> \<lparr>shape = [1, 2], elems = [9, 11]\<rparr>],
          video_store = Map.empty, screen = []\<rparr>)"
proof -
  let ?w = "\<lparr>img_store = [''a.png'' \<mapsto> \<lparr>shape = [1, 2], elems = [5, 7]\<rparr>, ''b.png'' \<mapsto> \<lparr>shape = [1, 2], elems = [9, 11 :: int]\<rparr>],
              video_store = Map.empty, screen = []\<rparr> :: world"
  have d: "depth_files (img_store ?w) [''a.png'', ''b.png'']" by (simp add: depth_files_def nd_wf_def)
  show ?thesis
    using chain_interpolate_uncoloured [OF d, where f = "\<lambda>t. t" and tStart = 0 and tStop = 1 and tStepSize = "1 / 2"] by simp
qed

end
