(* ===== verification/DepthEstimator.thy ===== *)
theory DepthEstimator
  imports NDArray
begin

text \<open>
  \<open>AWDepthEstimator\<close> of \<^verbatim>\<open>cloudmosh/components/depth.py\<close>: for each image batch the
  stage records the original width and height, scales the pixels to [0, 1], brings the
  array to rank 4, drops an alpha channel, resizes to the network's 640 x 480, runs the
  network, maps its output to depths \<open>maxDepth / x\<close> clipped to [minDepth, maxDepth] and
  resizes back. The trained network (\<open>model.predict\<close>) and skimage's \<open>resize\<close> are
  parameters. Floating-point values that can arise here and have no real counterpart are
  explicit: a depth value is \<open>Some r\<close>, or \<open>None\<close> for NaN; the infinities of \<open>maxDepth / 0\<close>
  are resolved by the clip that follows.
\<close>

record depth_params =
  minDepth :: real
  maxDepth :: real
  batchSize :: nat

definition EXPECTED_IMAGE_WIDTH :: nat where "EXPECTED_IMAGE_WIDTH = 640"

definition EXPECTED_IMAGE_HEIGHT :: nat where "EXPECTED_IMAGE_HEIGHT = 480"

text \<open>
  The constructor's parameters with their defaults (\<open>minDepth=10, maxDepth=1000,
  batchSize=2\<close>; the network loaded from \<open>modelPath\<close> is the parameter \<open>predict\<close> of the
  definitions below), and the three setters (lines 90--97).
\<close>

definition AWDepthEstimator_init :: "real \<Rightarrow> real \<Rightarrow> nat \<Rightarrow> depth_params" where
  "AWDepthEstimator_init minD maxD bs = \<lparr>minDepth = minD, maxDepth = maxD, batchSize = bs\<rparr>"

definition default_depth_params :: depth_params where
  "default_depth_params = AWDepthEstimator_init 10 1000 2"

definition setMinDepth :: "depth_params \<Rightarrow> real \<Rightarrow> depth_params" where
  "setMinDepth self v = self\<lparr>minDepth := v\<rparr>"

definition setMaxDepth :: "depth_params \<Rightarrow> real \<Rightarrow> depth_params" where
  "setMaxDepth self v = self\<lparr>maxDepth := v\<rparr>"

definition setBatchSize :: "depth_params \<Rightarrow> nat \<Rightarrow> depth_params" where
  "setBatchSize self v = self\<lparr>batchSize := v\<rparr>"

text \<open>\<open>np.clip(x, lo, hi)\<close> is \<open>minimum(maximum(x, lo), hi)\<close>.\<close>

definition np_clip :: "real \<Rightarrow> real \<Rightarrow> real \<Rightarrow> real" where
  "np_clip lo hi x = min hi (max lo x)"

text \<open>Lines 112--119: a rank-3 array is one image, anything else a batch.\<close>

definition original_dims :: "'a ndarray \<Rightarrow> (nat \<times> nat) res" where
  "original_dims data =
     (if length (shape data) = 3
      then bind_res (shape_at (shape data) 0) (\<lambda>w. bind_res (shape_at (shape data) 1) (\<lambda>h. Inr (w, h)))
      else bind_res (shape_at (shape data) 1) (\<lambda>w. bind_res (shape_at (shape data) 2) (\<lambda>h. Inr (w, h))))"

text \<open>\<open>np.stack((d, d, d), axis=2)\<close>; numpy rejects the axis for arrays of rank below 2.\<close>

definition nd_stack3 :: "'a ndarray \<Rightarrow> 'a ndarray res" where
  "nd_stack3 d =
     (case shape d of
        [w, h] \<Rightarrow> Inr \<lparr>shape = [w, h, 3], elems = concat (map (\<lambda>x. [x, x, x]) (elems d))\<rparr>
      | _ \<Rightarrow> Inl ValueError)"

text \<open>\<open>a[:, :, :, :k]\<close>: the first \<open>k\<close> entries along axis 3.\<close>

definition nd_take_axis3 :: "'a ndarray \<Rightarrow> nat \<Rightarrow> 'a ndarray res" where
  "nd_take_axis3 a k =
     (case shape a of
        s0 # s1 # s2 # s3 # rest \<Rightarrow>
          (let R = prod_list rest; m = min k s3 in
           Inr \<lparr>shape = s0 # s1 # s2 # m # rest,
                elems = concat (map (\<lambda>b. take (m * R) (drop (b * s3 * R) (elems a))) [0..<s0 * s1 * s2])\<rparr>)
      | _ \<Rightarrow> Inl IndexError)"

text \<open>Lines 121--133: scaling, grayscale stacking, batching and alpha removal.\<close>

definition preprocess :: "int ndarray \<Rightarrow> real ndarray res" where
  "preprocess data0 =
     (let data = nd_map (\<lambda>x. np_clip 0 1 (real_of_int x / 255)) data0 in
      bind_res (if length (shape data) < 3 then nd_stack3 data else Inr data) (\<lambda>data.
      bind_res (if length (shape data) < 4
                then bind_res (shape_at (shape data) 0) (\<lambda>a. bind_res (shape_at (shape data) 1) (\<lambda>b.
                     bind_res (shape_at (shape data) 2) (\<lambda>c. nd_reshape data [1, a, b, c])))
                else Inr data) (\<lambda>data.
      if shape data = [] then Inl IndexError
      else if last (shape data) = 4 then nd_take_axis3 data 3 else Inr data)))"

text \<open>\<open>__resize(images, width, height)\<close>: the target shape keeps axes 0 and 3.\<close>

definition resize_to ::
  "(real option ndarray \<Rightarrow> nat list \<Rightarrow> real option ndarray res) \<Rightarrow> real option ndarray \<Rightarrow> nat \<Rightarrow> nat \<Rightarrow> real option ndarray res" where
  "resize_to resize images width height =
     bind_res (shape_at (shape images) 0) (\<lambda>b. bind_res (shape_at (shape images) 3) (\<lambda>c.
       resize images [b, width, height, c]))"

text \<open>
  \<open>np.clip(maxDepth / x, minDepth, maxDepth)\<close> on one network output: \<open>x = 0\<close> gives an
  infinity of the sign of \<open>maxDepth\<close>, which the clip maps to its bound, or NaN when
  \<open>maxDepth = 0\<close>, which the clip keeps.
\<close>

definition depth_norm_clip :: "real \<Rightarrow> real \<Rightarrow> real \<Rightarrow> real option" where
  "depth_norm_clip minD maxD x =
     (if x = 0
      then (if 0 < maxD then Some maxD
            else if maxD < 0 then Some (min maxD minD) else None)
      else Some (np_clip minD maxD (maxD / x)))"

definition depth_step ::
  "depth_params \<Rightarrow> (real option ndarray \<Rightarrow> nat \<Rightarrow> real ndarray res) \<Rightarrow>
   (real option ndarray \<Rightarrow> nat list \<Rightarrow> real option ndarray res) \<Rightarrow> int ndarray \<Rightarrow> real option ndarray res" where
  "depth_step prm predict resize data =
     bind_res (original_dims data) (\<lambda>(originalWidth, originalHeight).
     bind_res (preprocess data) (\<lambda>d.
     bind_res (resize_to resize (nd_map Some d) EXPECTED_IMAGE_WIDTH EXPECTED_IMAGE_HEIGHT) (\<lambda>d'.
     bind_res (predict d' (batchSize prm)) (\<lambda>predictions.
     resize_to resize (nd_map (depth_norm_clip (minDepth prm) (maxDepth prm)) predictions)
       originalWidth originalHeight))))"

text \<open>\<open>AWDepthEstimator.__rrshift__\<close>, drained: one prediction per input array.\<close>

definition AWDepthEstimator ::
  "depth_params \<Rightarrow> (real option ndarray \<Rightarrow> nat \<Rightarrow> real ndarray res) \<Rightarrow>
   (real option ndarray \<Rightarrow> nat list \<Rightarrow> real option ndarray res) \<Rightarrow> int ndarray list \<Rightarrow> real option ndarray list res" where
  "AWDepthEstimator prm predict resize iterable = map_res (depth_step prm predict resize) iterable"

subsection \<open>Lemmas\<close>

lemma np_clip_range: "lo \<le> hi \<Longrightarrow> lo \<le> np_clip lo hi x \<and> np_clip lo hi x \<le> hi"
  by (simp add: np_clip_def)

lemma depth_norm_clip_range:
  "minD \<le> maxD \<Longrightarrow> maxD \<noteq> 0 \<Longrightarrow> \<exists>r. depth_norm_clip minD maxD x = Some r \<and> minD \<le> r \<and> r \<le> maxD"
  by (auto simp: depth_norm_clip_def np_clip_range)

lemma preprocess_rank3:
  assumes "shape data = [w, h, c]"
  shows "preprocess data =
           (let d = \<lparr>shape = [1, w, h, c], elems = map (\<lambda>x. np_clip 0 1 (real_of_int x / 255)) (elems data)\<rparr> in
            if c = 4 then nd_take_axis3 d 3 else Inr d)"
  using assms by (simp add: preprocess_def nd_map_def nd_reshape_def shape_at_def Let_def)

lemma nd_take_axis3_rgba:
  "nd_take_axis3 \<lparr>shape = [s0, w, h, 4], elems = xs\<rparr> 3 =
     Inr \<lparr>shape = [s0, w, h, 3], elems = concat (map (\<lambda>b. take 3 (drop (b * 4) xs)) [0..<s0 * w * h])\<rparr>"
  by (simp add: nd_take_axis3_def)

lemma preprocess_rgb_elems:
  assumes wf: "nd_wf data" and sh: "shape data = [w, h, c]" and c: "c \<in> {3, 4}"
    and i: "i < w" and j: "j < h" and k: "k < 3"
    and d: "preprocess data = Inr d"
  shows "shape d = [1, w, h, 3] \<and>
         elems d ! ((i * h + j) * 3 + k) = np_clip 0 1 (real_of_int (elems data ! ((i * h + j) * c + k)) / 255)"
proof -
  let ?f = "\<lambda>x. np_clip 0 1 (real_of_int x / 255)"
  have len: "length (elems data) = w * h * c" using wf sh by (simp add: nd_wf_def)
  have b: "i * h + j < w * h" using i j by (rule row_major_bound)
  have bk: "(i * h + j) * c + k < w * h * c"
  proof -
    have "(i * h + j) * c + k < (i * h + j) * c + c" using k c by auto
    also have "\<dots> = Suc (i * h + j) * c" by simp
    also have "\<dots> \<le> w * h * c" using b by (intro mult_le_mono1) simp
    finally show ?thesis .
  qed
  show ?thesis
  proof (cases "c = 4")
    case True
    have "elems d = concat (map (\<lambda>b. take 3 (drop (b * 4) (map ?f (elems data)))) [0..<w * h])"
      and "shape d = [1, w, h, 3]"
      using d preprocess_rank3 [OF sh] True by (auto simp: nd_take_axis3_rgba)
    moreover have "concat (map (\<lambda>b. take 3 (drop (b * 4) (map ?f (elems data)))) [0..<w * h]) ! ((i * h + j) * 3 + k)
        = take 3 (drop ((i * h + j) * 4) (map ?f (elems data))) ! k"
      using b k len True by (intro concat_blocks_nth) auto
    ultimately show ?thesis using k bk len True by simp
  next
    case False
    with c have c3: "c = 3" by simp
    have "d = \<lparr>shape = [1, w, h, 3], elems = map ?f (elems data)\<rparr>"
      using d preprocess_rank3 [OF sh] c3 by simp
    then show ?thesis using bk len c3 by simp
  qed
qed

lemma depth_step_within:
  assumes hull: "\<And>a s b lo hi. resize a s = Inr b \<Longrightarrow>
                   (\<forall>v \<in> set (elems a). \<exists>r. v = Some r \<and> lo \<le> r \<and> r \<le> hi) \<Longrightarrow>
                   (\<forall>v \<in> set (elems b). \<exists>r. v = Some r \<and> lo \<le> r \<and> r \<le> hi)"
    and clip: "\<And>x. \<exists>r. depth_norm_clip (minDepth prm) (maxDepth prm) x = Some r \<and> lo \<le> r \<and> r \<le> hi"
    and ok: "depth_step prm predict resize data = Inr out"
  shows "\<forall>v \<in> set (elems out). \<exists>r. v = Some r \<and> lo \<le> r \<and> r \<le> hi"
proof -
  from ok obtain ow oh pred b c where
    r: "resize (nd_map (depth_norm_clip (minDepth prm) (maxDepth prm)) pred) [b, ow, oh, c] = Inr out"
    by (auto simp: depth_step_def resize_to_def split: prod.splits)
  have "\<forall>v \<in> set (elems (nd_map (depth_norm_clip (minDepth prm) (maxDepth prm)) pred)).
          \<exists>r. v = Some r \<and> lo \<le> r \<and> r \<le> hi"
    using clip by (auto simp: nd_map_def)
  with hull [OF r] show ?thesis by blast
qed

lemma AWDepthEstimator_within:
  assumes hull: "\<And>a s b lo hi. resize a s = Inr b \<Longrightarrow>
                   (\<forall>v \<in> set (elems a). \<exists>r. v = Some r \<and> lo \<le> r \<and> r \<le> hi) \<Longrightarrow>
                   (\<forall>v \<in> set (elems b). \<exists>r. v = Some r \<and> lo \<le> r \<and> r \<le> hi)"
    and clip: "\<And>x. \<exists>r. depth_norm_clip (minDepth prm) (maxDepth prm) x = Some r \<and> lo \<le> r \<and> r \<le> hi"
    and ok: "AWDepthEstimator prm predict resize iterable = Inr outs"
  shows "\<forall>out \<in> set outs. \<forall>v \<in> set (elems out). \<exists>r. v = Some r \<and> lo \<le> r \<and> r \<le> hi"
proof
  fix out assume "out \<in> set outs"
  then obtain i where i: "i < length outs" and o: "out = outs ! i" by (auto simp: in_set_conv_nth)
  have "i < length iterable"
    using i map_res_Inr_length [OF ok [unfolded AWDepthEstimator_def]] by simp
  then have "depth_step prm predict resize (iterable ! i) = Inr out"
    using map_res_Inr_nth [OF ok [unfolded AWDepthEstimator_def]] o by simp
  then show "\<forall>v \<in> set (elems out). \<exists>r. v = Some r \<and> lo \<le> r \<and> r \<le> hi"
    using depth_step_within [OF hull clip, where predict = predict and data = "iterable ! i" and out = out] by simp
qed

lemma depth_norm_clip_inverted:
  "0 < maxD \<Longrightarrow> maxD < minD \<Longrightarrow> depth_norm_clip minD maxD x = Some maxD"
  by (simp add: depth_norm_clip_def np_clip_def)

text \<open>
  C27. Grayscale images are not supported, although the code has a branch for them: a
  rank-2 array makes the stage read \<open>data.shape[2]\<close> when it records the original size and
  raise \<open>IndexError\<close>, before the stacking branch is reached.
\<close>

theorem AWDepthEstimator_grayscale:
  assumes "shape data = [w, h]"
  shows "AWDepthEstimator prm predict resize (data # rest) = Inl IndexError"
  using assms by (simp add: AWDepthEstimator_def depth_step_def original_dims_def shape_at_def)

text \<open>
  C28. What the network is given for one RGB or RGBA image of size w x h: a batch of one
  image of shape (1, w, h, 3) whose entries are the first three channels of each pixel
  divided by 255 and clipped to [0, 1]; an alpha channel is dropped.
\<close>

theorem preprocess_rgb:
  assumes "nd_wf data" and "shape data = [w, h, c]" and "c \<in> {3, 4}"
  shows "\<exists>d. preprocess data = Inr d \<and> shape d = [1, w, h, 3] \<and>
           (\<forall>i < w. \<forall>j < h. \<forall>k < 3.
              elems d ! ((i * h + j) * 3 + k) = np_clip 0 1 (real_of_int (elems data ! ((i * h + j) * c + k)) / 255))"
proof -
  obtain d where d: "preprocess data = Inr d" and sh: "shape d = [1, w, h, 3]"
    using assms(2,3) by (auto simp: preprocess_rank3 nd_take_axis3_rgba)
  show ?thesis using preprocess_rgb_elems [OF assms _ _ _ d] d sh by blast
qed

text \<open>
  C29. If the resize keeps values within the range of its input (as skimage's
  interpolation does), every depth the stage emits is a number between \<open>minDepth\<close> and
  \<open>maxDepth\<close>, zero network outputs included; this needs \<open>minDepth <= maxDepth\<close> and
  \<open>maxDepth \<noteq> 0\<close> (with \<open>maxDepth = 0\<close> a zero output gives NaN).
\<close>

theorem AWDepthEstimator_range:
  assumes hull: "\<And>a s b lo hi. resize a s = Inr b \<Longrightarrow>
                   (\<forall>v \<in> set (elems a). \<exists>r. v = Some r \<and> lo \<le> r \<and> r \<le> hi) \<Longrightarrow>
                   (\<forall>v \<in> set (elems b). \<exists>r. v = Some r \<and> lo \<le> r \<and> r \<le> hi)"
    and le: "minDepth prm \<le> maxDepth prm" and nz: "maxDepth prm \<noteq> 0"
    and ok: "AWDepthEstimator prm predict resize iterable = Inr outs"
  shows "\<forall>out \<in> set outs. \<forall>v \<in> set (elems out). \<exists>r. v = Some r \<and> minDepth prm \<le> r \<and> r \<le> maxDepth prm"
  using AWDepthEstimator_within [OF hull depth_norm_clip_range [OF le nz] ok] .

text \<open>
  C30. The setters check nothing: after \<open>setMinDepth\<close> to a value above a positive
  \<open>maxDepth\<close>, \<open>np.clip\<close> with inverted bounds returns the upper one, so every depth the
  stage emits is \<open>maxDepth\<close>, whatever the network predicts.
\<close>

theorem setMinDepth_inverted:
  assumes hull: "\<And>a s b lo hi. resize a s = Inr b \<Longrightarrow>
                   (\<forall>v \<in> set (elems a). \<exists>r. v = Some r \<and> lo \<le> r \<and> r \<le> hi) \<Longrightarrow>
                   (\<forall>v \<in> set (elems b). \<exists>r. v = Some r \<and> lo \<le> r \<and> r \<le> hi)"
    and pos: "0 < maxDepth prm" and above: "maxDepth prm < v"
    and ok: "AWDepthEstimator (setMinDepth prm v) predict resize iterable = Inr outs"
  shows "\<forall>out \<in> set outs. \<forall>d \<in> set (elems out). d = Some (maxDepth prm)"
proof -
  have clip: "\<exists>r. depth_norm_clip (minDepth (setMinDepth prm v)) (maxDepth (setMinDepth prm v)) x = Some r \<and>
            maxDepth prm \<le> r \<and> r \<le> maxDepth prm" for x
    using depth_norm_clip_inverted [OF pos above] by (simp add: setMinDepth_def)
  have all: "\<forall>out \<in> set outs. \<forall>d \<in> set (elems out). \<exists>r. d = Some r \<and> maxDepth prm \<le> r \<and> r \<le> maxDepth prm"
    using AWDepthEstimator_within [OF hull clip ok] .
  show ?thesis
  proof (intro ballI)
    fix out d assume "out \<in> set outs" and "d \<in> set (elems out)"
    with all obtain r where "d = Some r" and "maxDepth prm \<le> r" and "r \<le> maxDepth prm" by blast
    then show "d = Some (maxDepth prm)" by simp
  qed
qed

subsection \<open>Concrete runs\<close>

theorem AWDepthEstimator_grayscale_witness:
  "AWDepthEstimator \<lparr>minDepth = 10, maxDepth = 1000, batchSize = 2\<rparr> (\<lambda>a bs. Inl ValueError) (\<lambda>a s. Inl ValueError)
     [\<lparr>shape = [2, 2], elems = [0, 64, 128, 255]\<rparr>] = Inl IndexError"
  by (rule AWDepthEstimator_grayscale) simp

theorem preprocess_rgb_witness:
  "\<exists>d. preprocess \<lparr>shape = [1, 1, 4], elems = [255, 0, 51, 7]\<rparr> = Inr d \<and> shape d = [1, 1, 1, 3] \<and>
       elems d ! 2 = 1 / 5"
proof -
  obtain d where "preprocess \<lparr>shape = [1, 1, 4], elems = [255, 0, 51, 7]\<rparr> = Inr d" and "shape d = [1, 1, 1, 3]"
    and "elems d ! ((0 * 1 + 0) * 3 + 2) = np_clip 0 1 (real_of_int ([255, 0, 51, 7] ! ((0 * 1 + 0) * 4 + 2)) / 255)"
    using preprocess_rgb [of "\<lparr>shape = [1, 1, 4], elems = [255, 0, 51, 7]\<rparr>" 1 1 4] by (auto simp: nd_wf_def)
  then show ?thesis by (auto simp: np_clip_def numeral_2_eq_2)
qed

theorem AWDepthEstimator_range_witness:
  "\<exists>r. AWDepthEstimator \<lparr>minDepth = 10, maxDepth = 1000, batchSize = 2\<rparr>
          (\<lambda>a bs. Inr \<lparr>shape = [1, 1, 1, 1], elems = [0]\<rparr>) (\<lambda>a s. Inr \<lparr>shape = s, elems = take 1 (elems a)\<rparr>)
          [\<lparr>shape = [1, 1, 3], elems = [10, 20, 30]\<rparr>] = Inr [\<lparr>shape = [1, 1, 1, 1], elems = [Some r]\<rparr>] \<and>
       10 \<le> r \<and> r \<le> 1000"
proof -
  let ?prm = "\<lparr>minDepth = 10, maxDepth = 1000, batchSize = 2\<rparr>"
  let ?resize = "\<lambda>(a :: real option ndarray) s. Inr \<lparr>shape = s, elems = take 1 (elems a)\<rparr> :: real option ndarray res"
  let ?predict = "\<lambda>(a :: real option ndarray) (bs :: nat). Inr \<lparr>shape = [1, 1, 1, 1], elems = [0 :: real]\<rparr> :: real ndarray res"
  have hull: "\<And>a s b lo hi. ?resize a s = Inr b \<Longrightarrow>
      (\<forall>v \<in> set (elems a). \<exists>r. v = Some r \<and> lo \<le> r \<and> r \<le> hi) \<Longrightarrow>
      (\<forall>v \<in> set (elems b). \<exists>r. v = Some r \<and> lo \<le> r \<and> r \<le> hi)"
  proof -
    fix a s b lo hi
    assume r: "?resize a s = Inr b" and a: "\<forall>v \<in> set (elems a). \<exists>r. v = Some r \<and> lo \<le> r \<and> r \<le> hi"
    have "set (elems b) \<subseteq> set (elems a)" using r set_take_subset [of 1 "elems a"] by auto
    with a show "\<forall>v \<in> set (elems b). \<exists>r. v = Some r \<and> lo \<le> r \<and> r \<le> hi" by blast
  qed
  have run: "AWDepthEstimator ?prm ?predict ?resize [\<lparr>shape = [1, 1, 3], elems = [10, 20, 30]\<rparr>] =
      Inr [\<lparr>shape = [1, 1, 1, 1], elems = [Some 1000]\<rparr>]"
    by (simp add: AWDepthEstimator_def depth_step_def original_dims_def shape_at_def preprocess_def
        nd_map_def nd_reshape_def resize_to_def depth_norm_clip_def np_clip_def
        EXPECTED_IMAGE_WIDTH_def EXPECTED_IMAGE_HEIGHT_def)
  have "\<forall>out \<in> set [\<lparr>shape = [1, 1, 1, 1], elems = [Some (1000 :: real)]\<rparr>]. \<forall>v \<in> set (elems out).
     \<exists>r. v = Some r \<and> 10 \<le> r \<and> r \<le> 1000"
    using AWDepthEstimator_range [OF hull _ _ run] by simp
  then show ?thesis using run by auto
qed

theorem setMinDepth_inverted_witness:
  "AWDepthEstimator (setMinDepth default_depth_params 2000)
      (\<lambda>a bs. Inr \<lparr>shape = [1, 1, 1, 1], elems = [4]\<rparr>) (\<lambda>a s. Inr \<lparr>shape = s, elems = take 1 (elems a)\<rparr>)
      [\<lparr>shape = [1, 1, 3], elems = [10, 20, 30]\<rparr>] = Inr [\<lparr>shape = [1, 1, 1, 1], elems = [Some 1000]\<rparr>]"
proof -
  let ?resize = "\<lambda>(a :: real option ndarray) s. Inr \<lparr>shape = s, elems = take 1 (elems a)\<rparr> :: real option ndarray res"
  let ?predict = "\<lambda>(a :: real option ndarray) (bs :: nat). Inr \<lparr>shape = [1, 1, 1, 1], elems = [4 :: real]\<rparr> :: real ndarray res"
  have hull: "\<And>a s b lo hi. ?resize a s = Inr b \<Longrightarrow>
      (\<forall>v \<in> set (elems a). \<exists>r. v = Some r \<and> lo \<le> r \<and> r \<le> hi) \<Longrightarrow>
      (\<forall>v \<in> set (elems b). \<exists>r. v = Some r \<and> lo \<le> r \<and> r \<le> hi)"
  proof -
    fix a s b lo hi
    assume r: "?resize a s = Inr b" and a: "\<forall>v \<in> set (elems a). \<exists>r. v = Some r \<and> lo \<le> r \<and> r \<le> hi"
    have "set (elems b) \<subseteq> set (elems a)" using r set_take_subset [of 1 "elems a"] by auto
    with a show "\<forall>v \<in> set (elems b). \<exists>r. v = Some r \<and> lo \<le> r \<and> r \<le> hi" by blast
  qed
  have run: "AWDepthEstimator (setMinDepth default_depth_params 2000) ?predict ?resize [\<lparr>shape = [1, 1, 3], elems = [10, 20, 30]\<rparr>] =
      Inr [\<lparr>shape = [1, 1, 1, 1], elems = [depth_norm_clip 2000 1000 4]\<rparr>]"
    by (simp add: AWDepthEstimator_def depth_step_def original_dims_def shape_at_def preprocess_def
        nd_map_def nd_reshape_def resize_to_def setMinDepth_def default_depth_params_def AWDepthEstimator_init_def
        EXPECTED_IMAGE_WIDTH_def EXPECTED_IMAGE_HEIGHT_def)
  have "\<forall>out \<in> set [\<lparr>shape = [1, 1, 1, 1], elems = [depth_norm_clip 2000 1000 4]\<rparr>]. \<forall>d \<in> set (elems out).
      d = Some (maxDepth default_depth_params)"
    using setMinDepth_inverted [OF hull _ _ run] by (simp add: default_depth_params_def AWDepthEstimator_init_def)
  with run show ?thesis by (simp add: default_depth_params_def AWDepthEstimator_init_def)
qed

end
