(* ===== verification/UpSampling.thy ===== *)
theory UpSampling
  imports NDArray
begin

text \<open>
  \<open>AWBilinearUpSampling2D\<close> of \<^verbatim>\<open>cloudmosh/components/depth.py\<close> (lines 16--56), the custom
  keras layer of the trained depth network: its constructor, the static shape inference
  \<open>compute_output_shape\<close>, the computation \<open>call\<close> and the serialisation \<open>get_config\<close>
  with keras' \<open>from_config\<close>. The layer keeps its data format as one of keras' two
  strings; here it is the datatype \<open>data_format\<close>, and \<open>data_format_str\<close> gives the
  string. \<open>tf.image.resize_images\<close> with \<open>align_corners=True\<close> is modelled from TensorFlow's
  definition of bilinear resizing on a 4-d \<open>(batch, height, width, channels)\<close> array.
\<close>

datatype data_format = ChannelsFirst | ChannelsLast

definition data_format_str :: "data_format \<Rightarrow> string" where
  "data_format_str f = (case f of ChannelsFirst \<Rightarrow> ''channels_first'' | ChannelsLast \<Rightarrow> ''channels_last'')"

text \<open>
  \<open>K.normalize_data_format\<close>: \<open>None\<close> is keras' configured \<open>image_data_format()\<close>, a string must name one
  of the two formats (keras lower-cases it first; case folding is not modelled).
\<close>

definition normalize_data_format :: "data_format \<Rightarrow> string option \<Rightarrow> data_format res" where
  "normalize_data_format image_data_format value =
     (case value of
        None \<Rightarrow> Inr image_data_format
      | Some s \<Rightarrow> if s = ''channels_first'' then Inr ChannelsFirst
                 else if s = ''channels_last'' then Inr ChannelsLast
                 else Inl ValueError)"

text \<open>The \<open>size\<close> argument: an integer or a tuple; \<open>conv_utils.normalize_tuple(size, 2, 'size')\<close>.\<close>

datatype size_arg = SizeInt nat | SizeTuple "nat list"

definition normalize_tuple :: "size_arg \<Rightarrow> (nat \<times> nat) res" where
  "normalize_tuple v = (case v of SizeInt n \<Rightarrow> Inr (n, n) | SizeTuple [a, b] \<Rightarrow> Inr (a, b) | SizeTuple _ \<Rightarrow> Inl ValueError)"

record upsampling =
  data_format :: data_format
  size_pair :: "nat \<times> nat"

text \<open>\<open>__init__\<close>: the data format is normalised first, then the size.\<close>

definition AWBilinearUpSampling2D :: "data_format \<Rightarrow> size_arg \<Rightarrow> string option \<Rightarrow> upsampling res" where
  "AWBilinearUpSampling2D image_data_format size_v data_format_arg =
     bind_res (normalize_data_format image_data_format data_format_arg) (\<lambda>df.
     bind_res (normalize_tuple size_v) (\<lambda>sz.
     Inr \<lparr>data_format = df, size_pair = sz\<rparr>))"

text \<open>Indexing a shape tuple, \<open>IndexError\<close> past its end.\<close>

definition tuple_at :: "'a list \<Rightarrow> nat \<Rightarrow> 'a res" where
  "tuple_at xs i = (if i < length xs then Inr (xs ! i) else Inl IndexError)"

text \<open>
  \<open>compute_output_shape\<close>: the static shape has unknown (\<open>None\<close>) dimensions; a known
  height and width are scaled, the other two dimensions are kept.
\<close>

definition compute_output_shape :: "upsampling \<Rightarrow> nat option list \<Rightarrow> nat option list res" where
  "compute_output_shape self input_shape =
     (case data_format self of
        ChannelsFirst \<Rightarrow>
          bind_res (tuple_at input_shape 2) (\<lambda>h. bind_res (tuple_at input_shape 3) (\<lambda>w.
          bind_res (tuple_at input_shape 0) (\<lambda>d0. bind_res (tuple_at input_shape 1) (\<lambda>d1.
          Inr [d0, d1, map_option (\<lambda>x. fst (size_pair self) * x) h, map_option (\<lambda>x. snd (size_pair self) * x) w]))))
      | ChannelsLast \<Rightarrow>
          bind_res (tuple_at input_shape 1) (\<lambda>h. bind_res (tuple_at input_shape 2) (\<lambda>w.
          bind_res (tuple_at input_shape 0) (\<lambda>d0. bind_res (tuple_at input_shape 3) (\<lambda>d3.
          Inr [d0, map_option (\<lambda>x. fst (size_pair self) * x) h, map_option (\<lambda>x. snd (size_pair self) * x) w, d3])))))"

text \<open>
  \<open>tf.image.resize_images(images, [new_height, new_width], BILINEAR, align_corners=True)\<close>
  on a 4-d array: output pixel \<open>(i, j)\<close> samples the input at
  \<open>(i * (H - 1) / (new_height - 1), j * (W - 1) / (new_width - 1))\<close> (scale \<open>H / new_height\<close>
  when the new size is 1), interpolating bilinearly between the four surrounding pixels,
  the lower ones clamped to the last row and column.
\<close>

definition resize_scale :: "nat \<Rightarrow> nat \<Rightarrow> real" where
  "resize_scale in_size out_size =
     (if 1 < out_size then (real in_size - 1) / (real out_size - 1) else real in_size / real out_size)"

definition lerp_axis :: "nat \<Rightarrow> nat \<Rightarrow> nat \<Rightarrow> nat \<times> nat \<times> real" where
  "lerp_axis in_size out_size i =
     (let src = real i * resize_scale in_size out_size;
          lo = nat \<lfloor>src\<rfloor>;
          hi = min (nat \<lceil>src\<rceil>) (in_size - 1)
      in (lo, hi, src - real lo))"

definition resize_images :: "real ndarray \<Rightarrow> nat \<Rightarrow> nat \<Rightarrow> real ndarray res" where
  "resize_images images new_height new_width =
     (case shape images of
        [n, h, w, c] \<Rightarrow>
          Inr \<lparr>shape = [n, new_height, new_width, c],
               elems = [(let (top, bottom, y_lerp) = lerp_axis h new_height i;
                             (left, right, x_lerp) = lerp_axis w new_width j;
                             px = (\<lambda>y x. elems images ! (((b * h + y) * w + x) * c + ch));
                             top_v = px top left + (px top right - px top left) * x_lerp;
                             bottom_v = px bottom left + (px bottom right - px bottom left) * x_lerp
                         in top_v + (bottom_v - top_v) * y_lerp).
                        b \<leftarrow> [0..<n], i \<leftarrow> [0..<new_height], j \<leftarrow> [0..<new_width], ch \<leftarrow> [0..<c]]\<rparr>
      | _ \<Rightarrow> Inl ValueError)"

text \<open>
  \<open>call\<close>: \<open>K.shape(inputs)\<close> is the run-time shape, whose entries are tensors and never
  \<open>None\<close>; height and width are read from the positions the data format names, and the
  resize is applied to the array as it is.
\<close>

definition AWBilinearUpSampling2D_call :: "upsampling \<Rightarrow> real ndarray \<Rightarrow> real ndarray res" where
  "AWBilinearUpSampling2D_call self inputs =
     (let input_shape = shape inputs in
      bind_res (case data_format self of
                  ChannelsFirst \<Rightarrow> bind_res (tuple_at input_shape 2) (\<lambda>h. bind_res (tuple_at input_shape 3) (\<lambda>w.
                                     Inr (fst (size_pair self) * h, snd (size_pair self) * w)))
                | ChannelsLast \<Rightarrow> bind_res (tuple_at input_shape 1) (\<lambda>h. bind_res (tuple_at input_shape 2) (\<lambda>w.
                                     Inr (fst (size_pair self) * h, snd (size_pair self) * w))))
        (\<lambda>(height, width). resize_images inputs height width))"

text \<open>
  A static shape describes a run-time shape when it has the same rank and every known
  dimension is the actual one.
\<close>

definition shape_describes :: "nat option list \<Rightarrow> nat list \<Rightarrow> bool" where
  "shape_describes static actual \<longleftrightarrow> list_all2 (\<lambda>d n. d = None \<or> d = Some n) static actual"

text \<open>
  \<open>get_config\<close>: \<open>dict(list(base_config.items()) + list(config.items()))\<close>, where a later
  pair overrides an earlier one with the same key; \<open>from_config\<close> is keras'
  \<open>cls(**config)\<close>, which passes the two keys to \<open>__init__\<close> and the base keys on to
  \<open>Layer\<close>.
\<close>

datatype cfg_val = CTuple "nat list" | CStr string | CBool bool | CNone

definition py_dict :: "('k \<times> 'v) list \<Rightarrow> 'k \<rightharpoonup> 'v" where
  "py_dict items = map_of (rev items)"

definition get_config :: "(string \<times> cfg_val) list \<Rightarrow> upsampling \<Rightarrow> string \<rightharpoonup> cfg_val" where
  "get_config base_config self =
     py_dict (base_config @
       [(''size'', CTuple [fst (size_pair self), snd (size_pair self)]),
        (''data_format'', CStr (data_format_str (data_format self)))])"

definition from_config :: "data_format \<Rightarrow> (string \<rightharpoonup> cfg_val) \<Rightarrow> upsampling res" where
  "from_config image_data_format config =
     bind_res (case config ''size'' of
                 None \<Rightarrow> Inr (SizeTuple [2, 2])
               | Some (CTuple t) \<Rightarrow> Inr (SizeTuple t)
               | Some _ \<Rightarrow> Inl ValueError) (\<lambda>size_v.
     bind_res (case config ''data_format'' of
                 None \<Rightarrow> Inr None
               | Some (CStr s) \<Rightarrow> Inr (Some s)
               | Some CNone \<Rightarrow> Inr None
               | Some _ \<Rightarrow> Inl AttributeError) (\<lambda>df.
     AWBilinearUpSampling2D image_data_format size_v df))"

subsection \<open>Shapes\<close>

lemma length_resize_elems:
  "length [f b i j ch. b \<leftarrow> [0..<n], i \<leftarrow> [0..<h], j \<leftarrow> [0..<w], ch \<leftarrow> [0..<c]] = n * h * w * c"
  by (simp add: length_concat comp_def sum_list_triv)

lemma resize_images_shape:
  "shape x = [n, h, w, c] \<Longrightarrow>
   \<exists>y. resize_images x h' w' = Inr y \<and> shape y = [n, h', w', c] \<and> nd_wf y"
  by (simp add: resize_images_def nd_wf_def length_resize_elems del: upt_Suc)

lemma length4_shape: "length s = 4 \<Longrightarrow> s = [s ! 0, s ! 1, s ! 2, s ! 3]"
  by (auto simp: numeral_eq_Suc length_Suc_conv)

text \<open>
  C31. For the default \<open>channels_last\<close> format, keras' static shape inference is sound
  for the layer: whenever the static input shape describes the run-time input, \<open>call\<close>
  returns a well-formed array and \<open>compute_output_shape\<close> returns a static shape that
  describes it.
\<close>

theorem call_refines_compute_output_shape:
  assumes fmt: "data_format self = ChannelsLast"
    and st: "shape_describes static (shape inputs)"
    and rank: "length (shape inputs) = 4"
  shows "\<exists>y static'. AWBilinearUpSampling2D_call self inputs = Inr y \<and> nd_wf y \<and>
           compute_output_shape self static = Inr static' \<and> shape_describes static' (shape y)"
proof -
  obtain n h w c where sh: "shape inputs = [n, h, w, c]"
    using length4_shape [OF rank] by blast
  obtain a b where sz: "size_pair self = (a, b)" by fastforce
  from st sh obtain d0 d1 d2 d3 where stat: "static = [d0, d1, d2, d3]"
    and ds: "d0 = None \<or> d0 = Some n" "d1 = None \<or> d1 = Some h" "d2 = None \<or> d2 = Some w" "d3 = None \<or> d3 = Some c"
    by (auto simp: shape_describes_def list_all2_Cons2)
  obtain y where y: "resize_images inputs (a * h) (b * w) = Inr y" and ysh: "shape y = [n, a * h, b * w, c]"
    and wf: "nd_wf y"
    using resize_images_shape [OF sh] by blast
  have "AWBilinearUpSampling2D_call self inputs = Inr y"
    using fmt sh sz y by (simp add: AWBilinearUpSampling2D_call_def tuple_at_def)
  moreover have "compute_output_shape self static =
      Inr [d0, map_option (\<lambda>x. a * x) d1, map_option (\<lambda>x. b * x) d2, d3]"
    using fmt stat sz by (simp add: compute_output_shape_def tuple_at_def)
  moreover have "shape_describes [d0, map_option (\<lambda>x. a * x) d1, map_option (\<lambda>x. b * x) d2, d3] (shape y)"
    using ds ysh by (auto simp: shape_describes_def)
  ultimately show ?thesis using wf by blast
qed

theorem call_refines_compute_output_shape_witness:
  "data_format \<lparr>data_format = ChannelsLast, size_pair = (2, 2)\<rparr> = ChannelsLast \<and>
   shape_describes [None, Some 3, Some 4, None] (shape \<lparr>shape = [1, 3, 4, 5], elems = replicate 60 (0::real)\<rparr>) \<and>
   length (shape \<lparr>shape = [1, 3, 4, 5], elems = replicate 60 (0::real)\<rparr>) = 4 \<and>
   (\<exists>y static'. AWBilinearUpSampling2D_call \<lparr>data_format = ChannelsLast, size_pair = (2, 2)\<rparr>
        \<lparr>shape = [1, 3, 4, 5], elems = replicate 60 0\<rparr> = Inr y \<and> nd_wf y \<and>
      compute_output_shape \<lparr>data_format = ChannelsLast, size_pair = (2, 2)\<rparr> [None, Some 3, Some 4, None] = Inr static' \<and>
      shape_describes static' (shape y))"
  using call_refines_compute_output_shape [of "\<lparr>data_format = ChannelsLast, size_pair = (2, 2)\<rparr>"
      "[None, Some 3, Some 4, None]" "\<lparr>shape = [1, 3, 4, 5], elems = replicate 60 (0::real)\<rparr>"]
  by (simp add: shape_describes_def)

text \<open>
  C32. For \<open>channels_first\<close> the two disagree: \<open>call\<close> reads height and width from dimensions
  2 and 3 but \<open>tf.image.resize_images\<close> always resizes dimensions 1 and 2, so a
  \<open>(1, 3, 4, 5)\<close> input gives a \<open>(1, 8, 10, 5)\<close> array where \<open>compute_output_shape\<close>
  promises \<open>(1, 3, 8, 10)\<close>.
\<close>

theorem call_channels_first_mismatch:
  "\<exists>y. AWBilinearUpSampling2D_call \<lparr>data_format = ChannelsFirst, size_pair = (2, 2)\<rparr>
          \<lparr>shape = [1, 3, 4, 5], elems = replicate 60 0\<rparr> = Inr y \<and> shape y = [1, 8, 10, 5] \<and>
       compute_output_shape \<lparr>data_format = ChannelsFirst, size_pair = (2, 2)\<rparr> [Some 1, Some 3, Some 4, Some 5] =
         Inr [Some 1, Some 3, Some 8, Some 10] \<and>
       \<not> shape_describes [Some 1, Some 3, Some 8, Some 10] (shape y)"
proof -
  obtain y where "resize_images \<lparr>shape = [1, 3, 4, 5], elems = replicate 60 (0::real)\<rparr> 8 10 = Inr y"
    and "shape y = [1, 8, 10, 5]"
    using resize_images_shape [of "\<lparr>shape = [1, 3, 4, 5], elems = replicate 60 (0::real)\<rparr>" 1 3 4 5 8 10] by auto
  then show ?thesis
    by (simp add: AWBilinearUpSampling2D_call_def compute_output_shape_def tuple_at_def shape_describes_def)
qed

subsection \<open>Serialisation\<close>

text \<open>
  C33. Saving and loading the layer restores it: \<open>from_config(get_config())\<close> builds a
  layer with the same size and data format, whatever the base configuration holds (its
  own keys cannot shadow the layer's, which come later in the merged dict).
\<close>

theorem from_get_config:
  "from_config image_data_format (get_config base_config self) = Inr self"
proof -
  obtain a b where sz: "size_pair self = (a, b)" by fastforce
  have "normalize_data_format image_data_format (Some (data_format_str (data_format self))) = Inr (data_format self)"
    by (cases "data_format self") (simp_all add: normalize_data_format_def data_format_str_def)
  then show ?thesis
    using sz by (simp add: from_config_def get_config_def py_dict_def AWBilinearUpSampling2D_def normalize_tuple_def)
qed

end
