(* ===== verification/IOTests.thy ===== *)
theory IOTests
  imports Stages
begin

text \<open>
  The I/O test module \<open>src/test/test_io.py\<close> as definitions over the chaining model: each
  pytest function is a function from the world it runs in to its outcome, \<open>None\<close> when it
  never ends. An uncaught exception fails the test, a false \<open>assert\<close> fails it, and
  \<open>pytest.raises(E)\<close> passes when the block raises \<open>E\<close> or a subclass and fails with
  "DID NOT RAISE" when the block completes. The file fixtures under \<open>test/testdata\<close> are
  the contents of the world's stores; the codec the sinks write through is a parameter.
\<close>

datatype outcome = Passed | Failed py_error | AssertFailed | DidNotRaise

type_synonym media_val = "(media, world) pyval"

text \<open>
  \<open>except E\<close> catches \<open>e\<close>: in Python 3 \<open>IOError\<close> is \<open>OSError\<close>, and
  \<open>FileNotFoundError\<close> is a subclass of it; the other modelled exceptions are unrelated
  classes.
\<close>

definition catches :: "py_error \<Rightarrow> py_error \<Rightarrow> bool" where
  "catches E e \<longleftrightarrow> e = E \<or> (E = IOError \<and> e = FileNotFoundError)"

text \<open>\<open>xs[i]\<close> on a Python list.\<close>

definition py_at :: "'a list \<Rightarrow> nat \<Rightarrow> 'a res" where
  "py_at xs i = (if i < length xs then Inr (xs ! i) else Inl IndexError)"

text \<open>\<open>assert b\<close>, then the rest of the test.\<close>

definition expect :: "bool \<Rightarrow> outcome \<Rightarrow> outcome" where
  "expect b k = (if b then k else AssertFailed)"

text \<open>A test statement that evaluates to a value: an exception ends the test as a failure.\<close>

definition on_res :: "'a res \<Rightarrow> ('a \<Rightarrow> outcome) \<Rightarrow> outcome" where
  "on_res r k = (case r of Inl e \<Rightarrow> Failed e | Inr x \<Rightarrow> k x)"

text \<open>
  \<open>result = ... >> nutsflow.Collect()\<close> followed by the rest of the test, which sees the
  list and the world after the chain; \<open>len(result)\<close> of a non-list raises \<open>TypeError\<close>.
\<close>

definition on_list :: "(media_val res \<times> world) option \<Rightarrow> (media list \<Rightarrow> world \<Rightarrow> outcome option) \<Rightarrow> outcome option" where
  "on_list r k =
     (case r of
        None \<Rightarrow> None
      | Some (Inl e, _) \<Rightarrow> Some (Failed e)
      | Some (Inr (PyList xs), w') \<Rightarrow> k xs w'
      | Some (Inr _, _) \<Rightarrow> Some (Failed TypeError))"

text \<open>A chain run as a statement, its value discarded.\<close>

definition on_done :: "(media_val res \<times> world) option \<Rightarrow> (world \<Rightarrow> outcome option) \<Rightarrow> outcome option" where
  "on_done r k = (case r of None \<Rightarrow> None | Some (Inl e, _) \<Rightarrow> Some (Failed e) | Some (Inr _, w') \<Rightarrow> k w')"

text \<open>\<open>with pytest.raises(E):\<close> around a chain, the last statement of the test.\<close>

definition pytest_raises :: "py_error \<Rightarrow> (media_val res \<times> world) option \<Rightarrow> outcome option" where
  "pytest_raises E r =
     (case r of
        None \<Rightarrow> None
      | Some (Inl e, _) \<Rightarrow> Some (if catches E e then Passed else Failed e)
      | Some (Inr _, _) \<Rightarrow> Some DidNotRaise)"

text \<open>\<open>x.shape\<close> of an item, \<open>np.array_equal(a, b)\<close> of two images.\<close>

definition media_shape :: "media \<Rightarrow> nat list res" where
  "media_shape m = bind_res (as_image m) (\<lambda>img. Inr (shape img))"

definition array_equal :: "int ndarray \<Rightarrow> int ndarray \<Rightarrow> bool" where
  "array_equal a b \<longleftrightarrow> shape a = shape b \<and> elems a = elems b"

definition colorbars_png :: string where "colorbars_png = ''test/testdata/colorbars.png''"
definition colorbars_jpg :: string where "colorbars_jpg = ''test/testdata/colorbars.jpg''"
definition shore_gif :: string where "shore_gif = ''test/testdata/shore.gif''"
definition video_mp4 :: string where "video_mp4 = ''test/testdata/video.mp4''"

subsection \<open>The tests\<close>

definition read_one_shape :: "string \<Rightarrow> world \<Rightarrow> outcome option" where
  "read_one_shape p w =
     on_list (run_chain w (PyStage (ReadImage_stage [p])) [Collect]) (\<lambda>result _.
       Some (expect (length result = 1) (on_res (media_shape (result ! 0)) (\<lambda>s. expect (s = [1, 48, 64, 3]) Passed))))"

definition test_ReadImage_PNG :: "world \<Rightarrow> outcome option" where
  "test_ReadImage_PNG = read_one_shape colorbars_png"

definition test_ReadImage_JPG :: "world \<Rightarrow> outcome option" where
  "test_ReadImage_JPG = read_one_shape colorbars_jpg"

definition test_ReadImage_FileNotFoundError :: "world \<Rightarrow> outcome option" where
  "test_ReadImage_FileNotFoundError w =
     pytest_raises FileNotFoundError (run_chain w (PyStage (ReadImage_stage [''garbage''])) [Collect])"

text \<open>
  \<open>[1,2,3] >> ReadImage(...)\<close>: the list's items are not media, but the source ignores
  its left operand, so any list stands for it.
\<close>

definition test_ReadImage_RRShiftUnsupported :: "media list \<Rightarrow> world \<Rightarrow> outcome option" where
  "test_ReadImage_RRShiftUnsupported xs w =
     pytest_raises SyntaxError (run_chain w (PyList xs) [ReadImage_stage [colorbars_jpg]])"

definition test_ReadImage_MultipleFiles :: "world \<Rightarrow> outcome option" where
  "test_ReadImage_MultipleFiles w =
     on_list (run_chain w (PyStage (ReadImage_stage [colorbars_png, colorbars_jpg])) [Collect]) (\<lambda>result _.
       Some (expect (length result = 2) Passed))"

definition test_SaveImage_PNG :: "(string \<Rightarrow> int ndarray \<Rightarrow> int ndarray) \<Rightarrow> string \<Rightarrow> world \<Rightarrow> outcome option" where
  "test_SaveImage_PNG enc fn w =
     on_done (run_chain w (PyStage (ReadImage_stage [colorbars_png])) [SaveImage_stage enc [fn]]) (\<lambda>_. Some Passed)"

definition test_SaveImage_JPG :: "(string \<Rightarrow> int ndarray \<Rightarrow> int ndarray) \<Rightarrow> string \<Rightarrow> world \<Rightarrow> outcome option" where
  "test_SaveImage_JPG enc fn w =
     on_done (run_chain w (PyStage (ReadImage_stage [colorbars_jpg])) [SaveImage_stage enc [fn]]) (\<lambda>_. Some Passed)"

definition test_SaveImage_MultipleFiles_MultiRead ::
  "(string \<Rightarrow> int ndarray \<Rightarrow> int ndarray) \<Rightarrow> string \<Rightarrow> string \<Rightarrow> world \<Rightarrow> outcome option" where
  "test_SaveImage_MultipleFiles_MultiRead enc fnA fnB w =
     on_done (run_chain w (PyStage (ReadImage_stage [colorbars_png, colorbars_jpg])) [SaveImage_stage enc [fnA, fnB]])
       (\<lambda>_. Some Passed)"

definition test_SaveImage_MultipleFiles_MultiRead_Mismatch ::
  "(string \<Rightarrow> int ndarray \<Rightarrow> int ndarray) \<Rightarrow> string \<Rightarrow> world \<Rightarrow> outcome option" where
  "test_SaveImage_MultipleFiles_MultiRead_Mismatch enc fnA w =
     pytest_raises IOError (run_chain w (PyStage (ReadImage_stage [colorbars_png, colorbars_jpg])) [SaveImage_stage enc [fnA]])"

definition test_SaveImage_MultipleFiles_SingleReads ::
  "(string \<Rightarrow> int ndarray \<Rightarrow> int ndarray) \<Rightarrow> string \<Rightarrow> string \<Rightarrow> world \<Rightarrow> outcome option" where
  "test_SaveImage_MultipleFiles_SingleReads enc fnA fnB w =
     on_list (run_chain w (PyStage (ReadImage_stage [colorbars_png])) [Collect]) (\<lambda>resultA w1.
     on_list (run_chain w1 (PyStage (ReadImage_stage [colorbars_jpg])) [Collect]) (\<lambda>resultB w2.
       (case bind_res (py_at resultA 0) (\<lambda>a. bind_res (py_at resultB 0) (\<lambda>b. Inr [a, b])) of
          Inl e \<Rightarrow> Some (Failed e)
        | Inr items \<Rightarrow> on_done (run_chain w2 (PyList items) [SaveImage_stage enc [fnA, fnB]]) (\<lambda>_. Some Passed))))"

text \<open>
  Save the image just read, read the saved file, and compare: equal arrays for PNG, equal
  shapes but different arrays for JPEG.
\<close>

definition save_then_read ::
  "(string \<Rightarrow> int ndarray \<Rightarrow> int ndarray) \<Rightarrow> string \<Rightarrow> string \<Rightarrow> (int ndarray \<Rightarrow> int ndarray \<Rightarrow> bool) \<Rightarrow> world \<Rightarrow> outcome option" where
  "save_then_read enc p fn final w =
     on_list (run_chain w (PyStage (ReadImage_stage [p])) [Collect]) (\<lambda>resultA w1.
     on_done (run_chain w1 (PyList resultA) [SaveImage_stage enc [fn]]) (\<lambda>w2.
     on_list (run_chain w2 (PyStage (ReadImage_stage [fn])) [Collect]) (\<lambda>resultB _.
       Some (on_res (bind_res (py_at resultA 0) as_image) (\<lambda>img_original.
             on_res (bind_res (py_at resultB 0) as_image) (\<lambda>img_reloaded.
               expect (shape img_original = shape img_reloaded)
                 (expect (final img_original img_reloaded) Passed)))))))"

definition test_SaveImage_then_ReadImage_PNG :: "(string \<Rightarrow> int ndarray \<Rightarrow> int ndarray) \<Rightarrow> string \<Rightarrow> world \<Rightarrow> outcome option" where
  "test_SaveImage_then_ReadImage_PNG enc fn = save_then_read enc colorbars_png fn array_equal"

definition test_SaveImage_then_ReadImage_JPG_NotEqual ::
  "(string \<Rightarrow> int ndarray \<Rightarrow> int ndarray) \<Rightarrow> string \<Rightarrow> world \<Rightarrow> outcome option" where
  "test_SaveImage_then_ReadImage_JPG_NotEqual enc fn = save_then_read enc colorbars_jpg fn (\<lambda>a b. \<not> array_equal a b)"

definition read_frames_count :: "string \<Rightarrow> nat \<Rightarrow> world \<Rightarrow> outcome option" where
  "read_frames_count p n w =
     on_list (run_chain w (PyStage (ReadVideoOrGIF_stage [p])) [Collect]) (\<lambda>result _.
       Some (expect (length result = 1) (on_res (as_frames (result ! 0)) (\<lambda>gif.
         expect (length gif = n) (on_res (py_at gif 0) (\<lambda>g0. on_res (py_at gif 1) (\<lambda>g1.
           expect (shape g0 = shape g1) Passed)))))))"

definition test_ReadVideoOrGIF_GIF :: "world \<Rightarrow> outcome option" where
  "test_ReadVideoOrGIF_GIF = read_frames_count shore_gif 21"

definition test_ReadVideoOrGIF_MP4 :: "world \<Rightarrow> outcome option" where
  "test_ReadVideoOrGIF_MP4 = read_frames_count video_mp4 205"

definition test_ReadVideoOrGIF_MultipleFiles :: "world \<Rightarrow> outcome option" where
  "test_ReadVideoOrGIF_MultipleFiles w =
     on_list (run_chain w (PyStage (ReadVideoOrGIF_stage [shore_gif, video_mp4])) [Collect]) (\<lambda>result _.
       Some (expect (length result = 2) Passed))"

definition test_ReadVideoOrGIF_RRShiftUnsupported :: "media list \<Rightarrow> world \<Rightarrow> outcome option" where
  "test_ReadVideoOrGIF_RRShiftUnsupported xs w =
     pytest_raises SyntaxError (run_chain w (PyList xs) [ReadVideoOrGIF_stage [shore_gif]])"

definition test_ReadGIF_then_SaveGIF ::
  "(string \<Rightarrow> int ndarray list \<Rightarrow> int ndarray list) \<Rightarrow> string \<Rightarrow> world \<Rightarrow> outcome option" where
  "test_ReadGIF_then_SaveGIF enc fn w =
     on_done (run_chain w (PyStage (ReadVideoOrGIF_stage [shore_gif])) [SaveGIF_stage enc [fn]]) (\<lambda>_. Some Passed)"

definition test_SaveGIF_MultipleFiles_MultiRead ::
  "(string \<Rightarrow> int ndarray list \<Rightarrow> int ndarray list) \<Rightarrow> string \<Rightarrow> string \<Rightarrow> world \<Rightarrow> outcome option" where
  "test_SaveGIF_MultipleFiles_MultiRead enc fnA fnB w =
     on_done (run_chain w (PyStage (ReadVideoOrGIF_stage [shore_gif, shore_gif])) [SaveGIF_stage enc [fnA, fnB]])
       (\<lambda>_. Some Passed)"

subsection \<open>The fixtures\<close>

text \<open>
  The test data as the tests need it: two 48 x 64 RGB images, a GIF of 21 and a video of
  205 frames whose frames share one shape of rank 2 or 3, and no file named
  \<open>garbage\<close>.
\<close>

definition frames_ok :: "int ndarray list \<Rightarrow> nat \<Rightarrow> bool" where
  "frames_ok fr n \<longleftrightarrow> length fr = n \<and> (\<forall>f \<in> set fr. shape f = shape (hd fr)) \<and> length (shape (hd fr)) \<in> {2, 3}"

definition fixtures :: "world \<Rightarrow> bool" where
  "fixtures w \<longleftrightarrow>
     (case img_store w colorbars_png of None \<Rightarrow> False | Some img \<Rightarrow> shape img = [48, 64, 3]) \<and>
     (case img_store w colorbars_jpg of None \<Rightarrow> False | Some img \<Rightarrow> shape img = [48, 64, 3]) \<and>
     img_store w ''garbage'' = None \<and>
     (case video_store w shore_gif of None \<Rightarrow> False | Some fr \<Rightarrow> frames_ok fr 21) \<and>
     (case video_store w video_mp4 of None \<Rightarrow> False | Some fr \<Rightarrow> frames_ok fr 205)"

subsection \<open>The module\<close>

text \<open>
  The tests of the module in file order, each run in the world \<open>w\<close> holding the fixtures
  (pytest runs each in its own temporary directory, so no test sees another's files):
  \<open>tmp t f\<close> is the path of file \<open>f\<close> in the temporary directory of test \<open>t\<close>. The two
  \<open>RepeatLoad\<close> tests compare object identities, which a value model does not have,
  and are left out.
\<close>

definition test_io ::
  "(string \<Rightarrow> int ndarray \<Rightarrow> int ndarray) \<Rightarrow> (string \<Rightarrow> int ndarray list \<Rightarrow> int ndarray list) \<Rightarrow>
   (string \<Rightarrow> string \<Rightarrow> string) \<Rightarrow> media list \<Rightarrow> world \<Rightarrow> (string \<times> outcome option) list" where
  "test_io enc gif_enc tmp xs w =
     [(''test_ReadImage_PNG'', test_ReadImage_PNG w),
      (''test_ReadImage_JPG'', test_ReadImage_JPG w),
      (''test_ReadImage_FileNotFoundError'', test_ReadImage_FileNotFoundError w),
      (''test_ReadImage_RRShiftUnsupported'', test_ReadImage_RRShiftUnsupported xs w),
      (''test_ReadImage_MultipleFiles'', test_ReadImage_MultipleFiles w),
      (''test_SaveImage_PNG'', test_SaveImage_PNG enc (tmp ''test_SaveImage_PNG'' ''tmp.png'') w),
      (''test_SaveImage_JPG'', test_SaveImage_JPG enc (tmp ''test_SaveImage_JPG'' ''tmp.jpg'') w),
      (''test_SaveImage_MultipleFiles_MultiRead'', test_SaveImage_MultipleFiles_MultiRead enc
         (tmp ''test_SaveImage_MultipleFiles_MultiRead'' ''tmpA.png'') (tmp ''test_SaveImage_MultipleFiles_MultiRead'' ''tmpB.png'') w),
      (''test_SaveImage_MultipleFiles_MultiRead_Mismatch'', test_SaveImage_MultipleFiles_MultiRead_Mismatch enc
         (tmp ''test_SaveImage_MultipleFiles_MultiRead_Mismatch'' ''tmpA.png'') w),
      (''test_SaveImage_MultipleFiles_SingleReads'', test_SaveImage_MultipleFiles_SingleReads enc
         (tmp ''test_SaveImage_MultipleFiles_SingleReads'' ''tmpA.png'') (tmp ''test_SaveImage_MultipleFiles_SingleReads'' ''tmpB.png'') w),
      (''test_SaveImage_then_ReadImage_PNG'', test_SaveImage_then_ReadImage_PNG enc
         (tmp ''test_SaveImage_then_ReadImage_PNG'' ''tmp.png'') w),
      (''test_SaveImage_then_ReadImage_JPG_NotEqual'', test_SaveImage_then_ReadImage_JPG_NotEqual enc
         (tmp ''test_SaveImage_then_ReadImage_JPG_NotEqual'' ''tmp.jpg'') w),
      (''test_ReadVideoOrGIF_GIF'', test_ReadVideoOrGIF_GIF w),
      (''test_ReadVideoOrGIF_MP4'', test_ReadVideoOrGIF_MP4 w),
      (''test_ReadVideoOrGIF_MultipleFiles'', test_ReadVideoOrGIF_MultipleFiles w),
      (''test_ReadVideoOrGIF_RRShiftUnsupported'', test_ReadVideoOrGIF_RRShiftUnsupported xs w),
      (''test_ReadGIF_then_SaveGIF'', test_ReadGIF_then_SaveGIF gif_enc (tmp ''test_ReadGIF_then_SaveGIF'' ''tmp.gif'') w),
      (''test_SaveGIF_MultipleFiles_MultiRead'', test_SaveGIF_MultipleFiles_MultiRead gif_enc
         (tmp ''test_SaveGIF_MultipleFiles_MultiRead'' ''tmpA.gif'') (tmp ''test_SaveGIF_MultipleFiles_MultiRead'' ''tmpB.gif'') w)]"

subsection \<open>Chains the tests run\<close>

lemmas test_combinators = on_list_def on_done_def pytest_raises_def on_res_def expect_def py_at_def
  catches_def media_shape_def as_image_def as_frames_def array_equal_def

lemma run_chain_single: "run_chain w x [st] = rshift w x st"
  by (cases "rshift w x st") (auto split: sum.splits)

lemma image_source_trace:
  "gen_trace (iter_val w (PyStage (ReadImage_stage ps))) =
     Some (map MImage (fst (trace_bind (ps, None) (\<lambda>p. yield_one (read_image (img_store w) p)))),
           snd (trace_bind (ps, None) (\<lambda>p. yield_one (read_image (img_store w) p))))"
proof -
  have "gen_trace (unfold_gen (ReadImage_next (img_store w)) (reader_iter \<lparr>paths = ps, index = 0\<rparr>)) =
      Some (trace_bind (ps, None) (\<lambda>p. yield_one (read_image (img_store w) p)))"
    using gen_trace_reader [of "read_image (img_store w)" "reader_iter \<lparr>paths = ps, index = 0\<rparr>"]
    by (simp add: ReadImage_next_def reader_iter_def)
  from gen_trace_map_gen [OF this, of MImage] show ?thesis by (simp add: ReadImage_stage_def)
qed

lemma video_source_trace:
  "gen_trace (iter_val w (PyStage (ReadVideoOrGIF_stage ps))) =
     Some (map MFrames (fst (trace_bind (ps, None) (\<lambda>p. yield_one (read_video (video_store w) p)))),
           snd (trace_bind (ps, None) (\<lambda>p. yield_one (read_video (video_store w) p))))"
proof -
  have "gen_trace (unfold_gen (ReadVideoOrGIF_next (video_store w)) (reader_iter \<lparr>paths = ps, index = 0\<rparr>)) =
      Some (trace_bind (ps, None) (\<lambda>p. yield_one (read_video (video_store w) p)))"
    using gen_trace_reader [of "read_video (video_store w)" "reader_iter \<lparr>paths = ps, index = 0\<rparr>"]
    by (simp add: ReadVideoOrGIF_next_def reader_iter_def)
  from gen_trace_map_gen [OF this, of MFrames] show ?thesis by (simp add: ReadVideoOrGIF_stage_def)
qed

lemma collect_chain:
  "run_chain w x [Collect] =
     map_option (\<lambda>t. (case snd t of None \<Rightarrow> Inr (PyList (fst t)) | Some e \<Rightarrow> Inl e, w)) (gen_trace (iter_val w x))"
  by (cases "gen_trace (iter_val w x)") (auto simp: run_chain_single collect_gen_def trace_res_def split: option.splits)

lemma save_chain:
  "run_chain w x [SaveImage_stage enc ps] =
     map_option (\<lambda>t. case trace_res t of
         Inl e \<Rightarrow> (Inl e, w)
       | Inr images \<Rightarrow> (case sink_rrshift (\<lambda>m. bind_res (as_image m) unbatch) enc ps images (img_store w) of
                        (u, fs') \<Rightarrow> (bind_res u (\<lambda>_. Inr PyNone), w\<lparr>img_store := fs'\<rparr>))) (gen_trace (iter_val w x))"
  by (cases "gen_trace (iter_val w x)")
     (auto simp: run_chain_single SaveImage_stage_def collect_gen_def split: sum.splits prod.splits)

lemma save_gif_chain:
  "run_chain w x [SaveGIF_stage enc ps] =
     map_option (\<lambda>t. case trace_res t of
         Inl e \<Rightarrow> (Inl e, w)
       | Inr sequences \<Rightarrow> (case sink_rrshift (\<lambda>m. bind_res (as_frames m) (map_res unbatch)) enc ps sequences (video_store w) of
                           (u, fs') \<Rightarrow> (bind_res u (\<lambda>_. Inr PyNone), w\<lparr>video_store := fs'\<rparr>))) (gen_trace (iter_val w x))"
  by (cases "gen_trace (iter_val w x)")
     (auto simp: run_chain_single SaveGIF_stage_def collect_gen_def split: sum.splits prod.splits)

lemma fixture_image:
  assumes "fixtures w" and "p \<in> {colorbars_png, colorbars_jpg}"
  obtains img where "img_store w p = Some img" and "shape img = [48, 64, 3]"
    and "read_image (img_store w) p = Inr (img\<lparr>shape := [1, 48, 64, 3]\<rparr>)"
  using assms by (auto simp: fixtures_def read_image_def imread_def batch_image_rank3 split: option.splits)

lemma fixture_video:
  assumes "fixtures w" and "(p, n) \<in> {(shore_gif, 21), (video_mp4, 205)}"
  obtains fr where "video_store w p = Some fr" and "frames_ok fr n"
    and "read_video (video_store w) p = Inr (map (\<lambda>f. f\<lparr>shape := batch_shape (shape f)\<rparr>) fr)"
proof -
  obtain fr where fr: "video_store w p = Some fr" and ok: "frames_ok fr n"
    using assms by (auto simp: fixtures_def split: option.splits)
  have "map_res batch_image fr = Inr (map (\<lambda>f. f\<lparr>shape := batch_shape (shape f)\<rparr>) fr)"
    using map_res_map_Inr [of fr batch_image "\<lambda>f. f" "\<lambda>f. f\<lparr>shape := batch_shape (shape f)\<rparr>"] ok
    by (simp add: frames_ok_def batch_image_ok)
  with fr ok show ?thesis using that by (simp add: read_video_def imread_def)
qed

subsection \<open>Each test on the fixtures\<close>

lemma read_one_shape_passes:
  assumes "fixtures w" and "p \<in> {colorbars_png, colorbars_jpg}"
  shows "read_one_shape p w = Some Passed"
proof -
  obtain img where "read_image (img_store w) p = Inr (img\<lparr>shape := [1, 48, 64, 3]\<rparr>)"
    using assms by (rule fixture_image)
  then show ?thesis unfolding read_one_shape_def collect_chain by (simp add: image_source_trace test_combinators)
qed

lemma garbage_raises:
  "fixtures w \<Longrightarrow> run_chain w (PyStage (ReadImage_stage [''garbage''])) [Collect] = Some (Inl FileNotFoundError, w)"
  unfolding collect_chain by (simp add: image_source_trace fixtures_def read_image_def imread_def)

lemma source_downstream_raises: "run_chain w (PyList xs) [Source r] = Some (Inl SyntaxError, w)"
  by (simp add: run_chain_single)

lemma read_two:
  assumes "fixtures w"
  obtains a b where "img_store w colorbars_png = Some a" and "shape a = [48, 64, 3]"
    and "img_store w colorbars_jpg = Some b" and "shape b = [48, 64, 3]"
    and "gen_trace (iter_val w (PyStage (ReadImage_stage [colorbars_png, colorbars_jpg]))) =
           Some ([MImage (a\<lparr>shape := [1, 48, 64, 3]\<rparr>), MImage (b\<lparr>shape := [1, 48, 64, 3]\<rparr>)], None)"
proof -
  obtain a where a: "img_store w colorbars_png = Some a" "shape a = [48, 64, 3]"
    "read_image (img_store w) colorbars_png = Inr (a\<lparr>shape := [1, 48, 64, 3]\<rparr>)"
    by (rule fixture_image [OF assms insertI1])
  obtain b where b: "img_store w colorbars_jpg = Some b" "shape b = [48, 64, 3]"
    "read_image (img_store w) colorbars_jpg = Inr (b\<lparr>shape := [1, 48, 64, 3]\<rparr>)"
    by (rule fixture_image [OF assms insertI2 [OF insertI1]])
  show ?thesis using a b that by (simp add: image_source_trace)
qed

lemma unbatch_fixture: "shape img = [48, 64, 3] \<Longrightarrow> unbatch (img\<lparr>shape := [Suc 0, 48, 64, 3]\<rparr>) = Inr img"
  by (cases img) (simp add: unbatch_def nd_reshape_def)

lemma save_one:
  assumes "fixtures w" and "p \<in> {colorbars_png, colorbars_jpg}"
  obtains img where "img_store w p = Some img" and "shape img = [48, 64, 3]"
    and "run_chain w (PyStage (ReadImage_stage [p])) [SaveImage_stage enc [fn]] =
           Some (Inr PyNone, w\<lparr>img_store := (img_store w)(fn \<mapsto> enc fn img)\<rparr>)"
proof -
  obtain img where i: "img_store w p = Some img" "shape img = [48, 64, 3]"
    "read_image (img_store w) p = Inr (img\<lparr>shape := [1, 48, 64, 3]\<rparr>)"
    using assms by (rule fixture_image)
  then have "run_chain w (PyStage (ReadImage_stage [p])) [SaveImage_stage enc [fn]] =
      Some (Inr PyNone, w\<lparr>img_store := (img_store w)(fn \<mapsto> enc fn img)\<rparr>)"
    unfolding save_chain by (simp add: image_source_trace sink_rrshift_def as_image_def unbatch_fixture)
  with i show ?thesis using that by blast
qed

lemma save_two:
  assumes "fixtures w"
  shows "\<exists>w'. run_chain w (PyStage (ReadImage_stage [colorbars_png, colorbars_jpg])) [SaveImage_stage enc [fnA, fnB]] =
           Some (Inr PyNone, w')"
    and "run_chain w (PyStage (ReadImage_stage [colorbars_png, colorbars_jpg])) [SaveImage_stage enc [fnA]] =
           Some (Inl IOError, w)"
proof -
  obtain a b where "shape a = [48, 64, 3]" and "shape b = [48, 64, 3]"
    and t: "gen_trace (iter_val w (PyStage (ReadImage_stage [colorbars_png, colorbars_jpg]))) =
           Some ([MImage (a\<lparr>shape := [1, 48, 64, 3]\<rparr>), MImage (b\<lparr>shape := [1, 48, 64, 3]\<rparr>)], None)"
    using assms by (rule read_two)
  then show "\<exists>w'. run_chain w (PyStage (ReadImage_stage [colorbars_png, colorbars_jpg])) [SaveImage_stage enc [fnA, fnB]] =
           Some (Inr PyNone, w')"
    unfolding save_chain by (simp add: sink_rrshift_def as_image_def unbatch_fixture)
  show "run_chain w (PyStage (ReadImage_stage [colorbars_png, colorbars_jpg])) [SaveImage_stage enc [fnA]] =
           Some (Inl IOError, w)"
    unfolding save_chain using t by (simp add: sink_rrshift_def)
qed

lemma save_then_read_outcome:
  assumes "img_store w p = Some img" and "shape img = [48, 64, 3]" and "shape (enc fn img) = [48, 64, 3]"
  shows "save_then_read enc p fn final w =
           Some (expect (final (img\<lparr>shape := [1, 48, 64, 3]\<rparr>) ((enc fn img)\<lparr>shape := [1, 48, 64, 3]\<rparr>)) Passed)"
proof -
  have r: "read_image (img_store w) p = Inr (img\<lparr>shape := [1, 48, 64, 3]\<rparr>)"
    using assms by (simp add: read_image_def imread_def batch_image_rank3)
  have r': "read_image ((img_store w)(fn \<mapsto> enc fn img)) fn = Inr ((enc fn img)\<lparr>shape := [1, 48, 64, 3]\<rparr>)"
    using assms by (simp add: read_image_def imread_def batch_image_rank3)
  have "run_chain w (PyStage (ReadImage_stage [p])) [Collect] = Some (Inr (PyList [MImage (img\<lparr>shape := [1, 48, 64, 3]\<rparr>)]), w)"
    unfolding collect_chain using r by (simp add: image_source_trace)
  moreover have "run_chain w (PyList [MImage (img\<lparr>shape := [1, 48, 64, 3]\<rparr>)]) [SaveImage_stage enc [fn]] =
      Some (Inr PyNone, w\<lparr>img_store := (img_store w)(fn \<mapsto> enc fn img)\<rparr>)"
    unfolding save_chain using assms by (simp add: sink_rrshift_def as_image_def unbatch_fixture)
  moreover have "run_chain (w\<lparr>img_store := (img_store w)(fn \<mapsto> enc fn img)\<rparr>) (PyStage (ReadImage_stage [fn])) [Collect] =
      Some (Inr (PyList [MImage ((enc fn img)\<lparr>shape := [1, 48, 64, 3]\<rparr>)]), w\<lparr>img_store := (img_store w)(fn \<mapsto> enc fn img)\<rparr>)"
    unfolding collect_chain using r' by (simp add: image_source_trace)
  ultimately show ?thesis by (simp add: save_then_read_def test_combinators)
qed

lemma single_reads:
  assumes "fixtures w"
  shows "test_SaveImage_MultipleFiles_SingleReads enc fnA fnB w = Some Passed"
proof -
  obtain a where a: "img_store w colorbars_png = Some a" "shape a = [48, 64, 3]"
    "read_image (img_store w) colorbars_png = Inr (a\<lparr>shape := [1, 48, 64, 3]\<rparr>)"
    by (rule fixture_image [OF assms insertI1])
  obtain b where b: "img_store w colorbars_jpg = Some b" "shape b = [48, 64, 3]"
    "read_image (img_store w) colorbars_jpg = Inr (b\<lparr>shape := [1, 48, 64, 3]\<rparr>)"
    by (rule fixture_image [OF assms insertI2 [OF insertI1]])
  have "run_chain w (PyStage (ReadImage_stage [colorbars_png])) [Collect] = Some (Inr (PyList [MImage (a\<lparr>shape := [1, 48, 64, 3]\<rparr>)]), w)"
    unfolding collect_chain using a by (simp add: image_source_trace)
  moreover have "run_chain w (PyStage (ReadImage_stage [colorbars_jpg])) [Collect] = Some (Inr (PyList [MImage (b\<lparr>shape := [1, 48, 64, 3]\<rparr>)]), w)"
    unfolding collect_chain using b by (simp add: image_source_trace)
  moreover have "\<exists>w'. run_chain w (PyList [MImage (a\<lparr>shape := [1, 48, 64, 3]\<rparr>), MImage (b\<lparr>shape := [1, 48, 64, 3]\<rparr>)])
      [SaveImage_stage enc [fnA, fnB]] = Some (Inr PyNone, w')"
    unfolding save_chain using a b by (simp add: sink_rrshift_def as_image_def unbatch_fixture)
  ultimately show ?thesis by (auto simp: test_SaveImage_MultipleFiles_SingleReads_def test_combinators)
qed

lemma batched_frames:
  assumes "frames_ok fr n"
  shows "map_res unbatch (map (\<lambda>f. f\<lparr>shape := batch_shape (shape f)\<rparr>) fr) =
           Inr (map (\<lambda>f. f\<lparr>shape := if length (shape f) = 3 then shape f else shape f @ [1]\<rparr>) fr)"
proof (rule map_res_map_Inr)
  fix f assume "f \<in> set fr"
  then have "length (shape f) \<in> {2, 3}" using assms by (auto simp: frames_ok_def)
  then show "unbatch (f\<lparr>shape := batch_shape (shape f)\<rparr>) =
      Inr (f\<lparr>shape := if length (shape f) = 3 then shape f else shape f @ [1]\<rparr>)"
    by (rule unbatch_batched)
qed

lemma frames_shapes:
  assumes "frames_ok fr n" and "i < n" and "j < n"
  shows "shape (fr ! i) = shape (fr ! j)"
proof -
  have "fr ! i \<in> set fr" and "fr ! j \<in> set fr" using assms by (simp_all add: frames_ok_def)
  then show ?thesis using assms(1) by (simp add: frames_ok_def)
qed

lemma read_frames_count_passes:
  assumes "fixtures w" and "(p, n) \<in> {(shore_gif, 21), (video_mp4, 205)}"
  shows "read_frames_count p n w = Some Passed"
proof -
  obtain fr where ok: "frames_ok fr n"
    and r: "read_video (video_store w) p = Inr (map (\<lambda>f. f\<lparr>shape := batch_shape (shape f)\<rparr>) fr)"
    using assms by (rule fixture_video)
  have n: "1 < n" using assms(2) by auto
  have "shape (fr ! 0) = shape (fr ! 1)" using frames_shapes [OF ok, of 0 1] n by simp
  moreover have "length fr = n" using ok by (simp add: frames_ok_def)
  moreover have "fr \<noteq> []" using ok n by (auto simp: frames_ok_def)
  ultimately show ?thesis using n r
    unfolding read_frames_count_def collect_chain by (simp add: video_source_trace test_combinators)
qed

lemma fixture_gif_read:
  assumes "fixtures w"
  obtains fr where "frames_ok fr 21"
    and "gen_trace (iter_val w (PyStage (ReadVideoOrGIF_stage [shore_gif]))) =
           Some ([MFrames (map (\<lambda>f. f\<lparr>shape := batch_shape (shape f)\<rparr>) fr)], None)"
proof -
  obtain fr where ok: "frames_ok fr 21"
    and r: "read_video (video_store w) shore_gif = Inr (map (\<lambda>f. f\<lparr>shape := batch_shape (shape f)\<rparr>) fr)"
    by (rule fixture_video [OF assms insertI1])
  then show ?thesis using that by (simp add: video_source_trace)
qed

lemma gif_save_passes:
  assumes "fixtures w"
  shows "test_ReadGIF_then_SaveGIF enc fn w = Some Passed"
    and "test_SaveGIF_MultipleFiles_MultiRead enc fnA fnB w = Some Passed"
proof -
  obtain fr where ok: "frames_ok fr 21"
    and r: "read_video (video_store w) shore_gif = Inr (map (\<lambda>f. f\<lparr>shape := batch_shape (shape f)\<rparr>) fr)"
    by (rule fixture_video [OF assms insertI1])
  show "test_ReadGIF_then_SaveGIF enc fn w = Some Passed"
    unfolding test_ReadGIF_then_SaveGIF_def save_gif_chain
    using r batched_frames [OF ok] by (simp add: video_source_trace sink_rrshift_def as_frames_def on_done_def)
  show "test_SaveGIF_MultipleFiles_MultiRead enc fnA fnB w = Some Passed"
    unfolding test_SaveGIF_MultipleFiles_MultiRead_def save_gif_chain
    using r batched_frames [OF ok] by (simp add: video_source_trace sink_rrshift_def as_frames_def on_done_def)
qed

lemma roundtrip_tests:
  assumes "fixtures w"
  shows "(\<forall>x. enc fn x = x) \<Longrightarrow> test_SaveImage_then_ReadImage_PNG enc fn w = Some Passed"
    and "(\<forall>x. shape (enc fn x) = shape x) \<Longrightarrow>
         test_SaveImage_then_ReadImage_JPG_NotEqual enc fn w = Some Passed \<longleftrightarrow>
         elems (enc fn (the (img_store w colorbars_jpg))) \<noteq> elems (the (img_store w colorbars_jpg))"
proof -
  obtain a where a: "img_store w colorbars_png = Some a" "shape a = [48, 64, 3]"
    "read_image (img_store w) colorbars_png = Inr (a\<lparr>shape := [1, 48, 64, 3]\<rparr>)"
    by (rule fixture_image [OF assms insertI1])
  obtain b where b: "img_store w colorbars_jpg = Some b" "shape b = [48, 64, 3]"
    "read_image (img_store w) colorbars_jpg = Inr (b\<lparr>shape := [1, 48, 64, 3]\<rparr>)"
    by (rule fixture_image [OF assms insertI2 [OF insertI1]])
  show "test_SaveImage_then_ReadImage_PNG enc fn w = Some Passed" if "\<forall>x. enc fn x = x"
    using save_then_read_outcome [OF a(1,2), of enc fn array_equal] a that
    by (simp add: test_SaveImage_then_ReadImage_PNG_def expect_def array_equal_def)
  show "test_SaveImage_then_ReadImage_JPG_NotEqual enc fn w = Some Passed \<longleftrightarrow>
        elems (enc fn (the (img_store w colorbars_jpg))) \<noteq> elems (the (img_store w colorbars_jpg))"
    if "\<forall>x. shape (enc fn x) = shape x"
    using save_then_read_outcome [OF b(1,2), of enc fn "\<lambda>a b. \<not> array_equal a b"] b that
    by (simp add: test_SaveImage_then_ReadImage_JPG_NotEqual_def expect_def array_equal_def)
qed

lemma io_tests_pass:
  assumes fx: "fixtures w"
  shows "test_ReadImage_PNG w = Some Passed" and "test_ReadImage_JPG w = Some Passed"
    and "test_ReadImage_FileNotFoundError w = Some Passed"
    and "test_ReadImage_RRShiftUnsupported xs w = Some Passed"
    and "test_ReadImage_MultipleFiles w = Some Passed"
    and "test_SaveImage_PNG enc fn w = Some Passed" and "test_SaveImage_JPG enc fn w = Some Passed"
    and "test_SaveImage_MultipleFiles_MultiRead enc fnA fnB w = Some Passed"
    and "test_SaveImage_MultipleFiles_MultiRead_Mismatch enc fnA w = Some Passed"
    and "test_ReadVideoOrGIF_GIF w = Some Passed" and "test_ReadVideoOrGIF_MP4 w = Some Passed"
    and "test_ReadVideoOrGIF_MultipleFiles w = Some Passed"
    and "test_ReadVideoOrGIF_RRShiftUnsupported xs w = Some Passed"
proof -
  show "test_ReadImage_PNG w = Some Passed" "test_ReadImage_JPG w = Some Passed"
    using read_one_shape_passes [OF fx] by (simp_all add: test_ReadImage_PNG_def test_ReadImage_JPG_def)
  show "test_ReadImage_FileNotFoundError w = Some Passed"
    using garbage_raises [OF fx] by (simp add: test_ReadImage_FileNotFoundError_def test_combinators)
  show "test_ReadImage_RRShiftUnsupported xs w = Some Passed" "test_ReadVideoOrGIF_RRShiftUnsupported xs w = Some Passed"
    by (simp_all add: test_ReadImage_RRShiftUnsupported_def test_ReadVideoOrGIF_RRShiftUnsupported_def
        ReadImage_stage_def ReadVideoOrGIF_stage_def source_downstream_raises test_combinators)
  obtain a b where "shape a = [48, 64, 3]" and "shape b = [48, 64, 3]"
    and "gen_trace (iter_val w (PyStage (ReadImage_stage [colorbars_png, colorbars_jpg]))) =
           Some ([MImage (a\<lparr>shape := [1, 48, 64, 3]\<rparr>), MImage (b\<lparr>shape := [1, 48, 64, 3]\<rparr>)], None)"
    using fx by (rule read_two)
  then show "test_ReadImage_MultipleFiles w = Some Passed"
    unfolding test_ReadImage_MultipleFiles_def collect_chain by (simp add: test_combinators)
  obtain i where "run_chain w (PyStage (ReadImage_stage [colorbars_png])) [SaveImage_stage enc [fn]] =
      Some (Inr PyNone, w\<lparr>img_store := (img_store w)(fn \<mapsto> enc fn i)\<rparr>)"
    using save_one [OF fx insertI1] by blast
  then show "test_SaveImage_PNG enc fn w = Some Passed" by (simp add: test_SaveImage_PNG_def on_done_def)
  obtain j where "run_chain w (PyStage (ReadImage_stage [colorbars_jpg])) [SaveImage_stage enc [fn]] =
      Some (Inr PyNone, w\<lparr>img_store := (img_store w)(fn \<mapsto> enc fn j)\<rparr>)"
    using save_one [OF fx insertI2 [OF insertI1]] by blast
  then show "test_SaveImage_JPG enc fn w = Some Passed" by (simp add: test_SaveImage_JPG_def on_done_def)
  show "test_SaveImage_MultipleFiles_MultiRead enc fnA fnB w = Some Passed"
    using save_two(1) [OF fx, of enc fnA fnB] by (auto simp: test_SaveImage_MultipleFiles_MultiRead_def on_done_def)
  show "test_SaveImage_MultipleFiles_MultiRead_Mismatch enc fnA w = Some Passed"
    using save_two(2) [OF fx, of enc fnA] by (simp add: test_SaveImage_MultipleFiles_MultiRead_Mismatch_def test_combinators)
  show "test_ReadVideoOrGIF_GIF w = Some Passed" "test_ReadVideoOrGIF_MP4 w = Some Passed"
    using read_frames_count_passes [OF fx] by (simp_all add: test_ReadVideoOrGIF_GIF_def test_ReadVideoOrGIF_MP4_def)
  obtain g where g: "read_video (video_store w) shore_gif = Inr g" using fixture_video [OF fx insertI1] by blast
  obtain m where m: "read_video (video_store w) video_mp4 = Inr m" using fixture_video [OF fx insertI2 [OF insertI1]] by blast
  show "test_ReadVideoOrGIF_MultipleFiles w = Some Passed"
    unfolding test_ReadVideoOrGIF_MultipleFiles_def collect_chain using g m by (simp add: video_source_trace test_combinators)
qed

text \<open>
  C25. The model passes the repository's I/O tests: on a world holding the test data (two
  48 x 64 RGB images, a GIF of 21 and a video of 205 frames of one shape, no file named
  \<open>garbage\<close>), with a PNG codec that stores images unchanged and a JPEG codec that keeps
  shapes but changes the fixture image, every modelled test of \<open>test_io.py\<close> passes,
  whatever the GIF codec and the temporary paths.
\<close>

theorem test_io_passes:
  assumes fx: "fixtures w"
    and png: "\<forall>x. enc (tmp ''test_SaveImage_then_ReadImage_PNG'' ''tmp.png'') x = x"
    and jpg_shape: "\<forall>x. shape (enc (tmp ''test_SaveImage_then_ReadImage_JPG_NotEqual'' ''tmp.jpg'') x) = shape x"
    and jpg_lossy: "elems (enc (tmp ''test_SaveImage_then_ReadImage_JPG_NotEqual'' ''tmp.jpg'') (the (img_store w colorbars_jpg))) \<noteq>
                    elems (the (img_store w colorbars_jpg))"
  shows "list_all (\<lambda>(name, outcome). outcome = Some Passed) (test_io enc gif_enc tmp xs w)"
  using io_tests_pass [OF fx] single_reads [OF fx] gif_save_passes [OF fx]
    roundtrip_tests(1) [OF fx, where enc = enc and fn = "tmp ''test_SaveImage_then_ReadImage_PNG'' ''tmp.png''", OF png]
    roundtrip_tests(2) [OF fx, where enc = enc and fn = "tmp ''test_SaveImage_then_ReadImage_JPG_NotEqual'' ''tmp.jpg''", OF jpg_shape]
    jpg_lossy
  by (simp add: test_io_def)

theorem test_io_passes_witness:
  "fixtures \<lparr>img_store = [colorbars_png \<mapsto> \<lparr>shape = [48, 64, 3], elems = []\<rparr>, colorbars_jpg \<mapsto> \<lparr>shape = [48, 64, 3], elems = []\<rparr>],
             video_store = [shore_gif \<mapsto> replicate 21 \<lparr>shape = [2, 2, 3], elems = []\<rparr>,
                            video_mp4 \<mapsto> replicate 205 \<lparr>shape = [2, 2], elems = []\<rparr>],
             screen = []\<rparr> \<and>
   list_all (\<lambda>(name, outcome). outcome = Some Passed)
     (test_io (\<lambda>p x. if p = ''t/tmp.jpg'' then x\<lparr>elems := [0]\<rparr> else x) (\<lambda>p x. x) (\<lambda>t f. ''t/'' @ f) []
        \<lparr>img_store = [colorbars_png \<mapsto> \<lparr>shape = [48, 64, 3], elems = []\<rparr>, colorbars_jpg \<mapsto> \<lparr>shape = [48, 64, 3], elems = []\<rparr>],
         video_store = [shore_gif \<mapsto> replicate 21 \<lparr>shape = [2, 2, 3], elems = []\<rparr>,
                        video_mp4 \<mapsto> replicate 205 \<lparr>shape = [2, 2], elems = []\<rparr>],
         screen = []\<rparr>)"
proof -
  let ?w = "\<lparr>img_store = [colorbars_png \<mapsto> \<lparr>shape = [48, 64, 3], elems = []\<rparr>, colorbars_jpg \<mapsto> \<lparr>shape = [48, 64, 3], elems = []\<rparr>],
             video_store = [shore_gif \<mapsto> replicate 21 \<lparr>shape = [2, 2, 3], elems = []\<rparr>,
                            video_mp4 \<mapsto> replicate 205 \<lparr>shape = [2, 2], elems = []\<rparr>],
             screen = []\<rparr> :: world"
  have fx: "fixtures ?w"
    by (simp add: fixtures_def frames_ok_def colorbars_png_def colorbars_jpg_def shore_gif_def video_mp4_def)
  have "list_all (\<lambda>(name, outcome). outcome = Some Passed)
     (test_io (\<lambda>p x. if p = ''t/tmp.jpg'' then x\<lparr>elems := [0]\<rparr> else x) (\<lambda>p x. x) (\<lambda>t f. ''t/'' @ f) [] ?w)"
    by (rule test_io_passes [OF fx]) (simp_all add: colorbars_png_def colorbars_jpg_def)
  with fx show ?thesis by simp
qed

end
