(* ===== verification/Spec2Isabelle.thy ===== *)
theory Spec2Isabelle
  imports Chains DepthEstimator UpSampling IOTests
begin

text \<open>
  \<^bold>\<open>A verification model of cloudmosh.\<close>

  cloudmosh (\<^verbatim>\<open>src/cloudmosh/components\<close>) turns images into coloured point clouds
  and back into images. Its parts are stream stages chained with \<open>>>\<close> (nutsflow, re-exported
  by \<^verbatim>\<open>base.py\<close>): media sources and sinks (\<^verbatim>\<open>io.py\<close>), a depth estimator wrapping a
  trained network and its custom layer \<open>AWBilinearUpSampling2D\<close> (\<^verbatim>\<open>depth.py\<close>), the
  point cloud entity and the stages that build, paint, rewrite and interpolate clouds
  (\<^verbatim>\<open>cloud.py\<close>), a posterizer (\<^verbatim>\<open>effect.py\<close>) and render sinks (\<^verbatim>\<open>render.py\<close>).
  A typical chain is
  \<open>ReadImage >> AWDepthEstimator >> DepthToClouds >> PaintClouds >> OffscreenCloudRender >> SaveImage\<close>.
  \<open>x >> S\<close> calls \<open>S.__rrshift__(x)\<close>; a generator stage returns a generator and nothing runs
  until \<open>Collect()\<close> or a sink pulls items through the chain, so stages interleave item by
  item and the exceptions of a chain surface in the order its items meet them.

  \<^bold>\<open>Conventions.\<close> A Python exception is a value of \<open>py_error\<close> and a fallible
  computation has type \<open>'a res = py_error + 'a\<close> (\<open>Prelude\<close>); sequencing is \<open>bind_res\<close>,
  a comprehension is \<open>map_res\<close> (the first exception wins). A numpy array is a record of its
  shape and its elements in row-major order (\<open>NDArray\<close>), with indexing, column get/set,
  reshape and broadcasting arithmetic and the errors numpy raises. Each component is
  modelled twice where it is a generator: by its drained, list-level function (the
  theories named after the source files), and by the generator it returns (\<open>Stages\<close>);
  refinement theorems connect the two. External libraries are parameters of the
  definitions that call them: k-means (\<open>PosterizeDepth\<close>), the trained network and
  skimage's resize (\<open>AWDepthEstimator\<close>), the codec behind \<open>imageio.imsave\<close> (\<open>SaveImage\<close>),
  pyrender's renderer and viewer. scipy's \<open>whiten\<close> and \<open>vq\<close>, keras'
  \<open>normalize_data_format\<close>, \<open>normalize_tuple\<close> and \<open>from_config\<close>, and TensorFlow's bilinear
  \<open>resize_images\<close> are modelled from their definitions.

  \<^bold>\<open>Theories and what they model.\<close>
  \<^item> \<open>Prelude\<close>: exceptions, \<open>res\<close>, \<open>bind_res\<close>, \<open>map_res\<close>, the row-major index grid of
    the comprehensions over images; shared list and \<open>res\<close> lemmas, the \<open>res_simps\<close> and
    \<open>eval_simps\<close> collections.
  \<^item> \<open>NDArray\<close>: the numpy operations the code uses (\<open>a[i]\<close>, \<open>a.item()\<close>, \<open>a[:, j]\<close>,
    \<open>a[:, j] = v\<close>, \<open>a[:, [0, 1]]\<close>, \<open>np.hstack\<close>, \<open>reshape\<close>, broadcasting \<open>+\<close>,
    \<open>astype(int)\<close>, \<open>np.array\<close> of tuples).
  \<^item> \<open>Cloud\<close>: \<open>DepthCloud\<close> (\<^verbatim>\<open>cloud.py\<close> lines 6--45) as the record \<open>cloud\<close>, its
    constructor \<open>DepthCloud\<close>, the accessors, \<open>hasColors\<close> with numpy's elementwise
    comparison and Python's truth value, \<open>setDepthByImage\<close>, \<open>setColorsByImage\<close>, the invariant
    \<open>cloud_inv\<close> (colours, when present, have the shape of the points).
  \<^item> \<open>CloudStages\<close>: \<open>DepthToClouds\<close>, \<open>PaintClouds\<close>, and \<open>ChangeDepthOfClouds\<close> over an
    explicit object store \<open>cloud_heap\<close>, since that stage mutates the cloud objects of its
    input in place and the same object may occur twice.
  \<^item> \<open>Interpolate\<close>: \<open>InterpolateClouds\<close>, its \<open>while tCurrent <= tStop\<close> loop as the
    \<open>partial_function (option)\<close> \<open>interp_times\<close> (\<open>None\<close> = the generator never ends).
  \<^item> \<open>Posterize\<close>: \<open>PosterizeDepth.__call__\<close> step by step: column read, \<open>whiten\<close>, k-means,
    \<open>vq\<close>, unwhitening by \<open>np.std\<close>, the flat padding, the masked replacement loop over the
    integer index array, column write; \<open>first_nearest\<close> is the reference for \<open>vq\<close>.
  \<^item> \<open>MediaIO\<close>: \<open>ReadImage\<close>/\<open>ReadVideoOrGIF\<close> as a cursor record with \<open>__iter__\<close> and
    \<open>__next__\<close> (\<open>reader_iter\<close>, \<open>reader_next\<close>) over a file store; \<open>nutsflow.Collect\<close> as
    the \<open>partial_function\<close> \<open>drain\<close>; \<open>ReadImageAsBinary\<close>'s stub; \<open>SaveImage\<close>/\<open>SaveGIF\<close> as
    the count check and the write loop \<open>sink_loop\<close>; \<open>read_then_save\<close> is the composition
    \<open>ReadImage(ps) >> SaveImage(qs)\<close> of the tests.
  \<^item> \<open>Render\<close>: the scene data \<open>OffscreenCloudRender\<close> and \<open>SimpleCloudView\<close> build, with
    the renderer and viewer as parameters; \<open>_getDefaultCameraPose\<close>, which the render loop
    no longer calls, as \<open>getDefaultCameraPose\<close> of the scene's centroid, with the proof that
    it is a rigid motion aiming the camera at the centroid and raises \<open>ValueError\<close> exactly
    for centroids that do not broadcast to a 3-vector.
  \<^item> \<open>DepthEstimator\<close>: the data path of \<open>AWDepthEstimator.__rrshift__\<close> (size bookkeeping,
    scaling, batching, alpha removal, depth normalisation and clipping), the constructor's
    parameters with their defaults and the setters.
  \<^item> \<open>UpSampling\<close>: \<open>AWBilinearUpSampling2D\<close> (\<^verbatim>\<open>depth.py\<close> lines 16--56): constructor,
    \<open>compute_output_shape\<close>, \<open>call\<close> with TensorFlow's align-corners bilinear resize,
    \<open>get_config\<close> and keras' \<open>from_config\<close>.
  \<^item> \<open>Lazy\<close>: generators as the codatatype \<open>gen\<close> (yield, stop, raise, silent step);
    \<open>unfold_gen\<close> (the generator of an iterator object), \<open>gen_trace\<close> and \<open>collect_gen\<close>
    (draining, \<open>list(it)\<close>), \<open>for_gen\<close> (a generator function \<open>for x in it: ...yield...\<close>)
    and \<open>fold_gen\<close> (a sink's loop).
  \<^item> \<open>Pipeline\<close>: the chaining contract of \<^verbatim>\<open>base.py\<close>: stage kinds (source, iterating and
    indexing generator stage, \<open>Collect\<close>, sink), Python values in a chain, \<open>rshift\<close> (one
    \<open>>>\<close>) and \<open>run_chain\<close> over a world the sinks change, with the \<open>SyntaxError\<close> overrides
    of \<^verbatim>\<open>io.py\<close> and \<^verbatim>\<open>render.py\<close>.
  \<^item> \<open>Stages\<close>: the repository's stages as values of \<open>Pipeline\<close> over the world of image
    files, video files and opened viewers; \<open>InterpolateClouds_gen\<close> is the interpolator's
    generator as a \<open>primcorec\<close>; \<open>item[0]\<close> on a stream item (\<open>py_index0\<close>); per-stage
    refinement lemmas.
  \<^item> \<open>Chains\<close>: whole chains of those stages, from files to collected lists or to files:
    what they compute, which exception they raise, and the item-by-item interleaving of
    generator stages (\<open>for_gen_yield_fuse\<close> in \<open>Lazy\<close>: two per-item stages fuse into one).
  \<^item> \<open>IOTests\<close>: the pytest module \<^verbatim>\<open>src/test/test_io.py\<close>, each test a function from the
    world to its outcome (passed, failed with an exception, failed assertion, no exception
    where \<open>pytest.raises\<close> expects one), run through \<open>Stages\<close>; the test data as the
    predicate \<open>fixtures\<close> on the world, the codecs as parameters.

  \<^bold>\<open>What is proved\<close> (claim numbers in brackets).
  \<^item> Building clouds: a depth batch \<open>(N, W, H, 1)\<close> becomes N clouds of W*H points in
    row-major order \<open>(row, column, depth)\<close> [C1].
  \<^item> Interpolation: termination for a positive step [C2], the number of clouds [C3], every
    output cloud as a blend of its pair (x and y included, unlike the comment) [C4],
    non-termination for a step \<open><= 0\<close> [C5], the colour invariant [C6], the
    specification's two-cloud scenario [C7].
  \<^item> In-place depth replacement: the functional effect on distinct objects [C8], the
    partial update on a short batch [C9], the effect of aliasing [C10].
  \<^item> Painting: the colours of each cloud [C11]; the invariant holds exactly when pixel count
    and point count agree, no error is raised otherwise [C12].
  \<^item> Posterizing: at most \<open>levels\<close> distinct depths, each a truncated centroid [C13]; the
    exact output when no truncated centroid meets a later level index [C14], and the same
    output in terms of the first nearest centroid, which is what \<open>vq\<close>'s single pass with
    its strict comparison selects [C15]; only the z column changes, the invariant is kept
    [C16]; TypeError on a non-empty cloud of constant depth [C17]; an empty cloud reaches
    k-means with the empty array and the centroid values never matter [C18]; IndexError or
    ValueError when k-means returns fewer centroids [C19]; the chained re-replacement on a
    concrete cloud.
  \<^item> Media I/O: the arrays \<open>ReadImage\<close> yields [C20]; FileNotFoundError at the first
    missing path [C21]; IOError on a count mismatch with nothing written [C22]; partial
    writes [C23]; the save/read round trip under a lossless codec [C24]; every modelled test
    of \<^verbatim>\<open>test_io.py\<close> passes on the test data with a lossless PNG and a lossy JPEG codec
    [C25].
  \<^item> The point cloud's \<open>hasColors\<close>: as a condition it raises \<open>ValueError\<close> on every
    coloured cloud with a point [C26]. Rendering: one independent render per cloud at the
    fixed pose; the unused default pose is a rigid motion aimed at the scene centroid.
  \<^item> Depth estimation: grayscale input raises IndexError [C27]; what the network is given
    for RGB and RGBA images [C28]; emitted depths lie in \<open>[minDepth, maxDepth]\<close> [C29];
    after \<open>setMinDepth\<close> above \<open>maxDepth\<close> every emitted depth is \<open>maxDepth\<close> [C30].
  \<^item> The up-sampling layer: for \<open>channels_last\<close> its static shape inference describes what
    \<open>call\<close> returns [C31]; for \<open>channels_first\<close> it does not [C32];
    \<open>from_config(get_config())\<close> restores the layer [C33].
  \<^item> Whole chains: the rendering chain
    \<open>ReadImage >> DepthToClouds >> PosterizeDepth >> OffscreenCloudRender >> SaveImage\<close> is
    the per-item composition of posterizing and rendering, saved only when every item
    succeeds, and its exception is not that of the stage-by-stage composition [C34];
    \<open>ReadImage(ds) >> DepthToClouds >> PaintClouds(ReadImage(cs)) >> Collect\<close> colours each
    depth file's cloud with the pixels of the colour file paired with it, up to the shorter
    list [C35]; followed by \<open>InterpolateClouds >> Collect\<close>, on files of one size and a
    positive step, it returns the blends of adjacent painted clouds, one per pass of the
    loop [C36]; interpolating uncoloured clouds raises TypeError in the first pass [C37];
    \<open>ReadImage >> DepthToClouds >> Collect\<close> on grayscale files [C38]; a lazy chain raises
    the first exception its items meet, before later files are read [C39], and stops the
    endless \<open>ReadImageAsBinary\<close>, which never ends when collected, at its first item [C40].
  \<^item> Library lemmas that the chain theorems rest on: collecting the generator of an
    iterator object is the list-level \<open>drain\<close>, divergence included (\<open>collect_unfold_gen\<close>);
    the exception order of a lazy \<open>for\<close> loop (\<open>collect_for_gen\<close>); a chain of generator
    stages ending in a sink is the sink run on the composed generator
    (\<open>run_chain_compose\<close>); the generators of \<open>DepthToClouds\<close>, \<open>PaintClouds\<close> and
    \<open>InterpolateClouds\<close> drain to their list-level models (\<open>Stages\<close>); \<open>InterpolateClouds\<close>
    directly after a generator stage raises TypeError, as it takes \<open>len\<close> of its input
    (\<open>chain_interpolate_needs_list\<close>).
  Each theorem with hypotheses has a \<open>_witness\<close> theorem applying it to a concrete input.

  \<^bold>\<open>Loops, fuel and bounds.\<close> No fuel is used. The loops that can run forever are
  \<open>partial_function (option)\<close> definitions (\<open>interp_times\<close>, \<open>drain\<close>, \<open>gen_trace\<close>,
  \<open>fold_gen\<close>) or infinite values of the codatatype \<open>gen\<close>, and their termination is proved
  where it holds: \<open>interp_times\<close> by induction on the number of remaining passes
  \<open>nat (\<lfloor>(tStop - t) / tStepSize\<rfloor> + 1)\<close>, \<open>drain\<close> and \<open>gen_trace\<close> of a reader by
  induction on \<open>length paths - index\<close>; divergence (step \<open><= 0\<close>, \<open>ReadImageAsBinary\<close>) is
  proved by fixpoint induction, and the refinements between the two levels are proved in
  both directions by fixpoint induction, so that they cover divergence. \<open>ChangeDepth_from\<close>
  is a \<open>function\<close> with the measure \<open>length clouds - i\<close>. Numbers are exact reals and
  unbounded integers: float rounding (of \<open>t += tStepSize\<close>, of the blends) is not modelled;
  integer truncation (\<open>astype(int)\<close>, stores into numpy integer arrays) is.

  \<^bold>\<open>Not modelled.\<close> The libraries themselves beyond the functions named above, which
  appear as parameters; debug prints, except where they raise; the disabled mouse hook
  \<open>cm_on_mouse_press\<close> of \<^verbatim>\<open>render.py\<close>, which only prints the trackball pose;
  \<open>scene.centroid\<close>, which pyrender computes; \<open>AWDepthEstimator\<close>
  as a chain stage (its depth maps carry NaN, \<open>None\<close> in \<open>DepthEstimator\<close>, which the real
  depths of the cloud model cannot), so chains start from depth images on disk; keras'
  lower-casing of a data format string; aliasing between the arrays of different clouds
  in \<open>PaintClouds\<close> and \<open>PosterizeDepth\<close>, which are modelled as returning new values
  (their inputs are fresh objects from the previous stage in every chain of the
  repository); the two \<open>RepeatLoad\<close> tests of \<^verbatim>\<open>test_io.py\<close>, which compare object
  identities (\<open>id()\<close>) that a value model does not have. NaN: numpy's standard deviation
  of an empty array is NaN, which the reals lack; \<open>whiten\<close> returns an empty input as is
  (as scipy does), and the unwhitened centroids of an empty cloud, NaN in numpy, are never
  stored, so the model's value for them is never observed. \<open>NutFunction\<close>'s generator
  expression (\<open>PosterizeDepth\<close> as a stage) evaluates \<open>iter(input)\<close> at \<open>>>\<close>, the model
  at the first pull: they differ only on a non-iterable input that is never consumed.
  The construction of pyrender's \<open>OffscreenRenderer\<close>, whose failure in Python would come
  before any input is read, cannot fail in the model. keras passes the base keys of a
  layer configuration to \<open>Layer\<close>, whose validation of them is not modelled. The int32
  type of \<open>vq\<close>'s index array: centroids of \<open>2^31\<close> and more are not modelled.
\<close>

end
